(* ===== verification/Mega_Prelude.thy ===== *)
theory Mega_Prelude
  imports Main "HOL-Library.Word" "HOL-Library.Monad_Syntax"
begin

text \<open>
  Shared vocabulary of the development: the machine integer types of the Rust sources as
  \<^verbatim>\<open>word\<close> types, the saturating and checked arithmetic the sources use, and the generic
  lemmas that move arithmetic on words to arithmetic on natural numbers.

  Two conventions hold throughout. A Rust panic (an \<^verbatim>\<open>expect\<close>, a failed \<^verbatim>\<open>assert!\<close>, an
  \<^verbatim>\<open>unreachable!\<close>) is the value \<^term>\<open>None\<close> of an option type, so that the absence of panics
  is a theorem and not an assumption. The operators \<^verbatim>\<open>+\<close>, \<^verbatim>\<open>-\<close>, \<^verbatim>\<open>*\<close> and
  \<^verbatim>\<open>+=\<close> on \<^verbatim>\<open>u64\<close> are the word operations, which wrap around as the release profile of
  the repository does; the theorems that exclude wrap-around say so explicitly.
\<close>

section \<open>Machine integers\<close>

type_synonym u8 = "8 word"
type_synonym u16 = "16 word"
type_synonym u32 = "32 word"
type_synonym u64 = "64 word"
type_synonym u128 = "128 word"
type_synonym u256 = "256 word"
type_synonym usize = "64 word"
type_synonym address = "160 word"
type_synonym b256 = "256 word"
type_synonym bytes = "u8 list"

named_theorems unat_simps \<open>translation of word arithmetic to natural numbers\<close>

definition u64_max :: u64 where
  "u64_max = - 1"

definition saturating_sub :: "'a::len word \<Rightarrow> 'a word \<Rightarrow> 'a word" where
  "saturating_sub a b = (if a < b then 0 else a - b)"

definition saturating_add :: "'a::len word \<Rightarrow> 'a word \<Rightarrow> 'a word" where
  "saturating_add a b = (if unat a + unat b < 2 ^ LENGTH('a) then a + b else - 1)"

definition checked_add :: "'a::len word \<Rightarrow> 'a word \<Rightarrow> 'a word option" where
  "checked_add a b = (if unat a + unat b < 2 ^ LENGTH('a) then Some (a + b) else None)"

definition checked_sub :: "'a::len word \<Rightarrow> 'a word \<Rightarrow> 'a word option" where
  "checked_sub a b = (if b \<le> a then Some (a - b) else None)"

text \<open>The length of a byte string or list, converted with \<^verbatim>\<open>as u64\<close>.\<close>

definition len_u64 :: "'b list \<Rightarrow> u64" where
  "len_u64 xs = word_of_nat (length xs)"

section \<open>From words to natural numbers\<close>

lemma unat_add_exact [unat_simps]:
  "unat a + unat b < 2 ^ LENGTH('a) \<Longrightarrow> unat (a + b) = unat a + unat b"
  for a b :: "'a::len word"
  by (simp add: unat_word_ariths)

lemma unat_mult_exact [unat_simps]:
  "unat a * unat b < 2 ^ LENGTH('a) \<Longrightarrow> unat (a * b) = unat a * unat b"
  for a b :: "'a::len word"
  by (simp add: unat_word_ariths)

lemma unat_of_nat_exact [unat_simps]:
  "n < 2 ^ LENGTH('a) \<Longrightarrow> unat (word_of_nat n :: 'a::len word) = n"
  by (simp add: unsigned_of_nat take_bit_nat_eq_self)

lemma unat_of_nat_u64 [simp]: "n < 18446744073709551616 \<Longrightarrow> unat (word_of_nat n :: u64) = n"
  by (simp add: unat_of_nat_exact)

lemma word_eq_of_natI: "unat w = n \<Longrightarrow> w = word_of_nat n"
  by (drule sym) simp

lemma unat_saturating_sub [unat_simps, simp]:
  "unat (saturating_sub a b) = unat a - unat b"
  by (auto simp: saturating_sub_def unat_sub word_less_nat_alt not_less word_le_nat_alt)

lemma unat_saturating_add [unat_simps]:
  "unat (saturating_add a b) = min (2 ^ LENGTH('a) - 1) (unat a + unat b)"
  for a b :: "'a::len word"
proof (cases "unat a + unat b < 2 ^ LENGTH('a)")
  case True
  then have "unat a + unat b \<le> 2 ^ LENGTH('a) - 1" by simp
  with True show ?thesis
    by (simp add: saturating_add_def unat_add_exact min_absorb2)
next
  case False
  then show ?thesis
    by (simp add: saturating_add_def unsigned_minus_1_eq_mask mask_eq_exp_minus_1)
qed

lemma unat_min [unat_simps, simp]: "unat (min a b) = min (unat a) (unat b)"
  for a b :: "'a::len word"
  by (simp add: min_def word_le_nat_alt)

lemma unat_max_u64 [unat_simps, simp]: "unat u64_max = 2 ^ 64 - 1"
  by (simp add: u64_max_def unsigned_minus_1_eq_mask mask_eq_exp_minus_1)

lemma word_numeral_le_one [simp]:
  "(numeral n :: 'a::len word) \<le> 1 \<longleftrightarrow> unat (numeral n :: 'a word) \<le> 1"
  by (simp add: word_le_nat_alt)

lemma unat_u64_less [simp]: "unat (x :: u64) < 18446744073709551616"
  using unsigned_less [of x] by simp

lemma u64_le_max [simp]: "x \<le> u64_max"
  by (simp add: u64_max_def)

lemma not_u64_max_less [simp]: "\<not> u64_max < x"
  by (simp add: not_less)

lemma checked_add_eq_Some_iff [simp]:
  "checked_add a b = Some c \<longleftrightarrow> unat a + unat b < 2 ^ LENGTH('a) \<and> c = a + b"
  for a b c :: "'a::len word"
  by (auto simp: checked_add_def)

lemma checked_add_SomeD:
  assumes "checked_add a b = Some c"
  shows "unat c = unat a + unat b"
  using assms by (auto simp: unat_add_exact)

lemma saturating_sub_self [simp]: "saturating_sub a a = 0"
  by (simp add: saturating_sub_def)

lemma saturating_sub_zero_right [simp]: "saturating_sub a 0 = a"
  by (simp add: saturating_sub_def)

lemma saturating_sub_le: "saturating_sub a b \<le> a"
  by (simp add: word_le_nat_alt)

lemma saturating_add_ge: "a \<le> saturating_add a b" for a b :: "'a::len word"
proof -
  have "unat a < 2 ^ LENGTH('a)" by (rule unsigned_less)
  then have "unat a \<le> 2 ^ LENGTH('a) - 1" by linarith
  then show ?thesis by (simp add: word_le_nat_alt unat_saturating_add)
qed

lemma saturating_add_zero_right [simp]: "saturating_add a 0 = a"
  by (simp add: saturating_add_def)

lemma word_of_nat_unat_sum:
  "of_nat (unat a + unat b) = a + b" for a b :: "'a::len word"
  by simp

section \<open>Options as the panic monad\<close>

lemma bind_eq_None_iff:
  "Option.bind m f = None \<longleftrightarrow> m = None \<or> (\<exists>x. m = Some x \<and> f x = None)"
  by (cases m) auto

lemma option_bind_cong_Some [simp]:
  "m = Some x \<Longrightarrow> Option.bind m f = f x"
  by simp

end
