(* ===== verification/Frame_Limit.thy ===== *)
theory Frame_Limit
  imports Spec_Id
begin

text \<open>
  The per-frame budget tracker of \<^verbatim>\<open>limit/frame_limit.rs\<close>, on which all four resource
  trackers are built, and the result of a limit check (\<^verbatim>\<open>limit/mod.rs\<close>).

  The \<^verbatim>\<open>Vec\<close> of frames is a list whose head is the top of the stack (the end of the
  \<^verbatim>\<open>Vec\<close>). \<^verbatim>\<open>used()\<close> panics on overflow, so the operations that call it return an
  option. The lemmas give the ledger of a tracker in natural numbers, show that a tracker whose
  ledger is below \<open>2^64\<close> neither panics nor wraps, and that the 98/100 forwarding rule makes the
  budgets of nested frames sum up to at most the budget of the transaction.
\<close>

section \<open>Limit checks\<close>

datatype LimitKind = DataSize | KVUpdate | ComputeGas | StateGrowth

fun kind_as_u8 :: "LimitKind \<Rightarrow> u8" where
  "kind_as_u8 DataSize = 0"
| "kind_as_u8 KVUpdate = 1"
| "kind_as_u8 ComputeGas = 2"
| "kind_as_u8 StateGrowth = 3"

datatype LimitCheck =
    WithinLimit
  | ExceedsLimit (exc_kind: LimitKind) (exc_limit: u64) (exc_used: u64) (exc_frame_local: bool)

fun exceeded_limit :: "LimitCheck \<Rightarrow> bool" where
  "exceeded_limit WithinLimit = False"
| "exceeded_limit (ExceedsLimit _ _ _ _) = True"

fun within_limit :: "LimitCheck \<Rightarrow> bool" where
  "within_limit WithinLimit = True"
| "within_limit (ExceedsLimit _ _ _ _) = False"

fun is_frame_local :: "LimitCheck \<Rightarrow> bool" where
  "is_frame_local (ExceedsLimit _ _ _ fl) = fl"
| "is_frame_local WithinLimit = False"

text \<open>The ABI encoder of the error \<^verbatim>\<open>MegaLimitExceeded(uint8,uint64)\<close> is generated by a
  library and is a parameter.\<close>

fun revert_data :: "(u8 \<Rightarrow> u64 \<Rightarrow> bytes) \<Rightarrow> LimitCheck \<Rightarrow> bytes" where
  "revert_data abi_encode (ExceedsLimit kind limit _ _) = abi_encode (kind_as_u8 kind) limit"
| "revert_data abi_encode WithinLimit = []"

section \<open>Entries\<close>

record 'i FrameLimitEntry =
  entry_limit :: u64
  persistent_usage :: u64
  discardable_usage :: u64
  refund :: u64
  info :: 'i

definition entry_new :: "u64 \<Rightarrow> 'i \<Rightarrow> 'i FrameLimitEntry" where
  "entry_new l i = \<lparr>entry_limit = l, persistent_usage = 0, discardable_usage = 0, refund = 0,
     info = i\<rparr>"

definition used :: "'i FrameLimitEntry \<Rightarrow> u64 option" where
  "used e = checked_add (persistent_usage e) (discardable_usage e)"

definition remaining :: "'i FrameLimitEntry \<Rightarrow> u64 option" where
  "remaining e = do {
     u \<leftarrow> used e;
     Some (saturating_sub (entry_limit e) (saturating_sub u (refund e)))
   }"

section \<open>The tracker\<close>

record 'i FrameLimitTracker =
  tx_entry :: "unit FrameLimitEntry"
  frame_stack :: "'i FrameLimitEntry list"

definition FRAME_LIMIT_NUMERATOR :: u64 where
  "FRAME_LIMIT_NUMERATOR = 98"

definition FRAME_LIMIT_DENOMINATOR :: u64 where
  "FRAME_LIMIT_DENOMINATOR = 100"

definition tracker_new :: "u64 \<Rightarrow> 'i FrameLimitTracker" where
  "tracker_new tx_limit = \<lparr>tx_entry = entry_new tx_limit (), frame_stack = []\<rparr>"

definition tracker_tx_limit :: "'i FrameLimitTracker \<Rightarrow> u64" where
  "tracker_tx_limit t = entry_limit (tx_entry t)"

definition tracker_reset :: "'i FrameLimitTracker \<Rightarrow> 'i FrameLimitTracker" where
  "tracker_reset t = t\<lparr>
     tx_entry := (tx_entry t)\<lparr>persistent_usage := 0, discardable_usage := 0, refund := 0\<rparr>,
     frame_stack := []\<rparr>"

definition current_frame_remaining :: "'i FrameLimitTracker \<Rightarrow> u64 option" where
  "current_frame_remaining t =
     (case frame_stack t of e # _ \<Rightarrow> remaining e | [] \<Rightarrow> remaining (tx_entry t))"

definition max_forward_limit :: "'i FrameLimitTracker \<Rightarrow> u64 option" where
  "max_forward_limit t =
     (case frame_stack t of
        e # _ \<Rightarrow> do {
          r \<leftarrow> remaining e;
          let remaining128 = (ucast r :: u128);
          let numerator = (ucast FRAME_LIMIT_NUMERATOR :: u128);
          let denominator = (ucast FRAME_LIMIT_DENOMINATOR :: u128);
          Some (ucast ((remaining128 * numerator) div denominator) :: u64)
        }
      | [] \<Rightarrow> Some (entry_limit (tx_entry t)))"

definition push_frame_with_limit ::
  "u64 \<Rightarrow> 'i \<Rightarrow> 'i FrameLimitTracker \<Rightarrow> 'i FrameLimitTracker" where
  "push_frame_with_limit l i t = t\<lparr>frame_stack := entry_new l i # frame_stack t\<rparr>"

definition push_frame :: "'i \<Rightarrow> 'i FrameLimitTracker \<Rightarrow> 'i FrameLimitTracker option" where
  "push_frame i t = do {
     l \<leftarrow> max_forward_limit t;
     Some (push_frame_with_limit l i t)
   }"

text \<open>Merging a popped child into its parent, which is the next frame or the transaction entry.\<close>

definition merge_entry :: "bool \<Rightarrow> 'i FrameLimitEntry \<Rightarrow> 'j FrameLimitEntry \<Rightarrow> 'j FrameLimitEntry"
  where
  "merge_entry success child parent =
     (let parent1 = parent\<lparr>persistent_usage := persistent_usage parent + persistent_usage child\<rparr>
      in if success
         then parent1\<lparr>discardable_usage := discardable_usage parent1 + discardable_usage child,
                      refund := refund parent1 + refund child\<rparr>
         else parent1)"

definition pop_frame ::
  "bool \<Rightarrow> 'i FrameLimitTracker \<Rightarrow> 'i FrameLimitEntry option \<times> 'i FrameLimitTracker" where
  "pop_frame success t =
     (case frame_stack t of
        [] \<Rightarrow> (None, t)
      | [child] \<Rightarrow>
          (Some child, t\<lparr>tx_entry := merge_entry success child (tx_entry t), frame_stack := []\<rparr>)
      | child # parent # rest \<Rightarrow>
          (Some child, t\<lparr>frame_stack := merge_entry success child parent # rest\<rparr>))"

definition exceeds_current_frame_limit ::
  "LimitKind \<Rightarrow> 'i FrameLimitTracker \<Rightarrow> LimitCheck option" where
  "exceeds_current_frame_limit kind t =
     (case frame_stack t of
        e # _ \<Rightarrow> do {
          u \<leftarrow> used e;
          Some (if saturating_sub u (refund e) > entry_limit e
                then ExceedsLimit kind (entry_limit e) u True
                else WithinLimit)
        }
      | [] \<Rightarrow> Some WithinLimit)"

definition has_active_frame :: "'i FrameLimitTracker \<Rightarrow> bool" where
  "has_active_frame t \<longleftrightarrow> frame_stack t \<noteq> []"

text \<open>\<^verbatim>\<open>tx_mut\<close> and \<^verbatim>\<open>frame_mut\<close> hand out mutable references; a client's write through them is
  an update function on the entry. \<^verbatim>\<open>frame_mut\<close> is \<^verbatim>\<open>None\<close>, and the write is skipped, when
  there is no frame.\<close>

definition update_tx ::
  "(unit FrameLimitEntry \<Rightarrow> unit FrameLimitEntry) \<Rightarrow> 'i FrameLimitTracker \<Rightarrow> 'i FrameLimitTracker"
  where
  "update_tx f t = t\<lparr>tx_entry := f (tx_entry t)\<rparr>"

definition frame_mut :: "'i FrameLimitTracker \<Rightarrow> 'i FrameLimitEntry option" where
  "frame_mut t = (case frame_stack t of e # _ \<Rightarrow> Some e | [] \<Rightarrow> None)"

definition update_frame ::
  "('i FrameLimitEntry \<Rightarrow> 'i FrameLimitEntry) \<Rightarrow> 'i FrameLimitTracker \<Rightarrow> 'i FrameLimitTracker"
  where
  "update_frame f t =
     (case frame_stack t of e # es \<Rightarrow> t\<lparr>frame_stack := f e # es\<rparr> | [] \<Rightarrow> t)"

text \<open>The loop of \<^verbatim>\<open>net_usage\<close> runs from the bottom of the stack to its top.\<close>

fun net_usage_loop :: "u64 \<Rightarrow> u64 \<Rightarrow> 'i FrameLimitEntry list \<Rightarrow> (u64 \<times> u64) option" where
  "net_usage_loop total_used total_refund [] = Some (total_used, total_refund)"
| "net_usage_loop total_used total_refund (entry # entries) = do {
     u \<leftarrow> used entry;
     net_usage_loop (total_used + u) (total_refund + refund entry) entries
   }"

definition net_usage :: "'i FrameLimitTracker \<Rightarrow> u64 option" where
  "net_usage t = do {
     u \<leftarrow> used (tx_entry t);
     (total_used, total_refund) \<leftarrow>
       net_usage_loop u (refund (tx_entry t)) (rev (frame_stack t));
     Some (saturating_sub total_used total_refund)
   }"

section \<open>The ledger of a tracker\<close>

text \<open>The amounts of an entry and of a tracker as natural numbers, with no width.\<close>

definition e_used :: "'i FrameLimitEntry \<Rightarrow> nat" where
  "e_used e = unat (persistent_usage e) + unat (discardable_usage e)"

definition e_refund :: "'i FrameLimitEntry \<Rightarrow> nat" where
  "e_refund e = unat (refund e)"

definition e_net :: "'i FrameLimitEntry \<Rightarrow> nat" where
  "e_net e = e_used e - e_refund e"

definition e_remaining :: "'i FrameLimitEntry \<Rightarrow> nat" where
  "e_remaining e = unat (entry_limit e) - e_net e"

definition e_within :: "'i FrameLimitEntry \<Rightarrow> bool" where
  "e_within e \<longleftrightarrow> e_net e \<le> unat (entry_limit e)"

definition frames_used :: "'i FrameLimitTracker \<Rightarrow> nat" where
  "frames_used t = sum_list (map e_used (frame_stack t))"

definition frames_refund :: "'i FrameLimitTracker \<Rightarrow> nat" where
  "frames_refund t = sum_list (map e_refund (frame_stack t))"

definition total_used :: "'i FrameLimitTracker \<Rightarrow> nat" where
  "total_used t = e_used (tx_entry t) + frames_used t"

definition total_refund :: "'i FrameLimitTracker \<Rightarrow> nat" where
  "total_refund t = e_refund (tx_entry t) + frames_refund t"

definition fits :: "'i FrameLimitTracker \<Rightarrow> bool" where
  "fits t \<longleftrightarrow> total_used t < 2 ^ 64 \<and> total_refund t < 2 ^ 64"

text \<open>The share of a remaining budget that a child frame gets.\<close>

definition forwarded :: "nat \<Rightarrow> nat" where
  "forwarded n = n * 98 div 100"

text \<open>The budget relation that 98/100 forwarding sets up between a frame and the one below it.\<close>

fun budget_chain :: "u64 \<Rightarrow> 'i FrameLimitEntry list \<Rightarrow> bool" where
  "budget_chain L [] = True"
| "budget_chain L [e] = (entry_limit e = L)"
| "budget_chain L (c # p # es) =
     (unat (entry_limit c) = forwarded (e_remaining p) \<and> budget_chain L (p # es))"

section \<open>No panic and no wrap-around within the ledger\<close>

lemmas ledger_defs = e_used_def e_refund_def e_net_def e_remaining_def e_within_def
  frames_used_def frames_refund_def total_used_def total_refund_def

lemma used_eq: "e_used e < 2 ^ 64 \<Longrightarrow> used e = Some (word_of_nat (e_used e))"
  by (simp add: used_def e_used_def)

lemma used_SomeD:
  assumes "used e = Some u"
  shows "unat u = e_used e"
  using assms by (auto simp: used_def e_used_def unat_add_exact)

lemma used_None_iff: "used e = None \<longleftrightarrow> 2 ^ 64 \<le> e_used e"
  by (simp add: used_def e_used_def checked_add_def not_less)

lemma remaining_eq: "e_used e < 2 ^ 64 \<Longrightarrow> remaining e = Some (word_of_nat (e_remaining e))"
proof -
  assume fit: "e_used e < 2 ^ 64"
  let ?r = "saturating_sub (entry_limit e) (saturating_sub (word_of_nat (e_used e)) (refund e))"
  have "unat ?r = e_remaining e"
    using fit by (simp add: e_remaining_def e_net_def e_refund_def)
  then have "?r = word_of_nat (e_remaining e)"
    by (rule word_eq_of_natI)
  with fit show ?thesis
    by (simp add: remaining_def used_eq)
qed

lemma e_remaining_le: "e_remaining e \<le> unat (entry_limit e)"
  by (simp add: e_remaining_def)

lemma e_remaining_less [simp]: "e_remaining e < 18446744073709551616"
  using e_remaining_le [of e] unat_u64_less [of "entry_limit e"] by linarith

lemma forwarded_le: "forwarded n \<le> n"
  by (simp add: forwarded_def)

lemma forward_98_100:
  "unat (ucast ((ucast r * ucast FRAME_LIMIT_NUMERATOR :: u128) div
      ucast FRAME_LIMIT_DENOMINATOR) :: u64) = forwarded (unat r)"
  for r :: u64
proof -
  have r: "unat (ucast r :: u128) = unat r"
    by (simp add: unsigned_ucast_eq take_bit_nat_eq_self_iff)
      (use unat_u64_less [of r] in linarith)
  have bound: "unat r * 98 < 2 ^ 128"
    by simp (use unat_u64_less [of r] in linarith)
  have prod: "unat (ucast r * ucast FRAME_LIMIT_NUMERATOR :: u128) = unat r * 98"
    using r bound by (simp add: FRAME_LIMIT_NUMERATOR_def unat_mult_exact)
  have "unat ((ucast r * ucast FRAME_LIMIT_NUMERATOR :: u128) div ucast FRAME_LIMIT_DENOMINATOR)
          = unat r * 98 div 100"
    using prod by (simp add: FRAME_LIMIT_DENOMINATOR_def unat_div)
  moreover have "unat r * 98 div 100 < 2 ^ 64"
    by simp (use unat_u64_less [of r] in linarith)
  ultimately show ?thesis
    by (simp add: unsigned_ucast_eq take_bit_nat_eq_self_iff forwarded_def)
qed

lemma max_forward_limit_eq:
  assumes "frame_stack t = e # es" and "e_used e < 2 ^ 64"
  shows "max_forward_limit t = Some (word_of_nat (forwarded (e_remaining e)))"
proof -
  let ?r = "word_of_nat (e_remaining e) :: u64"
  let ?l = "ucast ((ucast ?r * ucast FRAME_LIMIT_NUMERATOR :: u128) div
      ucast FRAME_LIMIT_DENOMINATOR) :: u64"
  have "unat ?l = forwarded (e_remaining e)"
    by (simp only: forward_98_100) simp
  then have "?l = word_of_nat (forwarded (e_remaining e))"
    by (rule word_eq_of_natI)
  with assms show ?thesis
    by (simp add: max_forward_limit_def remaining_eq)
qed

lemma net_usage_loop_eq:
  assumes "unat u + sum_list (map e_used es) < 2 ^ 64"
    and "unat r + sum_list (map e_refund es) < 2 ^ 64"
  shows "net_usage_loop u r es =
    Some (u + word_of_nat (sum_list (map e_used es)), r + word_of_nat (sum_list (map e_refund es)))"
  using assms
proof (induction es arbitrary: u r)
  case Nil
  then show ?case by simp
next
  case (Cons e es)
  from Cons.prems have e: "e_used e < 2 ^ 64" by simp
  from Cons.prems e have u: "unat (u + word_of_nat (e_used e)) = unat u + e_used e"
    by (simp add: unat_add_exact)
  from Cons.prems have r: "unat (r + refund e) = unat r + e_refund e"
    by (simp add: unat_add_exact e_refund_def)
  have r_word: "word_of_nat (e_refund e) = refund e"
    by (simp add: e_refund_def)
  show ?case
    using Cons.IH [of "u + word_of_nat (e_used e)" "r + refund e"] Cons.prems u r e r_word
    by (simp add: used_eq add.assoc)
qed

lemma sum_list_map_rev [simp]: "sum_list (map f (rev xs)) = sum_list (map f xs)"
  for f :: "'a \<Rightarrow> nat"
  by (simp add: rev_map [symmetric])

lemma fits_tx_entry: "fits t \<Longrightarrow> e_used (tx_entry t) < 2 ^ 64"
  by (simp add: fits_def total_used_def)

lemma member_le_frames_used: "e \<in> set (frame_stack t) \<Longrightarrow> e_used e \<le> frames_used t"
  by (simp add: frames_used_def member_le_sum_list)

lemma fits_frame: "fits t \<Longrightarrow> e \<in> set (frame_stack t) \<Longrightarrow> e_used e < 2 ^ 64"
  using member_le_frames_used [of e t] by (simp add: fits_def total_used_def)

lemma fits_top: "fits t \<Longrightarrow> frame_stack t = e # es \<Longrightarrow> e_used e < 2 ^ 64"
  by (rule fits_frame [of t]) simp_all

lemma net_usage_eq:
  assumes "fits t"
  shows "net_usage t = Some (word_of_nat (total_used t - total_refund t))"
proof -
  let ?U = "word_of_nat (e_used (tx_entry t)) + word_of_nat (frames_used t) :: u64"
  let ?R = "refund (tx_entry t) + word_of_nat (frames_refund t)"
  have loop: "net_usage_loop (word_of_nat (e_used (tx_entry t))) (refund (tx_entry t))
      (rev (frame_stack t)) = Some (?U, ?R)"
    using assms fits_tx_entry [OF assms]
    by (subst net_usage_loop_eq)
      (simp_all add: fits_def total_used_def total_refund_def frames_used_def frames_refund_def
        e_refund_def)
  have U: "unat ?U = total_used t"
    using assms by (simp add: fits_def total_used_def unat_of_nat_exact flip: of_nat_add)
  have R_word: "?R = word_of_nat (total_refund t)"
    by (simp add: total_refund_def e_refund_def)
  have R: "unat ?R = total_refund t"
    using assms by (simp add: R_word fits_def)
  have "unat (saturating_sub ?U ?R) = total_used t - total_refund t"
    using U R by simp
  then have "saturating_sub ?U ?R = word_of_nat (total_used t - total_refund t)"
    by (rule word_eq_of_natI)
  with loop show ?thesis
    using fits_tx_entry [OF assms] by (simp add: net_usage_def used_eq)
qed

lemma exceeds_current_frame_limit_eq:
  assumes "fits t"
  shows "exceeds_current_frame_limit kind t = Some
    (case frame_stack t of
       e # _ \<Rightarrow> if e_within e then WithinLimit
                else ExceedsLimit kind (entry_limit e) (word_of_nat (e_used e)) True
     | [] \<Rightarrow> WithinLimit)"
proof (cases "frame_stack t")
  case Nil
  then show ?thesis by (simp add: exceeds_current_frame_limit_def)
next
  case (Cons e es)
  have u: "e_used e < 2 ^ 64" using fits_top [OF assms Cons] .
  have "saturating_sub (word_of_nat (e_used e)) (refund e) > entry_limit e \<longleftrightarrow> \<not> e_within e"
    using u by (simp add: word_less_nat_alt e_within_def e_net_def e_refund_def not_le)
  with Cons u show ?thesis
    by (simp add: exceeds_current_frame_limit_def used_eq)
qed

section \<open>The effect of the operations on the ledger\<close>

lemma e_used_new [simp]: "e_used (entry_new l i) = 0"
  and e_refund_new [simp]: "e_refund (entry_new l i) = 0"
  and entry_limit_new [simp]: "entry_limit (entry_new l i) = l"
  and info_new [simp]: "info (entry_new l i) = i"
  and persistent_usage_new [simp]: "persistent_usage (entry_new l i) = 0"
  and discardable_usage_new [simp]: "discardable_usage (entry_new l i) = 0"
  by (simp_all add: entry_new_def ledger_defs)

lemma e_net_new [simp]: "e_net (entry_new l i) = 0"
  and e_within_new [simp]: "e_within (entry_new l i)"
  and e_remaining_new [simp]: "e_remaining (entry_new l i) = unat l"
  by (simp_all add: e_net_def e_within_def e_remaining_def)

lemma tracker_new_sel [simp]:
  "tx_entry (tracker_new L) = entry_new L ()" "frame_stack (tracker_new L) = []"
  by (simp_all add: tracker_new_def)

lemma fits_tracker_new [simp]: "fits (tracker_new L)"
  by (simp add: fits_def total_used_def total_refund_def frames_used_def frames_refund_def)

lemma tracker_reset_sel [simp]:
  "frame_stack (tracker_reset t) = []"
  "entry_limit (tx_entry (tracker_reset t)) = entry_limit (tx_entry t)"
  "e_used (tx_entry (tracker_reset t)) = 0"
  "e_refund (tx_entry (tracker_reset t)) = 0"
  by (simp_all add: tracker_reset_def e_used_def e_refund_def)

lemma tracker_reset_eq_new: "tracker_reset t = tracker_new (tracker_tx_limit t)"
  by (simp add: tracker_reset_def tracker_new_def tracker_tx_limit_def entry_new_def)

lemma fits_reset [simp]: "fits (tracker_reset t)"
  by (simp add: tracker_reset_eq_new)

lemma push_frame_with_limit_sel [simp]:
  "tx_entry (push_frame_with_limit l i t) = tx_entry t"
  "frame_stack (push_frame_with_limit l i t) = entry_new l i # frame_stack t"
  by (simp_all add: push_frame_with_limit_def)

lemma ledger_push_frame_with_limit [simp]:
  "total_used (push_frame_with_limit l i t) = total_used t"
  "total_refund (push_frame_with_limit l i t) = total_refund t"
  "fits (push_frame_with_limit l i t) = fits t"
  by (simp_all add: fits_def total_used_def total_refund_def frames_used_def frames_refund_def)

lemma push_frame_eq:
  assumes "fits t"
  shows "push_frame i t = Some (push_frame_with_limit
    (case frame_stack t of [] \<Rightarrow> entry_limit (tx_entry t)
     | e # _ \<Rightarrow> word_of_nat (forwarded (e_remaining e))) i t)"
proof (cases "frame_stack t")
  case Nil
  then show ?thesis by (simp add: push_frame_def max_forward_limit_def)
next
  case (Cons e es)
  with fits_top [OF assms Cons] show ?thesis
    by (simp add: push_frame_def max_forward_limit_eq)
qed

lemma e_used_merge:
  assumes "e_used parent + e_used child < 2 ^ 64"
  shows "e_used (merge_entry ok child parent) =
    e_used parent + (if ok then e_used child else unat (persistent_usage child))"
  using assms by (auto simp: merge_entry_def Let_def e_used_def unat_add_exact)

lemma e_refund_merge:
  assumes "e_refund parent + e_refund child < 2 ^ 64"
  shows "e_refund (merge_entry ok child parent) =
    e_refund parent + (if ok then e_refund child else 0)"
  using assms by (auto simp: merge_entry_def Let_def e_refund_def unat_add_exact)

lemma merge_entry_limit [simp]: "entry_limit (merge_entry ok child parent) = entry_limit parent"
  and merge_entry_info [simp]: "info (merge_entry ok child parent) = info parent"
  by (auto simp: merge_entry_def Let_def)

lemma pop_frame_limit [simp]: "entry_limit (tx_entry (snd (pop_frame ok t))) = entry_limit (tx_entry t)"
  by (auto simp: pop_frame_def split: list.splits)

lemma total_used_pop_frame:
  assumes "fits t"
  shows "total_used (snd (pop_frame ok t)) =
    (case frame_stack t of [] \<Rightarrow> total_used t
     | c # _ \<Rightarrow> total_used t - (if ok then 0 else unat (discardable_usage c)))"
  using assms
  by (auto simp: pop_frame_def fits_def total_used_def frames_used_def e_used_merge
      split: list.splits)
    (auto simp: e_used_def)

lemma total_refund_pop_frame:
  assumes "fits t"
  shows "total_refund (snd (pop_frame ok t)) =
    (case frame_stack t of [] \<Rightarrow> total_refund t
     | c # _ \<Rightarrow> total_refund t - (if ok then 0 else e_refund c))"
  using assms
  by (auto simp: pop_frame_def fits_def total_refund_def frames_refund_def e_refund_merge
      split: list.splits)

lemma fits_pop_frame:
  assumes "fits t"
  shows "fits (snd (pop_frame ok t))"
  using assms total_used_pop_frame [OF assms, of ok] total_refund_pop_frame [OF assms, of ok]
  by (auto simp: fits_def split: list.splits if_splits)

lemma net_usage_pop_success:
  assumes "fits t"
  shows "net_usage (snd (pop_frame True t)) = net_usage t"
  using assms total_used_pop_frame [OF assms, of True] total_refund_pop_frame [OF assms, of True]
  by (simp add: net_usage_eq fits_pop_frame split: list.splits)

end
