(* ===== verification/Frame_Budget.thy ===== *)
theory Frame_Budget
  imports Frame_Limit
begin

text \<open>
  The frame tracker as a state machine. \<open>metered\<close> is the set of trackers a transaction can reach
  together with the sum of all amounts recorded so far: every operation a client can perform is a
  rule. \<open>disciplined\<close> restricts it to what the Rex4 hooks do with data size, KV updates and state
  growth: a frame calls, and returns successfully, only while it is within its own budget.

  Rule induction shows that a tracker never panics or wraps while the recorded amounts fit in
  64 bits, that every nested frame has exactly 98/100 of what its caller had left, and that
  per-frame enforcement keeps the net usage of all active frames below the transaction limit.
\<close>

section \<open>Recording usage\<close>

definition add_persistent :: "u64 \<Rightarrow> 'i FrameLimitEntry \<Rightarrow> 'i FrameLimitEntry" where
  "add_persistent n e = e\<lparr>persistent_usage := persistent_usage e + n\<rparr>"

definition add_discardable :: "u64 \<Rightarrow> 'i FrameLimitEntry \<Rightarrow> 'i FrameLimitEntry" where
  "add_discardable n e = e\<lparr>discardable_usage := discardable_usage e + n\<rparr>"

definition add_refund :: "u64 \<Rightarrow> 'i FrameLimitEntry \<Rightarrow> 'i FrameLimitEntry" where
  "add_refund n e = e\<lparr>refund := refund e + n\<rparr>"

section \<open>Reachable trackers\<close>

inductive metered :: "bool \<Rightarrow> u64 \<Rightarrow> nat \<Rightarrow> 'i FrameLimitTracker \<Rightarrow> bool"
  for rex4 :: bool and L :: u64 where
  metered_new: "metered rex4 L 0 (tracker_new L)"
| metered_reset: "metered rex4 L c t \<Longrightarrow> metered rex4 L 0 (tracker_reset t)"
| metered_push: "metered rex4 L c t \<Longrightarrow> rex4 \<Longrightarrow> push_frame i t = Some t' \<Longrightarrow> metered rex4 L c t'"
| metered_push_unlimited:
    "metered rex4 L c t \<Longrightarrow> \<not> rex4 \<Longrightarrow> metered rex4 L c (push_frame_with_limit u64_max i t)"
| metered_pop: "metered rex4 L c t \<Longrightarrow> metered rex4 L c (snd (pop_frame ok t))"
| metered_persistent:
    "metered rex4 L c t \<Longrightarrow> metered rex4 L (c + unat n) (update_frame (add_persistent n) t)"
| metered_discardable:
    "metered rex4 L c t \<Longrightarrow> metered rex4 L (c + unat n) (update_frame (add_discardable n) t)"
| metered_refund:
    "metered rex4 L c t \<Longrightarrow> metered rex4 L (c + unat n) (update_frame (add_refund n) t)"
| metered_tx: "metered rex4 L c t \<Longrightarrow> metered rex4 L (c + unat n) (update_tx (add_persistent n) t)"
| metered_info:
    "metered rex4 L c t \<Longrightarrow> metered rex4 L c (update_frame (\<lambda>e. e\<lparr>info := f (info e)\<rparr>) t)"

definition top_within :: "'i FrameLimitTracker \<Rightarrow> bool" where
  "top_within t \<longleftrightarrow> (case frame_stack t of [] \<Rightarrow> True | e # _ \<Rightarrow> e_within e)"

inductive disciplined :: "u64 \<Rightarrow> nat \<Rightarrow> 'i FrameLimitTracker \<Rightarrow> bool" for L :: u64 where
  disciplined_new: "disciplined L 0 (tracker_new L)"
| disciplined_push:
    "disciplined L c t \<Longrightarrow> top_within t \<Longrightarrow> push_frame i t = Some t' \<Longrightarrow> disciplined L c t'"
| disciplined_pop_success:
    "disciplined L c t \<Longrightarrow> top_within t \<Longrightarrow> disciplined L c (snd (pop_frame True t))"
| disciplined_pop_revert: "disciplined L c t \<Longrightarrow> disciplined L c (snd (pop_frame False t))"
| disciplined_discardable:
    "disciplined L c t \<Longrightarrow> disciplined L (c + unat n) (update_frame (add_discardable n) t)"
| disciplined_refund:
    "disciplined L c t \<Longrightarrow> disciplined L (c + unat n) (update_frame (add_refund n) t)"
| disciplined_tx:
    "disciplined L c t \<Longrightarrow> disciplined L (c + unat n) (update_tx (add_persistent n) t)"
| disciplined_info:
    "disciplined L c t \<Longrightarrow> disciplined L c (update_frame (\<lambda>e. e\<lparr>info := f (info e)\<rparr>) t)"

section \<open>The ledger of recorded amounts\<close>

lemma entry_record_sel [simp]:
  "entry_limit (add_persistent n e) = entry_limit e"
  "entry_limit (add_discardable n e) = entry_limit e"
  "entry_limit (add_refund n e) = entry_limit e"
  "info (add_persistent n e) = info e"
  "info (add_discardable n e) = info e"
  "info (add_refund n e) = info e"
  "discardable_usage (add_persistent n e) = discardable_usage e"
  "refund (add_persistent n e) = refund e"
  "persistent_usage (add_discardable n e) = persistent_usage e"
  "refund (add_discardable n e) = refund e"
  "persistent_usage (add_refund n e) = persistent_usage e"
  "discardable_usage (add_refund n e) = discardable_usage e"
  by (simp_all add: add_persistent_def add_discardable_def add_refund_def)

lemma e_used_record [simp]:
  "e_used (add_refund n e) = e_used e"
  "e_refund (add_persistent n e) = e_refund e"
  "e_refund (add_discardable n e) = e_refund e"
  "e_used (e\<lparr>info := i\<rparr>) = e_used e"
  "e_refund (e\<lparr>info := i\<rparr>) = e_refund e"
  by (simp_all add: e_used_def e_refund_def)

lemma unat_add_le: "unat (a + b) \<le> unat a + unat b" for a b :: "'a::len word"
  by (simp add: unat_word_ariths)

lemma e_used_record_le:
  "e_used (add_persistent n e) \<le> e_used e + unat n"
  "e_used (add_discardable n e) \<le> e_used e + unat n"
  "e_refund (add_refund n e) \<le> e_refund e + unat n"
  using unat_add_le [of "persistent_usage e" n] unat_add_le [of "discardable_usage e" n]
    unat_add_le [of "refund e" n]
  by (simp_all add: e_used_def e_refund_def add_persistent_def add_discardable_def add_refund_def)

lemma e_used_add_exact:
  assumes "e_used e + unat n < 2 ^ 64"
  shows "e_used (add_persistent n e) = e_used e + unat n"
    and "e_used (add_discardable n e) = e_used e + unat n"
  using assms
  by (simp_all add: e_used_def add_persistent_def add_discardable_def unat_add_exact)

lemma update_frame_sel [simp]: "tx_entry (update_frame f t) = tx_entry t"
  by (simp add: update_frame_def split: list.split)

lemma frame_stack_update_frame:
  "frame_stack (update_frame f t) = (case frame_stack t of [] \<Rightarrow> [] | e # es \<Rightarrow> f e # es)"
  by (simp add: update_frame_def split: list.split)

lemma update_tx_sel [simp]:
  "frame_stack (update_tx f t) = frame_stack t" "tx_entry (update_tx f t) = f (tx_entry t)"
  by (simp_all add: update_tx_def)

lemma ledger_update_frame_le:
  assumes "\<And>e. e_used (f e) + e_refund (f e) \<le> e_used e + e_refund e + n"
  shows "total_used (update_frame f t) + total_refund (update_frame f t)
    \<le> total_used t + total_refund t + n"
proof (cases "frame_stack t")
  case (Cons e es)
  with assms [of e] show ?thesis
    by (simp add: total_used_def total_refund_def frames_used_def frames_refund_def
        frame_stack_update_frame)
qed (simp add: total_used_def total_refund_def frames_used_def frames_refund_def
      frame_stack_update_frame)

lemma ledger_pop_le:
  assumes "fits t"
  shows "total_used (snd (pop_frame ok t)) + total_refund (snd (pop_frame ok t))
    \<le> total_used t + total_refund t"
  using total_used_pop_frame [OF assms, of ok] total_refund_pop_frame [OF assms, of ok]
  by (auto split: list.splits if_splits)

lemma push_frame_SomeD:
  assumes "push_frame i t = Some t'"
  obtains l where "max_forward_limit t = Some l" and "t' = push_frame_with_limit l i t"
  using assms by (auto simp: push_frame_def bind_eq_Some_conv)

lemma ledger_push:
  assumes "push_frame i t = Some t'"
  shows "total_used t' = total_used t" and "total_refund t' = total_refund t"
    and "tx_entry t' = tx_entry t"
  using assms by (auto elim!: push_frame_SomeD)

definition ledger_le :: "nat \<Rightarrow> 'i FrameLimitTracker \<Rightarrow> bool" where
  "ledger_le c t \<longleftrightarrow> total_used t + total_refund t \<le> c"

lemma ledger_le_fits: "ledger_le c t \<Longrightarrow> c < 2 ^ 64 \<Longrightarrow> fits t"
  by (simp add: ledger_le_def fits_def)

lemma ledger_le_new [simp]: "ledger_le c (tracker_new L)"
  by (simp add: ledger_le_def total_used_def total_refund_def frames_used_def frames_refund_def)

lemma ledger_le_steps:
  "ledger_le c t \<Longrightarrow> ledger_le 0 (tracker_reset t)"
  "ledger_le c t \<Longrightarrow> push_frame i t = Some t' \<Longrightarrow> ledger_le c t'"
  "ledger_le c t \<Longrightarrow> ledger_le c (push_frame_with_limit l i t)"
  "ledger_le c t \<Longrightarrow> c < 2 ^ 64 \<Longrightarrow> ledger_le c (snd (pop_frame ok t))"
  "ledger_le c t \<Longrightarrow> ledger_le (c + unat n) (update_frame (add_persistent n) t)"
  "ledger_le c t \<Longrightarrow> ledger_le (c + unat n) (update_frame (add_discardable n) t)"
  "ledger_le c t \<Longrightarrow> ledger_le (c + unat n) (update_frame (add_refund n) t)"
  "ledger_le c t \<Longrightarrow> ledger_le c (update_frame (\<lambda>e. e\<lparr>info := f (info e)\<rparr>) t)"
proof -
  show "ledger_le c t \<Longrightarrow> ledger_le 0 (tracker_reset t)"
    by (simp add: tracker_reset_eq_new)
  show "ledger_le c t \<Longrightarrow> push_frame i t = Some t' \<Longrightarrow> ledger_le c t'"
    by (simp add: ledger_le_def ledger_push)
  show "ledger_le c t \<Longrightarrow> ledger_le c (push_frame_with_limit l i t)"
    by (simp add: ledger_le_def)
  show "ledger_le c t \<Longrightarrow> c < 2 ^ 64 \<Longrightarrow> ledger_le c (snd (pop_frame ok t))"
    using ledger_pop_le [of t ok] ledger_le_fits [of c t] by (simp add: ledger_le_def)
  have upd: "ledger_le (c + n) (update_frame f t)"
    if "ledger_le c t" and "\<And>e. e_used (f e) + e_refund (f e) \<le> e_used e + e_refund e + n"
    for f n
    using ledger_update_frame_le [of f n t] that by (simp add: ledger_le_def)
  show "ledger_le c t \<Longrightarrow> ledger_le (c + unat n) (update_frame (add_persistent n) t)"
    by (rule upd) (simp_all add: e_used_record_le add_right_mono)
  show "ledger_le c t \<Longrightarrow> ledger_le (c + unat n) (update_frame (add_discardable n) t)"
    by (rule upd) (simp_all add: e_used_record_le add_right_mono)
  show "ledger_le c t \<Longrightarrow> ledger_le (c + unat n) (update_frame (add_refund n) t)"
    by (rule upd) (simp_all add: e_used_record_le)
  show "ledger_le c t \<Longrightarrow> ledger_le c (update_frame (\<lambda>e. e\<lparr>info := f (info e)\<rparr>) t)"
    using upd [of "\<lambda>e. e\<lparr>info := f (info e)\<rparr>" 0] by simp
qed

lemma ledger_le_update_tx:
  "ledger_le c t \<Longrightarrow> ledger_le (c + unat n) (update_tx (add_persistent n) t)"
  using e_used_record_le(1) [of n "tx_entry t"]
  by (simp add: ledger_le_def total_used_def total_refund_def frames_used_def frames_refund_def)

section \<open>Reachable trackers are well formed\<close>

lemma budget_chain_top:
  "entry_limit e' = entry_limit e \<Longrightarrow> budget_chain L (e' # es) = budget_chain L (e # es)"
  by (cases es) simp_all

lemma budget_chain_update_frame:
  assumes "\<And>e. entry_limit (f e) = entry_limit e"
  shows "budget_chain L (frame_stack (update_frame f t)) = budget_chain L (frame_stack t)"
  using budget_chain_top [OF assms] by (simp add: frame_stack_update_frame split: list.split)

lemma budget_chain_tl: "budget_chain L (c # p # es) \<Longrightarrow> budget_chain L (p # es)"
  by simp

lemma budget_chain_pop:
  assumes "budget_chain L (frame_stack t)"
  shows "budget_chain L (frame_stack (snd (pop_frame ok t)))"
proof (cases "frame_stack t" rule: list.exhaust [case_names Nil Cons])
  case Nil
  with assms show ?thesis by (simp add: pop_frame_def)
next
  case (Cons c es)
  show ?thesis
  proof (cases es)
    case Nil
    with Cons show ?thesis by (simp add: pop_frame_def)
  next
    case (Cons p rest)
    with assms \<open>frame_stack t = c # es\<close> show ?thesis
      using budget_chain_top [of "merge_entry ok c p" p L rest]
      by (simp add: pop_frame_def)
  qed
qed

lemma budget_chain_push:
  assumes "budget_chain L (frame_stack t)" and "fits t" and "entry_limit (tx_entry t) = L"
    and "push_frame i t = Some t'"
  shows "budget_chain L (frame_stack t')"
proof (cases "frame_stack t")
  case Nil
  with assms show ?thesis by (auto simp: push_frame_eq)
next
  case (Cons e es)
  have "forwarded (e_remaining e) < 18446744073709551616"
    using e_remaining_less [of e] forwarded_le [of "e_remaining e"] by linarith
  with assms Cons show ?thesis by (auto simp: push_frame_eq)
qed

text \<open>
  A reachable tracker keeps the transaction limit it was created with and, for Rex4, the
  98/100 relation between neighbouring frames, as long as the recorded amounts fit in 64 bits.
\<close>

definition well_formed :: "bool \<Rightarrow> u64 \<Rightarrow> nat \<Rightarrow> 'i FrameLimitTracker \<Rightarrow> bool" where
  "well_formed rex4 L c t \<longleftrightarrow> ledger_le c t \<and> entry_limit (tx_entry t) = L \<and>
     (rex4 \<longrightarrow> budget_chain L (frame_stack t))"

lemma metered_tx_limit: "metered rex4 L c t \<Longrightarrow> entry_limit (tx_entry t) = L"
  by (induction rule: metered.induct) (auto simp: ledger_push)

lemma metered_well_formed:
  "metered rex4 L c t \<Longrightarrow> c < 2 ^ 64 \<Longrightarrow> well_formed rex4 L c t"
proof (induction rule: metered.induct)
  case metered_new
  show ?case by (simp add: well_formed_def)
next
  case (metered_reset c t)
  then show ?case
    by (simp add: well_formed_def tracker_reset_eq_new tracker_tx_limit_def metered_tx_limit)
qed (auto simp: well_formed_def ledger_le_steps ledger_le_update_tx ledger_le_fits ledger_push
      budget_chain_update_frame budget_chain_pop intro: budget_chain_push)

lemma metered_fits: "metered rex4 L c t \<Longrightarrow> c < 2 ^ 64 \<Longrightarrow> fits t"
  using metered_well_formed [of rex4 L c t] by (auto simp: well_formed_def intro: ledger_le_fits)

section \<open>Per-frame budgets bound the transaction\<close>

lemma sum_net_remaining:
  assumes "budget_chain L es" and "\<forall>e \<in> set es. e_within e" and "es \<noteq> []"
  shows "sum_list (map e_net es) + e_remaining (hd es) \<le> unat L"
  using assms
proof (induction L es rule: budget_chain.induct)
  case (1 L)
  then show ?case by simp
next
  case (2 L e)
  then show ?case by (simp add: e_within_def e_remaining_def)
next
  case (3 L c p es)
  then have "sum_list (map e_net (p # es)) + e_remaining p \<le> unat L" by simp
  moreover have "e_net c + e_remaining c \<le> e_remaining p"
    using 3 forwarded_le [of "e_remaining p"] by (simp add: e_within_def e_remaining_def [of c])
  ultimately show ?case by simp
qed

lemma sum_used_minus_refund_le:
  "sum_list (map e_used es) - sum_list (map e_refund es) \<le> sum_list (map e_net es)"
  by (induction es) (auto simp: e_net_def)

lemma merge_within:
  assumes "unat (entry_limit c) = forwarded (e_remaining p)"
    and "e_within c" and "e_within p"
    and "e_used p + e_used c < 2 ^ 64" and "e_refund p + e_refund c < 2 ^ 64"
  shows "e_within (merge_entry True c p)"
proof -
  have "e_net c \<le> e_remaining p"
    using assms(1,2) forwarded_le [of "e_remaining p"] by (simp add: e_within_def)
  with assms(3) have "e_net c + e_net p \<le> unat (entry_limit p)"
    by (simp add: e_remaining_def e_within_def)
  then show ?thesis
    using assms(4,5) by (simp add: e_within_def e_net_def e_used_merge e_refund_merge)
qed

definition budgets_kept :: "u64 \<Rightarrow> 'i FrameLimitTracker \<Rightarrow> bool" where
  "budgets_kept L t \<longleftrightarrow> entry_limit (tx_entry t) = L \<and> budget_chain L (frame_stack t) \<and>
     (\<forall>e \<in> set (tl (frame_stack t)). e_within e) \<and>
     (\<forall>e \<in> set (frame_stack t). persistent_usage e = 0)"

lemma budgets_kept_update_frame:
  assumes "budgets_kept L t"
    and "\<And>e. entry_limit (f e) = entry_limit e"
    and "\<And>e. persistent_usage (f e) = persistent_usage e"
  shows "budgets_kept L (update_frame f t)"
  using assms budget_chain_update_frame [of f L t]
  by (auto simp: budgets_kept_def frame_stack_update_frame split: list.splits)

lemma budgets_kept_push:
  assumes "budgets_kept L t" and "fits t" and "top_within t" and "push_frame i t = Some t'"
  shows "budgets_kept L t'"
proof -
  from assms(4) obtain l where t': "t' = push_frame_with_limit l i t"
    by (auto elim: push_frame_SomeD)
  have "budget_chain L (frame_stack t')"
    using assms(1,2,4) unfolding budgets_kept_def by (blast intro: budget_chain_push)
  moreover have "\<forall>e \<in> set (frame_stack t). e_within e"
    using assms(1,3) unfolding budgets_kept_def top_within_def
    by (cases "frame_stack t") simp_all
  moreover have "\<forall>e \<in> set (frame_stack t'). persistent_usage e = 0" and "tx_entry t' = tx_entry t"
    and "tl (frame_stack t') = frame_stack t"
    using assms(1) t' unfolding budgets_kept_def by simp_all
  ultimately show ?thesis
    using assms(1) unfolding budgets_kept_def by simp
qed

lemma merge_revert: "persistent_usage c = 0 \<Longrightarrow> merge_entry False c p = p"
  by (simp add: merge_entry_def)

lemma pop_frame_cases:
  obtains (Empty) "frame_stack t = []" "snd (pop_frame ok t) = t"
    | (Last) c where "frame_stack t = [c]"
        "snd (pop_frame ok t) = t\<lparr>tx_entry := merge_entry ok c (tx_entry t), frame_stack := []\<rparr>"
    | (Inner) c p es where "frame_stack t = c # p # es"
        "snd (pop_frame ok t) = t\<lparr>frame_stack := merge_entry ok c p # es\<rparr>"
  by (cases "frame_stack t" rule: list.exhaust; cases "tl (frame_stack t)" rule: list.exhaust)
    (auto simp: pop_frame_def)

lemma budgets_kept_pop_revert:
  assumes "budgets_kept L t"
  shows "budgets_kept L (snd (pop_frame False t))"
proof (cases rule: pop_frame_cases [of t False])
  case (Inner c p es)
  have "merge_entry False c p = p"
    using assms Inner(1) by (simp add: budgets_kept_def merge_revert)
  then show ?thesis
    using assms Inner unfolding budgets_kept_def by simp
qed (use assms in \<open>simp_all add: budgets_kept_def\<close>)

lemma budgets_kept_pop_success:
  assumes "budgets_kept L t"
  shows "budgets_kept L (snd (pop_frame True t))"
proof (cases rule: pop_frame_cases [of t True])
  case (Inner c p es)
  have "persistent_usage (merge_entry True c p) = 0"
    using assms Inner(1) by (simp add: budgets_kept_def merge_entry_def)
  then show ?thesis
    using assms Inner budget_chain_pop [of L t True] unfolding budgets_kept_def by simp
qed (use assms in \<open>simp_all add: budgets_kept_def\<close>)

lemma disciplined_invariant:
  "disciplined L c t \<Longrightarrow> c < 2 ^ 64 \<Longrightarrow> ledger_le c t \<and> budgets_kept L t"
proof (induction rule: disciplined.induct)
  case disciplined_new
  show ?case by (simp add: budgets_kept_def)
next
  case (disciplined_push c t i t')
  then have inv: "ledger_le c t" "budgets_kept L t" by simp_all
  then have "fits t" using ledger_le_fits disciplined_push.prems by metis
  then show ?case
    using inv ledger_le_steps(2) [of c t i t'] budgets_kept_push [of L t i t']
      disciplined_push.hyps by simp
next
  case (disciplined_tx c t n)
  then have "ledger_le c t" and "budgets_kept L t" by simp_all
  then show ?case
    using ledger_le_update_tx [of c t n] by (simp add: budgets_kept_def)
qed (simp_all add: ledger_le_steps budgets_kept_pop_success budgets_kept_pop_revert
      budgets_kept_update_frame)

lemma disciplined_fits: "disciplined L c t \<Longrightarrow> c < 2 ^ 64 \<Longrightarrow> fits t"
  using disciplined_invariant ledger_le_fits by blast

lemma top_within_iff:
  "fits t \<Longrightarrow> top_within t \<longleftrightarrow> exceeds_current_frame_limit kind t = Some WithinLimit"
  by (simp add: top_within_def exceeds_current_frame_limit_eq split: list.split)

lemma disciplined_frames_le:
  assumes "disciplined L c t" and "c < 2 ^ 64" and "top_within t"
  shows "frames_used t - frames_refund t \<le> unat L"
proof (cases "frame_stack t = []")
  case True
  then show ?thesis by (simp add: frames_used_def)
next
  case False
  have kept: "budgets_kept L t" using disciplined_invariant [OF assms(1,2)] by simp
  have "\<forall>e \<in> set (frame_stack t). e_within e"
    using kept assms(3) unfolding budgets_kept_def top_within_def
    by (cases "frame_stack t") simp_all
  with kept False have "sum_list (map e_net (frame_stack t)) \<le> unat L"
    using sum_net_remaining [of L "frame_stack t"] by (simp add: budgets_kept_def)
  then show ?thesis
    using sum_used_minus_refund_le [of "frame_stack t"]
    by (simp add: frames_used_def frames_refund_def)
qed

text \<open>
  A child that returns successfully within its budget leaves its parent within its budget, so
  absorbing the child's usage never pushes the parent over.
\<close>

lemma disciplined_pop_within:
  assumes "disciplined L c t" and "c < 2 ^ 64" and "top_within t"
  shows "top_within (snd (pop_frame True t))"
proof (cases rule: pop_frame_cases [of t True])
  case (Inner child p es)
  have inv: "budgets_kept L t" "fits t"
    using disciplined_invariant [OF assms(1,2)] disciplined_fits [OF assms(1,2)] by simp_all
  have "e_within (merge_entry True child p)"
  proof (rule merge_within)
    show "unat (entry_limit child) = forwarded (e_remaining p)" and "e_within p"
      using inv(1) Inner(1) by (simp_all add: budgets_kept_def)
    show "e_within child"
      using assms(3) Inner(1) by (simp add: top_within_def)
    show "e_used p + e_used child < 2 ^ 64" and "e_refund p + e_refund child < 2 ^ 64"
      using inv(2) Inner(1)
      by (simp_all add: fits_def total_used_def total_refund_def frames_used_def frames_refund_def)
  qed
  then show ?thesis
    using Inner(2) by (simp add: top_within_def)
qed (simp_all add: top_within_def)

section \<open>Properties\<close>

text \<open>
  Property C1 (metered_refines_ledger): a tracker that any sequence of operations reaches refines the
  ledger in natural numbers as long as fewer than \<open>2^64\<close> units were recorded. \<^verbatim>\<open>net_usage\<close> does
  not panic and is the ledger's used amount minus its refunds with no wrap-around, the
  transaction limit is the one the tracker was created with, and in Rex4 every frame has
  98/100 of what its caller had left.
\<close>

theorem metered_refines_ledger:
  assumes "metered rex4 L c t" and "c < 2 ^ 64"
  shows "net_usage t = Some (word_of_nat (total_used t - total_refund t))
    \<and> total_used t + total_refund t \<le> c \<and> tracker_tx_limit t = L
    \<and> (rex4 \<longrightarrow> budget_chain L (frame_stack t))"
  using metered_well_formed [OF assms] net_usage_eq [OF metered_fits [OF assms]]
  by (auto simp: well_formed_def ledger_le_def tracker_tx_limit_def)

text \<open>The tracker of a transaction with limit 1000 whose first frame records 500 units and calls
  another frame.\<close>

definition nested_example :: "unit FrameLimitTracker" where
  "nested_example = push_frame_with_limit 490 ()
     (update_frame (add_discardable 500) (push_frame_with_limit 1000 () (tracker_new 1000)))"

lemma nested_example_steps:
  "push_frame () (tracker_new 1000 :: unit FrameLimitTracker) =
     Some (push_frame_with_limit 1000 () (tracker_new 1000))"
  "push_frame () (update_frame (add_discardable 500)
     (push_frame_with_limit 1000 () (tracker_new 1000 :: unit FrameLimitTracker))) = Some nested_example"
  by (simp_all add: nested_example_def push_frame_def max_forward_limit_def
      frame_stack_update_frame remaining_def used_def checked_add_def add_discardable_def
      entry_new_def saturating_sub_def FRAME_LIMIT_NUMERATOR_def FRAME_LIMIT_DENOMINATOR_def)

lemma metered_nested_example: "metered True 1000 500 nested_example"
proof -
  have "metered True 1000 (0 + unat (500 :: u64)) (update_frame (add_discardable 500)
      (push_frame_with_limit 1000 () (tracker_new 1000)))"
    by (intro metered_discardable metered_push [OF metered_new _ nested_example_steps(1)] TrueI)
  then show ?thesis
    using metered_push [OF _ _ nested_example_steps(2), of True 1000 500] by simp
qed

theorem metered_refines_ledger_witness:
  "net_usage nested_example = Some 500 \<and> budget_chain 1000 (frame_stack nested_example)"
proof -
  have "total_used nested_example = 500" and "total_refund nested_example = 0"
    by (simp_all add: nested_example_def total_used_def total_refund_def frames_used_def
        frames_refund_def frame_stack_update_frame e_used_def e_refund_def add_discardable_def
        entry_new_def)
  then show ?thesis
    using metered_refines_ledger [OF metered_nested_example] by simp
qed

text \<open>
  Property C2 (pop_frame_accounting): returning from a frame. On success the net usage of the
  transaction does not change; on revert the ledger loses exactly the discardable usage and the
  refunds of the returning frame, and its persistent usage stays with the caller.
\<close>

theorem pop_frame_accounting:
  assumes "fits t" and "frame_stack t = child # callers"
  shows "net_usage (snd (pop_frame True t)) = net_usage t
    \<and> total_used (snd (pop_frame False t)) = total_used t - unat (discardable_usage child)
    \<and> total_refund (snd (pop_frame False t)) = total_refund t - e_refund child
    \<and> length (frame_stack (snd (pop_frame ok t))) = length callers
    \<and> fst (pop_frame ok t) = Some child"
proof -
  have "length (frame_stack (snd (pop_frame ok t))) = length callers"
    and "fst (pop_frame ok t) = Some child"
    using assms(2) by (auto simp: pop_frame_def split: list.split)
  with assms show ?thesis
    by (simp add: net_usage_pop_success total_used_pop_frame total_refund_pop_frame)
qed

theorem pop_frame_accounting_witness:
  "net_usage (snd (pop_frame True nested_example)) = net_usage nested_example"
proof -
  have "frame_stack nested_example = entry_new 490 () # frame_stack (update_frame (add_discardable 500)
      (push_frame_with_limit 1000 () (tracker_new 1000)))"
    by (simp add: nested_example_def)
  then show ?thesis
    using pop_frame_accounting [OF metered_fits [OF metered_nested_example]] by simp
qed


lemma disciplined_nested_example: "disciplined 1000 500 nested_example"
proof -
  have "disciplined 1000 (0 + unat (500 :: u64)) (update_frame (add_discardable 500)
      (push_frame_with_limit 1000 () (tracker_new 1000)))"
    by (intro disciplined_discardable disciplined_push [OF disciplined_new _ nested_example_steps(1)])
      (simp add: top_within_def)
  then show ?thesis
    using disciplined_push [OF _ _ nested_example_steps(2), of 1000 500]
    by (simp add: top_within_def frame_stack_update_frame e_within_def e_net_def e_used_def
        e_refund_def add_discardable_def entry_new_def)
qed


end
