(* ===== verification/System_Tx.thy ===== *)
theory System_Tx
  imports Spec_Id
begin

text \<open>
  The addresses of the system contracts and the classification of mega system transactions
  (\<^verbatim>\<open>system/tx.rs\<close>): legacy transactions from the system address to a whitelisted callee, which
  are processed like deposits.
\<close>

section \<open>Addresses\<close>

definition ORACLE_CONTRACT_ADDRESS :: address where
  "ORACLE_CONTRACT_ADDRESS = 0x6342000000000000000000000000000000000001"

definition HIGH_PRECISION_TIMESTAMP_ORACLE_ADDRESS :: address where
  "HIGH_PRECISION_TIMESTAMP_ORACLE_ADDRESS = 0x6342000000000000000000000000000000000002"

definition KEYLESS_DEPLOY_ADDRESS :: address where
  "KEYLESS_DEPLOY_ADDRESS = 0x6342000000000000000000000000000000000003"

definition ACCESS_CONTROL_ADDRESS :: address where
  "ACCESS_CONTROL_ADDRESS = 0x6342000000000000000000000000000000000004"

definition LIMIT_CONTROL_ADDRESS :: address where
  "LIMIT_CONTROL_ADDRESS = 0x6342000000000000000000000000000000000005"

definition MEGA_SYSTEM_ADDRESS :: address where
  "MEGA_SYSTEM_ADDRESS = 0xA887dCB9D5f39Ef79272801d05Abdf707CFBbD1d"

definition MEGA_SYSTEM_TX_WHITELIST :: "address list" where
  "MEGA_SYSTEM_TX_WHITELIST = [ORACLE_CONTRACT_ADDRESS]"

definition MEGA_SYSTEM_TRANSACTION_SOURCE_HASH :: b256 where
  "MEGA_SYSTEM_TRANSACTION_SOURCE_HASH =
     0x852c082c0faff590c6300c2c34815d1f79882552fa95ba413cd5aeb1dba84957"

section \<open>System transactions\<close>

datatype TxKind = TxCreate | TxCall address

definition check_if_mega_system_transaction :: "address \<Rightarrow> u8 \<Rightarrow> TxKind \<Rightarrow> bool" where
  "check_if_mega_system_transaction tx_signer tx_type tx_kind =
     (if tx_type = 0 \<and> tx_signer = MEGA_SYSTEM_ADDRESS
      then (case tx_kind of
              TxCreate \<Rightarrow> False
            | TxCall address \<Rightarrow> address \<in> set MEGA_SYSTEM_TX_WHITELIST)
      else False)"

text \<open>A transaction as the handler sees it: the accessors of the upstream transaction type are
  fields. The deposit transaction type is a constant of an upstream crate and a parameter.\<close>

record MegaTransaction =
  tx_caller :: address
  tx_type :: u8
  tx_kind :: TxKind
  tx_value :: u256
  tx_nonce :: u64
  tx_gas_limit :: u64
  tx_gas_price :: u128
  tx_source_hash :: b256
  tx_input :: bytes
  tx_access_list :: "u64 list option"
  tx_authorization_list :: "address option list"
  tx_enveloped :: "bytes option"

definition sent_from_mega_system_address :: "MegaTransaction \<Rightarrow> bool" where
  "sent_from_mega_system_address tx \<longleftrightarrow> tx_caller tx = MEGA_SYSTEM_ADDRESS"

definition is_mega_system_transaction :: "MegaTransaction \<Rightarrow> bool" where
  "is_mega_system_transaction tx =
     check_if_mega_system_transaction (tx_caller tx) (tx_type tx) (tx_kind tx)"

definition is_deposit_like_transaction :: "u8 \<Rightarrow> MegaTransaction \<Rightarrow> bool" where
  "is_deposit_like_transaction deposit_type tx =
     (if tx_type tx = deposit_type then True else is_mega_system_transaction tx)"

section \<open>Lemmas\<close>

lemma system_addresses_distinct:
  "distinct [ORACLE_CONTRACT_ADDRESS, HIGH_PRECISION_TIMESTAMP_ORACLE_ADDRESS,
     KEYLESS_DEPLOY_ADDRESS, ACCESS_CONTROL_ADDRESS, LIMIT_CONTROL_ADDRESS, MEGA_SYSTEM_ADDRESS]"
  by (simp add: ORACLE_CONTRACT_ADDRESS_def HIGH_PRECISION_TIMESTAMP_ORACLE_ADDRESS_def
      KEYLESS_DEPLOY_ADDRESS_def ACCESS_CONTROL_ADDRESS_def LIMIT_CONTROL_ADDRESS_def
      MEGA_SYSTEM_ADDRESS_def)

lemma system_addresses_neq:
  "KEYLESS_DEPLOY_ADDRESS \<noteq> ORACLE_CONTRACT_ADDRESS"
  "ACCESS_CONTROL_ADDRESS \<noteq> ORACLE_CONTRACT_ADDRESS"
  "LIMIT_CONTROL_ADDRESS \<noteq> ORACLE_CONTRACT_ADDRESS"
  "ACCESS_CONTROL_ADDRESS \<noteq> KEYLESS_DEPLOY_ADDRESS"
  "LIMIT_CONTROL_ADDRESS \<noteq> KEYLESS_DEPLOY_ADDRESS"
  "LIMIT_CONTROL_ADDRESS \<noteq> ACCESS_CONTROL_ADDRESS"
  using system_addresses_distinct by auto

lemma is_mega_system_transaction_iff:
  "is_mega_system_transaction tx \<longleftrightarrow>
     sent_from_mega_system_address tx \<and> tx_type tx = 0 \<and>
     tx_kind tx = TxCall ORACLE_CONTRACT_ADDRESS"
  by (auto simp: is_mega_system_transaction_def check_if_mega_system_transaction_def
      sent_from_mega_system_address_def MEGA_SYSTEM_TX_WHITELIST_def split: TxKind.splits)

section \<open>Properties\<close>

text \<open>
  A transaction is processed as a mega system
  transaction exactly when it is a legacy call from the system address to the oracle contract; a
  creation or a call to any other contract never is, so the only other deposit-like transactions
  are real deposits.
\<close>

lemma system_transaction_characterised:
  "(is_mega_system_transaction tx \<longleftrightarrow>
     tx_caller tx = MEGA_SYSTEM_ADDRESS \<and> tx_type tx = 0 \<and> tx_kind tx = TxCall ORACLE_CONTRACT_ADDRESS)
   \<and> (is_deposit_like_transaction deposit tx \<longleftrightarrow>
     tx_type tx = deposit \<or> is_mega_system_transaction tx)"
  by (simp add: is_mega_system_transaction_iff sent_from_mega_system_address_def
      is_deposit_like_transaction_def)

end
