(* ===== verification/Volatile_Access.thy ===== *)
theory Volatile_Access
  imports System_Tx "HOL-Library.Multiset"
begin

unbundle bit_operations_syntax

text \<open>
  Volatile data access: the bitmap of \<^verbatim>\<open>access/volatile.rs\<close> and the tracker of
  \<^verbatim>\<open>access/tracker.rs\<close>. The bitmap is a 16-bit word; the operations of the \<^verbatim>\<open>bitflags\<close> macro
  (\<^verbatim>\<open>insert\<close>, \<^verbatim>\<open>contains\<close>, \<^verbatim>\<open>is_empty\<close>, \<^verbatim>\<open>from_bits_truncate\<close>) are the bitwise operations
  on the twelve declared flags.

  The lemmas show that the flag of an access type is the bit its Solidity discriminant names, that
  the detention cap is the minimum of the caps of all accesses made, whatever their order, and that
  a disabled subtree stays disabled until the frame that disabled it returns.
\<close>

section \<open>Access types and their bitmap\<close>

datatype VolatileDataAccessType =
    BlockNumber | Timestamp | Coinbase | Difficulty | GasLimit | BaseFee | PrevRandao | BlockHash
  | BlobBaseFee | BlobHash | Beneficiary | Oracle

fun access_type_as_u8 :: "VolatileDataAccessType \<Rightarrow> u8" where
  "access_type_as_u8 BlockNumber = 0"
| "access_type_as_u8 Timestamp = 1"
| "access_type_as_u8 Coinbase = 2"
| "access_type_as_u8 Difficulty = 3"
| "access_type_as_u8 GasLimit = 4"
| "access_type_as_u8 BaseFee = 5"
| "access_type_as_u8 PrevRandao = 6"
| "access_type_as_u8 BlockHash = 7"
| "access_type_as_u8 BlobBaseFee = 8"
| "access_type_as_u8 BlobHash = 9"
| "access_type_as_u8 Beneficiary = 10"
| "access_type_as_u8 Oracle = 11"

type_synonym VolatileDataAccess = u16

definition BENEFICIARY_BALANCE_FLAG :: VolatileDataAccess where
  "BENEFICIARY_BALANCE_FLAG = push_bit 10 1"

definition ORACLE_FLAG :: VolatileDataAccess where
  "ORACLE_FLAG = push_bit 11 1"

text \<open>All declared flags, bits 0 to 11.\<close>

definition ALL_FLAGS :: VolatileDataAccess where
  "ALL_FLAGS = 0x0FFF"

definition BLOCK_ENV_MASK :: u16 where
  "BLOCK_ENV_MASK = 0x03FF"

definition from_bits_truncate :: "u16 \<Rightarrow> VolatileDataAccess" where
  "from_bits_truncate bits = bits AND ALL_FLAGS"

definition access_contains :: "VolatileDataAccess \<Rightarrow> VolatileDataAccess \<Rightarrow> bool" where
  "access_contains self other \<longleftrightarrow> self AND other = other"

definition has_block_env_access :: "VolatileDataAccess \<Rightarrow> bool" where
  "has_block_env_access self \<longleftrightarrow> self AND BLOCK_ENV_MASK \<noteq> 0"

definition has_beneficiary_balance_access :: "VolatileDataAccess \<Rightarrow> bool" where
  "has_beneficiary_balance_access self = access_contains self BENEFICIARY_BALANCE_FLAG"

definition has_oracle_access :: "VolatileDataAccess \<Rightarrow> bool" where
  "has_oracle_access self = access_contains self ORACLE_FLAG"

definition count_ones :: "u16 \<Rightarrow> nat" where
  "count_ones w = length (filter (\<lambda>i. bit w i) [0..<16])"

definition trailing_zeros :: "u16 \<Rightarrow> nat" where
  "trailing_zeros w = length (takeWhile (\<lambda>i. \<not> bit w i) [0..<16])"

definition count_block_env_accessed :: "VolatileDataAccess \<Rightarrow> nat" where
  "count_block_env_accessed self = count_ones (self AND BLOCK_ENV_MASK)"

definition count_accessed :: "VolatileDataAccess \<Rightarrow> nat" where
  "count_accessed self = count_ones self"

definition access_raw :: "VolatileDataAccess \<Rightarrow> u16" where
  "access_raw self = self"

definition access_as_u8 :: "VolatileDataAccess \<Rightarrow> u8" where
  "access_as_u8 self = word_of_nat (trailing_zeros self)"

definition block_env_only :: "VolatileDataAccess \<Rightarrow> VolatileDataAccess" where
  "block_env_only self = from_bits_truncate (self AND BLOCK_ENV_MASK)"

definition access_from_type :: "VolatileDataAccessType \<Rightarrow> VolatileDataAccess" where
  "access_from_type ty = from_bits_truncate (push_bit (unat (access_type_as_u8 ty)) 1)"

section \<open>The tracker\<close>

record VolatileDataAccessTracker =
  volatile_data_accessed :: VolatileDataAccess
  vt_compute_gas_limit :: "u64 option"
  block_env_access_limit :: u64
  oracle_access_limit :: u64
  disable_depth :: "usize option"

definition volatile_new :: "u64 \<Rightarrow> u64 \<Rightarrow> VolatileDataAccessTracker" where
  "volatile_new block_env oracle = \<lparr>volatile_data_accessed = 0, vt_compute_gas_limit = None,
     block_env_access_limit = block_env, oracle_access_limit = oracle, disable_depth = None\<rparr>"

definition accessed :: "VolatileDataAccessTracker \<Rightarrow> bool" where
  "accessed t \<longleftrightarrow> volatile_data_accessed t \<noteq> 0"

definition get_volatile_data_info :: "VolatileDataAccessTracker \<Rightarrow> VolatileDataAccess option" where
  "get_volatile_data_info t = (if accessed t then Some (volatile_data_accessed t) else None)"

definition get_compute_gas_limit :: "VolatileDataAccessTracker \<Rightarrow> u64 option" where
  "get_compute_gas_limit t = vt_compute_gas_limit t"

definition get_block_env_accesses :: "VolatileDataAccessTracker \<Rightarrow> VolatileDataAccess" where
  "get_block_env_accesses t = block_env_only (volatile_data_accessed t)"

definition get_volatile_data_accessed :: "VolatileDataAccessTracker \<Rightarrow> VolatileDataAccess" where
  "get_volatile_data_accessed t = volatile_data_accessed t"

definition access_insert ::
  "VolatileDataAccess \<Rightarrow> VolatileDataAccessTracker \<Rightarrow> VolatileDataAccessTracker" where
  "access_insert flags t = t\<lparr>volatile_data_accessed := volatile_data_accessed t OR flags\<rparr>"

definition apply_or_create_limit ::
  "u64 \<Rightarrow> VolatileDataAccessTracker \<Rightarrow> VolatileDataAccessTracker" where
  "apply_or_create_limit limit t =
     (case vt_compute_gas_limit t of
        Some current_limit \<Rightarrow> t\<lparr>vt_compute_gas_limit := Some (min current_limit limit)\<rparr>
      | None \<Rightarrow> t\<lparr>vt_compute_gas_limit := Some limit\<rparr>)"

definition tracker_mark_block_env_accessed ::
  "VolatileDataAccessType \<Rightarrow> VolatileDataAccessTracker \<Rightarrow> VolatileDataAccessTracker" where
  "tracker_mark_block_env_accessed access_type t =
     apply_or_create_limit (block_env_access_limit t) (access_insert (access_from_type access_type) t)"

definition mark_beneficiary_balance_accessed ::
  "VolatileDataAccessTracker \<Rightarrow> VolatileDataAccessTracker" where
  "mark_beneficiary_balance_accessed t =
     apply_or_create_limit (block_env_access_limit t) (access_insert BENEFICIARY_BALANCE_FLAG t)"

definition has_accessed_beneficiary_balance :: "VolatileDataAccessTracker \<Rightarrow> bool" where
  "has_accessed_beneficiary_balance t = has_beneficiary_balance_access (volatile_data_accessed t)"

definition has_accessed_oracle :: "VolatileDataAccessTracker \<Rightarrow> bool" where
  "has_accessed_oracle t = has_oracle_access (volatile_data_accessed t)"

definition check_and_mark_oracle_access ::
  "address \<Rightarrow> VolatileDataAccessTracker \<Rightarrow> bool \<times> VolatileDataAccessTracker" where
  "check_and_mark_oracle_access address t =
     (if address = ORACLE_CONTRACT_ADDRESS
      then (True, apply_or_create_limit (oracle_access_limit t) (access_insert ORACLE_FLAG t))
      else (False, t))"

definition disable_access :: "usize \<Rightarrow> VolatileDataAccessTracker \<Rightarrow> VolatileDataAccessTracker" where
  "disable_access depth t =
     (case disable_depth t of
        Some current \<Rightarrow> if depth \<ge> current then t else t\<lparr>disable_depth := Some depth\<rparr>
      | None \<Rightarrow> t\<lparr>disable_depth := Some depth\<rparr>)"

definition volatile_access_disabled :: "usize \<Rightarrow> VolatileDataAccessTracker \<Rightarrow> bool" where
  "volatile_access_disabled current_depth t =
     (case disable_depth t of Some d \<Rightarrow> current_depth \<ge> d | None \<Rightarrow> False)"

definition enable_access ::
  "usize \<Rightarrow> VolatileDataAccessTracker \<Rightarrow> bool \<times> VolatileDataAccessTracker" where
  "enable_access caller_depth t =
     (case disable_depth t of
        None \<Rightarrow> (True, t)
      | Some d \<Rightarrow> if caller_depth \<le> d then (True, t\<lparr>disable_depth := None\<rparr>) else (False, t))"

definition enable_access_if_returning ::
  "usize \<Rightarrow> VolatileDataAccessTracker \<Rightarrow> VolatileDataAccessTracker" where
  "enable_access_if_returning current_depth t =
     (case disable_depth t of
        Some d \<Rightarrow> if current_depth < d then t\<lparr>disable_depth := None\<rparr> else t
      | None \<Rightarrow> t)"

definition volatile_reset :: "VolatileDataAccessTracker \<Rightarrow> VolatileDataAccessTracker" where
  "volatile_reset t = t\<lparr>volatile_data_accessed := 0, vt_compute_gas_limit := None,
     disable_depth := None\<rparr>"

section \<open>Sequences of accesses and of control calls\<close>

text \<open>What a transaction can do to the tracker: the accesses that mark it, and the control calls
  and frame returns that move \<open>disable_depth\<close>, each with the journal depth it happens at.\<close>

datatype volatile_event =
    BlockEnvEvent VolatileDataAccessType
  | BeneficiaryEvent
  | OracleEvent address

fun volatile_step :: "volatile_event \<Rightarrow> VolatileDataAccessTracker \<Rightarrow> VolatileDataAccessTracker" where
  "volatile_step (BlockEnvEvent ty) t = tracker_mark_block_env_accessed ty t"
| "volatile_step BeneficiaryEvent t = mark_beneficiary_balance_accessed t"
| "volatile_step (OracleEvent a) t = snd (check_and_mark_oracle_access a t)"

fun event_cap :: "u64 \<Rightarrow> u64 \<Rightarrow> volatile_event \<Rightarrow> u64 option" where
  "event_cap block_env oracle (BlockEnvEvent ty) = Some block_env"
| "event_cap block_env oracle BeneficiaryEvent = Some block_env"
| "event_cap block_env oracle (OracleEvent a) =
     (if a = ORACLE_CONTRACT_ADDRESS then Some oracle else None)"

fun event_flag :: "volatile_event \<Rightarrow> VolatileDataAccess" where
  "event_flag (BlockEnvEvent ty) = access_from_type ty"
| "event_flag BeneficiaryEvent = BENEFICIARY_BALANCE_FLAG"
| "event_flag (OracleEvent a) = (if a = ORACLE_CONTRACT_ADDRESS then ORACLE_FLAG else 0)"

datatype control_op = DisableCall usize | EnableCall usize | FrameReturn usize

fun control_step :: "control_op \<Rightarrow> VolatileDataAccessTracker \<Rightarrow> VolatileDataAccessTracker" where
  "control_step (DisableCall depth) t = disable_access depth t"
| "control_step (EnableCall depth) t = snd (enable_access depth t)"
| "control_step (FrameReturn depth) t = enable_access_if_returning depth t"

text \<open>The operations of frames strictly below depth \<open>d\<close>: their control calls happen at a greater
  depth, and their returns leave a journal depth of at least \<open>d\<close>.\<close>

fun inside_subtree :: "usize \<Rightarrow> control_op \<Rightarrow> bool" where
  "inside_subtree d (DisableCall depth) = (depth > d)"
| "inside_subtree d (EnableCall depth) = (depth > d)"
| "inside_subtree d (FrameReturn depth) = (depth \<ge> d)"

section \<open>The bitmap\<close>

lemmas access_flag_defs = BENEFICIARY_BALANCE_FLAG_def ORACLE_FLAG_def ALL_FLAGS_def
  BLOCK_ENV_MASK_def from_bits_truncate_def access_contains_def

lemma access_from_type_eq: "access_from_type ty = push_bit (unat (access_type_as_u8 ty)) 1"
  by (cases ty) (simp_all add: access_from_type_def access_flag_defs)

lemma access_as_u8_from_type: "access_as_u8 (access_from_type ty) = access_type_as_u8 ty"
  by (cases ty) (simp_all add: access_from_type_eq access_as_u8_def trailing_zeros_def upt_rec
      push_bit_eq_mult bit_simps)

lemma access_from_type_nonzero: "access_from_type ty \<noteq> 0"
  by (cases ty) (simp_all add: access_from_type_eq)

lemma or_eq_0_iff_word: "a OR b = 0 \<longleftrightarrow> a = 0 \<and> b = 0" for a b :: "'a::len word"
  by (fact or_eq_0_iff)

lemma block_env_only_eq: "block_env_only self = self AND BLOCK_ENV_MASK"
proof -
  have "BLOCK_ENV_MASK AND ALL_FLAGS = BLOCK_ENV_MASK"
    by (simp add: BLOCK_ENV_MASK_def ALL_FLAGS_def)
  then show ?thesis
    by (simp add: block_env_only_def from_bits_truncate_def and.assoc)
qed

section \<open>Caps\<close>

lemma apply_or_create_limit_sel [simp]:
  "block_env_access_limit (apply_or_create_limit l t) = block_env_access_limit t"
  "oracle_access_limit (apply_or_create_limit l t) = oracle_access_limit t"
  "volatile_data_accessed (apply_or_create_limit l t) = volatile_data_accessed t"
  "disable_depth (apply_or_create_limit l t) = disable_depth t"
  "vt_compute_gas_limit (apply_or_create_limit l t) =
     Some (case vt_compute_gas_limit t of None \<Rightarrow> l | Some c \<Rightarrow> min c l)"
  by (simp_all add: apply_or_create_limit_def split: option.split)

lemma access_insert_sel [simp]:
  "block_env_access_limit (access_insert f t) = block_env_access_limit t"
  "oracle_access_limit (access_insert f t) = oracle_access_limit t"
  "volatile_data_accessed (access_insert f t) = volatile_data_accessed t OR f"
  "disable_depth (access_insert f t) = disable_depth t"
  "vt_compute_gas_limit (access_insert f t) = vt_compute_gas_limit t"
  by (simp_all add: access_insert_def)

lemmas mark_defs = tracker_mark_block_env_accessed_def mark_beneficiary_balance_accessed_def
  check_and_mark_oracle_access_def

lemma volatile_step_sel [simp]:
  "block_env_access_limit (volatile_step ev t) = block_env_access_limit t"
  "oracle_access_limit (volatile_step ev t) = oracle_access_limit t"
  "disable_depth (volatile_step ev t) = disable_depth t"
  "volatile_data_accessed (volatile_step ev t) = volatile_data_accessed t OR event_flag ev"
  by (cases ev; simp add: mark_defs)+

lemma volatile_step_limit:
  "vt_compute_gas_limit (volatile_step ev t) =
     (case event_cap (block_env_access_limit t) (oracle_access_limit t) ev of
        None \<Rightarrow> vt_compute_gas_limit t
      | Some l \<Rightarrow> Some (case vt_compute_gas_limit t of None \<Rightarrow> l | Some c \<Rightarrow> min c l))"
  by (cases ev) (simp_all add: mark_defs)

text \<open>The reference: the minimum of all caps, absent when there is none.\<close>

definition min_cap :: "u64 list \<Rightarrow> u64 option" where
  "min_cap caps = (if caps = [] then None else Some (Min (set caps)))"

definition caps_of :: "u64 \<Rightarrow> u64 \<Rightarrow> volatile_event list \<Rightarrow> u64 list" where
  "caps_of block_env oracle evs = List.map_filter (event_cap block_env oracle) evs"

lemma min_cap_snoc:
  "min_cap (xs @ [x]) = Some (case min_cap xs of None \<Rightarrow> x | Some c \<Rightarrow> min c x)"
  by (simp add: min_cap_def min.commute)

lemma caps_of_snoc:
  "caps_of b r (evs @ [ev]) = caps_of b r evs @ (case event_cap b r ev of None \<Rightarrow> [] | Some l \<Rightarrow> [l])"
  by (simp add: caps_of_def map_filter_def split: option.split)

lemma volatile_run_limit:
  "vt_compute_gas_limit (fold volatile_step evs (volatile_new b r)) = min_cap (caps_of b r evs)
   \<and> block_env_access_limit (fold volatile_step evs (volatile_new b r)) = b
   \<and> oracle_access_limit (fold volatile_step evs (volatile_new b r)) = r"
proof (induction evs rule: rev_induct)
  case Nil
  show ?case
    by (simp add: volatile_new_def min_cap_def caps_of_def map_filter_def)
next
  case (snoc ev evs)
  then show ?case
    by (simp add: volatile_step_limit caps_of_snoc min_cap_snoc split: option.split)
qed

lemma caps_of_mset: "mset evs = mset evs' \<Longrightarrow> set (caps_of b r evs) = set (caps_of b r evs')"
  using mset_eq_setD [of evs evs'] by (auto simp: caps_of_def map_filter_def)

lemma min_cap_set_cong: "set xs = set ys \<Longrightarrow> min_cap xs = min_cap ys"
  by (cases xs; cases ys) (simp_all add: min_cap_def)

lemma volatile_run_accessed:
  "caps_of b r evs \<noteq> [] \<Longrightarrow> accessed (fold volatile_step evs (volatile_new b r))"
proof (induction evs rule: rev_induct)
  case Nil
  then show ?case by (simp add: caps_of_def map_filter_def)
next
  case (snoc ev evs)
  show ?case
  proof (cases "event_cap b r ev")
    case None
    with snoc show ?thesis by (simp add: caps_of_snoc accessed_def or_eq_0_iff_word)
  next
    case (Some l)
    then have "event_flag ev \<noteq> 0"
      by (cases ev) (auto simp: access_from_type_nonzero access_flag_defs split: if_splits)
    then show ?thesis by (simp add: accessed_def or_eq_0_iff_word)
  qed
qed

section \<open>Disabling a subtree\<close>

lemma control_step_inside:
  assumes "inside_subtree d op" and "disable_depth t = Some d"
  shows "disable_depth (control_step op t) = Some d"
  using assms
  by (cases op) (auto simp: disable_access_def enable_access_def enable_access_if_returning_def)

lemma control_run_inside:
  assumes "list_all (inside_subtree d) ops" and "disable_depth t = Some d"
  shows "disable_depth (fold control_step ops t) = Some d"
  using assms
  by (induction ops arbitrary: t) (simp_all add: control_step_inside)

lemma disable_access_depth_le:
  "\<exists>d'. disable_depth (disable_access d t) = Some d' \<and> d' \<le> d"
  by (auto simp: disable_access_def split: option.split)

section \<open>Properties\<close>

text \<open>
  Property C14 (detention_cap_is_minimum): the compute gas cap a transaction ends with. For any
  sequence of volatile accesses it is the smallest of the caps of the accesses made, none if there
  was none, and it does not depend on their order; the bitmap is not empty as soon as one was made.
\<close>

theorem detention_cap_is_minimum:
  assumes "mset evs = mset evs'"
  shows "get_compute_gas_limit (fold volatile_step evs (volatile_new b r)) = min_cap (caps_of b r evs)
    \<and> get_compute_gas_limit (fold volatile_step evs' (volatile_new b r)) =
        get_compute_gas_limit (fold volatile_step evs (volatile_new b r))
    \<and> (caps_of b r evs \<noteq> [] \<longrightarrow> accessed (fold volatile_step evs (volatile_new b r)))"
proof -
  have limit: "get_compute_gas_limit (fold volatile_step xs (volatile_new b r)) = min_cap (caps_of b r xs)"
    for xs using volatile_run_limit [of xs b r] by (simp add: get_compute_gas_limit_def)
  moreover have "min_cap (caps_of b r evs') = min_cap (caps_of b r evs)"
    using caps_of_mset [OF assms] min_cap_set_cong by metis
  moreover have "accessed (fold volatile_step evs (volatile_new b r))" if "caps_of b r evs \<noteq> []"
    using that volatile_run_accessed by blast
  ultimately show ?thesis by simp
qed

theorem detention_cap_is_minimum_witness:
  "get_compute_gas_limit (fold volatile_step [OracleEvent ORACLE_CONTRACT_ADDRESS, BlockEnvEvent Timestamp]
     (volatile_new 20 7)) = Some 7"
  using detention_cap_is_minimum [of "[OracleEvent ORACLE_CONTRACT_ADDRESS, BlockEnvEvent Timestamp]"
      "[OracleEvent ORACLE_CONTRACT_ADDRESS, BlockEnvEvent Timestamp]" 20 7]
  by (simp add: min_cap_def caps_of_def map_filter_def)

text \<open>
  Property C15 (disabled_subtree_stays_disabled): access control for a subtree of calls. Once
  access was disabled at depth \<open>d\<close>, whatever the frames below do, disabling, enabling and
  returning, access stays disabled for them, and none of their attempts to enable it succeeds; the
  frame that disabled it can enable it again.
\<close>

theorem disabled_subtree_stays_disabled:
  assumes "list_all (inside_subtree d) ops" and "disable_depth t = Some d" and "d < depth"
  shows "volatile_access_disabled depth (fold control_step ops t)
    \<and> enable_access depth (fold control_step ops t) = (False, fold control_step ops t)
    \<and> fst (enable_access d (fold control_step ops t))"
  using control_run_inside [OF assms(1,2)] assms(3)
  by (auto simp: volatile_access_disabled_def enable_access_def not_le)

theorem disabled_subtree_stays_disabled_witness:
  "volatile_access_disabled 4 (fold control_step [EnableCall 3, DisableCall 5, FrameReturn 2]
     (disable_access 2 (volatile_new 20 7)))"
proof -
  have "disable_depth (disable_access 2 (volatile_new 20 7)) = Some 2"
    by (simp add: disable_access_def volatile_new_def)
  from disabled_subtree_stays_disabled [OF _ this, of "[EnableCall 3, DisableCall 5, FrameReturn 2]" 4]
  show ?thesis by simp
qed

text \<open>
  The flag of an access type is a single declared bit and
  the discriminant that the Solidity interface sees is recovered from it.
\<close>

lemma access_type_flag_round_trip:
  "access_as_u8 (access_from_type ty) = access_type_as_u8 ty
   \<and> count_accessed (access_from_type ty) = 1
   \<and> (has_block_env_access (access_from_type ty) \<longleftrightarrow> ty \<noteq> Beneficiary \<and> ty \<noteq> Oracle)
   \<and> has_oracle_access (access_from_type ty) = (ty = Oracle)"
proof -
  have "count_accessed (access_from_type ty) = 1"
    and "has_block_env_access (access_from_type ty) \<longleftrightarrow> ty \<noteq> Beneficiary \<and> ty \<noteq> Oracle"
    and "has_oracle_access (access_from_type ty) = (ty = Oracle)"
    by (cases ty; simp add: access_from_type_eq count_accessed_def count_ones_def upt_rec
        has_block_env_access_def has_oracle_access_def access_flag_defs push_bit_eq_mult bit_simps)+
  then show ?thesis by (simp add: access_as_u8_from_type)
qed

end
