(* ===== verification/Revm_View.thy ===== *)
theory Revm_View
  imports Volatile_Access
begin

text \<open>
  The upstream data the sources exchange with \<^verbatim>\<open>revm\<close>: frame inputs, frame results, gas
  counters, storage write results, accounts. Only what the sources read or write is here. A method
  the sources call on an upstream value is a field (its observed result) or a component of
  the parameter record \<open>revm\<close>; nothing upstream is given a definition. The type variables
  \<open>'ir\<close> and \<open>'gas\<close> stand for \<^verbatim>\<open>InstructionResult\<close> and \<^verbatim>\<open>Gas\<close>.
\<close>

section \<open>Frame inputs and results\<close>

datatype CallScheme = SchemeCall | SchemeCallCode | SchemeDelegateCall | SchemeStaticCall

record CallInputs =
  ci_target_address :: address
  ci_caller :: address
  ci_scheme :: CallScheme
  ci_input :: bytes
  ci_gas_limit :: u64
  ci_return_memory_offset :: "usize \<times> usize"
  ci_value :: u256
  ci_transfer_value :: "u256 option"
  ci_transfers_value :: bool

record CreateInputs =
  cri_gas_limit :: u64

datatype FrameInput = EmptyInput | CallInput CallInputs | CreateInput CreateInputs

record FrameInit =
  fi_depth :: usize
  fi_input :: FrameInput

record ('ir, 'gas) InterpreterResult =
  ir_result :: 'ir
  ir_output :: bytes
  ir_gas :: 'gas

datatype ('ir, 'gas) FrameResult =
    CallResult "('ir, 'gas) InterpreterResult" "usize \<times> usize"
  | CreateResult "('ir, 'gas) InterpreterResult" "address option"

datatype ('ir, 'gas) InterpreterAction =
    ReturnAction "('ir, 'gas) InterpreterResult"
  | NewFrameAction FrameInput

datatype ('a, 'b) ItemOrResult = Item 'a | ResultItem 'b

record 'gas EthFrame =
  frame_is_create :: bool
  frame_created_address :: "address option"
  frame_gas :: 'gas

text \<open>The interpreter result inside a frame result, and an update of it.\<close>

fun interp_of :: "('ir, 'gas) FrameResult \<Rightarrow> ('ir, 'gas) InterpreterResult" where
  "interp_of (CallResult r _) = r"
| "interp_of (CreateResult r _) = r"

fun map_interp ::
  "(('ir, 'gas) InterpreterResult \<Rightarrow> ('ir, 'gas) InterpreterResult) \<Rightarrow>
   ('ir, 'gas) FrameResult \<Rightarrow> ('ir, 'gas) FrameResult" where
  "map_interp f (CallResult r offset) = CallResult (f r) offset"
| "map_interp f (CreateResult r a) = CreateResult (f r) a"

lemma interp_of_map_interp [simp]: "interp_of (map_interp f r) = f (interp_of r)"
  by (cases r) simp_all

section \<open>Upstream operations\<close>

record ('ir, 'gas) revm =
  IR_Revert :: 'ir
  IR_OutOfGas :: 'ir
  IR_Return :: 'ir
  ir_is_ok :: "'ir \<Rightarrow> bool"
  gas_new :: "u64 \<Rightarrow> 'gas"
  gas_new_spent :: "u64 \<Rightarrow> 'gas"
  gas_limit_of :: "'gas \<Rightarrow> u64"
  gas_remaining :: "'gas \<Rightarrow> u64"
  gas_record_cost :: "u64 \<Rightarrow> 'gas \<Rightarrow> bool \<times> 'gas"
  gas_erase_cost :: "u64 \<Rightarrow> 'gas \<Rightarrow> 'gas"

text \<open>What the upstream documentation says of these operations.\<close>

definition revm_documented :: "('ir, 'gas) revm \<Rightarrow> bool" where
  "revm_documented R \<longleftrightarrow>
     \<not> ir_is_ok R (IR_Revert R) \<and> \<not> ir_is_ok R (IR_OutOfGas R) \<and> ir_is_ok R (IR_Return R) \<and>
     (\<forall>l. gas_remaining R (gas_new R l) = l) \<and> (\<forall>l. gas_limit_of R (gas_new R l) = l)"

section \<open>Storage writes\<close>

record SStoreResult =
  original_value :: u256
  present_value :: u256
  new_value :: u256
  is_original_eq_present :: bool
  is_original_eq_new :: bool

definition sstore_documented :: "SStoreResult \<Rightarrow> bool" where
  "sstore_documented s \<longleftrightarrow>
     (is_original_eq_present s \<longleftrightarrow> original_value s = present_value s) \<and>
     (is_original_eq_new s \<longleftrightarrow> original_value s = new_value s)"

section \<open>Accounts\<close>

datatype Bytecode = Eip7702 address | PlainCode bytes

record AccountInfo =
  balance :: u256
  nonce :: u64
  code_hash :: b256
  code :: "Bytecode option"

record EvmStorageSlot =
  slot_original_value :: u256
  slot_present_value :: u256
  slot_transaction_id :: usize
  slot_is_cold :: bool

text \<open>The flags of an account's status, one field each: the upstream type is a set of flags.\<close>

record AccountStatus =
  st_created :: bool
  st_created_local :: bool
  st_self_destructed :: bool
  st_self_destructed_local :: bool
  st_touched :: bool
  st_loaded_as_not_existing :: bool
  st_cold :: bool

definition empty_status :: AccountStatus where
  "empty_status = \<lparr>st_created = False, st_created_local = False, st_self_destructed = False,
     st_self_destructed_local = False, st_touched = False, st_loaded_as_not_existing = False,
     st_cold = False\<rparr>"

record Account =
  acc_info :: AccountInfo
  acc_transaction_id :: usize
  acc_storage :: "u256 \<rightharpoonup> EvmStorageSlot"
  acc_status :: AccountStatus

definition acc_is_cold :: "Account \<Rightarrow> bool" where
  "acc_is_cold account = st_cold (acc_status account)"

definition mark_cold :: "Account \<Rightarrow> Account" where
  "mark_cold account = account\<lparr>acc_status := (acc_status account)\<lparr>st_cold := True\<rparr>\<rparr>"

lemma mark_cold_sel [simp]:
  "acc_is_cold (mark_cold a)" "acc_storage (mark_cold a) = acc_storage a"
  "acc_info (mark_cold a) = acc_info a"
  "acc_is_cold (a\<lparr>acc_info := i\<rparr>) = acc_is_cold a"
  "acc_is_cold (a\<lparr>acc_storage := m\<rparr>) = acc_is_cold a"
  by (simp_all add: acc_is_cold_def mark_cold_def)

text \<open>The database behind a journal and the upstream account constructors. A database access may
  fail with an error of type \<open>'e\<close>.\<close>

record 'e Database =
  db_basic :: "address \<Rightarrow> 'e + AccountInfo option"
  db_code_by_hash :: "b256 \<Rightarrow> 'e + Bytecode"
  db_storage :: "address \<Rightarrow> u256 \<Rightarrow> 'e + u256"
  db_block_hash :: "u64 \<Rightarrow> 'e + b256"
  KECCAK_EMPTY :: b256
  slot_new :: "u256 \<Rightarrow> usize \<Rightarrow> EvmStorageSlot"
  account_of_info :: "AccountInfo \<Rightarrow> Account"
  account_not_existing :: "usize \<Rightarrow> Account"
  account_is_empty :: "Account \<Rightarrow> bool"

record Journal =
  j_state :: "address \<rightharpoonup> Account"
  j_transaction_id :: usize
  j_depth :: usize

section \<open>A concrete instance\<close>

text \<open>An instance of the parameters, for the witnesses: instruction results are numbers, a gas counter
  is its remaining gas, the database is empty.\<close>

definition sample_revm :: "(nat, u64) revm" where
  "sample_revm = \<lparr>IR_Revert = 0, IR_OutOfGas = 1, IR_Return = 2, ir_is_ok = (\<lambda>r. r = 2),
     gas_new = (\<lambda>l. l), gas_new_spent = (\<lambda>_. 0), gas_limit_of = (\<lambda>g. g),
     gas_remaining = (\<lambda>g. g),
     gas_record_cost = (\<lambda>c g. if c \<le> g then (True, g - c) else (False, g)),
     gas_erase_cost = (\<lambda>c g. g + c)\<rparr>"

definition empty_account_info :: AccountInfo where
  "empty_account_info = \<lparr>balance = 0, nonce = 0, code_hash = 0, code = None\<rparr>"

definition sample_database :: "unit Database" where
  "sample_database = \<lparr>db_basic = (\<lambda>_. Inr None), db_code_by_hash = (\<lambda>_. Inr (PlainCode [])),
     db_storage = (\<lambda>_ _. Inr 0), db_block_hash = (\<lambda>_. Inr 0), KECCAK_EMPTY = 0,
     slot_new = (\<lambda>v t. \<lparr>slot_original_value = v, slot_present_value = v, slot_transaction_id = t,
                        slot_is_cold = False\<rparr>),
     account_of_info = (\<lambda>i. \<lparr>acc_info = i, acc_transaction_id = 0, acc_storage = Map.empty,
                             acc_status = empty_status\<rparr>),
     account_not_existing = (\<lambda>t. \<lparr>acc_info = empty_account_info, acc_transaction_id = t,
        acc_storage = Map.empty, acc_status = empty_status\<lparr>st_loaded_as_not_existing := True\<rparr>\<rparr>),
     account_is_empty = (\<lambda>a. balance (acc_info a) = 0 \<and> nonce (acc_info a) = 0)\<rparr>"

lemma sample_revm_sel [simp]:
  "IR_Revert sample_revm = 0" "IR_OutOfGas sample_revm = 1" "IR_Return sample_revm = 2"
  "ir_is_ok sample_revm r = (r = 2)" "gas_new sample_revm l = l" "gas_new_spent sample_revm l = 0"
  "gas_remaining sample_revm g = g" "gas_limit_of sample_revm g = g"
  by (simp_all add: sample_revm_def)

lemma sample_revm_documented: "revm_documented sample_revm"
  by (simp add: revm_documented_def)

end
