(* ===== verification/Journal_Inspect.thy ===== *)
theory Journal_Inspect
  imports Revm_View
begin

text \<open>
  The inspecting accessors of \<^verbatim>\<open>evm/host.rs\<close> (\<^verbatim>\<open>inspect_account\<close> and \<^verbatim>\<open>JournalInspectTr\<close>
  for \<^verbatim>\<open>Journal\<close>): they load an account or a slot into the journal without warming it, and
  follow EIP-7702 delegation. An accessor returns the error or the account together with the
  journal it leaves behind.

  The loop that follows delegations before Rex4 has a termination proof that does not depend on the
  database: every second iteration at the latest adds a new address to the finite set of visited
  ones. The lemmas show what the accessors change in the journal (nothing becomes warm, no cached
  storage changes) and which account the resolution stops at.
\<close>

section \<open>Accessors\<close>

definition inspect_account ::
  "'e Database \<Rightarrow> address \<Rightarrow> Journal \<Rightarrow> ('e + Account) \<times> Journal" where
  "inspect_account D address j =
     (case j_state j address of
        Some account \<Rightarrow>
          if code_hash (acc_info account) \<noteq> KECCAK_EMPTY D \<and> code (acc_info account) = None
          then (case db_code_by_hash D (code_hash (acc_info account)) of
                  Inl e \<Rightarrow> (Inl e, j)
                | Inr c \<Rightarrow>
                    let account' = account\<lparr>acc_info := (acc_info account)\<lparr>code := Some c\<rparr>\<rparr>
                    in (Inr account', j\<lparr>j_state := (j_state j)(address \<mapsto> account')\<rparr>))
          else (Inr account, j)
      | None \<Rightarrow>
          (case db_basic D address of
             Inl e \<Rightarrow> (Inl e, j)
           | Inr r \<Rightarrow>
               let account = (case r of Some i \<Rightarrow> account_of_info D i
                                      | None \<Rightarrow> account_not_existing D (j_transaction_id j));
                   account' = mark_cold account
               in (Inr account', j\<lparr>j_state := (j_state j)(address \<mapsto> account')\<rparr>)))"

definition delegate_of :: "Account \<Rightarrow> address option" where
  "delegate_of account =
     (case code (acc_info account) of Some (Eip7702 a) \<Rightarrow> Some a | _ \<Rightarrow> None)"

text \<open>The pre-Rex4 loop. \<open>visited\<close> is the vector of addresses left behind.\<close>

function follow_delegation ::
  "'e Database \<Rightarrow> address \<Rightarrow> address list \<Rightarrow> Journal \<Rightarrow> ('e + address \<times> Account) \<times> Journal" where
  "follow_delegation D current visited j =
     (case inspect_account D current j of
        (Inl e, j') \<Rightarrow> (Inl e, j')
      | (Inr account, j') \<Rightarrow>
          (case delegate_of account of
             None \<Rightarrow> (Inr (current, account), j')
           | Some nxt \<Rightarrow>
               if nxt \<in> set visited then (Inr (current, account), j')
               else follow_delegation D nxt (visited @ [current]) j'))"
  by pat_completeness auto
termination
proof (relation "measures [\<lambda>(D, current, visited, j). card (- set visited),
    \<lambda>(D, current, visited, j). if current \<in> set visited then 1 else 0]", goal_cases)
  case 1
  show ?case by simp
next
  case (2 D current visited j r j' account nxt)
  show ?case
  proof (cases "current \<in> set visited")
    case True
    then have "set (visited @ [current]) = set visited" by auto
    with 2 True show ?thesis by auto
  next
    case False
    have "- set (visited @ [current]) \<subset> - set visited" using False by auto
    then have "card (- set (visited @ [current])) < card (- set visited)"
      by (intro psubset_card_mono) simp_all
    then show ?thesis by simp
  qed
qed

declare follow_delegation.simps [simp del]

text \<open>A resolved account is returned with the address it lives at: the reference of the source.\<close>

definition inspect_account_at ::
  "'e Database \<Rightarrow> address \<Rightarrow> Journal \<Rightarrow> ('e + address \<times> Account) \<times> Journal" where
  "inspect_account_at D address j = apfst (map_sum id (Pair address)) (inspect_account D address j)"

definition inspect_account_delegated ::
  "'e Database \<Rightarrow> MegaSpecId \<Rightarrow> address \<Rightarrow> Journal \<Rightarrow> ('e + address \<times> Account) \<times> Journal" where
  "inspect_account_delegated D spec address j =
     (case inspect_account D address j of
        (Inl e, j1) \<Rightarrow> (Inl e, j1)
      | (Inr account, j1) \<Rightarrow>
          (case delegate_of account of
             None \<Rightarrow> (Inr (address, account), j1)
           | Some delegated \<Rightarrow>
               if is_enabled spec REX4 then inspect_account_at D delegated j1
               else follow_delegation D delegated [address] j1))"

text \<open>\<^verbatim>\<open>inspect_storage\<close>: the account is looked up again before each use, as the source does to
  satisfy the borrow checker. Before Rex4 the cached slot belongs to the delegate while a missing one
  is read from the database of the original address.\<close>

definition inspect_owner ::
  "'e Database \<Rightarrow> MegaSpecId \<Rightarrow> address \<Rightarrow> Journal \<Rightarrow> ('e + address \<times> Account) \<times> Journal" where
  "inspect_owner D spec address j =
     (if is_enabled spec REX4 then inspect_account_at D address j
      else inspect_account_delegated D spec address j)"

definition inspect_storage ::
  "'e Database \<Rightarrow> MegaSpecId \<Rightarrow> address \<Rightarrow> u256 \<Rightarrow> Journal \<Rightarrow> (('e + EvmStorageSlot) \<times> Journal) option"
  where
  "inspect_storage D spec address key j =
     (case inspect_owner D spec address j of
        (Inl e, j1) \<Rightarrow> Some (Inl e, j1)
      | (Inr (_, account), j1) \<Rightarrow>
          if acc_storage account key \<noteq> None
          then (case inspect_owner D spec address j1 of
                  (Inl e, j2) \<Rightarrow> Some (Inl e, j2)
                | (Inr (_, account), j2) \<Rightarrow> do {
                    slot \<leftarrow> acc_storage account key;
                    Some (Inr slot, j2)
                  })
          else (case db_storage D address key of
                  Inl e \<Rightarrow> Some (Inl e, j1)
                | Inr v \<Rightarrow>
                    let slot = (slot_new D v (j_transaction_id j))\<lparr>slot_is_cold := True\<rparr> in
                    (case inspect_owner D spec address j1 of
                       (Inl e, j2) \<Rightarrow> Some (Inl e, j2)
                     | (Inr (owner, account), j2) \<Rightarrow>
                         let account' = account\<lparr>acc_storage := (acc_storage account)(key \<mapsto> slot)\<rparr>
                         in do {
                           slot \<leftarrow> acc_storage account' key;
                           Some (Inr slot, j2\<lparr>j_state := (j_state j2)(owner \<mapsto> account')\<rparr>)
                         })))"

section \<open>What inspection does to the journal\<close>

text \<open>A journal extends another when every cached account keeps its temperature and its storage and
  every new one is cold.\<close>

fun inspected_entry :: "Account option \<Rightarrow> Account option \<Rightarrow> bool" where
  "inspected_entry None None = True"
| "inspected_entry None (Some new) = acc_is_cold new"
| "inspected_entry (Some old) None = False"
| "inspected_entry (Some old) (Some new) =
     (acc_is_cold new = acc_is_cold old \<and> acc_storage new = acc_storage old)"

definition only_inspected :: "Journal \<Rightarrow> Journal \<Rightarrow> bool" where
  "only_inspected j j' \<longleftrightarrow>
     j_depth j' = j_depth j \<and> j_transaction_id j' = j_transaction_id j \<and>
     (\<forall>a. inspected_entry (j_state j a) (j_state j' a))"

lemma inspected_entry_refl [simp]: "inspected_entry x x"
  by (cases x) simp_all

lemma inspected_entry_trans:
  "inspected_entry x y \<Longrightarrow> inspected_entry y z \<Longrightarrow> inspected_entry x z"
  by (cases x; cases y; cases z) simp_all

lemma only_inspected_refl [simp]: "only_inspected j j"
  by (simp add: only_inspected_def)

lemma only_inspected_trans:
  "only_inspected j j' \<Longrightarrow> only_inspected j' j'' \<Longrightarrow> only_inspected j j''"
  unfolding only_inspected_def using inspected_entry_trans by metis

lemma inspect_account_only_inspected:
  assumes "inspect_account D a j = (r, j')"
  shows "only_inspected j j'"
  using assms
  by (auto simp: inspect_account_def only_inspected_def Let_def
      split: option.splits sum.splits if_splits)

lemma inspect_account_at_only_inspected:
  assumes "inspect_account_at D a j = (r, j')"
  shows "only_inspected j j'"
  using assms inspect_account_only_inspected [of D a j "fst (inspect_account D a j)"]
  by (cases "inspect_account D a j") (auto simp: inspect_account_at_def)

lemma inspect_account_cached:
  assumes "inspect_account D a j = (Inr acc, j')"
  shows "j_state j' a = Some acc"
  using assms
  by (auto simp: inspect_account_def Let_def split: option.splits sum.splits if_splits)

lemma inspect_account_other:
  assumes "inspect_account D a j = (r, j')" and "b \<noteq> a"
  shows "j_state j' b = j_state j b"
  using assms
  by (auto simp: inspect_account_def Let_def split: option.splits sum.splits if_splits)

lemma follow_delegation_only_inspected:
  assumes "follow_delegation D current visited j = (r, j')"
  shows "only_inspected j j'"
  using assms
proof (induction D current visited j arbitrary: r j' rule: follow_delegation.induct)
  case (1 D current visited j)
  obtain r1 j1 where ins: "inspect_account D current j = (r1, j1)" by fastforce
  then have j1: "only_inspected j j1" by (rule inspect_account_only_inspected)
  show ?case
  proof (cases r1)
    case (Inl e)
    with ins 1(2) j1 show ?thesis by (simp add: follow_delegation.simps)
  next
    case (Inr acc)
    show ?thesis
    proof (cases "\<exists>nxt. delegate_of acc = Some nxt \<and> nxt \<notin> set visited")
      case True
      then obtain nxt where nxt: "delegate_of acc = Some nxt" "nxt \<notin> set visited" by blast
      have "follow_delegation D nxt (visited @ [current]) j1 = (r, j')"
        using 1(2) ins Inr nxt by (subst (asm) follow_delegation.simps) simp
      with 1(1) [OF ins [symmetric] Inr nxt] have "only_inspected j1 j'" by blast
      with j1 show ?thesis by (rule only_inspected_trans)
    next
      case False
      then show ?thesis
        using 1(2) ins Inr j1 by (auto simp: follow_delegation.simps split: option.splits)
    qed
  qed
qed

lemma inspect_account_delegated_only_inspected:
  assumes "inspect_account_delegated D spec a j = (r, j')"
  shows "only_inspected j j'"
  using assms
  by (auto simp: inspect_account_delegated_def split: prod.splits sum.splits option.splits if_splits
      intro: only_inspected_trans
      dest: inspect_account_only_inspected inspect_account_at_only_inspected
        follow_delegation_only_inspected)

lemma inspect_owner_only_inspected:
  assumes "inspect_owner D spec a j = (r, j')"
  shows "only_inspected j j'"
  using assms inspect_account_at_only_inspected inspect_account_delegated_only_inspected
  by (auto simp: inspect_owner_def split: if_splits)

section \<open>Looking up twice\<close>

text \<open>An account whose code is loaded, or that has none, is settled: inspecting it changes nothing,
  and inspecting others does not change it. Every account on a followed chain but the last is settled,
  and the last one is when it has cached storage.\<close>

definition settled :: "'e Database \<Rightarrow> Account \<Rightarrow> bool" where
  "settled D acc \<longleftrightarrow> code (acc_info acc) \<noteq> None \<or> code_hash (acc_info acc) = KECCAK_EMPTY D"

definition keeps_settled :: "'e Database \<Rightarrow> Journal \<Rightarrow> Journal \<Rightarrow> bool" where
  "keeps_settled D j j' \<longleftrightarrow>
     (\<forall>a acc. j_state j a = Some acc \<longrightarrow> settled D acc \<longrightarrow> j_state j' a = Some acc)"

definition new_accounts_bare :: "'e Database \<Rightarrow> bool" where
  "new_accounts_bare D \<longleftrightarrow> (\<forall>i. acc_storage (account_of_info D i) = Map.empty)
     \<and> (\<forall>t. acc_storage (account_not_existing D t) = Map.empty)"

lemma keeps_settled_refl [simp]: "keeps_settled D j j"
  by (simp add: keeps_settled_def)

lemma keeps_settled_trans: "keeps_settled D j j' \<Longrightarrow> keeps_settled D j' j'' \<Longrightarrow> keeps_settled D j j''"
  by (simp add: keeps_settled_def)

lemma inspect_settled:
  "j_state j a = Some acc \<Longrightarrow> settled D acc \<Longrightarrow> inspect_account D a j = (Inr acc, j)"
  by (auto simp: inspect_account_def settled_def)

lemma inspect_account_keeps_settled:
  assumes "inspect_account D a j = (r, j')"
  shows "keeps_settled D j j'"
  using assms
  by (auto simp: inspect_account_def keeps_settled_def settled_def Let_def
      split: option.splits sum.splits if_splits)

lemma delegating_settled: "delegate_of acc = Some b \<Longrightarrow> settled D acc"
  by (auto simp: delegate_of_def settled_def split: option.splits)

lemma stored_settled:
  assumes "new_accounts_bare D" and "inspect_account D a j = (Inr acc, j')"
    and "acc_storage acc key \<noteq> None"
  shows "settled D acc"
  using assms
  by (auto simp: inspect_account_def new_accounts_bare_def settled_def Let_def
      split: option.splits sum.splits if_splits)

lemma follow_delegation_again:
  assumes "new_accounts_bare D" and "follow_delegation D current visited j = (Inr (owner, acc), j')"
    and "acc_storage acc key \<noteq> None"
  shows "keeps_settled D j j' \<and>
    (\<forall>k. keeps_settled D j' k \<longrightarrow> follow_delegation D current visited k = (Inr (owner, acc), k))"
  using assms
proof (induction D current visited j rule: follow_delegation.induct)
  case (1 D current visited j)
  obtain acc1 j1 where ins: "inspect_account D current j = (Inr acc1, j1)"
    using 1(3) by (subst (asm) follow_delegation.simps) (auto split: prod.splits sum.splits)
  note cached = inspect_account_cached [OF ins] and keeps = inspect_account_keeps_settled [OF ins]
  show ?case
  proof (cases "\<exists>nxt. delegate_of acc1 = Some nxt \<and> nxt \<notin> set visited")
    case True
    then obtain nxt where nxt: "delegate_of acc1 = Some nxt" "nxt \<notin> set visited" by blast
    then have rest: "follow_delegation D nxt (visited @ [current]) j1 = (Inr (owner, acc), j')"
      using 1(3) ins by (subst (asm) follow_delegation.simps) simp
    note IH = 1(1) [OF ins [symmetric] refl nxt 1(2) rest 1(4)]
    have settled: "settled D acc1" using nxt(1) by (rule delegating_settled)
    have "follow_delegation D current visited k = (Inr (owner, acc), k)" if k: "keeps_settled D j' k" for k
    proof -
      have "j_state k current = Some acc1"
        using IH k cached settled by (simp add: keeps_settled_def)
      then show ?thesis
        using IH k nxt inspect_settled [OF _ settled]
        by (subst follow_delegation.simps) simp
    qed
    then show ?thesis using IH keeps keeps_settled_trans by blast
  next
    case False
    then have here: "owner = current" "acc = acc1" "j' = j1"
      using 1(3) ins by (subst (asm) follow_delegation.simps; auto split: option.splits if_splits)+
    have settled: "settled D acc1" using stored_settled [OF 1(2) ins] 1(4) here by simp
    have "follow_delegation D current visited k = (Inr (owner, acc), k)" if k: "keeps_settled D j' k" for k
      using inspect_settled [OF _ settled, of k current] k cached settled here False
      by (subst follow_delegation.simps) (auto simp: keeps_settled_def split: option.splits)
    then show ?thesis using keeps here by blast
  qed
qed

lemma follow_delegation_cached:
  assumes "follow_delegation D current visited j = (Inr (owner, acc), j')"
  shows "j_state j' owner = Some acc"
  using assms
proof (induction D current visited j rule: follow_delegation.induct)
  case (1 D current visited j)
  obtain acc1 j1 where ins: "inspect_account D current j = (Inr acc1, j1)"
    using 1(2) by (subst (asm) follow_delegation.simps) (auto split: prod.splits sum.splits)
  show ?case
    using 1(2) 1(1) [OF ins [symmetric] refl] ins inspect_account_cached [OF ins]
    by (subst (asm) follow_delegation.simps) (auto split: option.splits if_splits)
qed

lemma inspect_account_at_eq_iff:
  "inspect_account_at D a j = (Inr (owner, acc), j') \<longleftrightarrow>
     owner = a \<and> inspect_account D a j = (Inr acc, j')"
  by (cases "inspect_account D a j"; cases "fst (inspect_account D a j)")
    (auto simp: inspect_account_at_def)

lemma inspect_account_again:
  assumes "new_accounts_bare D" and "inspect_account D a j = (Inr acc, j')"
    and "acc_storage acc key \<noteq> None"
  shows "inspect_account D a j' = (Inr acc, j')"
  using inspect_settled [OF inspect_account_cached [OF assms(2)] stored_settled [OF assms]] .

lemma inspect_owner_again:
  assumes "new_accounts_bare D" and "inspect_owner D spec a j = (Inr (owner, acc), j')"
    and "acc_storage acc key \<noteq> None"
  shows "inspect_owner D spec a j' = (Inr (owner, acc), j')"
proof (cases "is_enabled spec REX4")
  case True
  then have ins: "owner = a" "inspect_account D a j = (Inr acc, j')"
    using assms(2) by (simp_all add: inspect_owner_def inspect_account_at_eq_iff)
  then show ?thesis
    using inspect_account_again [OF assms(1) ins(2) assms(3)] True
    by (simp add: inspect_owner_def inspect_account_at_eq_iff)
next
  case False
  then have run: "inspect_account_delegated D spec a j = (Inr (owner, acc), j')"
    using assms(2) by (simp add: inspect_owner_def)
  then obtain acc1 j1 where ins: "inspect_account D a j = (Inr acc1, j1)"
    by (auto simp: inspect_account_delegated_def split: prod.splits sum.splits)
  show ?thesis
  proof (cases "delegate_of acc1")
    case None
    with run ins have "owner = a" "acc = acc1" "j' = j1"
      by (auto simp: inspect_account_delegated_def)
    then show ?thesis
      using inspect_account_again [OF assms(1) ins] assms(3) None False
      by (simp add: inspect_owner_def inspect_account_delegated_def)
  next
    case (Some b)
    with run ins False have rest: "follow_delegation D b [a] j1 = (Inr (owner, acc), j')"
      by (simp add: inspect_account_delegated_def)
    note again = follow_delegation_again [OF assms(1) rest assms(3)]
    have "settled D acc1" using Some by (rule delegating_settled)
    moreover have "j_state j' a = Some acc1"
      using again inspect_account_cached [OF ins] calculation by (simp add: keeps_settled_def)
    ultimately show ?thesis
      using again Some False inspect_settled [of j' a acc1 D]
      by (simp add: inspect_owner_def inspect_account_delegated_def)
  qed
qed

lemma inspect_owner_cached:
  assumes "inspect_owner D spec a j = (Inr (owner, acc), j')"
  shows "j_state j' owner = Some acc \<and> (is_enabled spec REX4 \<longrightarrow> owner = a)"
  using assms inspect_account_cached follow_delegation_cached
  by (fastforce simp: inspect_owner_def inspect_account_at_eq_iff inspect_account_delegated_def
      split: if_splits prod.splits sum.splits option.splits)

text \<open>What the lookup of a slot may do to an account: nothing becomes warm, nothing cached changes, and
  added slots are cold.\<close>

fun storage_inspected :: "Account option \<Rightarrow> Account option \<Rightarrow> bool" where
  "storage_inspected None None = True"
| "storage_inspected None (Some new) = acc_is_cold new"
| "storage_inspected (Some old) None = False"
| "storage_inspected (Some old) (Some new) =
     (acc_is_cold new = acc_is_cold old \<and>
      (\<forall>k. acc_storage new k = acc_storage old k
         \<or> acc_storage old k = None \<and> map_option slot_is_cold (acc_storage new k) = Some True))"

lemma inspected_is_storage_inspected:
  "only_inspected j j' \<Longrightarrow> storage_inspected (j_state j x) (j_state j' x)"
proof -
  have "inspected_entry p q \<Longrightarrow> storage_inspected p q" for p q
    by (cases p; cases q) simp_all
  then show "only_inspected j j' \<Longrightarrow> storage_inspected (j_state j x) (j_state j' x)"
    by (simp add: only_inspected_def)
qed

lemma storage_inspected_insert:
  assumes "storage_inspected old (Some new)" and "acc_storage new key = None" and "slot_is_cold slot"
  shows "storage_inspected old (Some (new\<lparr>acc_storage := (acc_storage new)(key \<mapsto> slot)\<rparr>))"
proof (cases old)
  case (Some acc)
  then have "acc_storage acc key = None" using assms(1,2) by (auto dest!: spec [of _ key])
  then show ?thesis using assms Some by auto
qed (use assms in simp)

lemma inspect_owner_same_storage:
  assumes "is_enabled spec REX4" and "inspect_owner D spec a j = (Inr (owner, acc), j1)"
    and "inspect_owner D spec a j1 = (Inr (owner2, acc2), j2)"
  shows "acc_storage acc2 = acc_storage acc"
proof -
  have "owner = a" "owner2 = a" "j_state j1 a = Some acc" "j_state j2 a = Some acc2"
    using inspect_owner_cached [OF assms(2)] inspect_owner_cached [OF assms(3)] assms(1) by auto
  moreover have "inspected_entry (j_state j1 a) (j_state j2 a)"
    using inspect_owner_only_inspected [OF assms(3)] by (simp add: only_inspected_def)
  ultimately show ?thesis by simp
qed

definition sample_cached_journal :: Journal where
  "sample_cached_journal = \<lparr>j_state = Map.empty, j_transaction_id = 3, j_depth = 1\<rparr>"

section \<open>Properties\<close>

text \<open>
  Property C16 (inspection_never_warms): looking through an account and its EIP-7702 delegation
  terminates and leaves the journal as it was up to cached data: no account becomes warm, no cached
  storage changes, every account that is added is cold, and neither the depth nor the transaction
  id moves; in Rex4 at most one delegation is followed.
\<close>

theorem inspection_never_warms:
  "only_inspected j (snd (inspect_account_delegated D spec a j))
   \<and> (is_enabled spec REX4 \<longrightarrow>
       (\<exists>b. {x. j_state (snd (inspect_account_delegated D spec a j)) x \<noteq> j_state j x} \<subseteq> {a, b}))"
proof -
  obtain r j' where run: "inspect_account_delegated D spec a j = (r, j')" by fastforce
  obtain r1 j1 where first: "inspect_account D a j = (r1, j1)" by fastforce
  have "\<exists>b. \<forall>x. x \<noteq> a \<longrightarrow> x \<noteq> b \<longrightarrow> j_state j' x = j_state j x" if rex4: "is_enabled spec REX4"
  proof (cases "\<exists>acc b. r1 = Inr acc \<and> delegate_of acc = Some b")
    case True
    then obtain acc b where acc: "r1 = Inr acc" "delegate_of acc = Some b" by blast
    obtain r2 where "inspect_account D b j1 = (r2, j')"
      using run first rex4 acc
      by (cases "inspect_account D b j1")
        (simp add: inspect_account_delegated_def inspect_account_at_def)
    then have "j_state j' x = j_state j x" if "x \<noteq> a" "x \<noteq> b" for x
      using inspect_account_other [OF first] inspect_account_other [of D b j1 r2 j' x] that by simp
    then show ?thesis by blast
  next
    case False
    with run first have "j' = j1"
      by (auto simp: inspect_account_delegated_def split: sum.splits option.splits)
    then show ?thesis using inspect_account_other [OF first] by auto
  qed
  then show ?thesis
    using inspect_account_delegated_only_inspected [OF run] run by fastforce
qed

theorem inspection_never_warms_witness:
  "only_inspected \<lparr>j_state = Map.empty, j_transaction_id = 0, j_depth = 0\<rparr>
     (snd (inspect_account_delegated sample_database REX4 7
       \<lparr>j_state = Map.empty, j_transaction_id = 0, j_depth = 0\<rparr>))"
  using inspection_never_warms by blast

text \<open>
  Property C17 (storage_inspection_is_safe): looking at a storage slot. The lookups never disagree,
  so the code finds the slot it has just seen or inserted and does not panic. In Rex4 the slot
  belongs to the given address, no account and no slot becomes warm, a cached slot keeps its
  content, and an added slot is cold.
\<close>

theorem storage_inspection_is_safe:
  assumes "new_accounts_bare D"
  shows "\<exists>r j'. inspect_storage D spec a key j = Some (r, j')
    \<and> (\<forall>slot. r = Inr slot \<longrightarrow> (\<exists>owner acc. j_state j' owner = Some acc
         \<and> acc_storage acc key = Some slot \<and> (is_enabled spec REX4 \<longrightarrow> owner = a)))
    \<and> (is_enabled spec REX4 \<longrightarrow> (\<forall>x. storage_inspected (j_state j x) (j_state j' x)))"
proof -
  obtain r1 j1 where first: "inspect_owner D spec a j = (r1, j1)" by fastforce
  note only1 = inspect_owner_only_inspected [OF first]
  consider (fail) e where "r1 = Inl e"
    | (hit) owner acc slot where "r1 = Inr (owner, acc)" "acc_storage acc key = Some slot"
    | (db_fail) owner acc e where "r1 = Inr (owner, acc)" "acc_storage acc key = None"
        "db_storage D a key = Inl e"
    | (miss) owner acc v where "r1 = Inr (owner, acc)" "acc_storage acc key = None"
        "db_storage D a key = Inr v"
    by (cases r1; cases "db_storage D a key") (auto, metis option.exhaust, metis option.exhaust)
  then show ?thesis
  proof cases
    case hit
    then show ?thesis
      using first only1 inspect_owner_again [OF assms, of spec a j owner acc j1 key]
        inspect_owner_cached [of D spec a j owner acc j1]
      by (auto simp: inspect_storage_def inspected_is_storage_inspected)
  next
    case miss
    obtain r2 j2 where second: "inspect_owner D spec a j1 = (r2, j2)" by fastforce
    note only2 = only_inspected_trans [OF only1 inspect_owner_only_inspected [OF second]]
    show ?thesis
    proof (cases r2)
      case Inl
      then show ?thesis
        using first miss second only2 by (simp add: inspect_storage_def inspected_is_storage_inspected)
    next
      case (Inr again)
      obtain owner2 acc2 where again: "again = (owner2, acc2)" by fastforce
      define slot where "slot = (slot_new D v (j_transaction_id j))\<lparr>slot_is_cold := True\<rparr>"
      have run: "inspect_storage D spec a key j = Some (Inr slot, j2\<lparr>j_state := (j_state j2)(owner2 \<mapsto>
          acc2\<lparr>acc_storage := (acc_storage acc2)(key \<mapsto> slot)\<rparr>)\<rparr>)"
        using first miss second Inr again by (simp add: inspect_storage_def slot_def Let_def)
      have at: "j_state j2 owner2 = Some acc2 \<and> (is_enabled spec REX4 \<longrightarrow> owner2 = a)"
        using second Inr again by (intro inspect_owner_cached) simp
      have "storage_inspected (j_state j owner2)
          (Some (acc2\<lparr>acc_storage := (acc_storage acc2)(key \<mapsto> slot)\<rparr>))" if "is_enabled spec REX4"
        using inspected_is_storage_inspected [OF only2, of owner2] at miss(2)
          inspect_owner_same_storage [OF that first [unfolded miss(1)] second [unfolded Inr again]]
        by (intro storage_inspected_insert) (simp_all add: slot_def)
      then show ?thesis
        using run at only2 by (auto simp: inspected_is_storage_inspected)
    qed
  qed (use first only1 in \<open>simp_all add: inspect_storage_def inspected_is_storage_inspected\<close>)
qed

theorem storage_inspection_is_safe_witness:
  "\<exists>r j'. inspect_storage sample_database REX4 7 1 sample_cached_journal = Some (r, j')
     \<and> (\<forall>x. storage_inspected (j_state sample_cached_journal x) (j_state j' x))"
  using storage_inspection_is_safe [of sample_database REX4 7 1 sample_cached_journal]
  by (auto simp: new_accounts_bare_def sample_database_def)

end
