(* ===== verification/Runtime_Limit.thy ===== *)
theory Runtime_Limit
  imports Frame_Budget Journal_Inspect System_Tx
begin

text \<open>
  The trait \<^verbatim>\<open>TxRuntimeLimit\<close> of \<^verbatim>\<open>limit/frame_limit.rs\<close> as an interface. The locale
  \<open>tx_runtime_limit\<close> fixes the operations a client calls on a resource tracker and states what
  every tracker promises: within 64 bits of recorded usage nothing panics, entering a frame
  deepens the stack by one, leaving it pops one level, and a successful return keeps the usage of
  the transaction. \<open>run_events\<close> plays a sequence of hook calls, and the client's lemmas on it are
  proved here once, for all four trackers.

  The second locale, \<open>frame_budgeted\<close>, is the contract of the three trackers whose Rex4 check
  is local to the current frame.
\<close>

section \<open>Frame information shared by two trackers\<close>

record CallFrameInfo =
  target_address :: "address option"
  target_updated :: bool

section \<open>Sequences of hook calls\<close>

datatype ('x, 'w) hook_event =
    Enter 'x
  | EnterEmpty
  | Work 'w
  | Leave bool

text \<open>The depth of the frame stack after a sequence of events, \<^term>\<open>None\<close> when a frame returns that
  was never entered.\<close>

fun nesting :: "('x, 'w) hook_event list \<Rightarrow> nat \<Rightarrow> nat option" where
  "nesting [] d = Some d"
| "nesting (Enter x # evs) d = nesting evs (Suc d)"
| "nesting (EnterEmpty # evs) d = nesting evs (Suc d)"
| "nesting (Work w # evs) d = nesting evs d"
| "nesting (Leave ok # evs) d = (if d = 0 then None else nesting evs (d - 1))"

fun events_cost :: "nat \<Rightarrow> ('w \<Rightarrow> nat) \<Rightarrow> ('x, 'w) hook_event list \<Rightarrow> nat" where
  "events_cost k cost [] = 0"
| "events_cost k cost (Enter x # evs) = k + events_cost k cost evs"
| "events_cost k cost (EnterEmpty # evs) = events_cost k cost evs"
| "events_cost k cost (Work w # evs) = cost w + events_cost k cost evs"
| "events_cost k cost (Leave ok # evs) = events_cost k cost evs"

fun run_event ::
  "('x \<Rightarrow> 't \<Rightarrow> 't option) \<Rightarrow> ('t \<Rightarrow> 't option) \<Rightarrow> ('w \<Rightarrow> 't \<Rightarrow> 't) \<Rightarrow> (bool \<Rightarrow> bool \<Rightarrow> 't \<Rightarrow> 't option) \<Rightarrow>
   ('x, 'w) hook_event \<Rightarrow> 't \<Rightarrow> 't option" where
  "run_event enter push work leave (Enter x) t = enter x t"
| "run_event enter push work leave EnterEmpty t = push t"
| "run_event enter push work leave (Work w) t = Some (work w t)"
| "run_event enter push work leave (Leave ok) t = leave False ok t"

fun run_events ::
  "('x \<Rightarrow> 't \<Rightarrow> 't option) \<Rightarrow> ('t \<Rightarrow> 't option) \<Rightarrow> ('w \<Rightarrow> 't \<Rightarrow> 't) \<Rightarrow> (bool \<Rightarrow> bool \<Rightarrow> 't \<Rightarrow> 't option) \<Rightarrow>
   ('x, 'w) hook_event list \<Rightarrow> 't \<Rightarrow> 't option" where
  "run_events enter push work leave [] t = Some t"
| "run_events enter push work leave (ev # evs) t = do {
     t' \<leftarrow> run_event enter push work leave ev t;
     run_events enter push work leave evs t'
   }"

section \<open>The interface\<close>

locale tx_runtime_limit =
  fixes usage :: "'t \<Rightarrow> u64 option"
    and check :: "'t \<Rightarrow> LimitCheck option"
    and reset :: "'t \<Rightarrow> 't"
    and enter :: "'x \<Rightarrow> 't \<Rightarrow> 't option"
    and push :: "'t \<Rightarrow> 't option"
    and work :: "'w \<Rightarrow> 't \<Rightarrow> 't"
    and leave :: "bool \<Rightarrow> bool \<Rightarrow> 't \<Rightarrow> 't option"
    and depth :: "'t \<Rightarrow> nat"
    and recorded :: "nat \<Rightarrow> 't \<Rightarrow> bool"
    and admissible :: "'x \<Rightarrow> bool"
    and enter_cost :: nat
    and work_cost :: "'w \<Rightarrow> nat"
  assumes usage_law: "recorded c t \<Longrightarrow> c < 2 ^ 64 \<Longrightarrow> \<exists>u. usage t = Some u \<and> unat u \<le> c"
    and check_law: "recorded c t \<Longrightarrow> c < 2 ^ 64 \<Longrightarrow> \<exists>k. check t = Some k"
    and reset_law: "recorded c t \<Longrightarrow> recorded 0 (reset t) \<and> depth (reset t) = 0"
    and enter_law: "recorded c t \<Longrightarrow> c < 2 ^ 64 \<Longrightarrow> admissible x \<Longrightarrow>
      \<exists>t'. enter x t = Some t' \<and> recorded (c + enter_cost) t' \<and> depth t' = Suc (depth t)"
    and push_law: "recorded c t \<Longrightarrow> c < 2 ^ 64 \<Longrightarrow>
      \<exists>t'. push t = Some t' \<and> recorded c t' \<and> depth t' = Suc (depth t) \<and> usage t' = usage t"
    and work_law: "recorded c t \<Longrightarrow> recorded (c + work_cost w) (work w t) \<and> depth (work w t) = depth t"
    and leave_law: "recorded c t \<Longrightarrow> c < 2 ^ 64 \<Longrightarrow> final \<or> 0 < depth t \<Longrightarrow>
      \<exists>t'. leave final ok t = Some t' \<and> recorded c t' \<and> depth t' = depth t - 1 \<and>
           (ok \<longrightarrow> usage t' = usage t)"
    and leave_panics: "depth t = 0 \<Longrightarrow> leave False ok t = None"
begin

text \<open>One event of a balanced sequence neither panics nor records more than its cost.\<close>

lemma event_progress:
  assumes "recorded c t" and "c < 2 ^ 64" and "nesting [ev] (depth t) = Some d"
    and "\<And>x. ev = Enter x \<Longrightarrow> admissible x"
  shows "\<exists>t'. run_event enter push work leave ev t = Some t' \<and> depth t' = d \<and>
    recorded (c + events_cost enter_cost work_cost [ev]) t'"
proof (cases ev)
  case (Enter x)
  with assms enter_law [of c t x] show ?thesis by auto
next
  case EnterEmpty
  with assms push_law [of c t] show ?thesis by auto
next
  case (Work w)
  with assms work_law [of c t w] show ?thesis by auto
next
  case (Leave ok)
  with assms leave_law [of c t False ok] show ?thesis by (auto split: if_splits)
qed

lemma nesting_Cons:
  "nesting (ev # evs) d = Option.bind (nesting [ev] d) (nesting evs)"
  by (cases ev) simp_all

lemma events_cost_Cons:
  "events_cost k cost (ev # evs) = events_cost k cost [ev] + events_cost k cost evs"
  by (cases ev) simp_all

lemma run_balanced:
  assumes "recorded c t" and "c + events_cost enter_cost work_cost evs < 2 ^ 64"
    and "nesting evs (depth t) = Some d"
    and "\<And>x. Enter x \<in> set evs \<Longrightarrow> admissible x"
  shows "\<exists>t'. run_events enter push work leave evs t = Some t' \<and> depth t' = d \<and>
    recorded (c + events_cost enter_cost work_cost evs) t'"
  using assms
proof (induction evs arbitrary: c t)
  case Nil
  then show ?case by simp
next
  case (Cons ev evs)
  obtain d1 where d1: "nesting [ev] (depth t) = Some d1" "nesting evs d1 = Some d"
    using Cons.prems(3) by (subst (asm) nesting_Cons) (auto simp: bind_eq_Some_conv)
  let ?k = "events_cost enter_cost work_cost [ev]"
  have cost: "c + ?k + events_cost enter_cost work_cost evs < 2 ^ 64"
    using Cons.prems(2) by (subst (asm) events_cost_Cons) simp
  then have c: "c < 2 ^ 64" by simp
  have adm: "\<And>x. ev = Enter x \<Longrightarrow> admissible x"
    using Cons.prems(4) by simp
  obtain t1 where t1: "run_event enter push work leave ev t = Some t1" "depth t1 = d1"
      "recorded (c + ?k) t1"
    using event_progress [OF Cons.prems(1) c d1(1) adm] by blast
  have "\<exists>t'. run_events enter push work leave evs t1 = Some t' \<and> depth t' = d \<and>
      recorded (c + ?k + events_cost enter_cost work_cost evs) t'"
    using Cons.IH [OF t1(3) cost] d1(2) t1(2) Cons.prems(4) by simp
  then show ?case
    using t1(1) by (subst events_cost_Cons) (simp add: add.assoc)
qed

text \<open>A sequence in which some frame returns that was never entered panics; with \<open>run_balanced\<close>,
  the assertion on the frame stack fires exactly on unbalanced sequences.\<close>

lemma run_unbalanced:
  assumes "recorded c t" and "c + events_cost enter_cost work_cost evs < 2 ^ 64"
    and "nesting evs (depth t) = None"
    and "\<And>x. Enter x \<in> set evs \<Longrightarrow> admissible x"
  shows "run_events enter push work leave evs t = None"
  using assms
proof (induction evs arbitrary: c t)
  case Nil
  then show ?case by simp
next
  case (Cons ev evs)
  let ?k = "events_cost enter_cost work_cost [ev]"
  have cost: "c + ?k + events_cost enter_cost work_cost evs < 2 ^ 64"
    using Cons.prems(2) by (subst (asm) events_cost_Cons) simp
  then have c: "c < 2 ^ 64" by simp
  show ?case
  proof (cases "nesting [ev] (depth t)")
    case None
    then obtain ok where "ev = Leave ok" "depth t = 0"
      by (cases ev) (auto split: if_splits)
    then show ?thesis by (simp add: leave_panics)
  next
    case (Some d1)
    then have rest: "nesting evs d1 = None"
      using Cons.prems(3) by (subst (asm) nesting_Cons) simp
    have adm: "\<And>x. ev = Enter x \<Longrightarrow> admissible x"
      using Cons.prems(4) by simp
    obtain t1 where t1: "run_event enter push work leave ev t = Some t1" "depth t1 = d1"
        "recorded (c + ?k) t1"
      using event_progress [OF Cons.prems(1) c Some adm] by blast
    then show ?thesis
      using Cons.IH [OF t1(3) cost] rest Cons.prems(4) by simp
  qed
qed

lemma run_no_panic_iff:
  assumes "recorded c t" and "c + events_cost enter_cost work_cost evs < 2 ^ 64"
    and "\<And>x. Enter x \<in> set evs \<Longrightarrow> admissible x"
  shows "(\<exists>t'. run_events enter push work leave evs t = Some t') \<longleftrightarrow> nesting evs (depth t) \<noteq> None"
proof (cases "nesting evs (depth t)")
  case None
  then show ?thesis
    using run_unbalanced [OF assms(1,2) None assms(3)] by simp
next
  case (Some d)
  then show ?thesis
    using run_balanced [OF assms(1,2) Some assms(3)] by auto
qed

text \<open>After a balanced sequence the usage of the transaction is known and at most the sum of what
  was recorded, and a limit check does not panic.\<close>

lemma run_usage:
  assumes "recorded c t" and "c + events_cost enter_cost work_cost evs < 2 ^ 64"
    and "run_events enter push work leave evs t = Some t'"
    and "\<And>x. Enter x \<in> set evs \<Longrightarrow> admissible x"
  shows "\<exists>u k. usage t' = Some u \<and> unat u \<le> c + events_cost enter_cost work_cost evs \<and>
    check t' = Some k"
proof -
  obtain d where "nesting evs (depth t) = Some d"
    using run_no_panic_iff [OF assms(1,2,4)] assms(3) by auto
  then have "recorded (c + events_cost enter_cost work_cost evs) t'"
    using run_balanced [OF assms(1,2) _ assms(4)] assms(3) by fastforce
  then show ?thesis
    using usage_law check_law assms(2) by blast
qed

end

section \<open>Frame-local budgets\<close>

text \<open>
  The Rex4 contract of the data size, KV update and state growth trackers: the check is the check
  of the top frame alone. \<open>inside\<close> is the underlying frame tracker.
\<close>

locale frame_budgeted =
  fixes inside :: "'t \<Rightarrow> 'i FrameLimitTracker"
    and rex4 :: "'t \<Rightarrow> bool"
    and check :: "'t \<Rightarrow> LimitCheck option"
    and usage :: "'t \<Rightarrow> u64 option"
    and leave :: "bool \<Rightarrow> bool \<Rightarrow> 't \<Rightarrow> 't option"
    and kind :: LimitKind
  assumes check_inside: "rex4 t \<Longrightarrow> check t = exceeds_current_frame_limit kind (inside t)"
    and usage_inside: "usage t = net_usage (inside t)"
    and leave_inside: "leave final ok t = Some t' \<Longrightarrow>
      inside t' = snd (pop_frame ok (inside t)) \<and> rex4 t' = rex4 t"
begin

lemma within_iff:
  assumes "rex4 t" and "fits (inside t)"
  shows "check t = Some WithinLimit \<longleftrightarrow> top_within (inside t)"
  using assms check_inside [of t] top_within_iff [of "inside t" kind] by simp

lemma check_frame_local:
  assumes "rex4 t" and "check t = Some k" and "k \<noteq> WithinLimit"
  shows "is_frame_local k \<and> exc_kind k = kind"
  using assms
  by (auto simp: check_inside exceeds_current_frame_limit_def bind_eq_Some_conv
      split: list.splits if_splits)

lemma usage_bounded:
  assumes "rex4 t" and "disciplined L c (inside t)" and "c < 2 ^ 64"
    and "check t = Some WithinLimit"
  shows "\<exists>u. usage t = Some u \<and> unat u \<le> e_used (tx_entry (inside t)) + unat L"
proof -
  have fit: "fits (inside t)" using disciplined_fits assms(2,3) by blast
  then have "top_within (inside t)" using within_iff assms(1,4) by blast
  then have "frames_used (inside t) - frames_refund (inside t) \<le> unat L"
    using disciplined_frames_le assms(2,3) by blast
  then have "total_used (inside t) - total_refund (inside t) \<le>
      e_used (tx_entry (inside t)) + unat L"
    by (simp add: total_used_def total_refund_def)
  moreover have "total_used (inside t) - total_refund (inside t) < 2 ^ 64"
    using fit by (simp add: fits_def less_imp_diff_less)
  ultimately show ?thesis
    using fit by (simp add: usage_inside net_usage_eq)
qed

lemma success_keeps_within:
  assumes "rex4 t" and "disciplined L c (inside t)" and "c < 2 ^ 64"
    and "check t = Some WithinLimit" and "leave final True t = Some t'"
  shows "check t' = Some WithinLimit"
proof -
  have fit: "fits (inside t)" using disciplined_fits assms(2,3) by blast
  then have top: "top_within (inside t)" using within_iff assms(1,4) by blast
  note left = leave_inside [OF assms(5)]
  have "top_within (inside t')" "fits (inside t')"
    using disciplined_pop_within [OF assms(2,3) top] fits_pop_frame [OF fit] left by simp_all
  then show ?thesis
    using within_iff left assms(1) by blast
qed

end

section \<open>Writes to one storage slot\<close>

text \<open>
  The writes of one transaction to one slot within one frame: each write sees the value the previous
  one left. \<open>counts\<close> is what a slot with the given original and present value is charged; the
  trackers charge and refund single writes, and their sum telescopes to the charge of the last value.
\<close>

definition slot_write :: "u256 \<Rightarrow> u256 \<Rightarrow> u256 \<Rightarrow> SStoreResult" where
  "slot_write original present v =
     \<lparr>original_value = original, present_value = present, new_value = v,
      is_original_eq_present = (original = present), is_original_eq_new = (original = v)\<rparr>"

fun slot_writes :: "u256 \<Rightarrow> u256 \<Rightarrow> u256 list \<Rightarrow> SStoreResult list" where
  "slot_writes original present [] = []"
| "slot_writes original present (v # vs) =
     slot_write original present v # slot_writes original v vs"

locale slot_meter =
  fixes store :: "SStoreResult \<Rightarrow> 't \<Rightarrow> 't"
    and balance :: "'t \<Rightarrow> int"
    and room :: "nat \<Rightarrow> 't \<Rightarrow> bool"
    and counts :: "u256 \<Rightarrow> u256 \<Rightarrow> int"
  assumes store_law: "room (Suc n) t \<Longrightarrow>
    room n (store (slot_write orig p v) t) \<and>
    balance (store (slot_write orig p v) t) = balance t + counts orig v - counts orig p"
begin

lemma writes_telescope:
  "room (length vs) t \<Longrightarrow>
   balance (fold store (slot_writes orig p vs) t) = balance t + counts orig (last (p # vs)) - counts orig p"
proof (induction vs arbitrary: p t)
  case Nil
  then show ?case by simp
next
  case (Cons v vs)
  then have "room (length vs) (store (slot_write orig p v) t)"
    and "balance (store (slot_write orig p v) t) = balance t + counts orig v - counts orig p"
    using store_law [of "length vs" t orig p v] by simp_all
  with Cons.IH [of "store (slot_write orig p v) t" v] show ?case by simp
qed

end

definition top_balance :: "'i FrameLimitTracker \<Rightarrow> int" where
  "top_balance t = (case frame_stack t of [] \<Rightarrow> 0
     | e # _ \<Rightarrow> int (unat (discardable_usage e)) - int (unat (refund e)))"

definition top_room :: "nat \<Rightarrow> nat \<Rightarrow> 'i FrameLimitTracker \<Rightarrow> bool" where
  "top_room n k t \<longleftrightarrow> (case frame_stack t of [] \<Rightarrow> False
     | e # _ \<Rightarrow> unat (discardable_usage e) + n * k < 2 ^ 64 \<and> unat (refund e) + n * k < 2 ^ 64)"

lemma top_record:
  assumes "top_room (Suc n) (unat k) t"
  shows "top_room n (unat k) t"
    and "top_room n (unat k) (update_frame (add_discardable k) t)"
    and "top_room n (unat k) (update_frame (add_refund k) t)"
    and "top_balance (update_frame (add_discardable k) t) = top_balance t + int (unat k)"
    and "top_balance (update_frame (add_refund k) t) = top_balance t - int (unat k)"
proof -
  obtain e es where st: "frame_stack t = e # es"
    using assms by (auto simp: top_room_def split: list.splits)
  have d: "unat (discardable_usage e) + (unat k + n * unat k) < 2 ^ 64"
    and r: "unat (refund e) + (unat k + n * unat k) < 2 ^ 64"
    using assms st by (simp_all add: top_room_def)
  have "unat (discardable_usage e + k) = unat (discardable_usage e) + unat k"
    and "unat (refund e + k) = unat (refund e) + unat k"
    using d r by (auto intro!: unat_add_exact)
  with d r st show "top_room n (unat k) t"
    and "top_room n (unat k) (update_frame (add_discardable k) t)"
    and "top_room n (unat k) (update_frame (add_refund k) t)"
    and "top_balance (update_frame (add_discardable k) t) = top_balance t + int (unat k)"
    and "top_balance (update_frame (add_refund k) t) = top_balance t - int (unat k)"
    by (simp_all add: top_room_def top_balance_def frame_stack_update_frame add_discardable_def
        add_refund_def)
qed

section \<open>What the frame tracker gives every provider\<close>

text \<open>A tracker that recorded at most \<open>c\<close> units.\<close>

definition metered_upto :: "bool \<Rightarrow> u64 \<Rightarrow> nat \<Rightarrow> 'i FrameLimitTracker \<Rightarrow> bool" where
  "metered_upto rex4 L c t \<longleftrightarrow> (\<exists>c' \<le> c. metered rex4 L c' t)"

lemma metered_uptoI: "metered rex4 L c t \<Longrightarrow> metered_upto rex4 L c t"
  unfolding metered_upto_def by blast

lemma metered_uptoE:
  assumes "metered_upto rex4 L c t" and "c < 2 ^ 64"
  obtains c' where "metered rex4 L c' t" and "c' \<le> c" and "c' < 2 ^ 64"
  using assms unfolding metered_upto_def by fastforce

lemma metered_upto_mono: "metered_upto rex4 L c t \<Longrightarrow> c \<le> c' \<Longrightarrow> metered_upto rex4 L c' t"
  unfolding metered_upto_def by (meson order_trans)

lemma metered_upto_tx_limit: "metered_upto rex4 L c t \<Longrightarrow> tracker_tx_limit t = L"
  unfolding metered_upto_def tracker_tx_limit_def by (auto dest: metered_tx_limit)

lemma metered_upto_new: "metered_upto rex4 L c (tracker_new L)"
  unfolding metered_upto_def using metered_new by blast

lemma metered_upto_reset: "metered_upto rex4 L c t \<Longrightarrow> metered_upto rex4 L 0 (tracker_reset t)"
  unfolding metered_upto_def using metered_reset by blast

lemma metered_upto_records:
  "metered_upto rex4 L c t \<Longrightarrow> metered_upto rex4 L (c + unat n) (update_frame (add_persistent n) t)"
  "metered_upto rex4 L c t \<Longrightarrow> metered_upto rex4 L (c + unat n) (update_frame (add_discardable n) t)"
  "metered_upto rex4 L c t \<Longrightarrow> metered_upto rex4 L (c + unat n) (update_frame (add_refund n) t)"
  "metered_upto rex4 L c t \<Longrightarrow> metered_upto rex4 L (c + unat n) (update_tx (add_persistent n) t)"
  unfolding metered_upto_def
  by (meson add_le_mono1 metered_persistent metered_discardable metered_refund metered_tx)+

lemma metered_upto_info:
  assumes "metered_upto rex4 L c t"
  shows "metered_upto rex4 L c (update_frame (\<lambda>e. e\<lparr>info := f (info e)\<rparr>) t)"
proof -
  obtain c' where "c' \<le> c" "metered rex4 L c' t" using assms unfolding metered_upto_def by blast
  then show ?thesis using metered_info [of rex4 L c' t f] unfolding metered_upto_def by blast
qed

lemma metered_upto_fits: "metered_upto rex4 L c t \<Longrightarrow> c < 2 ^ 64 \<Longrightarrow> fits t"
  by (erule metered_uptoE) (auto dest: metered_fits)

lemma tracker_tx_limit_steps [simp]:
  "tracker_tx_limit (update_frame f t) = tracker_tx_limit t"
  "tracker_tx_limit (update_tx (add_persistent n) t) = tracker_tx_limit t"
  "tracker_tx_limit (snd (pop_frame ok t)) = tracker_tx_limit t"
  "tracker_tx_limit (tracker_reset t) = tracker_tx_limit t"
  by (simp_all add: tracker_tx_limit_def)

lemma tracker_tx_limit_new [simp]: "tracker_tx_limit (tracker_new L) = L"
  by (simp add: tracker_tx_limit_def)

lemma length_update_frame [simp]: "length (frame_stack (update_frame f t)) = length (frame_stack t)"
  by (simp add: frame_stack_update_frame split: list.split)

text \<open>Entering a frame: the Rex4 push, or the push with no limit of the earlier specs.\<close>

lemma metered_upto_enter:
  assumes "metered_upto rex4 L c t" and "c < 2 ^ 64"
  shows "\<exists>t'. (if rex4 then push_frame i t else Some (push_frame_with_limit u64_max i t)) = Some t'
    \<and> metered_upto rex4 L c t' \<and> length (frame_stack t') = Suc (length (frame_stack t))
    \<and> net_usage t' = net_usage t \<and> tx_entry t' = tx_entry t"
proof -
  have fit: "fits t" using metered_upto_fits assms by blast
  obtain c' where c': "metered rex4 L c' t" "c' \<le> c" using assms by (rule metered_uptoE)
  obtain l where l: "(if rex4 then push_frame i t else Some (push_frame_with_limit u64_max i t))
      = Some (push_frame_with_limit l i t)"
    using push_frame_eq [OF fit, of i] by (cases rex4) simp_all
  have "metered rex4 L c' (push_frame_with_limit l i t)"
  proof (cases rex4)
    case True
    then show ?thesis using l c'(1) metered_push by fastforce
  next
    case False
    then have "push_frame_with_limit l i t = push_frame_with_limit u64_max i t" using l by simp
    then show ?thesis using c'(1) False metered_push_unlimited [of rex4 L c' t i] by simp
  qed
  then have "metered_upto rex4 L c (push_frame_with_limit l i t)"
    using c'(2) unfolding metered_upto_def by blast
  moreover have "net_usage (push_frame_with_limit l i t) = net_usage t"
    using fit by (simp add: net_usage_eq)
  ultimately show ?thesis
    using l by simp
qed

lemma metered_upto_leave:
  assumes "metered_upto rex4 L c t" and "c < 2 ^ 64"
  shows "metered_upto rex4 L c (snd (pop_frame ok t))
    \<and> length (frame_stack (snd (pop_frame ok t))) = length (frame_stack t) - 1
    \<and> (ok \<longrightarrow> net_usage (snd (pop_frame ok t)) = net_usage t)"
proof -
  have fit: "fits t" using metered_upto_fits assms by blast
  have "length (frame_stack (snd (pop_frame ok t))) = length (frame_stack t) - 1"
    by (cases rule: pop_frame_cases [of t ok]) simp_all
  moreover have "metered_upto rex4 L c (snd (pop_frame ok t))"
    using assms(1) metered_pop unfolding metered_upto_def by blast
  ultimately show ?thesis
    using net_usage_pop_success [OF fit] by (cases ok) simp_all
qed

lemma metered_upto_usage:
  assumes "metered_upto rex4 L c t" and "c < 2 ^ 64"
  shows "\<exists>u. net_usage t = Some u \<and> unat u \<le> c"
proof -
  obtain c' where c': "metered rex4 L c' t" "c' \<le> c" "c' < 2 ^ 64"
    using assms by (rule metered_uptoE)
  then have "total_used t + total_refund t \<le> c'"
    using metered_well_formed unfolding well_formed_def ledger_le_def by blast
  then have le: "total_used t - total_refund t \<le> c" using c'(2) by linarith
  then have "total_used t - total_refund t < 18446744073709551616" using assms(2) by simp
  with le show ?thesis
    using metered_upto_fits [OF assms] by (simp add: net_usage_eq)
qed

lemma metered_upto_checks:
  assumes "metered_upto rex4 L c t" and "c < 2 ^ 64"
  shows "\<exists>k. exceeds_current_frame_limit kind t = Some k"
  using exceeds_current_frame_limit_eq [OF metered_upto_fits [OF assms]] by blast

end
