(* ===== verification/Compute_Gas.thy ===== *)
theory Compute_Gas
  imports Runtime_Limit
begin

text \<open>
  The compute gas tracker of \<^verbatim>\<open>limit/compute_gas.rs\<close>. All gas is persistent. Its check has two
  parts: the budget of the current frame (Rex4) and the transaction limit lowered by gas
  detention (every spec). Hooks that the source leaves at the trait's empty default
  (\<^verbatim>\<open>before_tx_start\<close>, \<^verbatim>\<open>after_sstore\<close>, \<^verbatim>\<open>after_log\<close>) have no definition here.
  \<^verbatim>\<open>before_frame_init\<close> always returns \<^verbatim>\<open>Ok\<close>, so its model returns the tracker alone.
\<close>

section \<open>State and operations\<close>

record ComputeGasTracker =
  cg_rex1_enabled :: bool
  cg_rex4_enabled :: bool
  cg_detained_limit :: u64
  cg_frame_tracker :: "unit FrameLimitTracker"

definition cg_new :: "MegaSpecId \<Rightarrow> u64 \<Rightarrow> ComputeGasTracker" where
  "cg_new spec tx_limit = \<lparr>cg_rex1_enabled = is_enabled spec REX1,
     cg_rex4_enabled = is_enabled spec REX4, cg_detained_limit = tx_limit,
     cg_frame_tracker = tracker_new tx_limit\<rparr>"

definition cg_push_frame :: "ComputeGasTracker \<Rightarrow> ComputeGasTracker option" where
  "cg_push_frame t = do {
     ft \<leftarrow> (if cg_rex4_enabled t then push_frame () (cg_frame_tracker t)
            else Some (push_frame_with_limit u64_max () (cg_frame_tracker t)));
     Some (t\<lparr>cg_frame_tracker := ft\<rparr>)
   }"

definition cg_tx_limit :: "ComputeGasTracker \<Rightarrow> u64" where
  "cg_tx_limit t = min (tracker_tx_limit (cg_frame_tracker t)) (cg_detained_limit t)"

definition cg_tx_usage :: "ComputeGasTracker \<Rightarrow> u64 option" where
  "cg_tx_usage t = net_usage (cg_frame_tracker t)"

definition set_detained_limit :: "u64 \<Rightarrow> ComputeGasTracker \<Rightarrow> ComputeGasTracker option" where
  "set_detained_limit cap t = do {
     new_limit \<leftarrow> (if cg_rex4_enabled t
                   then do { u \<leftarrow> cg_tx_usage t; Some (saturating_add u cap) }
                   else Some cap);
     Some (t\<lparr>cg_detained_limit := min (cg_detained_limit t) new_limit\<rparr>)
   }"

definition current_call_remaining :: "ComputeGasTracker \<Rightarrow> u64 option" where
  "current_call_remaining t = do {
     u \<leftarrow> cg_tx_usage t;
     let tx_remaining = saturating_sub (cg_tx_limit t) u;
     if cg_rex4_enabled t
     then do { r \<leftarrow> current_frame_remaining (cg_frame_tracker t); Some (min r tx_remaining) }
     else Some tx_remaining
   }"

definition detained_limit :: "ComputeGasTracker \<Rightarrow> u64" where
  "detained_limit t = cg_detained_limit t"

definition is_detained_exceed :: "ComputeGasTracker \<Rightarrow> bool option" where
  "is_detained_exceed t = do {
     u \<leftarrow> cg_tx_usage t;
     Some (cg_detained_limit t < u \<and> cg_detained_limit t < tracker_tx_limit (cg_frame_tracker t))
   }"

definition record_gas_used :: "u64 \<Rightarrow> ComputeGasTracker \<Rightarrow> ComputeGasTracker" where
  "record_gas_used gas t =
     (case frame_mut (cg_frame_tracker t) of
        Some _ \<Rightarrow> t\<lparr>cg_frame_tracker := update_frame (add_persistent gas) (cg_frame_tracker t)\<rparr>
      | None \<Rightarrow> t\<lparr>cg_frame_tracker := update_tx (add_persistent gas) (cg_frame_tracker t)\<rparr>)"

definition cg_reset :: "ComputeGasTracker \<Rightarrow> ComputeGasTracker" where
  "cg_reset t =
     (let t' = t\<lparr>cg_frame_tracker := tracker_reset (cg_frame_tracker t)\<rparr>
      in if cg_rex1_enabled t'
         then t'\<lparr>cg_detained_limit := tracker_tx_limit (cg_frame_tracker t')\<rparr>
         else t')"

definition cg_check_tx_limit :: "ComputeGasTracker \<Rightarrow> LimitCheck option" where
  "cg_check_tx_limit t = do {
     let limit = cg_tx_limit t;
     u \<leftarrow> cg_tx_usage t;
     Some (if limit < u then ExceedsLimit ComputeGas limit u False else WithinLimit)
   }"

definition cg_check_limit :: "ComputeGasTracker \<Rightarrow> LimitCheck option" where
  "cg_check_limit t =
     (if cg_rex4_enabled t
      then do {
        frame_check \<leftarrow> exceeds_current_frame_limit ComputeGas (cg_frame_tracker t);
        if exceeded_limit frame_check then Some frame_check else cg_check_tx_limit t
      }
      else cg_check_tx_limit t)"

definition cg_push_empty_frame :: "ComputeGasTracker \<Rightarrow> ComputeGasTracker option" where
  "cg_push_empty_frame t = cg_push_frame t"

definition cg_before_frame_init :: "FrameInit \<Rightarrow> ComputeGasTracker \<Rightarrow> ComputeGasTracker option" where
  "cg_before_frame_init frame_init t = cg_push_frame t"

definition cg_before_frame_return_result ::
  "bool \<Rightarrow> bool \<Rightarrow> ComputeGasTracker \<Rightarrow> ComputeGasTracker option" where
  "cg_before_frame_return_result last_frame is_ok t =
     (if last_frame \<or> has_active_frame (cg_frame_tracker t)
      then Some (t\<lparr>cg_frame_tracker := snd (pop_frame is_ok (cg_frame_tracker t))\<rparr>)
      else None)"

section \<open>The tracker as a provider of the interface\<close>

definition cg_depth :: "ComputeGasTracker \<Rightarrow> nat" where
  "cg_depth t = length (frame_stack (cg_frame_tracker t))"

text \<open>Compute gas is never refunded: the usage is the used amount of the ledger.\<close>

definition refundless :: "ComputeGasTracker \<Rightarrow> bool" where
  "refundless t \<longleftrightarrow> total_refund (cg_frame_tracker t) = 0"

definition cg_metered :: "nat \<Rightarrow> ComputeGasTracker \<Rightarrow> bool" where
  "cg_metered c t \<longleftrightarrow>
     metered_upto (cg_rex4_enabled t) (tracker_tx_limit (cg_frame_tracker t)) c (cg_frame_tracker t)"

definition cg_recorded :: "nat \<Rightarrow> ComputeGasTracker \<Rightarrow> bool" where
  "cg_recorded c t \<longleftrightarrow> cg_metered c t \<and> refundless t"

lemma cg_recorded_new: "cg_recorded 0 (cg_new spec L)"
  by (simp add: cg_recorded_def cg_metered_def refundless_def cg_new_def tracker_tx_limit_def
      metered_upto_new total_refund_def frames_refund_def)

lemma cg_recorded_fits: "cg_recorded c t \<Longrightarrow> c < 2 ^ 64 \<Longrightarrow> fits (cg_frame_tracker t)"
  unfolding cg_recorded_def cg_metered_def using metered_upto_fits by blast

lemma refundless_steps:
  "refundless t \<Longrightarrow> cg_push_frame t = Some t' \<Longrightarrow> refundless t'"
  "refundless t \<Longrightarrow> refundless (record_gas_used g t)"
  "refundless (cg_reset t)"
  "refundless t \<Longrightarrow> fits (cg_frame_tracker t) \<Longrightarrow>
    cg_before_frame_return_result final ok t = Some t' \<Longrightarrow> refundless t'"
proof -
  show "refundless t \<Longrightarrow> cg_push_frame t = Some t' \<Longrightarrow> refundless t'"
    by (auto simp: refundless_def cg_push_frame_def bind_eq_Some_conv ledger_push split: if_splits)
  show "refundless t \<Longrightarrow> refundless (record_gas_used g t)"
    by (cases "frame_stack (cg_frame_tracker t)")
      (simp_all add: refundless_def record_gas_used_def frame_mut_def total_refund_def
        frames_refund_def frame_stack_update_frame)
  show "refundless (cg_reset t)"
    by (simp add: refundless_def cg_reset_def Let_def total_refund_def frames_refund_def)
  show "refundless t \<Longrightarrow> fits (cg_frame_tracker t) \<Longrightarrow>
      cg_before_frame_return_result final ok t = Some t' \<Longrightarrow> refundless t'"
    by (auto simp: refundless_def cg_before_frame_return_result_def total_refund_pop_frame
        split: if_splits list.splits)
qed

lemma cg_push_law:
  assumes "cg_recorded c t" and "c < 2 ^ 64"
  shows "\<exists>t'. cg_push_frame t = Some t' \<and> cg_recorded c t' \<and> cg_depth t' = Suc (cg_depth t)
    \<and> cg_tx_usage t' = cg_tx_usage t"
proof -
  have "\<exists>t'. cg_push_frame t = Some t' \<and> cg_metered c t' \<and> cg_depth t' = Suc (cg_depth t)
      \<and> cg_tx_usage t' = cg_tx_usage t"
    using metered_upto_enter [of "cg_rex4_enabled t" "tracker_tx_limit (cg_frame_tracker t)" c
        "cg_frame_tracker t" "()"] assms
    by (auto simp: cg_push_frame_def cg_recorded_def cg_metered_def cg_depth_def cg_tx_usage_def
        tracker_tx_limit_def)
  then show ?thesis
    using refundless_steps(1) assms(1) unfolding cg_recorded_def by blast
qed

lemma cg_record_law:
  assumes "cg_recorded c t"
  shows "cg_recorded (c + unat g) (record_gas_used g t)
    \<and> cg_depth (record_gas_used g t) = cg_depth t"
  using assms refundless_steps(2) [of t g]
  by (auto simp: record_gas_used_def cg_recorded_def cg_metered_def cg_depth_def metered_upto_records
      split: option.splits)

lemma cg_leave_law:
  assumes "cg_recorded c t" and "c < 2 ^ 64" and "final \<or> 0 < cg_depth t"
  shows "\<exists>t'. cg_before_frame_return_result final ok t = Some t' \<and> cg_recorded c t'
    \<and> cg_depth t' = cg_depth t - 1 \<and> (ok \<longrightarrow> cg_tx_usage t' = cg_tx_usage t)"
proof -
  have "\<exists>t'. cg_before_frame_return_result final ok t = Some t' \<and> cg_metered c t'
      \<and> cg_depth t' = cg_depth t - 1 \<and> (ok \<longrightarrow> cg_tx_usage t' = cg_tx_usage t)"
    using metered_upto_leave [of "cg_rex4_enabled t" "tracker_tx_limit (cg_frame_tracker t)" c
        "cg_frame_tracker t" ok] assms
    by (auto simp: cg_before_frame_return_result_def cg_recorded_def cg_metered_def cg_depth_def
        cg_tx_usage_def has_active_frame_def)
  then show ?thesis
    using refundless_steps(4) [of t final ok] cg_recorded_fits [OF assms(1,2)] assms(1)
    unfolding cg_recorded_def by blast
qed

lemma cg_usage_law:
  assumes "cg_recorded c t" and "c < 2 ^ 64"
  shows "\<exists>u. cg_tx_usage t = Some u \<and> unat u \<le> c"
  using metered_upto_usage assms unfolding cg_recorded_def cg_metered_def cg_tx_usage_def by blast

lemma cg_check_law:
  assumes "cg_recorded c t" and "c < 2 ^ 64"
  shows "\<exists>k. cg_check_limit t = Some k"
proof -
  obtain u where u: "cg_tx_usage t = Some u" using cg_usage_law [OF assms] by blast
  obtain k where "exceeds_current_frame_limit ComputeGas (cg_frame_tracker t) = Some k"
    using metered_upto_checks assms unfolding cg_recorded_def cg_metered_def by blast
  with u show ?thesis by (simp add: cg_check_limit_def cg_check_tx_limit_def Let_def)
qed

lemma cg_reset_law:
  assumes "cg_recorded c t"
  shows "cg_recorded 0 (cg_reset t) \<and> cg_depth (cg_reset t) = 0"
  using metered_upto_reset assms refundless_steps(3) [of t]
  by (auto simp: cg_reset_def cg_recorded_def cg_metered_def cg_depth_def Let_def)

lemma cg_enter_law:
  assumes "cg_recorded c t" and "c < 2 ^ 64"
  shows "\<exists>t'. cg_before_frame_init x t = Some t' \<and> cg_recorded (c + 0) t'
    \<and> cg_depth t' = Suc (cg_depth t)"
  using cg_push_law [OF assms] by (auto simp: cg_before_frame_init_def)

lemma cg_leave_panics: "cg_depth t = 0 \<Longrightarrow> cg_before_frame_return_result False ok t = None"
  by (simp add: cg_before_frame_return_result_def cg_depth_def has_active_frame_def)

lemmas cg_laws = cg_usage_law cg_check_law cg_reset_law cg_enter_law
  cg_push_law [folded cg_push_empty_frame_def] cg_record_law cg_leave_law cg_leave_panics

interpretation compute: tx_runtime_limit cg_tx_usage cg_check_limit cg_reset cg_before_frame_init
  cg_push_empty_frame record_gas_used cg_before_frame_return_result cg_depth cg_recorded
  "\<lambda>_. True" 0 unat
  by unfold_locales ((rule cg_laws; assumption)+)

section \<open>Gas detention\<close>

lemma set_detained_limit_eq:
  assumes "cg_tx_usage t = Some u"
  shows "set_detained_limit cap t = Some (t\<lparr>cg_detained_limit := min (cg_detained_limit t)
    (if cg_rex4_enabled t then saturating_add u cap else cap)\<rparr>)"
  using assms by (simp add: set_detained_limit_def)

lemma cg_new_sel [simp]:
  "cg_detained_limit (cg_new spec L) = L"
  "cg_rex1_enabled (cg_new spec L) = is_enabled spec REX1"
  "cg_rex4_enabled (cg_new spec L) = (spec = REX4)"
  "cg_frame_tracker (cg_new spec L) = tracker_new L"
  by (simp_all add: cg_new_def)

text \<open>The transaction part of the check, with the amounts as numbers.\<close>

lemma cg_check_tx_limit_within_iff:
  assumes "cg_tx_usage t = Some u"
  shows "cg_check_tx_limit t = Some WithinLimit \<longleftrightarrow>
    u \<le> cg_detained_limit t \<and> u \<le> tracker_tx_limit (cg_frame_tracker t)"
  using assms by (auto simp: cg_check_tx_limit_def cg_tx_limit_def Let_def not_less min_def split: if_splits)

lemma cg_check_limit_withinD:
  assumes "cg_check_limit t = Some WithinLimit"
  shows "cg_check_tx_limit t = Some WithinLimit"
  using assms by (auto simp: cg_check_limit_def bind_eq_Some_conv split: if_splits)

lemma record_gas_used_sel [simp]:
  "cg_detained_limit (record_gas_used g t) = cg_detained_limit t"
  "cg_rex4_enabled (record_gas_used g t) = cg_rex4_enabled t"
  "cg_rex1_enabled (record_gas_used g t) = cg_rex1_enabled t"
  "tracker_tx_limit (cg_frame_tracker (record_gas_used g t)) = tracker_tx_limit (cg_frame_tracker t)"
  by (simp_all add: record_gas_used_def split: option.split)

text \<open>Recorded gas adds up in the ledger, whichever entry it goes to.\<close>

lemma ledger_record_gas:
  assumes "fits (cg_frame_tracker t)"
    and "total_used (cg_frame_tracker t) + unat g < 2 ^ 64"
  shows "total_used (cg_frame_tracker (record_gas_used g t)) = total_used (cg_frame_tracker t) + unat g"
    and "total_refund (cg_frame_tracker (record_gas_used g t)) = total_refund (cg_frame_tracker t)"
proof (atomize (full), cases "frame_stack (cg_frame_tracker t)")
  case Nil
  with assms show "total_used (cg_frame_tracker (record_gas_used g t)) =
      total_used (cg_frame_tracker t) + unat g \<and>
      total_refund (cg_frame_tracker (record_gas_used g t)) = total_refund (cg_frame_tracker t)"
    by (simp add: record_gas_used_def frame_mut_def total_used_def total_refund_def frames_used_def
        frames_refund_def e_used_add_exact)
next
  case (Cons e es)
  with assms have "e_used e + unat g < 2 ^ 64" by (simp add: total_used_def frames_used_def)
  with Cons show "total_used (cg_frame_tracker (record_gas_used g t)) =
      total_used (cg_frame_tracker t) + unat g \<and>
      total_refund (cg_frame_tracker (record_gas_used g t)) = total_refund (cg_frame_tracker t)"
    by (simp add: record_gas_used_def frame_mut_def total_used_def total_refund_def frames_used_def
        frames_refund_def frame_stack_update_frame e_used_add_exact)
qed

lemma cg_usage_refundless:
  assumes "fits (cg_frame_tracker t)" and "refundless t"
  shows "cg_tx_usage t = Some (word_of_nat (total_used (cg_frame_tracker t)))"
  using assms by (simp add: cg_tx_usage_def net_usage_eq refundless_def)

lemma usage_after_record:
  assumes "fits (cg_frame_tracker t)" and "refundless t" and "cg_tx_usage t = Some u"
    and "unat u + unat g < 2 ^ 64"
  shows "cg_tx_usage (record_gas_used g t) = Some (u + g)"
proof -
  have u: "unat u = total_used (cg_frame_tracker t)"
    using assms(1-3) by (auto simp: cg_usage_refundless fits_def)
  with assms(4) have room: "total_used (cg_frame_tracker t) + unat g < 2 ^ 64" by simp
  note led = ledger_record_gas [OF assms(1) room]
  have "fits (cg_frame_tracker (record_gas_used g t))"
    using assms(1) room led by (simp add: fits_def)
  moreover have "word_of_nat (total_used (cg_frame_tracker t) + unat g) = u + g"
    by (simp flip: u)
  ultimately show ?thesis
    using assms(2) led by (simp add: cg_tx_usage_def net_usage_eq refundless_def)
qed

section \<open>Properties\<close>

text \<open>
  Property C13 (rex4_detention_is_relative): gas detention in Rex4. After an access with cap
  \<open>cap\<close> at usage \<open>u\<close>, a further amount \<open>g\<close> of compute gas passes the check of the transaction
  exactly when \<open>u + g\<close> is within the transaction limit and the earlier detained limit and \<open>g\<close> is at
  most \<open>cap\<close>: every access leaves \<open>cap\<close> more units of computation, whatever was used before.
\<close>

theorem rex4_detention_is_relative:
  assumes "cg_recorded c t" and "c + unat g < 2 ^ 64" and "c + unat cap < 2 ^ 64"
    and "cg_rex4_enabled t" and "cg_tx_usage t = Some u"
  shows "\<exists>t'. set_detained_limit cap t = Some t' \<and>
    (cg_check_tx_limit (record_gas_used g t') = Some WithinLimit \<longleftrightarrow>
       unat g \<le> unat cap \<and> unat u + unat g \<le> unat (cg_detained_limit t) \<and>
       unat u + unat g \<le> unat (tracker_tx_limit (cg_frame_tracker t)))"
proof -
  let ?t' = "t\<lparr>cg_detained_limit := min (cg_detained_limit t) (saturating_add u cap)\<rparr>"
  have set: "set_detained_limit cap t = Some ?t'"
    using assms(4,5) by (simp add: set_detained_limit_eq)
  have c: "c < 2 ^ 64" using assms(2) by simp
  have "unat u \<le> c" using cg_usage_law [OF assms(1) c] assms(5) by simp
  then have room: "unat u + unat g < 2 ^ 64" "unat u + unat cap < 2 ^ 64"
    using assms(2,3) by simp_all
  have usage: "cg_tx_usage (record_gas_used g ?t') = Some (u + g)"
    using usage_after_record [of ?t' u g] cg_recorded_fits [OF assms(1) c] assms(1,5) room(1)
    by (simp add: cg_recorded_def refundless_def cg_tx_usage_def)
  have sums: "unat (u + g) = unat u + unat g" "unat (saturating_add u cap) = unat u + unat cap"
    using room by (simp_all add: unat_add_exact saturating_add_def)
  show ?thesis
    using set cg_check_tx_limit_within_iff [OF usage] sums by (auto simp: word_le_nat_alt)
qed

theorem rex4_detention_is_relative_witness:
  "\<exists>t'. set_detained_limit 20 (record_gas_used 50 (cg_new REX4 1000)) = Some t' \<and>
     cg_check_tx_limit (record_gas_used 20 t') = Some WithinLimit"
proof -
  let ?t = "record_gas_used 50 (cg_new REX4 1000)"
  have "cg_recorded 50 ?t"
    using cg_record_law [OF cg_recorded_new, of 50 REX4 1000] by simp
  moreover have "cg_tx_usage ?t = Some 50"
    by (simp add: record_gas_used_def frame_mut_def add_persistent_def entry_new_def cg_tx_usage_def
        net_usage_def used_def checked_add_def)
  ultimately show ?thesis
    using rex4_detention_is_relative [of 50 ?t 20 20 50] by simp
qed

text \<open>
  Before Rex4 the cap is absolute. Whatever was used
  already counts against it, so an access can make the very next check fail.
\<close>

lemma pre_rex4_detention_is_absolute:
  assumes "\<not> cg_rex4_enabled t" and "cg_tx_usage t = Some u"
  shows "\<exists>t'. set_detained_limit cap t = Some t' \<and>
    (cg_check_limit t' = Some WithinLimit \<longleftrightarrow>
       u \<le> cap \<and> u \<le> cg_detained_limit t \<and> u \<le> tracker_tx_limit (cg_frame_tracker t))"
proof -
  let ?t' = "t\<lparr>cg_detained_limit := min (cg_detained_limit t) cap\<rparr>"
  have "cg_tx_usage ?t' = Some u" using assms(2) by (simp add: cg_tx_usage_def)
  from cg_check_tx_limit_within_iff [OF this] show ?thesis
    using assms by (auto simp: set_detained_limit_eq cg_check_limit_def)
qed

text \<open>
  The assertions and checked additions of the compute
  gas tracker. From a new tracker, a sequence of hook calls that records less than \<open>2^64\<close> gas runs
  without a panic exactly when every returning frame was entered before; the usage is then at most
  the gas recorded, and the next limit check does not panic either.
\<close>

lemma compute_gas_hooks_never_panic:
  assumes "events_cost 0 unat evs < 2 ^ 64"
  shows "((\<exists>t. run_events cg_before_frame_init cg_push_empty_frame record_gas_used
           cg_before_frame_return_result evs (cg_new spec L) = Some t) \<longleftrightarrow> nesting evs 0 \<noteq> None)
    \<and> (\<forall>t. run_events cg_before_frame_init cg_push_empty_frame record_gas_used
           cg_before_frame_return_result evs (cg_new spec L) = Some t \<longrightarrow>
         (\<exists>u k. cg_tx_usage t = Some u \<and> unat u \<le> events_cost 0 unat evs \<and> cg_check_limit t = Some k))"
  using compute.run_no_panic_iff [OF cg_recorded_new [of spec L], of evs]
    compute.run_usage [OF cg_recorded_new [of spec L], of evs] assms
  by (simp add: cg_depth_def)

end
