(* ===== verification/Kv_Update.thy ===== *)
theory Kv_Update
  imports Runtime_Limit
begin

text \<open>
  The KV update tracker of \<^verbatim>\<open>limit/kv_update.rs\<close>: one unit per account or storage slot that the
  transaction changes. \<^verbatim>\<open>before_frame_init\<close> always returns \<^verbatim>\<open>Ok\<close> and panics
  (\<^verbatim>\<open>unreachable!\<close>) on an empty input. The hooks not here are the trait's empty defaults.
\<close>

section \<open>State and operations\<close>

record KVUpdateTracker =
  kv_rex4_enabled :: bool
  kv_frame_tracker :: "CallFrameInfo FrameLimitTracker"

definition kv_new :: "MegaSpecId \<Rightarrow> u64 \<Rightarrow> KVUpdateTracker" where
  "kv_new spec tx_limit = \<lparr>kv_rex4_enabled = is_enabled spec REX4,
     kv_frame_tracker = tracker_new tx_limit\<rparr>"

definition kv_push_frame :: "CallFrameInfo \<Rightarrow> KVUpdateTracker \<Rightarrow> KVUpdateTracker option" where
  "kv_push_frame i t = do {
     ft \<leftarrow> (if kv_rex4_enabled t then push_frame i (kv_frame_tracker t)
            else Some (push_frame_with_limit u64_max i (kv_frame_tracker t)));
     Some (t\<lparr>kv_frame_tracker := ft\<rparr>)
   }"

definition kv_record_discardable :: "u64 \<Rightarrow> KVUpdateTracker \<Rightarrow> KVUpdateTracker" where
  "kv_record_discardable n t =
     t\<lparr>kv_frame_tracker := update_frame (add_discardable n) (kv_frame_tracker t)\<rparr>"

definition kv_record_refund :: "u64 \<Rightarrow> KVUpdateTracker \<Rightarrow> KVUpdateTracker" where
  "kv_record_refund n t =
     t\<lparr>kv_frame_tracker := update_frame (add_refund n) (kv_frame_tracker t)\<rparr>"

definition kv_tx_limit :: "KVUpdateTracker \<Rightarrow> u64" where
  "kv_tx_limit t = tracker_tx_limit (kv_frame_tracker t)"

definition kv_tx_usage :: "KVUpdateTracker \<Rightarrow> u64 option" where
  "kv_tx_usage t = net_usage (kv_frame_tracker t)"

definition kv_reset :: "KVUpdateTracker \<Rightarrow> KVUpdateTracker" where
  "kv_reset t = t\<lparr>kv_frame_tracker := tracker_reset (kv_frame_tracker t)\<rparr>"

definition kv_check_limit :: "KVUpdateTracker \<Rightarrow> LimitCheck option" where
  "kv_check_limit t =
     (if kv_rex4_enabled t then exceeds_current_frame_limit KVUpdate (kv_frame_tracker t)
      else do {
        u \<leftarrow> kv_tx_usage t;
        let limit = tracker_tx_limit (kv_frame_tracker t);
        Some (if limit < u then ExceedsLimit KVUpdate limit u False else WithinLimit)
      })"

text \<open>The loop over the authorizations runs once per recovered authority.\<close>

definition kv_record_tx :: "u64 \<Rightarrow> KVUpdateTracker \<Rightarrow> KVUpdateTracker" where
  "kv_record_tx n t = t\<lparr>kv_frame_tracker := update_tx (add_persistent n) (kv_frame_tracker t)\<rparr>"

fun kv_record_authorities :: "address option list \<Rightarrow> KVUpdateTracker \<Rightarrow> KVUpdateTracker" where
  "kv_record_authorities [] t = t"
| "kv_record_authorities (authority # rest) t =
     kv_record_authorities rest (if authority \<noteq> None then kv_record_tx 1 t else t)"

definition kv_before_tx_start :: "MegaTransaction \<Rightarrow> KVUpdateTracker \<Rightarrow> KVUpdateTracker" where
  "kv_before_tx_start tx t = kv_record_tx 1 (kv_record_authorities (tx_authorization_list tx) t)"

definition kv_push_empty_frame :: "KVUpdateTracker \<Rightarrow> KVUpdateTracker option" where
  "kv_push_empty_frame t = kv_push_frame \<lparr>target_address = None, target_updated = False\<rparr> t"

definition kv_parent_not_updated :: "KVUpdateTracker \<Rightarrow> bool" where
  "kv_parent_not_updated t =
     (case frame_mut (kv_frame_tracker t) of
        Some entry \<Rightarrow> \<not> target_updated (info entry) | None \<Rightarrow> False)"

definition kv_before_frame_init :: "FrameInit \<Rightarrow> KVUpdateTracker \<Rightarrow> KVUpdateTracker option" where
  "kv_before_frame_init frame_init t =
     (case fi_input frame_init of
        CallInput call_inputs \<Rightarrow>
          let has_transfer = ci_transfers_value call_inputs;
              parent_needs_update = has_transfer \<and> kv_parent_not_updated t
          in do {
            t1 \<leftarrow> kv_push_frame \<lparr>target_address = Some (ci_target_address call_inputs),
                                 target_updated = has_transfer\<rparr> t;
            Some (if has_transfer
                  then kv_record_discardable 1
                         (if parent_needs_update then kv_record_discardable 1 t1 else t1)
                  else t1)
          }
      | CreateInput _ \<Rightarrow>
          let parent_needs_update = kv_parent_not_updated t
          in do {
            t1 \<leftarrow> kv_push_frame \<lparr>target_address = None, target_updated = True\<rparr> t;
            Some (if parent_needs_update then kv_record_discardable 1 t1 else t1)
          }
      | EmptyInput \<Rightarrow> None)"

definition kv_after_frame_init_on_frame ::
  "'gas EthFrame \<Rightarrow> KVUpdateTracker \<Rightarrow> KVUpdateTracker option" where
  "kv_after_frame_init_on_frame frame t =
     (if frame_is_create frame
      then do {
        created_address \<leftarrow> frame_created_address frame;
        (case frame_mut (kv_frame_tracker t) of
           Some entry \<Rightarrow>
             if target_address (info entry) = None
             then Some (t\<lparr>kv_frame_tracker :=
                    update_frame (\<lambda>e. add_discardable 1
                        (e\<lparr>info := (info e)\<lparr>target_address := Some created_address\<rparr>\<rparr>))
                      (kv_frame_tracker t)\<rparr>)
             else None
         | None \<Rightarrow> Some t)
      }
      else Some t)"

definition kv_before_frame_return_result ::
  "bool \<Rightarrow> bool \<Rightarrow> KVUpdateTracker \<Rightarrow> KVUpdateTracker option" where
  "kv_before_frame_return_result last_frame is_ok t =
     (if last_frame \<or> has_active_frame (kv_frame_tracker t)
      then Some (t\<lparr>kv_frame_tracker := snd (pop_frame is_ok (kv_frame_tracker t))\<rparr>)
      else None)"

definition kv_after_sstore :: "SStoreResult \<Rightarrow> KVUpdateTracker \<Rightarrow> KVUpdateTracker" where
  "kv_after_sstore store_result t =
     (if is_original_eq_present store_result
      then (if \<not> is_original_eq_new store_result then kv_record_discardable 1 t else t)
      else if is_original_eq_new store_result then kv_record_refund 1 t else t)"

section \<open>The tracker as a provider of the interface\<close>

definition kv_depth :: "KVUpdateTracker \<Rightarrow> nat" where
  "kv_depth t = length (frame_stack (kv_frame_tracker t))"

definition kv_recorded :: "nat \<Rightarrow> KVUpdateTracker \<Rightarrow> bool" where
  "kv_recorded c t \<longleftrightarrow>
     metered_upto (kv_rex4_enabled t) (tracker_tx_limit (kv_frame_tracker t)) c (kv_frame_tracker t)"

lemma kv_recorded_new: "kv_recorded 0 (kv_new spec L)"
  by (simp add: kv_recorded_def kv_new_def tracker_tx_limit_def metered_upto_new)

lemma kv_recorded_mono: "kv_recorded c t \<Longrightarrow> c \<le> c' \<Longrightarrow> kv_recorded c' t"
  unfolding kv_recorded_def by (rule metered_upto_mono)

lemma kv_push_law:
  assumes "kv_recorded c t" and "c < 2 ^ 64"
  shows "\<exists>t'. kv_push_frame i t = Some t' \<and> kv_recorded c t' \<and> kv_depth t' = Suc (kv_depth t)
    \<and> kv_tx_usage t' = kv_tx_usage t"
  using metered_upto_enter [of "kv_rex4_enabled t" "tracker_tx_limit (kv_frame_tracker t)" c
      "kv_frame_tracker t" i] assms
  by (auto simp: kv_push_frame_def kv_recorded_def kv_depth_def kv_tx_usage_def tracker_tx_limit_def)

lemma kv_record_laws:
  assumes "kv_recorded c t"
  shows "kv_recorded (c + unat n) (kv_record_discardable n t)"
    and "kv_recorded (c + unat n) (kv_record_refund n t)"
    and "kv_recorded (c + unat n) (kv_record_tx n t)"
    and "kv_depth (kv_record_discardable n t) = kv_depth t"
    and "kv_depth (kv_record_refund n t) = kv_depth t"
    and "kv_depth (kv_record_tx n t) = kv_depth t"
  using assms
  by (simp_all add: kv_record_discardable_def kv_record_refund_def kv_record_tx_def
      kv_recorded_def kv_depth_def metered_upto_records)

lemma kv_usage_law:
  assumes "kv_recorded c t" and "c < 2 ^ 64"
  shows "\<exists>u. kv_tx_usage t = Some u \<and> unat u \<le> c"
  using metered_upto_usage assms unfolding kv_recorded_def kv_tx_usage_def by blast

lemma kv_check_law:
  assumes "kv_recorded c t" and "c < 2 ^ 64"
  shows "\<exists>k. kv_check_limit t = Some k"
proof -
  obtain u where u: "kv_tx_usage t = Some u" using kv_usage_law [OF assms] by blast
  obtain k where "exceeds_current_frame_limit KVUpdate (kv_frame_tracker t) = Some k"
    using metered_upto_checks assms unfolding kv_recorded_def by blast
  with u show ?thesis by (simp add: kv_check_limit_def Let_def)
qed

lemma kv_reset_law:
  assumes "kv_recorded c t"
  shows "kv_recorded 0 (kv_reset t) \<and> kv_depth (kv_reset t) = 0"
  using metered_upto_reset assms
  by (auto simp: kv_reset_def kv_recorded_def kv_depth_def tracker_tx_limit_def)

lemma kv_enter_law:
  assumes "kv_recorded c t" and "c < 2 ^ 64" and "fi_input x \<noteq> EmptyInput"
  shows "\<exists>t'. kv_before_frame_init x t = Some t' \<and> kv_recorded (c + 2) t'
    \<and> kv_depth t' = Suc (kv_depth t)"
proof (cases "fi_input x")
  case EmptyInput
  with assms show ?thesis by simp
next
  case (CallInput ci)
  obtain t1 where t1: "kv_push_frame \<lparr>target_address = Some (ci_target_address ci),
      target_updated = ci_transfers_value ci\<rparr> t = Some t1"
      "kv_recorded c t1" "kv_depth t1 = Suc (kv_depth t)"
    using kv_push_law [OF assms(1,2)] by blast
  have "kv_recorded (c + 2) t1" "kv_recorded (c + 2) (kv_record_discardable 1 t1)"
    "kv_recorded (c + 2) (kv_record_discardable 1 (kv_record_discardable 1 t1))"
    using kv_record_laws(1) [OF t1(2), of 1]
      kv_record_laws(1) [OF kv_record_laws(1) [OF t1(2), of 1], of 1] t1(2)
    by (auto elim: kv_recorded_mono)
  then show ?thesis
    using CallInput t1 by (simp add: kv_before_frame_init_def Let_def kv_record_laws)
next
  case (CreateInput cri)
  obtain t1 where t1: "kv_push_frame \<lparr>target_address = None, target_updated = True\<rparr> t = Some t1"
      "kv_recorded c t1" "kv_depth t1 = Suc (kv_depth t)"
    using kv_push_law [OF assms(1,2)] by blast
  have "kv_recorded (c + 2) t1" "kv_recorded (c + 2) (kv_record_discardable 1 t1)"
    using kv_record_laws(1) [OF t1(2), of 1] t1(2) by (auto elim: kv_recorded_mono)
  then show ?thesis
    using CreateInput t1 by (simp add: kv_before_frame_init_def Let_def kv_record_laws)
qed

lemma kv_work_law:
  assumes "kv_recorded c t"
  shows "kv_recorded (c + 1) (kv_after_sstore s t) \<and> kv_depth (kv_after_sstore s t) = kv_depth t"
proof -
  have "kv_recorded (c + 1) t" using assms by (rule kv_recorded_mono) simp
  then show ?thesis
    using kv_record_laws [OF assms, of 1] by (simp add: kv_after_sstore_def)
qed

lemma kv_leave_law:
  assumes "kv_recorded c t" and "c < 2 ^ 64" and "final \<or> 0 < kv_depth t"
  shows "\<exists>t'. kv_before_frame_return_result final ok t = Some t' \<and> kv_recorded c t'
    \<and> kv_depth t' = kv_depth t - 1 \<and> (ok \<longrightarrow> kv_tx_usage t' = kv_tx_usage t)"
  using metered_upto_leave [of "kv_rex4_enabled t" "tracker_tx_limit (kv_frame_tracker t)" c
      "kv_frame_tracker t" ok] assms
  by (auto simp: kv_before_frame_return_result_def kv_recorded_def kv_depth_def kv_tx_usage_def
      has_active_frame_def tracker_tx_limit_def)

lemma kv_leave_panics: "kv_depth t = 0 \<Longrightarrow> kv_before_frame_return_result False ok t = None"
  by (simp add: kv_before_frame_return_result_def kv_depth_def has_active_frame_def)

lemmas kv_laws = kv_usage_law kv_check_law kv_reset_law kv_enter_law
  kv_push_law [where i = "\<lparr>target_address = None, target_updated = False\<rparr>",
    folded kv_push_empty_frame_def] kv_work_law kv_leave_law kv_leave_panics

interpretation kv: tx_runtime_limit kv_tx_usage kv_check_limit kv_reset kv_before_frame_init
  kv_push_empty_frame kv_after_sstore kv_before_frame_return_result kv_depth kv_recorded
  "\<lambda>x. fi_input x \<noteq> EmptyInput" 2 "\<lambda>_. 1"
  by unfold_locales ((rule kv_laws; assumption)+)

interpretation kv_budget: frame_budgeted kv_frame_tracker kv_rex4_enabled kv_check_limit kv_tx_usage
  kv_before_frame_return_result KVUpdate
  by unfold_locales
    (auto simp: kv_check_limit_def kv_tx_usage_def kv_before_frame_return_result_def
      split: if_splits)

section \<open>What the hooks record\<close>

lemma kv_before_tx_start_usage:
  "kv_before_tx_start tx t = kv_record_tx
     (word_of_nat (1 + length (filter (\<lambda>a. a \<noteq> None) (tx_authorization_list tx)))) t"
proof -
  have comp: "kv_record_tx b (kv_record_tx a t) = kv_record_tx (a + b) t" for a b t
    by (simp add: kv_record_tx_def update_tx_def add_persistent_def add.assoc)
  have zero: "kv_record_tx 0 t = t" for t
    by (simp add: kv_record_tx_def update_tx_def add_persistent_def)
  have "kv_record_authorities as t =
      kv_record_tx (word_of_nat (length (filter (\<lambda>a. a \<noteq> None) as))) t" for as
    by (induction as arbitrary: t) (simp_all add: zero comp)
  then show ?thesis
    by (simp add: kv_before_tx_start_def comp add.commute)
qed

text \<open>A slot is charged when its value differs from the one before the transaction.\<close>

definition kv_slot_charge :: "u256 \<Rightarrow> u256 \<Rightarrow> int" where
  "kv_slot_charge original present = (if present \<noteq> original then 1 else 0)"

interpretation kv_slot: slot_meter kv_after_sstore "\<lambda>t. top_balance (kv_frame_tracker t)"
  "\<lambda>n t. top_room n 1 (kv_frame_tracker t)" kv_slot_charge
proof
  fix n orig p v and t :: KVUpdateTracker
  assume room: "top_room (Suc n) 1 (kv_frame_tracker t)"
  note rec = top_record [of n 1, simplified, OF room [simplified]]
  show "top_room n 1 (kv_frame_tracker (kv_after_sstore (slot_write orig p v) t)) \<and>
    top_balance (kv_frame_tracker (kv_after_sstore (slot_write orig p v) t)) =
      top_balance (kv_frame_tracker t) + kv_slot_charge orig v - kv_slot_charge orig p"
    using rec
    by (auto simp: kv_after_sstore_def slot_write_def kv_slot_charge_def kv_record_discardable_def
        kv_record_refund_def)
qed

end
