(* ===== verification/Data_Size.thy ===== *)
theory Data_Size
  imports Runtime_Limit
begin

text \<open>
  The data size tracker of \<^verbatim>\<open>limit/data_size.rs\<close>: the bytes a transaction makes the system
  keep. Intrinsic bytes are persistent usage of the transaction entry; logs, storage writes, account
  updates and deployed code are discardable usage of the frame that causes them.
  \<^verbatim>\<open>before_frame_init\<close> always returns \<^verbatim>\<open>Ok\<close> and panics (\<^verbatim>\<open>unreachable!\<close>) on an
  empty input.
\<close>

section \<open>Sizes\<close>

definition BASE_TX_SIZE :: u64 where
  "BASE_TX_SIZE = 110"

definition AUTHORIZATION_SIZE :: u64 where
  "AUTHORIZATION_SIZE = 101"

definition LOG_TOPIC_SIZE :: u64 where
  "LOG_TOPIC_SIZE = 32"

definition SALT_KEY_SIZE :: u64 where
  "SALT_KEY_SIZE = 8"

definition SALT_VALUE_DELTA_ACCOUNT_INFO_SIZE :: u64 where
  "SALT_VALUE_DELTA_ACCOUNT_INFO_SIZE = 32"

definition SALT_VALUE_DELTA_STORAGE_SLOT_SIZE :: u64 where
  "SALT_VALUE_DELTA_STORAGE_SLOT_SIZE = 32"

definition ACCOUNT_INFO_WRITE_SIZE :: u64 where
  "ACCOUNT_INFO_WRITE_SIZE = SALT_KEY_SIZE + SALT_VALUE_DELTA_ACCOUNT_INFO_SIZE"

definition STORAGE_SLOT_WRITE_SIZE :: u64 where
  "STORAGE_SLOT_WRITE_SIZE = SALT_KEY_SIZE + SALT_VALUE_DELTA_STORAGE_SLOT_SIZE"

section \<open>State and operations\<close>

record DataSizeTracker =
  ds_rex4_enabled :: bool
  ds_frame_tracker :: "CallFrameInfo FrameLimitTracker"

definition ds_new :: "MegaSpecId \<Rightarrow> u64 \<Rightarrow> DataSizeTracker" where
  "ds_new spec tx_limit = \<lparr>ds_rex4_enabled = is_enabled spec REX4,
     ds_frame_tracker = tracker_new tx_limit\<rparr>"

definition ds_push_frame :: "CallFrameInfo \<Rightarrow> DataSizeTracker \<Rightarrow> DataSizeTracker option" where
  "ds_push_frame i t = do {
     ft \<leftarrow> (if ds_rex4_enabled t then push_frame i (ds_frame_tracker t)
            else Some (push_frame_with_limit u64_max i (ds_frame_tracker t)));
     Some (t\<lparr>ds_frame_tracker := ft\<rparr>)
   }"

definition ds_record_discardable :: "u64 \<Rightarrow> DataSizeTracker \<Rightarrow> DataSizeTracker" where
  "ds_record_discardable n t =
     t\<lparr>ds_frame_tracker := update_frame (add_discardable n) (ds_frame_tracker t)\<rparr>"

definition ds_record_refund :: "u64 \<Rightarrow> DataSizeTracker \<Rightarrow> DataSizeTracker" where
  "ds_record_refund n t =
     t\<lparr>ds_frame_tracker := update_frame (add_refund n) (ds_frame_tracker t)\<rparr>"

definition ds_tx_limit :: "DataSizeTracker \<Rightarrow> u64" where
  "ds_tx_limit t = tracker_tx_limit (ds_frame_tracker t)"

definition ds_tx_usage :: "DataSizeTracker \<Rightarrow> u64 option" where
  "ds_tx_usage t = net_usage (ds_frame_tracker t)"

definition ds_reset :: "DataSizeTracker \<Rightarrow> DataSizeTracker" where
  "ds_reset t = t\<lparr>ds_frame_tracker := tracker_reset (ds_frame_tracker t)\<rparr>"

definition ds_check_limit :: "DataSizeTracker \<Rightarrow> LimitCheck option" where
  "ds_check_limit t =
     (if ds_rex4_enabled t then exceeds_current_frame_limit DataSize (ds_frame_tracker t)
      else do {
        u \<leftarrow> ds_tx_usage t;
        let limit = tracker_tx_limit (ds_frame_tracker t);
        Some (if limit < u then ExceedsLimit DataSize limit u False else WithinLimit)
      })"

definition ds_has_active_frame :: "DataSizeTracker \<Rightarrow> bool" where
  "ds_has_active_frame t = has_active_frame (ds_frame_tracker t)"

definition ds_record_tx :: "u64 \<Rightarrow> DataSizeTracker \<Rightarrow> DataSizeTracker" where
  "ds_record_tx n t = t\<lparr>ds_frame_tracker := update_tx (add_persistent n) (ds_frame_tracker t)\<rparr>"

fun ds_record_authorities :: "address option list \<Rightarrow> DataSizeTracker \<Rightarrow> DataSizeTracker" where
  "ds_record_authorities [] t = t"
| "ds_record_authorities (authority # rest) t =
     ds_record_authorities rest
       (if authority \<noteq> None then ds_record_tx ACCOUNT_INFO_WRITE_SIZE t else t)"

text \<open>The intrinsic size of a transaction. An access list is the list of the sizes of its items,
  which an upstream method computes.\<close>

definition ds_intrinsic_size :: "MegaTransaction \<Rightarrow> u64" where
  "ds_intrinsic_size tx =
     (let size = BASE_TX_SIZE;
          size = size + len_u64 (tx_input tx);
          size = size + (case tx_access_list tx of Some sizes \<Rightarrow> sum_list sizes | None \<Rightarrow> 0)
      in size + len_u64 (tx_authorization_list tx) * AUTHORIZATION_SIZE)"

definition ds_before_tx_start :: "MegaTransaction \<Rightarrow> DataSizeTracker \<Rightarrow> DataSizeTracker" where
  "ds_before_tx_start tx t =
     ds_record_tx ACCOUNT_INFO_WRITE_SIZE
       (ds_record_authorities (tx_authorization_list tx)
         (ds_record_tx (ds_intrinsic_size tx) t))"

definition ds_push_empty_frame :: "DataSizeTracker \<Rightarrow> DataSizeTracker option" where
  "ds_push_empty_frame t = ds_push_frame \<lparr>target_address = None, target_updated = False\<rparr> t"

definition ds_parent_not_updated :: "DataSizeTracker \<Rightarrow> bool" where
  "ds_parent_not_updated t =
     (case frame_mut (ds_frame_tracker t) of
        Some entry \<Rightarrow> \<not> target_updated (info entry) | None \<Rightarrow> False)"

definition ds_before_frame_init :: "FrameInit \<Rightarrow> DataSizeTracker \<Rightarrow> DataSizeTracker option" where
  "ds_before_frame_init frame_init t =
     (case fi_input frame_init of
        CallInput call_inputs \<Rightarrow>
          let has_transfer = ci_transfers_value call_inputs;
              parent_needs_update = has_transfer \<and> ds_parent_not_updated t
          in do {
            t1 \<leftarrow> ds_push_frame \<lparr>target_address = Some (ci_target_address call_inputs),
                                 target_updated = has_transfer\<rparr> t;
            Some (if has_transfer
                  then ds_record_discardable ACCOUNT_INFO_WRITE_SIZE
                         (if parent_needs_update then ds_record_discardable ACCOUNT_INFO_WRITE_SIZE t1 else t1)
                  else t1)
          }
      | CreateInput _ \<Rightarrow>
          let parent_needs_update = ds_parent_not_updated t
          in do {
            t1 \<leftarrow> ds_push_frame \<lparr>target_address = None, target_updated = True\<rparr> t;
            Some (if parent_needs_update then ds_record_discardable ACCOUNT_INFO_WRITE_SIZE t1 else t1)
          }
      | EmptyInput \<Rightarrow> None)"

definition ds_after_frame_init_on_frame ::
  "'gas EthFrame \<Rightarrow> DataSizeTracker \<Rightarrow> DataSizeTracker option" where
  "ds_after_frame_init_on_frame frame t =
     (if frame_is_create frame
      then do {
        created_address \<leftarrow> frame_created_address frame;
        (case frame_mut (ds_frame_tracker t) of
           Some entry \<Rightarrow>
             if target_address (info entry) = None
             then Some (t\<lparr>ds_frame_tracker :=
                    update_frame (\<lambda>e. add_discardable ACCOUNT_INFO_WRITE_SIZE
                        (e\<lparr>info := (info e)\<lparr>target_address := Some created_address\<rparr>\<rparr>))
                      (ds_frame_tracker t)\<rparr>)
             else None
         | None \<Rightarrow> Some t)
      }
      else Some t)"

definition ds_after_frame_run ::
  "'gas EthFrame \<Rightarrow> ('ir, 'gas) InterpreterAction \<Rightarrow> DataSizeTracker \<Rightarrow> DataSizeTracker" where
  "ds_after_frame_run frame action t =
     (case action of
        ReturnAction interpreter_result \<Rightarrow>
          if frame_is_create frame
          then (let code_size = len_u64 (ir_output interpreter_result)
                in ds_record_discardable code_size t)
          else t
      | NewFrameAction _ \<Rightarrow> t)"

definition ds_before_frame_return_result ::
  "bool \<Rightarrow> bool \<Rightarrow> DataSizeTracker \<Rightarrow> DataSizeTracker option" where
  "ds_before_frame_return_result last_frame is_ok t =
     (if last_frame \<or> has_active_frame (ds_frame_tracker t)
      then Some (t\<lparr>ds_frame_tracker := snd (pop_frame is_ok (ds_frame_tracker t))\<rparr>)
      else None)"

definition ds_after_sstore :: "SStoreResult \<Rightarrow> DataSizeTracker \<Rightarrow> DataSizeTracker" where
  "ds_after_sstore store_result t =
     (if is_original_eq_present store_result
      then (if \<not> is_original_eq_new store_result then ds_record_discardable STORAGE_SLOT_WRITE_SIZE t else t)
      else if is_original_eq_new store_result then ds_record_refund STORAGE_SLOT_WRITE_SIZE t else t)"

definition ds_after_log :: "u64 \<Rightarrow> u64 \<Rightarrow> DataSizeTracker \<Rightarrow> DataSizeTracker" where
  "ds_after_log num_topics data_size t =
     (let size = num_topics * LOG_TOPIC_SIZE + data_size in ds_record_discardable size t)"

text \<open>The hooks that record usage inside a frame, as events.\<close>

datatype ds_event = DsStore SStoreResult | DsLog u64 u64

fun ds_work :: "ds_event \<Rightarrow> DataSizeTracker \<Rightarrow> DataSizeTracker" where
  "ds_work (DsStore s) t = ds_after_sstore s t"
| "ds_work (DsLog num_topics data_size) t = ds_after_log num_topics data_size t"

fun ds_work_cost :: "ds_event \<Rightarrow> nat" where
  "ds_work_cost (DsStore s) = 40"
| "ds_work_cost (DsLog num_topics data_size) = unat num_topics * 32 + unat data_size"

section \<open>The tracker as a provider of the interface\<close>

definition ds_depth :: "DataSizeTracker \<Rightarrow> nat" where
  "ds_depth t = length (frame_stack (ds_frame_tracker t))"

definition ds_recorded :: "nat \<Rightarrow> DataSizeTracker \<Rightarrow> bool" where
  "ds_recorded c t \<longleftrightarrow>
     metered_upto (ds_rex4_enabled t) (tracker_tx_limit (ds_frame_tracker t)) c (ds_frame_tracker t)"

lemma ds_sizes [simp]: "ACCOUNT_INFO_WRITE_SIZE = 40" "STORAGE_SLOT_WRITE_SIZE = 40"
  by (simp_all add: ACCOUNT_INFO_WRITE_SIZE_def STORAGE_SLOT_WRITE_SIZE_def SALT_KEY_SIZE_def
      SALT_VALUE_DELTA_ACCOUNT_INFO_SIZE_def SALT_VALUE_DELTA_STORAGE_SLOT_SIZE_def)

lemma ds_recorded_new: "ds_recorded 0 (ds_new spec L)"
  by (simp add: ds_recorded_def ds_new_def tracker_tx_limit_def metered_upto_new)

lemma ds_recorded_mono: "ds_recorded c t \<Longrightarrow> c \<le> c' \<Longrightarrow> ds_recorded c' t"
  unfolding ds_recorded_def by (rule metered_upto_mono)

lemma ds_push_law:
  assumes "ds_recorded c t" and "c < 2 ^ 64"
  shows "\<exists>t'. ds_push_frame i t = Some t' \<and> ds_recorded c t' \<and> ds_depth t' = Suc (ds_depth t)
    \<and> ds_tx_usage t' = ds_tx_usage t"
  using metered_upto_enter [of "ds_rex4_enabled t" "tracker_tx_limit (ds_frame_tracker t)" c
      "ds_frame_tracker t" i] assms
  by (auto simp: ds_push_frame_def ds_recorded_def ds_depth_def ds_tx_usage_def tracker_tx_limit_def)

lemma ds_record_laws:
  assumes "ds_recorded c t"
  shows "ds_recorded (c + unat n) (ds_record_discardable n t)"
    and "ds_recorded (c + unat n) (ds_record_refund n t)"
    and "ds_recorded (c + unat n) (ds_record_tx n t)"
    and "ds_depth (ds_record_discardable n t) = ds_depth t"
    and "ds_depth (ds_record_refund n t) = ds_depth t"
    and "ds_depth (ds_record_tx n t) = ds_depth t"
  using assms
  by (simp_all add: ds_record_discardable_def ds_record_refund_def ds_record_tx_def
      ds_recorded_def ds_depth_def metered_upto_records)

lemma ds_usage_law:
  assumes "ds_recorded c t" and "c < 2 ^ 64"
  shows "\<exists>u. ds_tx_usage t = Some u \<and> unat u \<le> c"
  using metered_upto_usage assms unfolding ds_recorded_def ds_tx_usage_def by blast

lemma ds_check_law:
  assumes "ds_recorded c t" and "c < 2 ^ 64"
  shows "\<exists>k. ds_check_limit t = Some k"
proof -
  obtain u where u: "ds_tx_usage t = Some u" using ds_usage_law [OF assms] by blast
  obtain k where "exceeds_current_frame_limit DataSize (ds_frame_tracker t) = Some k"
    using metered_upto_checks assms unfolding ds_recorded_def by blast
  with u show ?thesis by (simp add: ds_check_limit_def Let_def)
qed

lemma ds_reset_law:
  assumes "ds_recorded c t"
  shows "ds_recorded 0 (ds_reset t) \<and> ds_depth (ds_reset t) = 0"
  using metered_upto_reset assms
  by (auto simp: ds_reset_def ds_recorded_def ds_depth_def tracker_tx_limit_def)

lemma ds_enter_law:
  assumes "ds_recorded c t" and "c < 2 ^ 64" and "fi_input x \<noteq> EmptyInput"
  shows "\<exists>t'. ds_before_frame_init x t = Some t' \<and> ds_recorded (c + 80) t'
    \<and> ds_depth t' = Suc (ds_depth t)"
proof (cases "fi_input x")
  case EmptyInput
  with assms show ?thesis by simp
next
  case (CallInput ci)
  obtain t1 where t1: "ds_push_frame \<lparr>target_address = Some (ci_target_address ci),
      target_updated = ci_transfers_value ci\<rparr> t = Some t1"
      "ds_recorded c t1" "ds_depth t1 = Suc (ds_depth t)"
    using ds_push_law [OF assms(1,2)] by blast
  have "ds_recorded (c + 80) t1" "ds_recorded (c + 80) (ds_record_discardable 40 t1)"
    "ds_recorded (c + 80) (ds_record_discardable 40 (ds_record_discardable 40 t1))"
    using ds_record_laws(1) [OF t1(2), of 40]
      ds_record_laws(1) [OF ds_record_laws(1) [OF t1(2), of 40], of 40] t1(2)
    by (auto elim: ds_recorded_mono)
  then show ?thesis
    using CallInput t1 by (simp add: ds_before_frame_init_def Let_def ds_record_laws)
next
  case (CreateInput cri)
  obtain t1 where t1: "ds_push_frame \<lparr>target_address = None, target_updated = True\<rparr> t = Some t1"
      "ds_recorded c t1" "ds_depth t1 = Suc (ds_depth t)"
    using ds_push_law [OF assms(1,2)] by blast
  have "ds_recorded (c + 80) t1" "ds_recorded (c + 80) (ds_record_discardable 40 t1)"
    using ds_record_laws(1) [OF t1(2), of 40] t1(2) by (auto elim: ds_recorded_mono)
  then show ?thesis
    using CreateInput t1 by (simp add: ds_before_frame_init_def Let_def ds_record_laws)
qed

lemma unat_log_size_le:
  "unat (n * LOG_TOPIC_SIZE + d) \<le> unat n * 32 + unat d"
proof -
  have "unat (n * LOG_TOPIC_SIZE) \<le> unat n * 32"
    by (simp add: LOG_TOPIC_SIZE_def unat_word_ariths)
  then show ?thesis
    using unat_add_le [of "n * LOG_TOPIC_SIZE" d] by simp
qed

lemma ds_work_law:
  assumes "ds_recorded c t"
  shows "ds_recorded (c + ds_work_cost w) (ds_work w t) \<and> ds_depth (ds_work w t) = ds_depth t"
proof (cases w)
  case (DsStore s)
  have "ds_recorded (c + 40) t" using assms by (rule ds_recorded_mono) simp
  then show ?thesis
    using DsStore ds_record_laws [OF assms, of 40] by (simp add: ds_after_sstore_def)
next
  case (DsLog n d)
  have "ds_recorded (c + ds_work_cost w) (ds_record_discardable (n * LOG_TOPIC_SIZE + d) t)"
    using ds_record_laws(1) [OF assms, of "n * LOG_TOPIC_SIZE + d"] unat_log_size_le [of n d] DsLog
    by (auto elim: ds_recorded_mono)
  then show ?thesis
    using DsLog by (simp add: ds_after_log_def Let_def ds_record_laws [OF assms])
qed

lemma ds_leave_law:
  assumes "ds_recorded c t" and "c < 2 ^ 64" and "final \<or> 0 < ds_depth t"
  shows "\<exists>t'. ds_before_frame_return_result final ok t = Some t' \<and> ds_recorded c t'
    \<and> ds_depth t' = ds_depth t - 1 \<and> (ok \<longrightarrow> ds_tx_usage t' = ds_tx_usage t)"
  using metered_upto_leave [of "ds_rex4_enabled t" "tracker_tx_limit (ds_frame_tracker t)" c
      "ds_frame_tracker t" ok] assms
  by (auto simp: ds_before_frame_return_result_def ds_recorded_def ds_depth_def ds_tx_usage_def
      has_active_frame_def tracker_tx_limit_def)

lemma ds_leave_panics: "ds_depth t = 0 \<Longrightarrow> ds_before_frame_return_result False ok t = None"
  by (simp add: ds_before_frame_return_result_def ds_depth_def has_active_frame_def)

lemmas ds_laws = ds_usage_law ds_check_law ds_reset_law ds_enter_law
  ds_push_law [where i = "\<lparr>target_address = None, target_updated = False\<rparr>",
    folded ds_push_empty_frame_def] ds_work_law ds_leave_law ds_leave_panics

interpretation ds: tx_runtime_limit ds_tx_usage ds_check_limit ds_reset ds_before_frame_init
  ds_push_empty_frame ds_work ds_before_frame_return_result ds_depth ds_recorded
  "\<lambda>x. fi_input x \<noteq> EmptyInput" 80 ds_work_cost
  by unfold_locales ((rule ds_laws; assumption)+)

interpretation ds_budget: frame_budgeted ds_frame_tracker ds_rex4_enabled ds_check_limit ds_tx_usage
  ds_before_frame_return_result DataSize
  by unfold_locales
    (auto simp: ds_check_limit_def ds_tx_usage_def ds_before_frame_return_result_def
      split: if_splits)

section \<open>What the hooks record\<close>

lemma ds_record_tx_comp: "ds_record_tx b (ds_record_tx a t) = ds_record_tx (a + b) t"
  by (simp add: ds_record_tx_def update_tx_def add_persistent_def add.assoc)

lemma ds_record_authorities_eq:
  "ds_record_authorities as t = ds_record_tx
     (word_of_nat (length (filter (\<lambda>a. a \<noteq> None) as)) * ACCOUNT_INFO_WRITE_SIZE) t"
proof (induction as arbitrary: t)
  case Nil
  show ?case by (simp add: ds_record_tx_def update_tx_def add_persistent_def)
next
  case (Cons a as)
  then show ?case by (simp add: ds_record_tx_comp algebra_simps)
qed

lemma ds_before_tx_start_eq:
  "ds_before_tx_start tx t = ds_record_tx (ds_intrinsic_size tx +
     word_of_nat (1 + length (filter (\<lambda>a. a \<noteq> None) (tx_authorization_list tx)))
       * ACCOUNT_INFO_WRITE_SIZE) t"
  by (simp add: ds_before_tx_start_def ds_record_authorities_eq ds_record_tx_comp algebra_simps)

text \<open>A slot is charged when its value differs from the one before the transaction.\<close>

definition ds_slot_charge :: "u256 \<Rightarrow> u256 \<Rightarrow> int" where
  "ds_slot_charge original present = (if present \<noteq> original then 40 else 0)"

interpretation ds_slot: slot_meter ds_after_sstore "\<lambda>t. top_balance (ds_frame_tracker t)"
  "\<lambda>n t. top_room n 40 (ds_frame_tracker t)" ds_slot_charge
proof
  fix n orig p v and t :: DataSizeTracker
  assume room: "top_room (Suc n) 40 (ds_frame_tracker t)"
  note rec = top_record [of n 40, simplified, OF room]
  show "top_room n 40 (ds_frame_tracker (ds_after_sstore (slot_write orig p v) t)) \<and>
    top_balance (ds_frame_tracker (ds_after_sstore (slot_write orig p v) t)) =
      top_balance (ds_frame_tracker t) + ds_slot_charge orig v - ds_slot_charge orig p"
    using rec
    by (auto simp: ds_after_sstore_def slot_write_def ds_slot_charge_def ds_record_discardable_def
        ds_record_refund_def)
qed

section \<open>Properties\<close>

text \<open>
  The intrinsic data of a transaction. Before any frame
  runs, the usage of a new tracker is 110 bytes, the call data, the access list, 101 bytes per
  authorization, 40 bytes per authority that can be recovered and 40 bytes for the sender, and the
  computation does not wrap while that sum is below \<open>2^64\<close>.
\<close>

lemma data_size_of_transaction_start:
  assumes "n = 110 + length (tx_input tx)
      + (case tx_access_list tx of Some sizes \<Rightarrow> sum_list (map unat sizes) | None \<Rightarrow> 0)
      + 101 * length (tx_authorization_list tx)
      + 40 * (1 + length (filter (\<lambda>a. a \<noteq> None) (tx_authorization_list tx)))"
    and "n < 2 ^ 64"
  shows "ds_tx_usage (ds_before_tx_start tx (ds_new spec L)) = Some (word_of_nat n)"
proof -
  have sizes: "(word_of_nat (sum_list (map unat xs)) :: u64) = sum_list xs" for xs :: "u64 list"
    by (induction xs) simp_all
  have "ds_intrinsic_size tx +
      word_of_nat (1 + length (filter (\<lambda>a. a \<noteq> None) (tx_authorization_list tx)))
        * ACCOUNT_INFO_WRITE_SIZE = word_of_nat n"
    unfolding assms(1) ds_intrinsic_size_def Let_def len_u64_def
    by (cases "tx_access_list tx")
      (simp_all add: BASE_TX_SIZE_def AUTHORIZATION_SIZE_def sizes algebra_simps)
  then show ?thesis
    using assms(2)
    by (simp add: ds_before_tx_start_eq ds_record_tx_def ds_tx_usage_def ds_new_def net_usage_def
        used_def checked_add_def add_persistent_def entry_new_def)
qed

definition sample_tx :: MegaTransaction where
  "sample_tx = \<lparr>tx_caller = 1, tx_type = 4, tx_kind = TxCall 2, tx_value = 0, tx_nonce = 0,
     tx_gas_limit = 100000, tx_gas_price = 1, tx_source_hash = 0, tx_input = [1, 2, 3],
     tx_access_list = Some [52], tx_authorization_list = [Some 7, None], tx_enveloped = None\<rparr>"

text \<open>
  The data charged for one storage slot depends on its first and
  last value only, 40 bytes when they differ and nothing otherwise, however often the frame
  writes it.
\<close>

lemma data_size_slot_charge:
  assumes "top_room (length vs) 40 (ds_frame_tracker t)"
  shows "top_balance (ds_frame_tracker (fold ds_after_sstore (slot_writes orig orig vs) t)) =
    top_balance (ds_frame_tracker t) + (if last (orig # vs) \<noteq> orig then 40 else 0)"
  using ds_slot.writes_telescope [OF assms, of orig orig] by (simp add: ds_slot_charge_def)

end
