(* ===== verification/State_Growth.thy ===== *)
theory State_Growth
  imports Runtime_Limit
begin

text \<open>
  The state growth tracker of \<^verbatim>\<open>limit/state_growth.rs\<close>: the net number of accounts and storage
  slots a transaction adds to the state. Its \<^verbatim>\<open>before_frame_init\<close> inspects the callee in the
  journal, which may fail with a database error; by then the frame is already pushed.
\<close>

section \<open>State and operations\<close>

record StateGrowthTracker =
  sg_spec :: MegaSpecId
  sg_frame_tracker :: "unit FrameLimitTracker"

definition sg_new :: "MegaSpecId \<Rightarrow> u64 \<Rightarrow> StateGrowthTracker" where
  "sg_new spec tx_limit = \<lparr>sg_spec = spec, sg_frame_tracker = tracker_new tx_limit\<rparr>"

definition sg_push_frame :: "StateGrowthTracker \<Rightarrow> StateGrowthTracker option" where
  "sg_push_frame t = do {
     ft \<leftarrow> (if is_enabled (sg_spec t) REX4 then push_frame () (sg_frame_tracker t)
            else Some (push_frame_with_limit u64_max () (sg_frame_tracker t)));
     Some (t\<lparr>sg_frame_tracker := ft\<rparr>)
   }"

definition record_growth :: "u64 \<Rightarrow> StateGrowthTracker \<Rightarrow> StateGrowthTracker" where
  "record_growth n t =
     t\<lparr>sg_frame_tracker := update_frame (add_discardable n) (sg_frame_tracker t)\<rparr>"

definition sg_record_refund :: "u64 \<Rightarrow> StateGrowthTracker \<Rightarrow> StateGrowthTracker" where
  "sg_record_refund n t =
     t\<lparr>sg_frame_tracker := update_frame (add_refund n) (sg_frame_tracker t)\<rparr>"

definition sg_tx_limit :: "StateGrowthTracker \<Rightarrow> u64" where
  "sg_tx_limit t = tracker_tx_limit (sg_frame_tracker t)"

definition sg_tx_usage :: "StateGrowthTracker \<Rightarrow> u64 option" where
  "sg_tx_usage t = net_usage (sg_frame_tracker t)"

definition sg_reset :: "StateGrowthTracker \<Rightarrow> StateGrowthTracker" where
  "sg_reset t = t\<lparr>sg_frame_tracker := tracker_reset (sg_frame_tracker t)\<rparr>"

definition sg_check_limit :: "StateGrowthTracker \<Rightarrow> LimitCheck option" where
  "sg_check_limit t =
     (if is_enabled (sg_spec t) REX4
      then exceeds_current_frame_limit StateGrowth (sg_frame_tracker t)
      else do {
        u \<leftarrow> sg_tx_usage t;
        let limit = tracker_tx_limit (sg_frame_tracker t);
        Some (if limit < u then ExceedsLimit StateGrowth limit u False else WithinLimit)
      })"

definition sg_push_empty_frame :: "StateGrowthTracker \<Rightarrow> StateGrowthTracker option" where
  "sg_push_empty_frame t = sg_push_frame t"

definition sg_before_frame_init ::
  "'e Database \<Rightarrow> FrameInit \<Rightarrow> Journal \<Rightarrow> StateGrowthTracker \<Rightarrow>
   (('e + unit) \<times> Journal \<times> StateGrowthTracker) option" where
  "sg_before_frame_init D frame_init j t = do {
     t1 \<leftarrow> sg_push_frame t;
     (case fi_input frame_init of
        CallInput call_inputs \<Rightarrow>
          if ci_transfers_value call_inputs
          then (case inspect_account_delegated D (sg_spec t1) (ci_target_address call_inputs) j of
                  (Inl e, j1) \<Rightarrow> Some (Inl e, j1, t1)
                | (Inr (_, to_account), j1) \<Rightarrow>
                    Some (Inr (), j1,
                          if account_is_empty D to_account then record_growth 1 t1 else t1))
          else Some (Inr (), j, t1)
      | CreateInput _ \<Rightarrow> Some (Inr (), j, record_growth 1 t1)
      | EmptyInput \<Rightarrow> None)
   }"

definition sg_after_sstore :: "SStoreResult \<Rightarrow> StateGrowthTracker \<Rightarrow> StateGrowthTracker" where
  "sg_after_sstore store_result t =
     (case (original_value store_result = 0, present_value store_result = 0,
            new_value store_result = 0) of
        (True, True, False) \<Rightarrow> record_growth 1 t
      | (True, False, True) \<Rightarrow> sg_record_refund 1 t
      | _ \<Rightarrow> t)"

definition sg_before_frame_return_result ::
  "bool \<Rightarrow> bool \<Rightarrow> StateGrowthTracker \<Rightarrow> StateGrowthTracker option" where
  "sg_before_frame_return_result last_frame is_ok t =
     (if last_frame \<or> has_active_frame (sg_frame_tracker t)
      then Some (t\<lparr>sg_frame_tracker := snd (pop_frame is_ok (sg_frame_tracker t))\<rparr>)
      else None)"

section \<open>The tracker as a provider of the interface\<close>

definition sg_rex4 :: "StateGrowthTracker \<Rightarrow> bool" where
  "sg_rex4 t = is_enabled (sg_spec t) REX4"

definition sg_depth :: "StateGrowthTracker \<Rightarrow> nat" where
  "sg_depth t = length (frame_stack (sg_frame_tracker t))"

definition sg_recorded :: "nat \<Rightarrow> StateGrowthTracker \<Rightarrow> bool" where
  "sg_recorded c t \<longleftrightarrow>
     metered_upto (sg_rex4 t) (tracker_tx_limit (sg_frame_tracker t)) c (sg_frame_tracker t)"

text \<open>The tracker part of \<open>sg_before_frame_init\<close>, for a given database and journal.\<close>

definition sg_enter ::
  "'e Database \<times> Journal \<times> FrameInit \<Rightarrow> StateGrowthTracker \<Rightarrow> StateGrowthTracker option" where
  "sg_enter x t = (case x of (D, j, frame_init) \<Rightarrow>
     map_option (\<lambda>(_, _, t'). t') (sg_before_frame_init D frame_init j t))"

lemma sg_recorded_new: "sg_recorded 0 (sg_new spec L)"
  by (simp add: sg_recorded_def sg_new_def tracker_tx_limit_def metered_upto_new)

lemma sg_recorded_mono: "sg_recorded c t \<Longrightarrow> c \<le> c' \<Longrightarrow> sg_recorded c' t"
  unfolding sg_recorded_def by (rule metered_upto_mono)

lemma sg_push_law:
  assumes "sg_recorded c t" and "c < 2 ^ 64"
  shows "\<exists>t'. sg_push_frame t = Some t' \<and> sg_recorded c t' \<and> sg_depth t' = Suc (sg_depth t)
    \<and> sg_tx_usage t' = sg_tx_usage t"
  using metered_upto_enter [of "sg_rex4 t" "tracker_tx_limit (sg_frame_tracker t)" c
      "sg_frame_tracker t" "()"] assms
  by (auto simp: sg_push_frame_def sg_recorded_def sg_depth_def sg_tx_usage_def sg_rex4_def
      tracker_tx_limit_def)

lemma sg_record_laws:
  assumes "sg_recorded c t"
  shows "sg_recorded (c + unat n) (record_growth n t)"
    and "sg_recorded (c + unat n) (sg_record_refund n t)"
    and "sg_depth (record_growth n t) = sg_depth t"
    and "sg_depth (sg_record_refund n t) = sg_depth t"
  using assms
  by (simp_all add: record_growth_def sg_record_refund_def sg_recorded_def sg_depth_def sg_rex4_def
      metered_upto_records)

lemma sg_usage_law:
  assumes "sg_recorded c t" and "c < 2 ^ 64"
  shows "\<exists>u. sg_tx_usage t = Some u \<and> unat u \<le> c"
  using metered_upto_usage assms unfolding sg_recorded_def sg_tx_usage_def by blast

lemma sg_check_law:
  assumes "sg_recorded c t" and "c < 2 ^ 64"
  shows "\<exists>k. sg_check_limit t = Some k"
proof -
  obtain u where u: "sg_tx_usage t = Some u" using sg_usage_law [OF assms] by blast
  obtain k where "exceeds_current_frame_limit StateGrowth (sg_frame_tracker t) = Some k"
    using metered_upto_checks assms unfolding sg_recorded_def by blast
  with u show ?thesis by (simp add: sg_check_limit_def Let_def)
qed

lemma sg_reset_law:
  assumes "sg_recorded c t"
  shows "sg_recorded 0 (sg_reset t) \<and> sg_depth (sg_reset t) = 0"
  using metered_upto_reset assms
  by (auto simp: sg_reset_def sg_recorded_def sg_depth_def sg_rex4_def)

text \<open>Every outcome of the hook, a database error included, leaves one frame more on the stack.\<close>

lemma sg_before_frame_init_law:
  assumes "sg_recorded c t" and "c < 2 ^ 64" and "fi_input frame_init \<noteq> EmptyInput"
  shows "\<exists>r j' t'. sg_before_frame_init D frame_init j t = Some (r, j', t')
    \<and> sg_recorded (c + 1) t' \<and> sg_depth t' = Suc (sg_depth t)"
proof -
  obtain t1 where t1: "sg_push_frame t = Some t1" "sg_recorded c t1" "sg_depth t1 = Suc (sg_depth t)"
    using sg_push_law [OF assms(1,2)] by blast
  have "sg_recorded (c + 1) t1" using t1(2) by (rule sg_recorded_mono) simp
  moreover have "sg_recorded (c + 1) (record_growth 1 t1)"
    and "sg_depth (record_growth 1 t1) = sg_depth t1"
    using sg_record_laws [OF t1(2), of 1] by simp_all
  ultimately show ?thesis
    using t1 assms(3)
    by (cases "fi_input frame_init")
      (auto simp: sg_before_frame_init_def split: prod.splits sum.splits)
qed

lemma sg_enter_law:
  assumes "sg_recorded c t" and "c < 2 ^ 64" and "(\<lambda>(_, _, fi). fi_input fi \<noteq> EmptyInput) x"
  shows "\<exists>t'. sg_enter x t = Some t' \<and> sg_recorded (c + 1) t' \<and> sg_depth t' = Suc (sg_depth t)"
proof -
  obtain D j fi where x: "x = (D, j, fi)" by (cases x)
  then show ?thesis
    using sg_before_frame_init_law [OF assms(1,2), of fi D j] assms(3) by (auto simp: sg_enter_def)
qed

lemma sg_work_law:
  assumes "sg_recorded c t"
  shows "sg_recorded (c + 1) (sg_after_sstore s t) \<and> sg_depth (sg_after_sstore s t) = sg_depth t"
proof -
  have "sg_recorded (c + 1) t" using assms by (rule sg_recorded_mono) simp
  then show ?thesis
    using sg_record_laws [OF assms, of 1] by (simp add: sg_after_sstore_def split: bool.split)
qed

lemma sg_leave_law:
  assumes "sg_recorded c t" and "c < 2 ^ 64" and "final \<or> 0 < sg_depth t"
  shows "\<exists>t'. sg_before_frame_return_result final ok t = Some t' \<and> sg_recorded c t'
    \<and> sg_depth t' = sg_depth t - 1 \<and> (ok \<longrightarrow> sg_tx_usage t' = sg_tx_usage t)"
  using metered_upto_leave [of "sg_rex4 t" "tracker_tx_limit (sg_frame_tracker t)" c
      "sg_frame_tracker t" ok] assms
  by (auto simp: sg_before_frame_return_result_def sg_recorded_def sg_depth_def sg_tx_usage_def
      sg_rex4_def has_active_frame_def)

lemma sg_leave_panics: "sg_depth t = 0 \<Longrightarrow> sg_before_frame_return_result False ok t = None"
  by (simp add: sg_before_frame_return_result_def sg_depth_def has_active_frame_def)

lemmas sg_laws = sg_usage_law sg_check_law sg_reset_law sg_enter_law
  sg_push_law [folded sg_push_empty_frame_def] sg_work_law sg_leave_law sg_leave_panics

interpretation growth: tx_runtime_limit sg_tx_usage sg_check_limit sg_reset sg_enter
  sg_push_empty_frame sg_after_sstore sg_before_frame_return_result sg_depth sg_recorded
  "\<lambda>(_, _, fi). fi_input fi \<noteq> EmptyInput" 1 "\<lambda>_. 1"
  by unfold_locales ((rule sg_laws; assumption)+)

interpretation growth_budget: frame_budgeted sg_frame_tracker sg_rex4 sg_check_limit sg_tx_usage
  sg_before_frame_return_result StateGrowth
  by unfold_locales
    (auto simp: sg_check_limit_def sg_tx_usage_def sg_before_frame_return_result_def sg_rex4_def
      split: if_splits)

section \<open>Storage writes\<close>

text \<open>A slot adds to the state when it was empty before the transaction and is not empty now.\<close>

definition slot_growth :: "u256 \<Rightarrow> u256 \<Rightarrow> int" where
  "slot_growth original present = (if original = 0 \<and> present \<noteq> 0 then 1 else 0)"

lemma sg_after_sstore_cases:
  "sg_after_sstore s t =
     (if original_value s = 0 \<and> present_value s = 0 \<and> new_value s \<noteq> 0 then record_growth 1 t
      else if original_value s = 0 \<and> present_value s \<noteq> 0 \<and> new_value s = 0
      then sg_record_refund 1 t else t)"
  by (simp add: sg_after_sstore_def split: bool.split)

interpretation growth_slot: slot_meter sg_after_sstore "\<lambda>t. top_balance (sg_frame_tracker t)"
  "\<lambda>n t. top_room n 1 (sg_frame_tracker t)" slot_growth
proof
  fix n orig p v and t :: StateGrowthTracker
  assume room: "top_room (Suc n) 1 (sg_frame_tracker t)"
  note rec = top_record [of n 1, simplified, OF room [simplified]]
  show "top_room n 1 (sg_frame_tracker (sg_after_sstore (slot_write orig p v) t)) \<and>
    top_balance (sg_frame_tracker (sg_after_sstore (slot_write orig p v) t)) =
      top_balance (sg_frame_tracker t) + slot_growth orig v - slot_growth orig p"
    using rec
    by (simp add: sg_after_sstore_cases slot_write_def slot_growth_def record_growth_def
        sg_record_refund_def)
qed

section \<open>Properties\<close>

text \<open>
  The net state growth of the writes of a frame to one
  slot. Whatever values the slot takes in between, the charges and refunds of the single
  \<^verbatim>\<open>SSTORE\<close>s sum up to one unit when the slot was empty before the transaction and is not empty
  at the end, and to nothing otherwise.
\<close>

lemma state_growth_counts_new_slots:
  assumes "top_room (length vs) 1 (sg_frame_tracker t)"
  shows "top_balance (sg_frame_tracker (fold sg_after_sstore (slot_writes orig orig vs) t)) =
    top_balance (sg_frame_tracker t) + (if orig = 0 \<and> last (orig # vs) \<noteq> 0 then 1 else 0)"
  using growth_slot.writes_telescope [OF assms, of orig orig] by (simp add: slot_growth_def)

end
