(* ===== verification/Additional_Limit.thy ===== *)
theory Additional_Limit
  imports Compute_Gas Kv_Update Data_Size State_Growth
begin

text \<open>
  \<^verbatim>\<open>AdditionalLimit\<close> of \<^verbatim>\<open>limit/limit.rs\<close>, which owns the four trackers, and the halt reasons
  of \<^verbatim>\<open>evm/result.rs\<close>. Every hook is a function from the state to the new state; the option is
  \<^term>\<open>None\<close> where the Rust code panics. The parameter \<open>R\<close> holds the upstream operations on
  instruction results and gas counters, \<open>abi_encode\<close> is the encoder of the revert data.
\<close>

section \<open>Halt reasons\<close>

datatype 'op MegaHaltReason =
    Base 'op
  | DataLimitExceeded (halt_limit: u64) (halt_actual: u64)
  | KVUpdateLimitExceeded (halt_limit: u64) (halt_actual: u64)
  | ComputeGasLimitExceeded (halt_limit: u64) (halt_actual: u64)
  | StateGrowthLimitExceeded (halt_limit: u64) (halt_actual: u64)
  | SystemTxInvalidCallee address
  | VolatileDataAccessOutOfGas VolatileDataAccess (halt_limit: u64) (halt_actual: u64)

definition maybe_halt_reason :: "LimitCheck \<Rightarrow> 'op MegaHaltReason option" where
  "maybe_halt_reason c =
     (case c of
        ExceedsLimit DataSize l u _ \<Rightarrow> Some (DataLimitExceeded l u)
      | ExceedsLimit KVUpdate l u _ \<Rightarrow> Some (KVUpdateLimitExceeded l u)
      | ExceedsLimit ComputeGas l u _ \<Rightarrow> Some (ComputeGasLimitExceeded l u)
      | ExceedsLimit StateGrowth l u _ \<Rightarrow> Some (StateGrowthLimitExceeded l u)
      | WithinLimit \<Rightarrow> None)"

text \<open>\<^verbatim>\<open>TryFrom<MegaHaltReason> for EthHaltReason\<close>; the conversion of the wrapped upstream reason
  is a parameter.\<close>

fun halt_reason_try_into_eth :: "('op \<Rightarrow> 'op + 'eth) \<Rightarrow> 'op MegaHaltReason \<Rightarrow> 'op MegaHaltReason + 'eth"
  where
  "halt_reason_try_into_eth op_to_eth (Base reason) =
     (case op_to_eth reason of Inl r \<Rightarrow> Inl (Base r) | Inr eth \<Rightarrow> Inr eth)"
| "halt_reason_try_into_eth op_to_eth other = Inl other"

section \<open>State\<close>

record AdditionalLimit =
  has_exceeded_limit :: LimitCheck
  rescued_gas :: u64
  al_limits :: EvmTxRuntimeLimits
  al_state_growth :: StateGrowthTracker
  al_data_size :: DataSizeTracker
  al_kv_update :: KVUpdateTracker
  al_compute_gas :: ComputeGasTracker

record LimitUsage =
  lu_data_size :: u64
  lu_kv_updates :: u64
  lu_compute_gas :: u64
  lu_state_growth :: u64

definition al_new :: "MegaSpecId \<Rightarrow> EvmTxRuntimeLimits \<Rightarrow> AdditionalLimit" where
  "al_new spec limits = \<lparr>has_exceeded_limit = WithinLimit, rescued_gas = 0, al_limits = limits,
     al_state_growth = sg_new spec (tx_state_growth_limit limits),
     al_data_size = ds_new spec (tx_data_size_limit limits),
     al_kv_update = kv_new spec (tx_kv_updates_limit limits),
     al_compute_gas = cg_new spec (tx_compute_gas_limit limits)\<rparr>"

definition EXCEEDING_LIMIT_INSTRUCTION_RESULT :: "('ir, 'gas) revm \<Rightarrow> 'ir" where
  "EXCEEDING_LIMIT_INSTRUCTION_RESULT R = IR_OutOfGas R"

definition exceeding_instruction_result :: "('ir, 'gas) revm \<Rightarrow> AdditionalLimit \<Rightarrow> 'ir" where
  "exceeding_instruction_result R al =
     (if is_frame_local (has_exceeded_limit al) then IR_Revert R
      else EXCEEDING_LIMIT_INSTRUCTION_RESULT R)"

definition al_reset :: "AdditionalLimit \<Rightarrow> AdditionalLimit" where
  "al_reset al = al\<lparr>has_exceeded_limit := WithinLimit, rescued_gas := 0,
     al_compute_gas := cg_reset (al_compute_gas al),
     al_state_growth := sg_reset (al_state_growth al),
     al_data_size := ds_reset (al_data_size al),
     al_kv_update := kv_reset (al_kv_update al)\<rparr>"

definition get_usage :: "AdditionalLimit \<Rightarrow> LimitUsage option" where
  "get_usage al = do {
     d \<leftarrow> ds_tx_usage (al_data_size al);
     k \<leftarrow> kv_tx_usage (al_kv_update al);
     c \<leftarrow> cg_tx_usage (al_compute_gas al);
     s \<leftarrow> sg_tx_usage (al_state_growth al);
     Some \<lparr>lu_data_size = d, lu_kv_updates = k, lu_compute_gas = c, lu_state_growth = s\<rparr>
   }"

definition al_push_empty_frame :: "AdditionalLimit \<Rightarrow> AdditionalLimit option" where
  "al_push_empty_frame al = do {
     s \<leftarrow> sg_push_empty_frame (al_state_growth al);
     d \<leftarrow> ds_push_empty_frame (al_data_size al);
     k \<leftarrow> kv_push_empty_frame (al_kv_update al);
     c \<leftarrow> cg_push_empty_frame (al_compute_gas al);
     Some (al\<lparr>al_state_growth := s, al_data_size := d, al_kv_update := k, al_compute_gas := c\<rparr>)
   }"

definition compute_gas_limit :: "AdditionalLimit \<Rightarrow> u64" where
  "compute_gas_limit al = cg_tx_limit (al_compute_gas al)"

definition current_call_remaining_compute_gas :: "AdditionalLimit \<Rightarrow> u64 option" where
  "current_call_remaining_compute_gas al = current_call_remaining (al_compute_gas al)"

definition detained_compute_gas_limit :: "AdditionalLimit \<Rightarrow> u64" where
  "detained_compute_gas_limit al = detained_limit (al_compute_gas al)"

definition detained_compute_gas_halt_reason ::
  "VolatileDataAccess \<Rightarrow> AdditionalLimit \<Rightarrow> 'op MegaHaltReason option option" where
  "detained_compute_gas_halt_reason access_type al = do {
     exceed \<leftarrow> is_detained_exceed (al_compute_gas al);
     if exceed
     then do {
       actual \<leftarrow> cg_tx_usage (al_compute_gas al);
       Some (Some (VolatileDataAccessOutOfGas access_type (detained_limit (al_compute_gas al)) actual))
     }
     else Some None
   }"

definition set_compute_gas_limit :: "u64 \<Rightarrow> AdditionalLimit \<Rightarrow> AdditionalLimit option" where
  "set_compute_gas_limit new_limit al = do {
     c \<leftarrow> set_detained_limit new_limit (al_compute_gas al);
     Some (al\<lparr>al_compute_gas := c\<rparr>)
   }"

section \<open>Checking\<close>

definition al_check_limit :: "AdditionalLimit \<Rightarrow> (LimitCheck \<times> AdditionalLimit) option" where
  "al_check_limit al =
     (if exceeded_limit (has_exceeded_limit al) then Some (has_exceeded_limit al, al)
      else do {
        data_size_check \<leftarrow> ds_check_limit (al_data_size al);
        if exceeded_limit data_size_check
        then Some (data_size_check, al\<lparr>has_exceeded_limit := data_size_check\<rparr>)
        else do {
          kv_update_check \<leftarrow> kv_check_limit (al_kv_update al);
          if exceeded_limit kv_update_check
          then Some (kv_update_check, al\<lparr>has_exceeded_limit := kv_update_check\<rparr>)
          else do {
            compute_gas_check \<leftarrow> cg_check_limit (al_compute_gas al);
            if exceeded_limit compute_gas_check
            then Some (compute_gas_check, al\<lparr>has_exceeded_limit := compute_gas_check\<rparr>)
            else do {
              state_growth_check \<leftarrow> sg_check_limit (al_state_growth al);
              if exceeded_limit state_growth_check
              then Some (state_growth_check, al\<lparr>has_exceeded_limit := state_growth_check\<rparr>)
              else Some (has_exceeded_limit al, al)
            }}}})"

text \<open>The test \<^verbatim>\<open>matches!(.., OutOfGas(OutOfGasError::Basic))\<close> on an upstream halt reason is a
  parameter. Rust evaluates the check only when it holds.\<close>

definition is_exceeding_limit_halt ::
  "('op \<Rightarrow> bool) \<Rightarrow> 'op \<Rightarrow> AdditionalLimit \<Rightarrow> (bool \<times> AdditionalLimit) option" where
  "is_exceeding_limit_halt is_basic_out_of_gas halt_reason al =
     (if is_basic_out_of_gas halt_reason
      then do { (c, al') \<leftarrow> al_check_limit al; Some (exceeded_limit c, al') }
      else Some (False, al))"

section \<open>Hooks\<close>

definition record_compute_gas :: "u64 \<Rightarrow> AdditionalLimit \<Rightarrow> (bool \<times> AdditionalLimit) option" where
  "record_compute_gas compute_gas_used al = do {
     (c, al') \<leftarrow> al_check_limit
        (al\<lparr>al_compute_gas := record_gas_used compute_gas_used (al_compute_gas al)\<rparr>);
     Some (\<not> exceeded_limit c, al')
   }"

definition rescue_gas :: "('ir, 'gas) revm \<Rightarrow> 'gas \<Rightarrow> AdditionalLimit \<Rightarrow> AdditionalLimit" where
  "rescue_gas R gas al = al\<lparr>rescued_gas := rescued_gas al + gas_remaining R gas\<rparr>"

definition try_rescue_gas :: "('ir, 'gas) revm \<Rightarrow> 'gas \<Rightarrow> AdditionalLimit \<Rightarrow> AdditionalLimit option" where
  "try_rescue_gas R gas al = do {
     (c, al') \<leftarrow> al_check_limit al;
     Some (if exceeded_limit c \<and> \<not> is_frame_local c then rescue_gas R gas al' else al')
   }"

definition al_before_tx_start :: "MegaTransaction \<Rightarrow> AdditionalLimit \<Rightarrow> (bool \<times> AdditionalLimit) option"
  where
  "al_before_tx_start tx al = do {
     (c, al') \<leftarrow> al_check_limit
        (al\<lparr>al_data_size := ds_before_tx_start tx (al_data_size al),
            al_kv_update := kv_before_tx_start tx (al_kv_update al)\<rparr>);
     Some (\<not> exceeded_limit c, al')
   }"

definition create_exceeding_interpreter_result ::
  "'ir \<Rightarrow> 'gas \<Rightarrow> bytes \<Rightarrow> ('ir, 'gas) InterpreterResult" where
  "create_exceeding_interpreter_result instruction_result gas output =
     \<lparr>ir_result = instruction_result, ir_output = output, ir_gas = gas\<rparr>"

definition create_exceeding_limit_frame_result ::
  "'ir \<Rightarrow> 'gas \<Rightarrow> (usize \<times> usize) option \<Rightarrow> bytes \<Rightarrow> ('ir, 'gas) FrameResult" where
  "create_exceeding_limit_frame_result instruction_result gas return_memory_offset output =
     (case return_memory_offset of
        None \<Rightarrow> CreateResult (create_exceeding_interpreter_result instruction_result gas output) None
      | Some offset \<Rightarrow>
          CallResult (create_exceeding_interpreter_result instruction_result gas output) offset)"

definition mark_interpreter_result_as_exceeding_limit ::
  "'ir \<Rightarrow> bytes \<Rightarrow> ('ir, 'gas) InterpreterResult \<Rightarrow> ('ir, 'gas) InterpreterResult" where
  "mark_interpreter_result_as_exceeding_limit instruction_result output result =
     result\<lparr>ir_result := instruction_result, ir_output := output\<rparr>"

definition mark_frame_result_as_exceeding_limit ::
  "'ir \<Rightarrow> bytes \<Rightarrow> ('ir, 'gas) FrameResult \<Rightarrow> ('ir, 'gas) FrameResult" where
  "mark_frame_result_as_exceeding_limit instruction_result output result =
     map_interp (mark_interpreter_result_as_exceeding_limit instruction_result output) result"

definition al_before_frame_init ::
  "('ir, 'gas) revm \<Rightarrow> (u8 \<Rightarrow> u64 \<Rightarrow> bytes) \<Rightarrow> 'e Database \<Rightarrow> FrameInit \<Rightarrow> Journal \<Rightarrow> AdditionalLimit \<Rightarrow>
   (('e + ('ir, 'gas) FrameResult option) \<times> Journal \<times> AdditionalLimit) option" where
  "al_before_frame_init R abi_encode D frame_init j al = do {
     (r, j', s) \<leftarrow> sg_before_frame_init D frame_init j (al_state_growth al);
     let al = al\<lparr>al_state_growth := s\<rparr>;
     (case r of
        Inl e \<Rightarrow> Some (Inl e, j', al)
      | Inr _ \<Rightarrow> do {
          d \<leftarrow> ds_before_frame_init frame_init (al_data_size al);
          k \<leftarrow> kv_before_frame_init frame_init (al_kv_update al);
          g \<leftarrow> cg_before_frame_init frame_init (al_compute_gas al);
          (c, al) \<leftarrow> al_check_limit
             (al\<lparr>al_data_size := d, al_kv_update := k, al_compute_gas := g\<rparr>);
          if exceeded_limit c
          then do {
            (gas_limit, return_memory_offset) \<leftarrow>
              (case fi_input frame_init of
                 CreateInput inputs \<Rightarrow> Some (cri_gas_limit inputs, None)
               | CallInput inputs \<Rightarrow> Some (ci_gas_limit inputs, Some (ci_return_memory_offset inputs))
               | EmptyInput \<Rightarrow> None);
            let output = revert_data abi_encode (has_exceeded_limit al);
            let result = create_exceeding_limit_frame_result (exceeding_instruction_result R al)
                           (gas_new R gas_limit) return_memory_offset output;
            al \<leftarrow> try_rescue_gas R (ir_gas (interp_of result)) al;
            Some (Inr (Some result), j', al)
          }
          else Some (Inr None, j', al)
        })
   }"

definition al_after_frame_init ::
  "('ir, 'gas) revm \<Rightarrow> ('gas EthFrame, ('ir, 'gas) FrameResult) ItemOrResult \<Rightarrow> AdditionalLimit \<Rightarrow>
   AdditionalLimit option" where
  "al_after_frame_init R init_result al =
     (case init_result of
        Item frame \<Rightarrow> do {
          d \<leftarrow> ds_after_frame_init_on_frame frame (al_data_size al);
          k \<leftarrow> kv_after_frame_init_on_frame frame (al_kv_update al);
          Some (al\<lparr>al_data_size := d, al_kv_update := k\<rparr>)
        }
      | ResultItem result \<Rightarrow> try_rescue_gas R (ir_gas (interp_of result)) al)"

definition al_before_frame_run ::
  "('ir, 'gas) revm \<Rightarrow> (u8 \<Rightarrow> u64 \<Rightarrow> bytes) \<Rightarrow> 'gas EthFrame \<Rightarrow> AdditionalLimit \<Rightarrow>
   (('ir, 'gas) InterpreterResult option \<times> AdditionalLimit) option" where
  "al_before_frame_run R abi_encode frame al = do {
     (c, al) \<leftarrow> al_check_limit al;
     Some (if exceeded_limit c
           then (Some (create_exceeding_interpreter_result (exceeding_instruction_result R al)
                        (frame_gas frame) (revert_data abi_encode (has_exceeded_limit al))), al)
           else (None, al))
   }"

definition al_after_frame_run ::
  "('ir, 'gas) revm \<Rightarrow> u64 option \<Rightarrow> ('ir, 'gas) FrameResult \<Rightarrow> AdditionalLimit \<Rightarrow>
   (('ir, 'gas) FrameResult \<times> AdditionalLimit) option" where
  "al_after_frame_run R gas_remaining_before_process_action result al = do {
     (result, al) \<leftarrow>
       (case gas_remaining_before_process_action of
          Some gas_remaining_before \<Rightarrow> do {
            let compute_gas_cost =
              saturating_sub gas_remaining_before (gas_remaining R (ir_gas (interp_of result)));
            (ok, al) \<leftarrow> record_compute_gas compute_gas_cost al;
            Some (if \<not> ok
                  then mark_frame_result_as_exceeding_limit (exceeding_instruction_result R al) []
                         result
                  else result, al)
          }
        | None \<Rightarrow> Some (result, al));
     al \<leftarrow> try_rescue_gas R (ir_gas (interp_of result)) al;
     Some (result, al)
   }"

definition al_after_frame_run_instructions ::
  "('ir, 'gas) revm \<Rightarrow> (u8 \<Rightarrow> u64 \<Rightarrow> bytes) \<Rightarrow> 'gas EthFrame \<Rightarrow> ('ir, 'gas) InterpreterAction \<Rightarrow>
   AdditionalLimit \<Rightarrow> (('ir, 'gas) InterpreterAction \<times> AdditionalLimit) option" where
  "al_after_frame_run_instructions R abi_encode frame action al = do {
     let al = al\<lparr>al_data_size := ds_after_frame_run frame action (al_data_size al)\<rparr>;
     (case action of
        ReturnAction interpreter_result \<Rightarrow>
          if frame_is_create frame
          then (if exceeded_limit (has_exceeded_limit al)
                then Some (ReturnAction (mark_interpreter_result_as_exceeding_limit
                             (exceeding_instruction_result R al)
                             (revert_data abi_encode (has_exceeded_limit al)) interpreter_result), al)
                else do {
                  (c, al) \<leftarrow> al_check_limit al;
                  Some (if exceeded_limit c
                        then ReturnAction (mark_interpreter_result_as_exceeding_limit
                               (exceeding_instruction_result R al)
                               (revert_data abi_encode (has_exceeded_limit al)) interpreter_result)
                        else action, al)
                })
          else Some (action, al)
      | NewFrameAction _ \<Rightarrow> Some (action, al))
   }"

definition al_before_frame_return_result ::
  "('ir, 'gas) revm \<Rightarrow> (u8 \<Rightarrow> u64 \<Rightarrow> bytes) \<Rightarrow> bool \<Rightarrow> ('ir, 'gas) FrameResult \<Rightarrow> AdditionalLimit \<Rightarrow>
   (('ir, 'gas) FrameResult \<times> AdditionalLimit) option" where
  "al_before_frame_return_result R abi_encode last_frame result al = do {
     let duplicate_return_frame_result =
       (last_frame \<and> \<not> ds_has_active_frame (al_data_size al));
     let is_ok = ir_is_ok R (ir_result (interp_of result));
     s \<leftarrow> sg_before_frame_return_result last_frame is_ok (al_state_growth al);
     d \<leftarrow> ds_before_frame_return_result last_frame is_ok (al_data_size al);
     k \<leftarrow> kv_before_frame_return_result last_frame is_ok (al_kv_update al);
     g \<leftarrow> cg_before_frame_return_result last_frame is_ok (al_compute_gas al);
     (limit_check, al) \<leftarrow> al_check_limit
        (al\<lparr>al_state_growth := s, al_data_size := d, al_kv_update := k, al_compute_gas := g\<rparr>);
     Some (if exceeded_limit limit_check \<and> \<not> duplicate_return_frame_result
           then (if is_frame_local limit_check
                 then (map_interp (\<lambda>r. r\<lparr>ir_result := IR_Revert R,
                                        ir_output := revert_data abi_encode limit_check\<rparr>) result,
                       al\<lparr>has_exceeded_limit := WithinLimit\<rparr>)
                 else (mark_frame_result_as_exceeding_limit
                         (EXCEEDING_LIMIT_INSTRUCTION_RESULT R) [] result, al))
           else (result, al))
   }"

definition on_sstore :: "SStoreResult \<Rightarrow> AdditionalLimit \<Rightarrow> (bool \<times> AdditionalLimit) option" where
  "on_sstore store_result al = do {
     (c, al') \<leftarrow> al_check_limit
        (al\<lparr>al_state_growth := sg_after_sstore store_result (al_state_growth al),
            al_data_size := ds_after_sstore store_result (al_data_size al),
            al_kv_update := kv_after_sstore store_result (al_kv_update al)\<rparr>);
     Some (\<not> exceeded_limit c, al')
   }"

definition on_log :: "u64 \<Rightarrow> u64 \<Rightarrow> AdditionalLimit \<Rightarrow> (bool \<times> AdditionalLimit) option" where
  "on_log num_topics data_size al = do {
     (c, al') \<leftarrow> al_check_limit
        (al\<lparr>al_data_size := ds_after_log num_topics data_size (al_data_size al)\<rparr>);
     Some (\<not> exceeded_limit c, al')
   }"

end
