(* ===== verification/Sandbox_Error.thy ===== *)
theory Sandbox_Error
  imports Additional_Limit
begin

text \<open>
  The errors of a keyless deployment and their encoding as revert data (\<^verbatim>\<open>sandbox/error.rs\<close>). The
  Solidity error types are generated from the contract interface: \<open>SolError\<close> is one value of one
  of them, \<open>SolErrorType\<close> names the type, and the generated \<^verbatim>\<open>abi_encode\<close> and
  \<^verbatim>\<open>abi_decode\<close> are parameters over a type \<open>'b\<close> of byte strings.
\<close>

section \<open>Definitions\<close>

datatype 'op KeylessDeployError =
    MalformedEncoding
  | NotContractCreation
  | NotPreEIP155
  | NonZeroTxNonce (kde_tx_nonce: u64)
  | NoEtherTransfer
  | InvalidSignature
  | InsufficientBalance
  | ContractAlreadyExists
  | SignerNonceTooHigh (kde_signer_nonce: u64)
  | ExecutionReverted (kde_gas_used: u64) (kde_output: bytes)
  | ExecutionHalted (kde_gas_used: u64) (kde_reason: "'op MegaHaltReason")
  | EmptyCodeDeployed (kde_gas_used: u64)
  | NoContractCreated
  | AddressMismatch
  | GasLimitTooLow (kde_tx_gas_limit: u64) (kde_provided_gas_limit: u64)
  | InsufficientComputeGas (kde_limit: u64) (kde_used: u64)
  | InternalError string
  | NotIntercepted

datatype SolError =
    SolMalformedEncoding | SolNotContractCreation | SolNotPreEIP155 | SolNonZeroTxNonce u64
  | SolNoEtherTransfer | SolInvalidSignature | SolInsufficientBalance | SolContractAlreadyExists
  | SolSignerNonceTooHigh u64 | SolExecutionReverted u64 bytes | SolExecutionHalted u64
  | SolEmptyCodeDeployed u64 | SolNoContractCreated | SolAddressMismatch | SolGasLimitTooLow u64 u64
  | SolInsufficientComputeGas u64 u64 | SolInternalError string | SolNotIntercepted

datatype SolErrorType =
    TMalformedEncoding | TNotContractCreation | TNotPreEIP155 | TNonZeroTxNonce
  | TNoEtherTransfer | TInvalidSignature | TInsufficientBalance | TContractAlreadyExists
  | TSignerNonceTooHigh | TExecutionReverted | TExecutionHalted
  | TEmptyCodeDeployed | TNoContractCreated | TAddressMismatch | TGasLimitTooLow
  | TInsufficientComputeGas | TInternalError | TNotIntercepted

definition encode_error_result :: "(SolError \<Rightarrow> 'b) \<Rightarrow> 'op KeylessDeployError \<Rightarrow> 'b" where
  "encode_error_result abi_encode error =
     (case error of
        MalformedEncoding \<Rightarrow> abi_encode SolMalformedEncoding
      | NotContractCreation \<Rightarrow> abi_encode SolNotContractCreation
      | NotPreEIP155 \<Rightarrow> abi_encode SolNotPreEIP155
      | NonZeroTxNonce n \<Rightarrow> abi_encode (SolNonZeroTxNonce n)
      | NoEtherTransfer \<Rightarrow> abi_encode SolNoEtherTransfer
      | InvalidSignature \<Rightarrow> abi_encode SolInvalidSignature
      | InsufficientBalance \<Rightarrow> abi_encode SolInsufficientBalance
      | ContractAlreadyExists \<Rightarrow> abi_encode SolContractAlreadyExists
      | SignerNonceTooHigh signer_nonce \<Rightarrow> abi_encode (SolSignerNonceTooHigh signer_nonce)
      | ExecutionReverted gas_used output \<Rightarrow> abi_encode (SolExecutionReverted gas_used output)
      | ExecutionHalted gas_used _ \<Rightarrow> abi_encode (SolExecutionHalted gas_used)
      | EmptyCodeDeployed gas_used \<Rightarrow> abi_encode (SolEmptyCodeDeployed gas_used)
      | NoContractCreated \<Rightarrow> abi_encode SolNoContractCreated
      | AddressMismatch \<Rightarrow> abi_encode SolAddressMismatch
      | GasLimitTooLow tx_limit provided \<Rightarrow>
          abi_encode (SolGasLimitTooLow tx_limit provided)
      | InsufficientComputeGas l u \<Rightarrow> abi_encode (SolInsufficientComputeGas l u)
      | InternalError message \<Rightarrow> abi_encode (SolInternalError message)
      | NotIntercepted \<Rightarrow> abi_encode SolNotIntercepted)"

text \<open>The tests of the decoder in the order of the source, each with the error it returns; the
  first test that decodes wins.\<close>

fun first_decoded :: "(SolError option \<times> (SolError \<Rightarrow> 'k)) list \<Rightarrow> 'k option" where
  "first_decoded [] = None"
| "first_decoded ((decoded, k) # rest) =
     (case decoded of Some e \<Rightarrow> Some (k e) | None \<Rightarrow> first_decoded rest)"

fun sol_error_value :: "'op \<Rightarrow> SolError \<Rightarrow> 'op KeylessDeployError" where
  "sol_error_value out_of_gas SolMalformedEncoding = MalformedEncoding"
| "sol_error_value out_of_gas SolNotContractCreation = NotContractCreation"
| "sol_error_value out_of_gas SolNotPreEIP155 = NotPreEIP155"
| "sol_error_value out_of_gas (SolNonZeroTxNonce n) = NonZeroTxNonce n"
| "sol_error_value out_of_gas SolNoEtherTransfer = NoEtherTransfer"
| "sol_error_value out_of_gas SolInvalidSignature = InvalidSignature"
| "sol_error_value out_of_gas SolInsufficientBalance = InsufficientBalance"
| "sol_error_value out_of_gas SolContractAlreadyExists = ContractAlreadyExists"
| "sol_error_value out_of_gas (SolSignerNonceTooHigh n) = SignerNonceTooHigh n"
| "sol_error_value out_of_gas (SolExecutionReverted g output) = ExecutionReverted g output"
| "sol_error_value out_of_gas (SolExecutionHalted g) = ExecutionHalted g (Base out_of_gas)"
| "sol_error_value out_of_gas (SolEmptyCodeDeployed g) = EmptyCodeDeployed g"
| "sol_error_value out_of_gas SolNoContractCreated = NoContractCreated"
| "sol_error_value out_of_gas SolAddressMismatch = AddressMismatch"
| "sol_error_value out_of_gas (SolGasLimitTooLow t p) = GasLimitTooLow t p"
| "sol_error_value out_of_gas (SolInsufficientComputeGas l u) = InsufficientComputeGas l u"
| "sol_error_value out_of_gas (SolInternalError m) = InternalError m"
| "sol_error_value out_of_gas SolNotIntercepted = NotIntercepted"

definition decoder_order :: "SolErrorType list" where
  "decoder_order = [TNoEtherTransfer, TMalformedEncoding, TNotContractCreation, TNotPreEIP155,
     TNonZeroTxNonce, TInvalidSignature, TInsufficientBalance, TContractAlreadyExists,
     TSignerNonceTooHigh, TExecutionReverted, TExecutionHalted, TEmptyCodeDeployed,
     TNoContractCreated, TAddressMismatch, TGasLimitTooLow, TInternalError, TNotIntercepted]"

definition decode_error_result ::
  "(SolErrorType \<Rightarrow> 'b \<Rightarrow> SolError option) \<Rightarrow> 'op \<Rightarrow> 'b \<Rightarrow> 'op KeylessDeployError option" where
  "decode_error_result abi_decode out_of_gas output =
     first_decoded (map (\<lambda>t. (abi_decode t output, sol_error_value out_of_gas)) decoder_order)"

section \<open>The generated codec\<close>

fun sol_error_type :: "SolError \<Rightarrow> SolErrorType" where
  "sol_error_type SolMalformedEncoding = TMalformedEncoding"
| "sol_error_type SolNotContractCreation = TNotContractCreation"
| "sol_error_type SolNotPreEIP155 = TNotPreEIP155"
| "sol_error_type (SolNonZeroTxNonce _) = TNonZeroTxNonce"
| "sol_error_type SolNoEtherTransfer = TNoEtherTransfer"
| "sol_error_type SolInvalidSignature = TInvalidSignature"
| "sol_error_type SolInsufficientBalance = TInsufficientBalance"
| "sol_error_type SolContractAlreadyExists = TContractAlreadyExists"
| "sol_error_type (SolSignerNonceTooHigh _) = TSignerNonceTooHigh"
| "sol_error_type (SolExecutionReverted _ _) = TExecutionReverted"
| "sol_error_type (SolExecutionHalted _) = TExecutionHalted"
| "sol_error_type (SolEmptyCodeDeployed _) = TEmptyCodeDeployed"
| "sol_error_type SolNoContractCreated = TNoContractCreated"
| "sol_error_type SolAddressMismatch = TAddressMismatch"
| "sol_error_type (SolGasLimitTooLow _ _) = TGasLimitTooLow"
| "sol_error_type (SolInsufficientComputeGas _ _) = TInsufficientComputeGas"
| "sol_error_type (SolInternalError _) = TInternalError"
| "sol_error_type SolNotIntercepted = TNotIntercepted"

text \<open>What the generated codec documents: a type decodes its own encodings, and rejects encodings
  of the other types of the interface, whose selectors differ.\<close>

definition sol_codec_documented ::
  "(SolError \<Rightarrow> 'b) \<Rightarrow> (SolErrorType \<Rightarrow> 'b \<Rightarrow> SolError option) \<Rightarrow> bool" where
  "sol_codec_documented abi_encode abi_decode \<longleftrightarrow>
     (\<forall>e t. abi_decode t (abi_encode e) = (if t = sol_error_type e then Some e else None))"

lemma first_decoded_of_encoding:
  assumes "sol_codec_documented abi_encode abi_decode"
  shows "first_decoded (map (\<lambda>t. (abi_decode t (abi_encode e), k)) ts) =
    (if sol_error_type e \<in> set ts then Some (k e) else None)"
  using assms by (induction ts) (auto simp: sol_codec_documented_def)

lemma set_decoder_order: "t \<in> set decoder_order \<longleftrightarrow> t \<noteq> TInsufficientComputeGas"
  by (cases t) (simp_all add: decoder_order_def)

lemma decode_of_encoding:
  assumes "sol_codec_documented abi_encode abi_decode"
  shows "decode_error_result abi_decode oog (abi_encode e) =
    (if sol_error_type e = TInsufficientComputeGas then None else Some (sol_error_value oog e))"
  by (simp add: decode_error_result_def first_decoded_of_encoding [OF assms] set_decoder_order)

section \<open>Properties\<close>

text \<open>What survives the encoding of an error.\<close>

fun recoverable_error :: "'op \<Rightarrow> 'op KeylessDeployError \<Rightarrow> 'op KeylessDeployError option" where
  "recoverable_error out_of_gas (ExecutionHalted g _) = Some (ExecutionHalted g (Base out_of_gas))"
| "recoverable_error out_of_gas (InsufficientComputeGas _ _) = None"
| "recoverable_error out_of_gas e = Some e"

text \<open>
  Property C25 (keyless_errors_round_trip): the decoder of revert data inverts the encoder for every
  error of a keyless deployment, up to the halt reason, which becomes out of gas, and except for
  \<^verbatim>\<open>InsufficientComputeGas\<close>, which the encoder produces and the decoder does not know.
\<close>

theorem keyless_errors_round_trip:
  assumes "sol_codec_documented abi_encode abi_decode"
  shows "decode_error_result abi_decode oog (encode_error_result abi_encode e) = recoverable_error oog e"
  by (cases e) (simp_all add: encode_error_result_def decode_of_encoding [OF assms])

theorem keyless_errors_round_trip_witness:
  "decode_error_result (\<lambda>t e. if t = sol_error_type e then Some e else None) ()
     (encode_error_result id (GasLimitTooLow 7 3 :: unit KeylessDeployError)) = Some (GasLimitTooLow 7 3)"
  using keyless_errors_round_trip [of id "\<lambda>t e. if t = sol_error_type e then Some e else None" "()"
      "GasLimitTooLow 7 3 :: unit KeylessDeployError"]
  by (simp add: sol_codec_documented_def)

end
