(* ===== verification/Evm_State.thy ===== *)
theory Evm_State
  imports Revm_View
begin

text \<open>
  Merging of account states, \<^verbatim>\<open>evm/state.rs\<close>. A state that is updated is a map from addresses to
  accounts; the state that is merged into it is the list of its entries in the order the hash map
  is iterated. The slots of an account are merged one by one and independently, which is a map
  again. The default account is an upstream value and a parameter. The assertions of the source are
  panics.

  The lemmas show that the iteration order does not matter, when merging panics, and what becomes of
  data, coldness and status flags.
\<close>

section \<open>Definitions\<close>

definition slot_mark_cold :: "EvmStorageSlot \<Rightarrow> EvmStorageSlot" where
  "slot_mark_cold s = s\<lparr>slot_is_cold := True\<rparr>"

definition merge_evm_storage ::
  "(u256 \<rightharpoonup> EvmStorageSlot) \<Rightarrow> (u256 \<rightharpoonup> EvmStorageSlot) \<Rightarrow> (u256 \<rightharpoonup> EvmStorageSlot)" where
  "merge_evm_storage this other = (\<lambda>k.
     case other k of
       None \<Rightarrow> this k
     | Some slot_value \<Rightarrow>
         (case this k of
            None \<Rightarrow> Some (slot_mark_cold slot_value)
          | Some this_slot \<Rightarrow> Some (this_slot\<lparr>slot_present_value := slot_present_value slot_value\<rparr>)))"

definition merge_account_status :: "AccountStatus \<Rightarrow> AccountStatus \<Rightarrow> AccountStatus option" where
  "merge_account_status this other =
     (if st_self_destructed other then None
      else let other = other\<lparr>st_cold := False, st_created_local := False,
                             st_self_destructed_local := False\<rparr>;
               this = (if st_self_destructed this \<and> st_created other
                       then this\<lparr>st_self_destructed := False\<rparr> else this)
           in Some \<lparr>st_created = st_created this \<or> st_created other,
                st_created_local = st_created_local this \<or> st_created_local other,
                st_self_destructed = st_self_destructed this \<or> st_self_destructed other,
                st_self_destructed_local = st_self_destructed_local this \<or> st_self_destructed_local other,
                st_touched = st_touched this \<or> st_touched other,
                st_loaded_as_not_existing =
                  st_loaded_as_not_existing this \<or> st_loaded_as_not_existing other,
                st_cold = st_cold this \<or> st_cold other\<rparr>)"

definition merge_account_state :: "bool \<Rightarrow> Account \<Rightarrow> Account \<Rightarrow> Account option" where
  "merge_account_state merge_status this other = do {
     let this = this\<lparr>acc_info := acc_info other\<rparr>;
     let this = this\<lparr>acc_storage := merge_evm_storage (acc_storage this) (acc_storage other)\<rparr>;
     if merge_status
     then do {
       status \<leftarrow> merge_account_status (acc_status this) (acc_status other);
       Some (this\<lparr>acc_status := status\<rparr>)
     }
     else Some this
   }"

definition acc_mark_touch :: "Account \<Rightarrow> Account" where
  "acc_mark_touch a = a\<lparr>acc_status := (acc_status a)\<lparr>st_touched := True\<rparr>\<rparr>"

text \<open>One round of the loop: what the entry of an account becomes.\<close>

definition merged_entry :: "Account \<Rightarrow> bool \<Rightarrow> Account option \<Rightarrow> Account \<Rightarrow> Account option" where
  "merged_entry account_default merge_status this account =
     (if st_self_destructed (acc_status account)
      then (if \<not> st_created (acc_status account) then None
            else let empty_account = acc_mark_touch account_default
                 in case this of
                      Some occupied \<Rightarrow>
                        Some (if acc_is_cold occupied then mark_cold empty_account else empty_account)
                    | None \<Rightarrow> Some (mark_cold empty_account))
      else (case this of
              None \<Rightarrow>
                let merged = mark_cold account;
                    merged = merged\<lparr>acc_storage := map_option slot_mark_cold \<circ> acc_storage merged\<rparr>
                in Some (merged\<lparr>acc_status := (acc_status merged)
                      \<lparr>st_created_local := False, st_self_destructed_local := False\<rparr>\<rparr>)
            | Some this_account \<Rightarrow> merge_account_state merge_status this_account account))"

fun merge_evm_state_optional_status ::
  "Account \<Rightarrow> bool \<Rightarrow> (address \<rightharpoonup> Account) \<Rightarrow> (address \<times> Account) list \<Rightarrow> (address \<rightharpoonup> Account) option"
  where
  "merge_evm_state_optional_status account_default merge_status this [] = Some this"
| "merge_evm_state_optional_status account_default merge_status this ((address, account) # other) = do {
     entry \<leftarrow> merged_entry account_default merge_status (this address) account;
     merge_evm_state_optional_status account_default merge_status (this(address \<mapsto> entry)) other
   }"

definition merge_evm_state ::
  "Account \<Rightarrow> (address \<rightharpoonup> Account) \<Rightarrow> (address \<times> Account) list \<Rightarrow> (address \<rightharpoonup> Account) option" where
  "merge_evm_state account_default this other = merge_evm_state_optional_status account_default True this other"

section \<open>Merging as a map\<close>

text \<open>A merge fails exactly on an account that was destroyed without having been created.\<close>

definition destroyed_old :: "Account \<Rightarrow> bool" where
  "destroyed_old account \<longleftrightarrow>
     st_self_destructed (acc_status account) \<and> \<not> st_created (acc_status account)"

lemma merged_entry_None_iff: "merged_entry dflt ms this account = None \<longleftrightarrow> destroyed_old account"
  by (auto simp: merged_entry_def destroyed_old_def merge_account_state_def merge_account_status_def
      Let_def split: option.splits)

lemma merge_eq:
  assumes "distinct (map fst other)"
  shows "merge_evm_state_optional_status dflt ms this other =
    (if \<exists>(a, acc) \<in> set other. destroyed_old acc then None
     else Some (\<lambda>a. case map_of other a of
                      None \<Rightarrow> this a | Some acc \<Rightarrow> merged_entry dflt ms (this a) acc))"
  using assms
proof (induction other arbitrary: this)
  case Nil
  then show ?case by simp
next
  case (Cons x other)
  obtain a acc where x: "x = (a, acc)" by fastforce
  show ?case
  proof (cases "merged_entry dflt ms (this a) acc")
    case None
    then have "destroyed_old acc" using merged_entry_None_iff by metis
    then show ?thesis using x None by simp
  next
    case (Some entry)
    then have ok: "\<not> destroyed_old acc" using merged_entry_None_iff by (metis option.distinct(1))
    have "map_of other a = None" using Cons.prems x by (simp add: map_of_eq_None_iff)
    define this' where "this' = this(a \<mapsto> entry)"
    have "(\<lambda>b. case map_of other b of None \<Rightarrow> this' b
                 | Some acc \<Rightarrow> merged_entry dflt ms (this' b) acc) =
      (\<lambda>b. case map_of (x # other) b of None \<Rightarrow> this b
                 | Some acc \<Rightarrow> merged_entry dflt ms (this b) acc)"
      using x Some \<open>map_of other a = None\<close> by (auto simp: fun_eq_iff this'_def split: option.split)
    moreover have "merge_evm_state_optional_status dflt ms this (x # other) =
        merge_evm_state_optional_status dflt ms this' other"
      using x Some by (simp add: this'_def)
    moreover have "(\<exists>(a, acc) \<in> set (x # other). destroyed_old acc) \<longleftrightarrow>
        (\<exists>(a, acc) \<in> set other. destroyed_old acc)"
      using x ok by auto
    ultimately show ?thesis
      using Cons.IH [of this'] Cons.prems by (simp only: list.map distinct.simps simp_thms)
  qed
qed

text \<open>The specification of one merged account: \<open>old\<close> is what the base state had, \<open>acc\<close> what is
  merged, \<open>new\<close> the result.\<close>

definition temperature_kept :: "('a \<Rightarrow> bool) \<Rightarrow> 'a option \<Rightarrow> 'a \<Rightarrow> bool" where
  "temperature_kept cold old new \<longleftrightarrow> cold new = (case old of None \<Rightarrow> True | Some o' \<Rightarrow> cold o')"

definition merge_spec :: "Account \<Rightarrow> bool \<Rightarrow> Account option \<Rightarrow> Account \<Rightarrow> Account \<Rightarrow> bool" where
  "merge_spec dflt ms old acc new \<longleftrightarrow>
     (if st_self_destructed (acc_status acc)
      then acc_info new = acc_info dflt \<and> st_touched (acc_status new)
      else acc_info new = acc_info acc \<and> temperature_kept acc_is_cold old new
        \<and> (\<forall>k. let old_slot = Option.bind old (\<lambda>o'. acc_storage o' k) in
             case acc_storage acc k of
               None \<Rightarrow> acc_storage new k = old_slot
             | Some s \<Rightarrow> (\<exists>t. acc_storage new k = Some t \<and> slot_present_value t = slot_present_value s
                            \<and> temperature_kept slot_is_cold old_slot t))
        \<and> (\<not> ms \<longrightarrow> (\<forall>o'. old = Some o' \<longrightarrow> acc_status new = acc_status o')))"

lemma merged_entry_spec:
  assumes "merged_entry dflt ms old acc = Some new"
  shows "merge_spec dflt ms old acc new"
proof (cases "st_self_destructed (acc_status acc)")
  case True
  then show ?thesis
    using assms
    by (auto simp: merged_entry_def merge_spec_def acc_mark_touch_def mark_cold_def Let_def
        split: if_splits option.splits)
next
  case False
  show ?thesis
  proof (cases old)
    case None
    then show ?thesis
      using assms False
      by (auto simp: merged_entry_def merge_spec_def temperature_kept_def slot_mark_cold_def
          acc_is_cold_def mark_cold_def Let_def split: option.split)
  next
    case (Some o')
    then have run: "merge_account_state ms o' acc = Some new"
      using assms False by (simp add: merged_entry_def)
    then obtain st where new: "new = o'\<lparr>acc_info := acc_info acc,
        acc_storage := merge_evm_storage (acc_storage o') (acc_storage acc), acc_status := st\<rparr>"
      and st: "st_cold st = st_cold (acc_status o')" "\<not> ms \<Longrightarrow> st = acc_status o'"
      by (auto simp: merge_account_state_def merge_account_status_def Let_def bind_eq_Some_conv
          split: if_splits)
    show ?thesis
      using False Some st
      by (auto simp: new merge_spec_def temperature_kept_def acc_is_cold_def merge_evm_storage_def
          slot_mark_cold_def Let_def split: option.split)
  qed
qed

section \<open>Properties\<close>

text \<open>
  Hash maps are iterated in an arbitrary order. Merging
  gives the same state, or panics, for every order of the entries.
\<close>

lemma merge_ignores_iteration_order:
  assumes "distinct (map fst other)" and "mset other = mset other'"
  shows "merge_evm_state_optional_status dflt ms this other =
    merge_evm_state_optional_status dflt ms this other'"
proof -
  have "mset (map fst other) = mset (map fst other')" using assms(2) by simp
  then have distinct': "distinct (map fst other')" using assms(1) mset_eq_imp_distinct_iff by metis
  have sets: "set other = set other'" using assms(2) by (rule mset_eq_setD)
  have "map_of other = map_of other'"
    using map_of_inject_set [OF assms(1) distinct'] sets by simp
  then show ?thesis using merge_eq [OF assms(1)] merge_eq [OF distinct'] sets by simp
qed

definition sample_account :: "u64 \<Rightarrow> Account" where
  "sample_account n = \<lparr>acc_info = empty_account_info\<lparr>nonce := n\<rparr>, acc_transaction_id = 0,
     acc_storage = [1 \<mapsto> \<lparr>slot_original_value = 0, slot_present_value = 7, slot_transaction_id = 0,
                        slot_is_cold = False\<rparr>], acc_status = empty_status\<lparr>st_touched := True\<rparr>\<rparr>"

text \<open>
  What a merge does to the base state. It panics exactly
  when an account was destroyed without having been created. Otherwise accounts that are not merged
  stay as they are; a merged account that was not destroyed has the data of the new state, its own
  temperature if it was there and is cold if it was not; a slot has the new value and likewise its own
  temperature or is cold; and a destroyed account becomes the touched default account. With the status
  left out, an account that was there keeps its flags, so that it is touched only if it was before.
\<close>

lemma merge_keeps_temperature:
  assumes "distinct (map fst other)"
  shows "(merge_evm_state_optional_status dflt ms this other = None
           \<longleftrightarrow> (\<exists>(a, acc) \<in> set other. destroyed_old acc))
    \<and> (\<forall>merged. merge_evm_state_optional_status dflt ms this other = Some merged \<longrightarrow>
        (\<forall>a. a \<notin> fst ` set other \<longrightarrow> merged a = this a)
        \<and> (\<forall>(a, acc) \<in> set other. \<exists>new. merged a = Some new \<and> merge_spec dflt ms (this a) acc new))"
proof -
  have "merged a = this a" if "merge_evm_state_optional_status dflt ms this other = Some merged"
    "a \<notin> fst ` set other" for merged a
  proof -
    have "map_of other a = None" using that(2) by (simp add: map_of_eq_None_iff)
    then show ?thesis using that(1) merge_eq [OF assms, of dflt ms this] by (auto split: if_splits)
  qed
  moreover have "\<exists>new. merged a = Some new \<and> merge_spec dflt ms (this a) acc new"
    if run: "merge_evm_state_optional_status dflt ms this other = Some merged"
      and mem: "(a, acc) \<in> set other" for merged a acc
  proof -
    have "map_of other a = Some acc" using assms mem by simp
    then have "merged a = merged_entry dflt ms (this a) acc" and "\<not> destroyed_old acc"
      using run merge_eq [OF assms, of dflt ms this] mem by (auto split: if_splits)
    moreover from this(2) obtain new where "merged_entry dflt ms (this a) acc = Some new"
      using merged_entry_None_iff by (metis not_None_eq)
    ultimately show ?thesis using merged_entry_spec by auto
  qed
  moreover have "merge_evm_state_optional_status dflt ms this other = None
      \<longleftrightarrow> (\<exists>(a, acc) \<in> set other. destroyed_old acc)"
    using merge_eq [OF assms, of dflt ms this] by simp
  ultimately show ?thesis by blast
qed

end
