(* ===== verification/Sandbox_Db.thy ===== *)
theory Sandbox_Db
  imports Evm_State
begin

text \<open>
  The read-only database of the sandbox (\<^verbatim>\<open>sandbox/state.rs\<close>): the journal of the parent in front of
  its database, with the nonce of one address overridden. The parent's accounts are given as the list
  in which the hash map is iterated; errors of the database are turned into their messages by the
  parameter \<open>fmt\<close>. Whether a bytecode is empty and the default bytecode are upstream.
\<close>

record 'e SandboxDb =
  sdb_journal_state :: "(address \<times> Account) list"
  sdb_db :: "'e Database"
  sdb_code_index :: "b256 \<rightharpoonup> address"
  sdb_nonce_override_address :: "address option"

text \<open>The index is filled in iteration order, a later account overwriting an earlier one.\<close>

fun build_code_index ::
  "(Bytecode \<Rightarrow> bool) \<Rightarrow> (address \<times> Account) list \<Rightarrow> (b256 \<rightharpoonup> address) \<Rightarrow> (b256 \<rightharpoonup> address)" where
  "build_code_index is_empty [] index = index"
| "build_code_index is_empty ((addr, account) # rest) index =
     build_code_index is_empty rest
       (case code (acc_info account) of
          Some c \<Rightarrow> if is_empty c then index else index(code_hash (acc_info account) \<mapsto> addr)
        | None \<Rightarrow> index)"

definition sandbox_db_new ::
  "(Bytecode \<Rightarrow> bool) \<Rightarrow> (address \<times> Account) list \<Rightarrow> 'e Database \<Rightarrow> 'e SandboxDb" where
  "sandbox_db_new is_empty state db = \<lparr>sdb_journal_state = state, sdb_db = db,
     sdb_code_index = build_code_index is_empty state Map.empty, sdb_nonce_override_address = None\<rparr>"

definition with_nonce_override :: "address \<Rightarrow> 'e SandboxDb \<Rightarrow> 'e SandboxDb" where
  "with_nonce_override address self = self\<lparr>sdb_nonce_override_address := Some address\<rparr>"

definition sandbox_basic ::
  "('e \<Rightarrow> string) \<Rightarrow> address \<Rightarrow> 'e SandboxDb \<Rightarrow> string + AccountInfo option" where
  "sandbox_basic fmt address self =
     (case map_of (sdb_journal_state self) address of
        Some account \<Rightarrow>
          Inr (Some (if sdb_nonce_override_address self = Some address
                     then (acc_info account)\<lparr>nonce := 0\<rparr> else acc_info account))
      | None \<Rightarrow>
          (case db_basic (sdb_db self) address of
             Inl e \<Rightarrow> Inl (fmt e)
           | Inr (Some info) \<Rightarrow>
               Inr (Some (if sdb_nonce_override_address self = Some address
                          then info\<lparr>nonce := 0\<rparr> else info))
           | Inr None \<Rightarrow> Inr None))"

definition sandbox_code_by_hash ::
  "('e \<Rightarrow> string) \<Rightarrow> Bytecode \<Rightarrow> b256 \<Rightarrow> 'e SandboxDb \<Rightarrow> string + Bytecode" where
  "sandbox_code_by_hash fmt bytecode_default hash self =
     (let from_db = (case db_code_by_hash (sdb_db self) hash of Inl e \<Rightarrow> Inl (fmt e) | Inr c \<Rightarrow> Inr c)
      in if hash = KECCAK_EMPTY (sdb_db self) then Inr bytecode_default
         else case sdb_code_index self hash of
                Some addr \<Rightarrow>
                  (case map_of (sdb_journal_state self) addr of
                     Some account \<Rightarrow>
                       Inr (case code (acc_info account) of Some c \<Rightarrow> c | None \<Rightarrow> bytecode_default)
                   | None \<Rightarrow> from_db)
              | None \<Rightarrow> from_db)"

definition sandbox_storage ::
  "('e \<Rightarrow> string) \<Rightarrow> address \<Rightarrow> u256 \<Rightarrow> 'e SandboxDb \<Rightarrow> string + u256" where
  "sandbox_storage fmt address index self =
     (let from_db = (case db_storage (sdb_db self) address index of Inl e \<Rightarrow> Inl (fmt e) | Inr v \<Rightarrow> Inr v)
      in case map_of (sdb_journal_state self) address of
           Some account \<Rightarrow>
             (case acc_storage account index of Some slot \<Rightarrow> Inr (slot_present_value slot) | None \<Rightarrow> from_db)
         | None \<Rightarrow> from_db)"

definition sandbox_block_hash :: "('e \<Rightarrow> string) \<Rightarrow> u64 \<Rightarrow> 'e SandboxDb \<Rightarrow> string + b256" where
  "sandbox_block_hash fmt number self =
     (case db_block_hash (sdb_db self) number of Inl e \<Rightarrow> Inl (fmt e) | Inr h \<Rightarrow> Inr h)"

text \<open>The sandbox database as a database of the context that runs in the sandbox. The account
  constructors are those of the upstream crate, as for every database.\<close>

definition sandbox_database ::
  "('e \<Rightarrow> string) \<Rightarrow> Bytecode \<Rightarrow> 'e SandboxDb \<Rightarrow> string Database" where
  "sandbox_database fmt bytecode_default self =
     \<lparr>db_basic = (\<lambda>a. sandbox_basic fmt a self),
      db_code_by_hash = (\<lambda>h. sandbox_code_by_hash fmt bytecode_default h self),
      db_storage = (\<lambda>a k. sandbox_storage fmt a k self),
      db_block_hash = (\<lambda>n. sandbox_block_hash fmt n self),
      KECCAK_EMPTY = KECCAK_EMPTY (sdb_db self), slot_new = slot_new (sdb_db self),
      account_of_info = account_of_info (sdb_db self),
      account_not_existing = account_not_existing (sdb_db self),
      account_is_empty = account_is_empty (sdb_db self)\<rparr>"

section \<open>The code index\<close>

lemma build_code_index_sound:
  assumes "build_code_index is_empty state index h = Some addr"
  shows "index h = Some addr \<or> (\<exists>acc c. (addr, acc) \<in> set state \<and> code (acc_info acc) = Some c
    \<and> \<not> is_empty c \<and> code_hash (acc_info acc) = h)"
  using assms
proof (induction state arbitrary: index)
  case (Cons x state)
  obtain a acc where x: "x = (a, acc)" by fastforce
  let ?index = "case code (acc_info acc) of
      Some c \<Rightarrow> if is_empty c then index else index(code_hash (acc_info acc) \<mapsto> a)
    | None \<Rightarrow> index"
  from Cons.prems x have "build_code_index is_empty state ?index h = Some addr" by simp
  from Cons.IH [OF this] show ?case
    by (auto simp: x split: option.splits if_splits)
qed simp

lemma build_code_index_mono:
  "index h \<noteq> None \<Longrightarrow> build_code_index is_empty state index h \<noteq> None"
proof (induction state arbitrary: index)
  case (Cons x state)
  obtain a acc where x: "x = (a, acc)" by fastforce
  let ?index = "case code (acc_info acc) of
      Some c \<Rightarrow> if is_empty c then index else index(code_hash (acc_info acc) \<mapsto> a)
    | None \<Rightarrow> index"
  have "?index h \<noteq> None"
    using Cons.prems by (cases "code (acc_info acc)") auto
  with Cons.IH [of ?index] show ?case by (simp add: x)
qed simp

lemma build_code_index_complete:
  assumes "(a, acc) \<in> set state" and "code (acc_info acc) = Some c" and "\<not> is_empty c"
  shows "build_code_index is_empty state index (code_hash (acc_info acc)) \<noteq> None"
  using assms
proof (induction state arbitrary: index)
  case (Cons x state)
  show ?case
  proof (cases "x = (a, acc)")
    case True
    then show ?thesis
      using Cons.prems build_code_index_mono
        [of "index(code_hash (acc_info acc) \<mapsto> a)" "code_hash (acc_info acc)"] by simp
  next
    case False
    then show ?thesis using Cons by (cases x) auto
  qed
qed simp

section \<open>Properties\<close>

text \<open>
  What the sandbox sees. Accounts and slots are those of
  the parent's journal and otherwise those of its database, except for the nonce of the signer,
  which is zero; and when hashes determine codes, the code of a hash that an account of the journal
  carries is that account's code, whatever the order the accounts were indexed in.
\<close>

lemma sandbox_reads_the_parent_state:
  assumes "distinct (map fst state)"
    and "\<And>a acc b acc'. (a, acc) \<in> set state \<Longrightarrow> (b, acc') \<in> set state \<Longrightarrow>
      code_hash (acc_info acc) = code_hash (acc_info acc') \<Longrightarrow> code (acc_info acc) \<noteq> None \<Longrightarrow>
      code (acc_info acc') \<noteq> None \<Longrightarrow> code (acc_info acc) = code (acc_info acc')"
    and "self = with_nonce_override signer (sandbox_db_new is_empty state db)"
  shows "sandbox_basic fmt a self =
      (case map_of state a of
         Some acc \<Rightarrow> Inr (Some ((acc_info acc)\<lparr>nonce := if a = signer then 0 else nonce (acc_info acc)\<rparr>))
       | None \<Rightarrow> map_sum fmt (map_option (\<lambda>i. i\<lparr>nonce := if a = signer then 0 else nonce i\<rparr>)) (db_basic db a))
    \<and> sandbox_storage fmt a k self =
      (case Option.bind (map_of state a) (\<lambda>acc. acc_storage acc k) of
         Some slot \<Rightarrow> Inr (slot_present_value slot) | None \<Rightarrow> map_sum fmt id (db_storage db a k))
    \<and> (\<forall>acc c. (a, acc) \<in> set state \<longrightarrow> code (acc_info acc) = Some c \<longrightarrow> \<not> is_empty c \<longrightarrow>
         code_hash (acc_info acc) \<noteq> KECCAK_EMPTY db \<longrightarrow>
         sandbox_code_by_hash fmt dflt (code_hash (acc_info acc)) self = Inr c)
    \<and> (\<forall>h. h \<noteq> KECCAK_EMPTY db \<longrightarrow> h \<notin> (\<lambda>(_, acc). code_hash (acc_info acc)) ` set state \<longrightarrow>
         sandbox_code_by_hash fmt dflt h self = map_sum fmt id (db_code_by_hash db h))"
proof -
  have sel: "sdb_journal_state self = state" "sdb_db self = db" "sdb_nonce_override_address self = Some signer"
    "sdb_code_index self = build_code_index is_empty state Map.empty"
    by (simp_all add: assms(3) with_nonce_override_def sandbox_db_new_def)
  have "sandbox_code_by_hash fmt dflt (code_hash (acc_info acc)) self = Inr c"
    if acc: "(a, acc) \<in> set state" "code (acc_info acc) = Some c" "\<not> is_empty c"
      "code_hash (acc_info acc) \<noteq> KECCAK_EMPTY db" for acc c
  proof -
    obtain b where b: "build_code_index is_empty state Map.empty (code_hash (acc_info acc)) = Some b"
      using build_code_index_complete [OF acc(1,2), of is_empty Map.empty] acc(3) by auto
    then obtain acc' c' where acc': "(b, acc') \<in> set state" "code (acc_info acc') = Some c'"
      "code_hash (acc_info acc') = code_hash (acc_info acc)"
      using build_code_index_sound [OF b] by auto
    moreover have "c' = c" using assms(2) [OF acc'(1) acc(1) acc'(3)] acc(2) acc'(2) by simp
    ultimately show ?thesis
      using assms(1) acc(4) b by (simp add: sandbox_code_by_hash_def sel)
  qed
  moreover have "sandbox_code_by_hash fmt dflt h self = map_sum fmt id (db_code_by_hash db h)"
    if h: "h \<noteq> KECCAK_EMPTY db" "h \<notin> (\<lambda>(_, acc). code_hash (acc_info acc)) ` set state" for h
  proof -
    have "build_code_index is_empty state Map.empty h = None"
      using h(2) build_code_index_sound [of is_empty state Map.empty h]
      by (cases "build_code_index is_empty state Map.empty h") force+
    then show ?thesis
      using h(1) by (simp add: sandbox_code_by_hash_def sel Let_def split: sum.split)
  qed
  ultimately show ?thesis
    by (auto simp: sandbox_basic_def sandbox_storage_def sel Let_def split: option.split sum.split)
qed

end
