(* ===== verification/Limit_Hooks.thy ===== *)
theory Limit_Hooks
  imports Additional_Limit
begin

text \<open>
  Lemmas on \<^verbatim>\<open>AdditionalLimit\<close>. \<open>aligned c d\<close> is its invariant: all four trackers recorded at
  most \<open>c\<close> units and have the same number \<open>d\<close> of frames. Every hook keeps it and does not panic
  while the recorded amounts fit in 64 bits. The other lemmas give the meaning of a check, of the
  rescue of gas and of the return of a frame on every branch.
\<close>

section \<open>The result of a check\<close>

lemma not_exceeded_iff [simp]: "\<not> exceeded_limit c \<longleftrightarrow> c = WithinLimit"
  by (cases c) simp_all

lemma exceeded_iff: "exceeded_limit c \<longleftrightarrow> c \<noteq> WithinLimit"
  by (cases c) simp_all

text \<open>The reference: the first exceeded limit in the order data size, KV updates, compute gas, state
  growth.\<close>

definition first_exceeded :: "LimitCheck list \<Rightarrow> LimitCheck" where
  "first_exceeded checks = (case filter exceeded_limit checks of [] \<Rightarrow> WithinLimit | c # _ \<Rightarrow> c)"

lemma al_check_limit_eq:
  assumes "ds_check_limit (al_data_size al) = Some d" and "kv_check_limit (al_kv_update al) = Some k"
    and "cg_check_limit (al_compute_gas al) = Some g" and "sg_check_limit (al_state_growth al) = Some s"
    and "c = (if exceeded_limit (has_exceeded_limit al) then has_exceeded_limit al
              else first_exceeded [d, k, g, s])"
  shows "al_check_limit al = Some (c, al\<lparr>has_exceeded_limit := c\<rparr>)"
  using assms by (auto simp: al_check_limit_def first_exceeded_def exceeded_iff)

lemma al_check_limit_SomeD:
  assumes "al_check_limit al = Some (c, al')"
  shows "al' = al\<lparr>has_exceeded_limit := c\<rparr>"
    and "has_exceeded_limit al \<noteq> WithinLimit \<Longrightarrow> c = has_exceeded_limit al"
  using assms
  by (auto simp: al_check_limit_def exceeded_iff bind_eq_Some_conv split: if_splits)

lemma al_check_limit_sticky:
  assumes "has_exceeded_limit al \<noteq> WithinLimit"
  shows "al_check_limit al = Some (has_exceeded_limit al, al)"
  using assms by (simp add: al_check_limit_def exceeded_iff)

lemma al_check_limit_withinD:
  assumes "al_check_limit al = Some (WithinLimit, al')"
  shows "ds_check_limit (al_data_size al) = Some WithinLimit"
    and "kv_check_limit (al_kv_update al) = Some WithinLimit"
    and "cg_check_limit (al_compute_gas al) = Some WithinLimit"
    and "sg_check_limit (al_state_growth al) = Some WithinLimit"
    and "al' = al" and "has_exceeded_limit al = WithinLimit"
  using assms
  by (auto simp: al_check_limit_def bind_eq_Some_conv exceeded_iff split: if_splits)

section \<open>The invariant\<close>

definition aligned :: "nat \<Rightarrow> nat \<Rightarrow> AdditionalLimit \<Rightarrow> bool" where
  "aligned c d al \<longleftrightarrow>
     sg_recorded c (al_state_growth al) \<and> ds_recorded c (al_data_size al) \<and>
     kv_recorded c (al_kv_update al) \<and> cg_recorded c (al_compute_gas al) \<and>
     sg_depth (al_state_growth al) = d \<and> ds_depth (al_data_size al) = d \<and>
     kv_depth (al_kv_update al) = d \<and> cg_depth (al_compute_gas al) = d"

lemma alignedD:
  assumes "aligned c d al"
  shows "sg_recorded c (al_state_growth al)" "ds_recorded c (al_data_size al)"
    "kv_recorded c (al_kv_update al)" "cg_recorded c (al_compute_gas al)"
    "sg_depth (al_state_growth al) = d" "ds_depth (al_data_size al) = d"
    "kv_depth (al_kv_update al) = d" "cg_depth (al_compute_gas al) = d"
  using assms by (simp_all add: aligned_def)

lemma cg_recorded_mono: "cg_recorded c t \<Longrightarrow> c \<le> c' \<Longrightarrow> cg_recorded c' t"
  unfolding cg_recorded_def cg_metered_def using metered_upto_mono by blast

lemmas recorded_mono = sg_recorded_mono ds_recorded_mono kv_recorded_mono cg_recorded_mono

lemma aligned_mono: "aligned c d al \<Longrightarrow> c \<le> c' \<Longrightarrow> aligned c' d al"
  by (auto simp: aligned_def elim: recorded_mono)

lemma aligned_flag [simp]:
  "aligned c d (al\<lparr>has_exceeded_limit := k\<rparr>) = aligned c d al"
  "aligned c d (al\<lparr>rescued_gas := g\<rparr>) = aligned c d al"
  by (simp_all add: aligned_def)

lemma depth_new [simp]:
  "sg_depth (sg_new spec L) = 0" "ds_depth (ds_new spec L) = 0"
  "kv_depth (kv_new spec L) = 0" "cg_depth (cg_new spec L) = 0"
  by (simp_all add: sg_depth_def ds_depth_def kv_depth_def cg_depth_def sg_new_def ds_new_def
      kv_new_def)

lemma aligned_new: "aligned 0 0 (al_new spec limits)"
  by (simp add: aligned_def al_new_def sg_recorded_new ds_recorded_new kv_recorded_new cg_recorded_new)

lemma al_check_total:
  assumes "aligned c d al" and "c < 2 ^ 64"
  shows "\<exists>k. al_check_limit al = Some (k, al\<lparr>has_exceeded_limit := k\<rparr>)"
proof -
  note al = alignedD [OF assms(1)]
  obtain k1 k2 k3 k4 where
    "ds_check_limit (al_data_size al) = Some k1" "kv_check_limit (al_kv_update al) = Some k2"
    "cg_check_limit (al_compute_gas al) = Some k3" "sg_check_limit (al_state_growth al) = Some k4"
    using ds.check_law [OF al(2) assms(2)] kv.check_law [OF al(3) assms(2)]
      compute.check_law [OF al(4) assms(2)] growth.check_law [OF al(1) assms(2)] by blast
  from al_check_limit_eq [OF this refl] show ?thesis by blast
qed

text \<open>Every hook that ends in a check has this shape.\<close>

lemma checked_hook:
  assumes "aligned c d al" and "c < 2 ^ 64"
  shows "\<exists>ok al'. do { (k, al') \<leftarrow> al_check_limit al; Some (\<not> exceeded_limit k, al') } = Some (ok, al')
    \<and> aligned c d al' \<and> (ok \<longleftrightarrow> has_exceeded_limit al' = WithinLimit)"
  using al_check_total [OF assms] assms(1) by (auto simp: exceeded_iff)

lemma push_empty_frame_aligned:
  assumes "aligned c d al" and "c < 2 ^ 64"
  shows "\<exists>al'. al_push_empty_frame al = Some al' \<and> aligned c (Suc d) al'"
proof -
  note al = alignedD [OF assms(1)]
  show ?thesis
    using growth.push_law [OF al(1) assms(2)] ds.push_law [OF al(2) assms(2)]
      kv.push_law [OF al(3) assms(2)] compute.push_law [OF al(4) assms(2)] al(5-8)
    by (auto simp: al_push_empty_frame_def aligned_def)
qed

lemma record_compute_gas_aligned:
  assumes "aligned c d al" and "c + unat g < 2 ^ 64"
  shows "\<exists>ok al'. record_compute_gas g al = Some (ok, al') \<and> aligned (c + unat g) d al'
    \<and> (ok \<longleftrightarrow> has_exceeded_limit al' = WithinLimit)"
proof -
  note al = alignedD [OF assms(1)]
  have "aligned (c + unat g) d (al\<lparr>al_compute_gas := record_gas_used g (al_compute_gas al)\<rparr>)"
    using compute.work_law [OF al(4), of g] al
    by (auto simp: aligned_def elim: recorded_mono)
  from checked_hook [OF this assms(2)] show ?thesis by (simp add: record_compute_gas_def)
qed

lemma on_sstore_aligned:
  assumes "aligned c d al" and "c + 40 < 2 ^ 64"
  shows "\<exists>ok al'. on_sstore s al = Some (ok, al') \<and> aligned (c + 40) d al'
    \<and> (ok \<longleftrightarrow> has_exceeded_limit al' = WithinLimit)"
proof -
  note al = alignedD [OF assms(1)]
  have "sg_recorded (c + 40) (sg_after_sstore s (al_state_growth al))"
    using growth.work_law [OF al(1), of s] by (auto elim: recorded_mono)
  moreover have "kv_recorded (c + 40) (kv_after_sstore s (al_kv_update al))"
    using kv.work_law [OF al(3), of s] by (auto elim: recorded_mono)
  ultimately have "aligned (c + 40) d
      (al\<lparr>al_state_growth := sg_after_sstore s (al_state_growth al),
          al_data_size := ds_after_sstore s (al_data_size al),
          al_kv_update := kv_after_sstore s (al_kv_update al)\<rparr>)"
    using ds.work_law [OF al(2), of "DsStore s"] growth.work_law [OF al(1), of s]
      kv.work_law [OF al(3), of s] al
    by (auto simp: aligned_def elim: recorded_mono)
  from checked_hook [OF this assms(2)] show ?thesis by (simp add: on_sstore_def)
qed

lemma on_log_aligned:
  assumes "aligned c d al" and "c + (unat n * 32 + unat k) < 2 ^ 64"
  shows "\<exists>ok al'. on_log n k al = Some (ok, al') \<and> aligned (c + (unat n * 32 + unat k)) d al'
    \<and> (ok \<longleftrightarrow> has_exceeded_limit al' = WithinLimit)"
proof -
  note al = alignedD [OF assms(1)]
  have "aligned (c + (unat n * 32 + unat k)) d
      (al\<lparr>al_data_size := ds_after_log n k (al_data_size al)\<rparr>)"
    using ds.work_law [OF al(2), of "DsLog n k"] al
    by (auto simp: aligned_def elim: recorded_mono)
  from checked_hook [OF this assms(2)] show ?thesis by (simp add: on_log_def)
qed

lemma set_compute_gas_limit_aligned:
  assumes "aligned c d al" and "c < 2 ^ 64"
  shows "\<exists>al'. set_compute_gas_limit cap al = Some al' \<and> aligned c d al'"
proof -
  note al = alignedD [OF assms(1)]
  obtain u where "cg_tx_usage (al_compute_gas al) = Some u"
    using compute.usage_law [OF al(4) assms(2)] by blast
  then show ?thesis
    using al by (simp add: set_compute_gas_limit_def set_detained_limit_eq aligned_def cg_recorded_def
        cg_metered_def refundless_def cg_depth_def)
qed

lemma reset_aligned:
  assumes "aligned c d al"
  shows "aligned 0 0 (al_reset al)"
proof -
  note al = alignedD [OF assms]
  show ?thesis
    using growth.reset_law [OF al(1)] ds.reset_law [OF al(2)] kv.reset_law [OF al(3)]
      compute.reset_law [OF al(4)]
    by (simp add: al_reset_def aligned_def)
qed

lemma try_rescue_gas_aligned:
  assumes "aligned c d al" and "c < 2 ^ 64"
  shows "\<exists>al'. try_rescue_gas R gas al = Some al' \<and> aligned c d al'"
  using al_check_total [OF assms] assms(1) by (auto simp: try_rescue_gas_def rescue_gas_def)

lemma before_frame_init_aligned:
  assumes "aligned c d al" and "c + 80 < 2 ^ 64" and "fi_input frame_init \<noteq> EmptyInput"
  shows "(\<exists>e j' s. al_before_frame_init R enc D frame_init j al =
            Some (Inl e, j', al\<lparr>al_state_growth := s\<rparr>) \<and> sg_depth s = Suc d)
    \<or> (\<exists>r j' al'. al_before_frame_init R enc D frame_init j al = Some (Inr r, j', al')
          \<and> aligned (c + 80) (Suc d) al' \<and> (r = None \<longleftrightarrow> has_exceeded_limit al' = WithinLimit))"
proof -
  note al = alignedD [OF assms(1)]
  have c: "c < 2 ^ 64" using assms(2) by simp
  obtain r j' s where s: "sg_before_frame_init D frame_init j (al_state_growth al) = Some (r, j', s)"
      "sg_recorded (c + 1) s" "sg_depth s = Suc d"
    using sg_before_frame_init_law [OF al(1) c assms(3), of D j] al(5) by auto
  obtain ds where ds: "ds_before_frame_init frame_init (al_data_size al) = Some ds"
      "ds_recorded (c + 80) ds" "ds_depth ds = Suc d"
    using ds.enter_law [OF al(2) c assms(3)] al(6) by auto
  obtain k where k: "kv_before_frame_init frame_init (al_kv_update al) = Some k"
      "kv_recorded (c + 2) k" "kv_depth k = Suc d"
    using kv.enter_law [OF al(3) c assms(3)] al(7) by auto
  obtain g where g: "cg_before_frame_init frame_init (al_compute_gas al) = Some g"
      "cg_recorded (c + 0) g" "cg_depth g = Suc d"
    using compute.enter_law [OF al(4) c] al(8) by auto
  let ?al = "al\<lparr>al_state_growth := s, al_data_size := ds, al_kv_update := k, al_compute_gas := g\<rparr>"
  have "sg_recorded (c + 80) s" "kv_recorded (c + 80) k" "cg_recorded (c + 80) g"
    using s(2) k(2) g(2) by (auto elim!: recorded_mono)
  then have inv: "aligned (c + 80) (Suc d) ?al"
    using s ds k g by (simp add: aligned_def)
  then obtain q where q: "al_check_limit ?al = Some (q, ?al\<lparr>has_exceeded_limit := q\<rparr>)"
    using al_check_total assms(2) by blast
  show ?thesis
  proof (cases r)
    case (Inl e)
    then show ?thesis using s(1,3) by (auto simp: al_before_frame_init_def)
  next
    case (Inr u)
    show ?thesis
    proof (cases "q = WithinLimit")
      case True
      then show ?thesis
        using Inr s(1) ds(1) k(1) g(1) q inv by (simp add: al_before_frame_init_def)
    next
      case False
      obtain gl off where input: "(case fi_input frame_init of
          CreateInput inputs \<Rightarrow> Some (cri_gas_limit inputs, None)
        | CallInput inputs \<Rightarrow> Some (ci_gas_limit inputs, Some (ci_return_memory_offset inputs))
        | EmptyInput \<Rightarrow> None) = Some (gl, off)"
        using assms(3) by (cases "fi_input frame_init") simp_all
      let ?res = "create_exceeding_limit_frame_result
          (exceeding_instruction_result R (?al\<lparr>has_exceeded_limit := q\<rparr>)) (gas_new R gl) off
          (revert_data enc q)"
      obtain al' where "try_rescue_gas R (ir_gas (interp_of ?res)) (?al\<lparr>has_exceeded_limit := q\<rparr>)
          = Some al'" "aligned (c + 80) (Suc d) al'" "has_exceeded_limit al' = q"
        using inv False by (simp add: try_rescue_gas_def al_check_limit_sticky rescue_gas_def)
      then show ?thesis
        using Inr s(1) ds(1) k(1) g(1) q input False
        by (simp add: al_before_frame_init_def exceeded_iff Let_def)
    qed
  qed
qed

lemma before_frame_return_result_aligned:
  assumes "aligned c d al" and "c < 2 ^ 64" and "last_frame \<or> 0 < d"
  shows "\<exists>r al'. al_before_frame_return_result R enc last_frame result al = Some (r, al')
    \<and> aligned c (d - 1) al'"
proof -
  note al = alignedD [OF assms(1)]
  let ?ok = "ir_is_ok R (ir_result (interp_of result))"
  obtain s where s: "sg_before_frame_return_result last_frame ?ok (al_state_growth al) = Some s"
      "sg_recorded c s" "sg_depth s = d - 1"
    using growth.leave_law [OF al(1) assms(2)] al(5) assms(3) by metis
  obtain ds where ds: "ds_before_frame_return_result last_frame ?ok (al_data_size al) = Some ds"
      "ds_recorded c ds" "ds_depth ds = d - 1"
    using ds.leave_law [OF al(2) assms(2)] al(6) assms(3) by metis
  obtain k where k: "kv_before_frame_return_result last_frame ?ok (al_kv_update al) = Some k"
      "kv_recorded c k" "kv_depth k = d - 1"
    using kv.leave_law [OF al(3) assms(2)] al(7) assms(3) by metis
  obtain g where g: "cg_before_frame_return_result last_frame ?ok (al_compute_gas al) = Some g"
      "cg_recorded c g" "cg_depth g = d - 1"
    using compute.leave_law [OF al(4) assms(2)] al(8) assms(3) by metis
  let ?al = "al\<lparr>al_state_growth := s, al_data_size := ds, al_kv_update := k, al_compute_gas := g\<rparr>"
  have inv: "aligned c (d - 1) ?al"
    using s ds k g by (simp add: aligned_def)
  then obtain q where "al_check_limit ?al = Some (q, ?al\<lparr>has_exceeded_limit := q\<rparr>)"
    using al_check_total assms(2) by blast
  with s(1) ds(1) k(1) g(1) inv show ?thesis
    by (simp add: al_before_frame_return_result_def Let_def)
qed

text \<open>A return without a frame is the panic of the assertion, unless it is the last one.\<close>

lemma before_frame_return_result_panics:
  assumes "aligned c 0 al"
  shows "al_before_frame_return_result R enc False result al = None"
  using growth.leave_panics [of "al_state_growth al"] alignedD(5) [OF assms]
  by (simp add: al_before_frame_return_result_def Let_def)

section \<open>Sequences of hooks\<close>

text \<open>
  The hooks a transaction calls between its start and the return of its last frame. A database
  error of \<^verbatim>\<open>before_frame_init\<close> ends the sequence: the error leaves the transaction.
\<close>

datatype ('ir, 'gas) al_event =
    HookEnter FrameInit Journal
  | HookEnterEmpty
  | HookStore SStoreResult
  | HookLog u64 u64
  | HookGas u64
  | HookCap u64
  | HookReturn "('ir, 'gas) FrameResult"

fun al_step ::
  "('ir, 'gas) revm \<Rightarrow> (u8 \<Rightarrow> u64 \<Rightarrow> bytes) \<Rightarrow> 'e Database \<Rightarrow> ('ir, 'gas) al_event \<Rightarrow> AdditionalLimit \<Rightarrow>
   ('e + AdditionalLimit) option" where
  "al_step R enc D (HookEnter frame_init j) al = do {
     (r, _, al') \<leftarrow> al_before_frame_init R enc D frame_init j al;
     Some (case r of Inl e \<Rightarrow> Inl e | Inr _ \<Rightarrow> Inr al') }"
| "al_step R enc D HookEnterEmpty al = map_option Inr (al_push_empty_frame al)"
| "al_step R enc D (HookStore st) al = map_option (Inr \<circ> snd) (on_sstore st al)"
| "al_step R enc D (HookLog n k) al = map_option (Inr \<circ> snd) (on_log n k al)"
| "al_step R enc D (HookGas g) al = map_option (Inr \<circ> snd) (record_compute_gas g al)"
| "al_step R enc D (HookCap cap) al = map_option Inr (set_compute_gas_limit cap al)"
| "al_step R enc D (HookReturn result) al =
     map_option (Inr \<circ> snd) (al_before_frame_return_result R enc False result al)"

fun al_run ::
  "('ir, 'gas) revm \<Rightarrow> (u8 \<Rightarrow> u64 \<Rightarrow> bytes) \<Rightarrow> 'e Database \<Rightarrow> ('ir, 'gas) al_event list \<Rightarrow>
   AdditionalLimit \<Rightarrow> ('e + AdditionalLimit) option" where
  "al_run R enc D [] al = Some (Inr al)"
| "al_run R enc D (ev # evs) al = do {
     r \<leftarrow> al_step R enc D ev al;
     (case r of Inl e \<Rightarrow> Some (Inl e) | Inr al' \<Rightarrow> al_run R enc D evs al')
   }"

fun al_depth_after :: "('ir, 'gas) al_event \<Rightarrow> nat \<Rightarrow> nat option" where
  "al_depth_after (HookEnter _ _) d = Some (Suc d)"
| "al_depth_after HookEnterEmpty d = Some (Suc d)"
| "al_depth_after (HookReturn _) d = (if d = 0 then None else Some (d - 1))"
| "al_depth_after _ d = Some d"

fun al_nesting :: "('ir, 'gas) al_event list \<Rightarrow> nat \<Rightarrow> nat option" where
  "al_nesting [] d = Some d"
| "al_nesting (ev # evs) d = Option.bind (al_depth_after ev d) (al_nesting evs)"

fun al_event_cost :: "('ir, 'gas) al_event \<Rightarrow> nat" where
  "al_event_cost (HookEnter _ _) = 80"
| "al_event_cost (HookStore _) = 40"
| "al_event_cost (HookLog n k) = unat n * 32 + unat k"
| "al_event_cost (HookGas g) = unat g"
| "al_event_cost _ = 0"

fun al_event_ok :: "('ir, 'gas) al_event \<Rightarrow> bool" where
  "al_event_ok (HookEnter frame_init _) = (fi_input frame_init \<noteq> EmptyInput)"
| "al_event_ok _ = True"

lemma al_step_aligned:
  assumes "aligned c d al" and "c + al_event_cost ev < 2 ^ 64" and "al_event_ok ev"
    and "al_depth_after ev d = Some d'"
  shows "(\<exists>e. al_step R enc D ev al = Some (Inl e))
    \<or> (\<exists>al'. al_step R enc D ev al = Some (Inr al') \<and> aligned (c + al_event_cost ev) d' al')"
proof (cases ev)
  case (HookEnter frame_init j)
  then show ?thesis
    using before_frame_init_aligned [OF assms(1), of frame_init R enc D j] assms by auto
next
  case HookEnterEmpty
  then show ?thesis using push_empty_frame_aligned [OF assms(1)] assms by auto
next
  case (HookStore st)
  then show ?thesis using on_sstore_aligned [OF assms(1), of st] assms by auto
next
  case (HookLog n k)
  then show ?thesis using on_log_aligned [OF assms(1), of n k] assms by auto
next
  case (HookGas g)
  then show ?thesis using record_compute_gas_aligned [OF assms(1), of g] assms by auto
next
  case (HookCap cap)
  then show ?thesis using set_compute_gas_limit_aligned [OF assms(1), of cap] assms by auto
next
  case (HookReturn result)
  then show ?thesis
    using before_frame_return_result_aligned [OF assms(1), of False R enc result] assms
    by (auto split: if_splits)
qed

lemma al_run_aligned:
  assumes "aligned c d al" and "c + sum_list (map al_event_cost evs) < 2 ^ 64"
    and "list_all al_event_ok evs" and "al_nesting evs d = Some d'"
  shows "(\<exists>e. al_run R enc D evs al = Some (Inl e))
    \<or> (\<exists>al'. al_run R enc D evs al = Some (Inr al')
          \<and> aligned (c + sum_list (map al_event_cost evs)) d' al')"
  using assms
proof (induction evs arbitrary: c d al)
  case Nil
  then show ?case by simp
next
  case (Cons ev evs)
  obtain d1 where d1: "al_depth_after ev d = Some d1" "al_nesting evs d1 = Some d'"
    using Cons.prems(4) by (auto simp: bind_eq_Some_conv)
  have rest: "c + al_event_cost ev + sum_list (map al_event_cost evs) < 2 ^ 64"
    using Cons.prems(2) by (simp add: add.assoc)
  consider e where "al_step R enc D ev al = Some (Inl e)"
    | al1 where "al_step R enc D ev al = Some (Inr al1)" "aligned (c + al_event_cost ev) d1 al1"
    using al_step_aligned [OF Cons.prems(1) _ _ d1(1), of R enc D] Cons.prems(3) rest by force
  then show ?case
  proof cases
    case 1
    then show ?thesis by simp
  next
    case 2
    then show ?thesis
      using Cons.IH [OF 2(2) rest] Cons.prems(3) d1(2) by (simp add: add.assoc)
  qed
qed

section \<open>Rescue of gas and return of a frame\<close>

lemma try_rescue_gas_eq:
  assumes "al_check_limit al = Some (c, al')"
  shows "try_rescue_gas R gas al = Some (al'\<lparr>rescued_gas := rescued_gas al +
    (if c \<noteq> WithinLimit \<and> \<not> is_frame_local c then gas_remaining R gas else 0)\<rparr>)"
  using assms al_check_limit_SomeD(1) [OF assms]
  by (auto simp: try_rescue_gas_def rescue_gas_def exceeded_iff)

text \<open>What a returning frame that exceeded a limit looks like to its caller.\<close>

lemma return_frame_local_absorbed:
  assumes "al_before_frame_return_result R enc last_frame result al = Some (r, al')"
    and "is_frame_local (has_exceeded_limit al)"
    and "\<not> last_frame \<or> ds_has_active_frame (al_data_size al)"
  shows "has_exceeded_limit al' = WithinLimit"
    and "ir_result (interp_of r) = IR_Revert R"
    and "ir_output (interp_of r) = revert_data enc (has_exceeded_limit al)"
    and "ir_gas (interp_of r) = ir_gas (interp_of result)"
    and "rescued_gas al' = rescued_gas al"
proof -
  have ex: "has_exceeded_limit al \<noteq> WithinLimit" using assms(2) by auto
  show "has_exceeded_limit al' = WithinLimit"
    and "ir_result (interp_of r) = IR_Revert R"
    and "ir_output (interp_of r) = revert_data enc (has_exceeded_limit al)"
    and "ir_gas (interp_of r) = ir_gas (interp_of result)"
    and "rescued_gas al' = rescued_gas al"
    using assms ex
    by (auto simp: al_before_frame_return_result_def Let_def bind_eq_Some_conv
        al_check_limit_sticky exceeded_iff)
qed

lemma return_tx_level_sticky:
  assumes "al_before_frame_return_result R enc last_frame result al = Some (r, al')"
    and "has_exceeded_limit al \<noteq> WithinLimit" and "\<not> is_frame_local (has_exceeded_limit al)"
  shows "has_exceeded_limit al' = has_exceeded_limit al" and "rescued_gas al' = rescued_gas al"
    and "\<not> last_frame \<or> ds_has_active_frame (al_data_size al) \<Longrightarrow>
      ir_result (interp_of r) = IR_OutOfGas R \<and> ir_output (interp_of r) = []"
  using assms
  by (auto simp: al_before_frame_return_result_def Let_def bind_eq_Some_conv
        al_check_limit_sticky exceeded_iff mark_frame_result_as_exceeding_limit_def
        mark_interpreter_result_as_exceeding_limit_def EXCEEDING_LIMIT_INSTRUCTION_RESULT_def split: if_splits)

section \<open>Limits that a passed check guarantees\<close>

lemma usage_check_within:
  "ds_check_limit d = Some WithinLimit \<Longrightarrow> \<not> ds_rex4_enabled d \<Longrightarrow> ds_tx_usage d = Some u \<Longrightarrow>
    u \<le> ds_tx_limit d"
  "kv_check_limit k = Some WithinLimit \<Longrightarrow> \<not> kv_rex4_enabled k \<Longrightarrow> kv_tx_usage k = Some u \<Longrightarrow>
    u \<le> kv_tx_limit k"
  "sg_check_limit s = Some WithinLimit \<Longrightarrow> \<not> sg_rex4 s \<Longrightarrow> sg_tx_usage s = Some u \<Longrightarrow>
    u \<le> sg_tx_limit s"
  "cg_check_limit g = Some WithinLimit \<Longrightarrow> cg_tx_usage g = Some u \<Longrightarrow> u \<le> cg_tx_limit g"
proof -
  show "ds_check_limit d = Some WithinLimit \<Longrightarrow> \<not> ds_rex4_enabled d \<Longrightarrow> ds_tx_usage d = Some u \<Longrightarrow>
      u \<le> ds_tx_limit d"
    by (simp add: ds_check_limit_def ds_tx_limit_def Let_def not_less split: if_splits)
  show "kv_check_limit k = Some WithinLimit \<Longrightarrow> \<not> kv_rex4_enabled k \<Longrightarrow> kv_tx_usage k = Some u \<Longrightarrow>
      u \<le> kv_tx_limit k"
    by (simp add: kv_check_limit_def kv_tx_limit_def Let_def not_less split: if_splits)
  show "sg_check_limit s = Some WithinLimit \<Longrightarrow> \<not> sg_rex4 s \<Longrightarrow> sg_tx_usage s = Some u \<Longrightarrow>
      u \<le> sg_tx_limit s"
    by (simp add: sg_check_limit_def sg_tx_limit_def sg_rex4_def Let_def not_less split: if_splits)
  show "cg_check_limit g = Some WithinLimit \<Longrightarrow> cg_tx_usage g = Some u \<Longrightarrow> u \<le> cg_tx_limit g"
    by (drule cg_check_limit_withinD) (simp add: cg_check_tx_limit_within_iff cg_tx_limit_def)
qed

section \<open>Properties\<close>


definition sample_call :: FrameInit where
  "sample_call = \<lparr>fi_depth = 0, fi_input = CallInput \<lparr>ci_target_address = 2, ci_caller = 1,
     ci_scheme = SchemeCall, ci_input = [], ci_gas_limit = 1000, ci_return_memory_offset = (0, 0),
     ci_value = 5, ci_transfer_value = Some 5, ci_transfers_value = True\<rparr>\<rparr>"

definition sample_journal :: Journal where
  "sample_journal = \<lparr>j_state = Map.empty, j_transaction_id = 0, j_depth = 0\<rparr>"

definition sample_events :: "(nat, u64) al_event list" where
  "sample_events = [HookEnter sample_call sample_journal, HookGas 21, HookEnterEmpty, HookLog 2 10,
     HookReturn (CallResult \<lparr>ir_result = 2, ir_output = [], ir_gas = 0\<rparr> (0, 0))]"


text \<open>
  Property C5 (check_limit_reports_first_exceeded): the meaning of a check. On a state reached
  within 64 bits it does not panic; once a limit was exceeded it repeats that one, otherwise it
  returns the first exceeded limit in the order data size, KV updates, compute gas, state growth,
  and remembers it; it changes nothing else.
\<close>

theorem check_limit_reports_first_exceeded:
  assumes "aligned c d al" and "c < 2 ^ 64"
  shows "\<exists>kd kk kg ks. ds_check_limit (al_data_size al) = Some kd
    \<and> kv_check_limit (al_kv_update al) = Some kk \<and> cg_check_limit (al_compute_gas al) = Some kg
    \<and> sg_check_limit (al_state_growth al) = Some ks
    \<and> (let k = (if exceeded_limit (has_exceeded_limit al) then has_exceeded_limit al
               else first_exceeded [kd, kk, kg, ks])
       in al_check_limit al = Some (k, al\<lparr>has_exceeded_limit := k\<rparr>))"
proof -
  note al = alignedD [OF assms(1)]
  obtain k1 k2 k3 k4 where
    "ds_check_limit (al_data_size al) = Some k1" "kv_check_limit (al_kv_update al) = Some k2"
    "cg_check_limit (al_compute_gas al) = Some k3" "sg_check_limit (al_state_growth al) = Some k4"
    using ds.check_law [OF al(2) assms(2)] kv.check_law [OF al(3) assms(2)]
      compute.check_law [OF al(4) assms(2)] growth.check_law [OF al(1) assms(2)] by blast
  with al_check_limit_eq [OF this refl] show ?thesis by (simp add: Let_def)
qed

theorem check_limit_reports_first_exceeded_witness:
  "\<exists>k. al_check_limit (al_new REX4 limits_rex4) = Some (k, (al_new REX4 limits_rex4)\<lparr>has_exceeded_limit := k\<rparr>)"
  using check_limit_reports_first_exceeded [OF aligned_new, of REX4 limits_rex4] by (auto simp: Let_def)

text \<open>
  Property C6 (frame_local_exceed_is_absorbed): a frame that exceeded its own budget. When it
  returns, the exceeded flag is cleared, the caller sees a revert that carries the encoded limit
  and the unchanged gas of the frame, and nothing is added to the rescued gas: the caller goes on.
\<close>

theorem frame_local_exceed_is_absorbed:
  assumes "aligned c d al" and "c < 2 ^ 64" and "0 < d" and "is_frame_local (has_exceeded_limit al)"
  shows "\<exists>r al'. al_before_frame_return_result R enc last_frame result al = Some (r, al')
    \<and> has_exceeded_limit al' = WithinLimit \<and> rescued_gas al' = rescued_gas al
    \<and> ir_result (interp_of r) = IR_Revert R
    \<and> ir_output (interp_of r) = revert_data enc (has_exceeded_limit al)
    \<and> ir_gas (interp_of r) = ir_gas (interp_of result)"
proof -
  obtain r al' where ret: "al_before_frame_return_result R enc last_frame result al = Some (r, al')"
    using before_frame_return_result_aligned [OF assms(1,2)] assms(3) by blast
  have "ds_has_active_frame (al_data_size al)"
    using alignedD(6) [OF assms(1)] assms(3)
    by (auto simp: ds_has_active_frame_def has_active_frame_def ds_depth_def)
  with return_frame_local_absorbed [OF ret assms(4)] ret show ?thesis by blast
qed

definition sample_frame_local :: AdditionalLimit where
  "sample_frame_local = (the (al_push_empty_frame (al_new REX4 limits_rex4)))
     \<lparr>has_exceeded_limit := ExceedsLimit StateGrowth 10 11 True\<rparr>"

lemma sample_frame_local_aligned: "aligned 0 1 sample_frame_local"
proof -
  obtain al where "al_push_empty_frame (al_new REX4 limits_rex4) = Some al" "aligned 0 1 al"
    using push_empty_frame_aligned [OF aligned_new, of REX4 limits_rex4] by auto
  then show ?thesis by (simp add: sample_frame_local_def)
qed

theorem frame_local_exceed_is_absorbed_witness:
  "\<exists>r al'. al_before_frame_return_result sample_revm (\<lambda>k _. [k]) False
      (CallResult \<lparr>ir_result = 2, ir_output = [], ir_gas = 77\<rparr> (0, 0)) sample_frame_local = Some (r, al')
    \<and> has_exceeded_limit al' = WithinLimit \<and> ir_output (interp_of r) = [3]
    \<and> ir_gas (interp_of r) = 77"
proof -
  have flag: "has_exceeded_limit sample_frame_local = ExceedsLimit StateGrowth 10 11 True"
    by (simp add: sample_frame_local_def)
  show ?thesis
    using frame_local_exceed_is_absorbed [OF sample_frame_local_aligned, of sample_revm "\<lambda>k _. [k]"
        False "CallResult \<lparr>ir_result = 2, ir_output = [], ir_gas = 77\<rparr> (0, 0)"]
    by (auto simp: flag)
qed

text \<open>
  Property C7 (tx_level_exceed_is_sticky): an exceeded limit of the transaction. No return of a
  frame clears the flag; every frame result on the way out becomes an out-of-gas halt with no
  output, and gas is not rescued a second time.
\<close>

theorem tx_level_exceed_is_sticky:
  assumes "aligned c d al" and "c < 2 ^ 64" and "0 < d"
    and "has_exceeded_limit al = ExceedsLimit kind l u False"
  shows "\<exists>r al'. al_before_frame_return_result R enc last_frame result al = Some (r, al')
    \<and> has_exceeded_limit al' = has_exceeded_limit al \<and> rescued_gas al' = rescued_gas al
    \<and> ir_result (interp_of r) = IR_OutOfGas R \<and> ir_output (interp_of r) = []"
proof -
  obtain r al' where ret: "al_before_frame_return_result R enc last_frame result al = Some (r, al')"
    using before_frame_return_result_aligned [OF assms(1,2)] assms(3) by blast
  have "ds_has_active_frame (al_data_size al)"
    using alignedD(6) [OF assms(1)] assms(3)
    by (auto simp: ds_has_active_frame_def has_active_frame_def ds_depth_def)
  with return_tx_level_sticky [OF ret] ret assms(4) show ?thesis by auto
qed

definition sample_tx_level :: AdditionalLimit where
  "sample_tx_level = sample_frame_local\<lparr>has_exceeded_limit := ExceedsLimit ComputeGas 10 11 False\<rparr>"

theorem tx_level_exceed_is_sticky_witness:
  "\<exists>r al'. al_before_frame_return_result sample_revm (\<lambda>_ _. []) True
      (CallResult \<lparr>ir_result = 2, ir_output = [9], ir_gas = 77\<rparr> (0, 0)) sample_tx_level = Some (r, al')
    \<and> has_exceeded_limit al' = ExceedsLimit ComputeGas 10 11 False \<and> ir_result (interp_of r) = 1"
  using tx_level_exceed_is_sticky [of 0 1 sample_tx_level ComputeGas 10 11 sample_revm "\<lambda>_ _. []" True
      "CallResult \<lparr>ir_result = 2, ir_output = [9], ir_gas = 77\<rparr> (0, 0)"]
    sample_frame_local_aligned
  by (auto simp: sample_tx_level_def)

text \<open>
  Property C8 (passed_check_bounds_usage): when a check reports no exceeded limit, the compute gas
  of the transaction is within both its limit and the detained limit in every spec, and before Rex4
  the data size, the KV updates and the state growth of the transaction are within their limits.
\<close>

theorem passed_check_bounds_usage:
  assumes "al_check_limit al = Some (WithinLimit, al')" and "get_usage al = Some u"
  shows "lu_compute_gas u \<le> compute_gas_limit al
    \<and> (\<not> ds_rex4_enabled (al_data_size al) \<longrightarrow> lu_data_size u \<le> ds_tx_limit (al_data_size al))
    \<and> (\<not> kv_rex4_enabled (al_kv_update al) \<longrightarrow> lu_kv_updates u \<le> kv_tx_limit (al_kv_update al))
    \<and> (\<not> sg_rex4 (al_state_growth al) \<longrightarrow> lu_state_growth u \<le> sg_tx_limit (al_state_growth al))"
  using al_check_limit_withinD [OF assms(1)] assms(2) usage_check_within
  by (auto simp: get_usage_def bind_eq_Some_conv compute_gas_limit_def)

theorem passed_check_bounds_usage_witness:
  "\<exists>al' u. al_check_limit (al_new REX3 limits_rex3) = Some (WithinLimit, al') \<and>
     get_usage (al_new REX3 limits_rex3) = Some u \<and> lu_state_growth u \<le> 1000"
proof -
  let ?al = "al_new REX3 limits_rex3"
  have usage: "get_usage ?al = Some \<lparr>lu_data_size = 0, lu_kv_updates = 0, lu_compute_gas = 0,
      lu_state_growth = 0\<rparr>"
    by (simp add: get_usage_def al_new_def ds_new_def kv_new_def sg_new_def ds_tx_usage_def
        kv_tx_usage_def cg_tx_usage_def sg_tx_usage_def net_usage_def used_def checked_add_def
        entry_new_def)
  have "al_check_limit ?al = Some (WithinLimit, ?al)"
    by (simp add: al_check_limit_def al_new_def ds_new_def kv_new_def sg_new_def ds_check_limit_def
        kv_check_limit_def sg_check_limit_def cg_check_limit_def cg_check_tx_limit_def cg_tx_limit_def
        ds_tx_usage_def kv_tx_usage_def cg_tx_usage_def sg_tx_usage_def net_usage_def used_def
        checked_add_def entry_new_def Let_def tracker_tx_limit_def)
  from passed_check_bounds_usage [OF this usage] this usage show ?thesis
    by (simp add: al_new_def sg_new_def sg_rex4_def sg_tx_limit_def tracker_tx_limit_def limits_defs)
qed

text \<open>
  Gas is set aside for the sender exactly when a
  limit of the whole transaction is exceeded. A frame-local exceed leaves the rescued gas alone,
  because the gas goes back to the caller.
\<close>

lemma gas_rescued_only_for_tx_level:
  assumes "aligned c d al" and "c < 2 ^ 64"
  shows "\<exists>k al'. al_check_limit al = Some (k, al\<lparr>has_exceeded_limit := k\<rparr>)
    \<and> try_rescue_gas R gas al = Some al' \<and> has_exceeded_limit al' = k
    \<and> rescued_gas al' = rescued_gas al +
        (if exceeded_limit k \<and> \<not> is_frame_local k then gas_remaining R gas else 0)"
proof -
  obtain k where k: "al_check_limit al = Some (k, al\<lparr>has_exceeded_limit := k\<rparr>)"
    using al_check_total [OF assms] by blast
  from try_rescue_gas_eq [OF k, of R gas] k show ?thesis
    by (simp add: exceeded_iff)
qed

end
