(* ===== verification/Limit_Config.thy ===== *)
theory Limit_Config
  imports Limit_Hooks
begin

text \<open>
  The configuration of the additional limits, that is the spec and the limits they were built
  with, is constant: no hook changes it. A reset between two transactions therefore restores the
  state the limits started from.
\<close>

named_theorems config_simps \<open>operations that keep the configuration of a tracker\<close>

section \<open>Configuration of the trackers\<close>

definition sg_config :: "StateGrowthTracker \<Rightarrow> MegaSpecId \<times> u64" where
  "sg_config t = (sg_spec t, tracker_tx_limit (sg_frame_tracker t))"

definition ds_config :: "DataSizeTracker \<Rightarrow> bool \<times> u64" where
  "ds_config t = (ds_rex4_enabled t, tracker_tx_limit (ds_frame_tracker t))"

definition kv_config :: "KVUpdateTracker \<Rightarrow> bool \<times> u64" where
  "kv_config t = (kv_rex4_enabled t, tracker_tx_limit (kv_frame_tracker t))"

definition cg_config :: "ComputeGasTracker \<Rightarrow> bool \<times> bool \<times> u64" where
  "cg_config t = (cg_rex1_enabled t, cg_rex4_enabled t, tracker_tx_limit (cg_frame_tracker t))"

lemma tracker_tx_limit_simps [simp]:
  "tracker_tx_limit (push_frame_with_limit l i t) = tracker_tx_limit t"
  "tracker_tx_limit (update_frame f t) = tracker_tx_limit t"
  "tracker_tx_limit (snd (pop_frame b t)) = tracker_tx_limit t"
  "tracker_tx_limit (update_tx (add_persistent n) t) = tracker_tx_limit t"
  by (auto simp: tracker_tx_limit_def push_frame_with_limit_def update_frame_def pop_frame_def
      update_tx_def add_persistent_def merge_entry_def Let_def split: list.split)

lemma push_frame_tx_limit: "push_frame i t = Some t' \<Longrightarrow> tracker_tx_limit t' = tracker_tx_limit t"
  by (auto simp: push_frame_def bind_eq_Some_conv)

lemmas sg_op_defs = sg_push_frame_def record_growth_def sg_record_refund_def sg_push_empty_frame_def
  sg_after_sstore_def sg_before_frame_return_result_def sg_before_frame_init_def
lemmas ds_op_defs = ds_push_frame_def ds_record_discardable_def ds_record_refund_def
  ds_push_empty_frame_def ds_after_sstore_def ds_after_log_def ds_before_frame_return_result_def
  ds_before_frame_init_def
lemmas kv_op_defs = kv_push_frame_def kv_record_discardable_def kv_record_refund_def
  kv_push_empty_frame_def kv_after_sstore_def kv_before_frame_return_result_def
  kv_before_frame_init_def

lemma sg_config_simps [config_simps]:
  "sg_config (sg_after_sstore st t) = sg_config t"
  "sg_push_empty_frame t = Some t' \<Longrightarrow> sg_config t' = sg_config t"
  "sg_before_frame_return_result b ok t = Some t' \<Longrightarrow> sg_config t' = sg_config t"
  by (auto simp: sg_config_def sg_op_defs bind_eq_Some_conv push_frame_tx_limit
      split: bool.splits if_splits)

lemma sg_before_frame_init_config [config_simps]:
  assumes "sg_before_frame_init D fi j t = Some (r, j', t')"
  shows "sg_config t' = sg_config t"
proof -
  obtain t1 where push: "sg_push_frame t = Some t1"
    using assms by (auto simp: sg_before_frame_init_def bind_eq_Some_conv)
  then have "sg_config t1 = sg_config t"
    by (auto simp: sg_config_def sg_push_frame_def bind_eq_Some_conv push_frame_tx_limit split: if_splits)
  moreover have "t' = t1 \<or> t' = record_growth 1 t1"
  proof (cases "fi_input fi")
    case (CallInput ci)
    obtain x j1 where ins: "inspect_account_delegated D (sg_spec t1) (ci_target_address ci) j = (x, j1)"
      by fastforce
    show ?thesis
      using assms push CallInput ins
      by (cases x) (auto simp: sg_before_frame_init_def split: if_splits)
  qed (use assms push in \<open>auto simp: sg_before_frame_init_def\<close>)
  ultimately show ?thesis by (auto simp: sg_config_def record_growth_def)
qed

lemma ds_config_simps [config_simps]:
  "ds_config (ds_after_sstore st t) = ds_config t"
  "ds_config (ds_after_log n k t) = ds_config t"
  "ds_push_empty_frame t = Some t' \<Longrightarrow> ds_config t' = ds_config t"
  "ds_before_frame_return_result b ok t = Some t' \<Longrightarrow> ds_config t' = ds_config t"
  "ds_before_frame_init fi t = Some t' \<Longrightarrow> ds_config t' = ds_config t"
  by (auto simp: ds_config_def ds_op_defs bind_eq_Some_conv push_frame_tx_limit Let_def
      split: if_splits FrameInput.splits)

lemma kv_config_simps [config_simps]:
  "kv_config (kv_after_sstore st t) = kv_config t"
  "kv_push_empty_frame t = Some t' \<Longrightarrow> kv_config t' = kv_config t"
  "kv_before_frame_return_result b ok t = Some t' \<Longrightarrow> kv_config t' = kv_config t"
  "kv_before_frame_init fi t = Some t' \<Longrightarrow> kv_config t' = kv_config t"
  by (auto simp: kv_config_def kv_op_defs bind_eq_Some_conv push_frame_tx_limit Let_def
      split: if_splits FrameInput.splits)

lemma cg_config_simps [config_simps]:
  "cg_config (record_gas_used g t) = cg_config t"
  "set_detained_limit cap t = Some t' \<Longrightarrow> cg_config t' = cg_config t"
  "cg_push_empty_frame t = Some t' \<Longrightarrow> cg_config t' = cg_config t"
  "cg_before_frame_return_result b ok t = Some t' \<Longrightarrow> cg_config t' = cg_config t"
  "cg_before_frame_init fi t = Some t' \<Longrightarrow> cg_config t' = cg_config t"
  by (auto simp: cg_config_def record_gas_used_def set_detained_limit_def cg_push_empty_frame_def
      cg_push_frame_def cg_before_frame_return_result_def cg_before_frame_init_def bind_eq_Some_conv
      push_frame_tx_limit split: if_splits option.splits)

section \<open>Configuration of the limits\<close>

type_synonym al_configuration =
  "EvmTxRuntimeLimits \<times> (MegaSpecId \<times> u64) \<times> (bool \<times> u64) \<times> (bool \<times> u64) \<times> bool \<times> bool \<times> u64"

definition al_config :: "AdditionalLimit \<Rightarrow> al_configuration" where
  "al_config al = (al_limits al, sg_config (al_state_growth al), ds_config (al_data_size al),
     kv_config (al_kv_update al), cg_config (al_compute_gas al))"

lemma al_check_limit_config: "al_check_limit al = Some (c, al') \<Longrightarrow> al_config al' = al_config al"
  by (auto simp: al_check_limit_def al_config_def bind_eq_Some_conv split: if_splits)

lemma try_rescue_gas_config: "try_rescue_gas R gas al = Some al' \<Longrightarrow> al_config al' = al_config al"
  by (auto simp: try_rescue_gas_def rescue_gas_def bind_eq_Some_conv al_config_def
      dest!: al_check_limit_config split: if_splits)

lemma al_before_frame_init_config:
  assumes "al_before_frame_init R enc D fi j al = Some (r, j', al')"
  shows "al_config al' = al_config al"
proof -
  obtain r1 j1 s where s: "sg_before_frame_init D fi j (al_state_growth al) = Some (r1, j1, s)"
    using assms by (auto simp: al_before_frame_init_def bind_eq_Some_conv)
  note sg = sg_before_frame_init_config [OF s]
  show ?thesis
  proof (cases r1)
    case (Inl e)
    then show ?thesis using assms s sg by (auto simp: al_before_frame_init_def al_config_def)
  next
    case (Inr u)
    then obtain d k g c al1 where parts: "ds_before_frame_init fi (al_data_size al) = Some d"
      "kv_before_frame_init fi (al_kv_update al) = Some k"
      "cg_before_frame_init fi (al_compute_gas al) = Some g"
      "al_check_limit (al\<lparr>al_state_growth := s, al_data_size := d, al_kv_update := k,
         al_compute_gas := g\<rparr>) = Some (c, al1)"
      and al1: "al' = al1 \<or> (\<exists>gas. try_rescue_gas R gas al1 = Some al')"
      using assms s
      by (auto simp: al_before_frame_init_def bind_eq_Some_conv Let_def split: if_splits) blast
    have "al_config al1 = al_config al"
      using al_check_limit_config [OF parts(4)] parts(1-3) sg
      by (simp add: al_config_def config_simps)
    then show ?thesis using al1 try_rescue_gas_config by metis
  qed
qed

lemma al_before_frame_return_result_config:
  assumes "al_before_frame_return_result R enc last_frame result al = Some (r, al')"
  shows "al_config al' = al_config al"
  using assms
  by (auto simp: al_before_frame_return_result_def bind_eq_Some_conv Let_def al_config_def config_simps
      dest!: al_check_limit_config split: if_splits)

lemma al_step_config:
  assumes "al_step R enc D ev al = Some (Inr al')"
  shows "al_config al' = al_config al"
proof (cases ev)
  case (HookEnter fi j)
  then obtain r j1 al1 where run: "al_before_frame_init R enc D fi j al = Some (r, j1, al1)"
    and "Some (case r of Inl e \<Rightarrow> Inl e | Inr _ \<Rightarrow> Inr al1) = Some (Inr al')"
    using assms by (auto simp: bind_eq_Some_conv)
  then have "al' = al1" by (cases r) auto
  with al_before_frame_init_config [OF run] show ?thesis by simp
next
  case (HookReturn result)
  then show ?thesis using assms al_before_frame_return_result_config by auto
qed (use assms in \<open>auto simp: al_push_empty_frame_def on_sstore_def on_log_def record_compute_gas_def
    set_compute_gas_limit_def bind_eq_Some_conv al_config_def config_simps dest!: al_check_limit_config\<close>)

lemma al_run_config:
  "al_run R enc D evs al = Some (Inr al') \<Longrightarrow> al_config al' = al_config al"
proof (induction evs arbitrary: al)
  case (Cons ev evs)
  obtain r where r: "al_step R enc D ev al = Some r" using Cons.prems by (auto simp: bind_eq_Some_conv)
  with Cons show ?case by (cases r) (auto dest: al_step_config)
qed simp

lemma al_reset_config:
  assumes "al_config al = al_config (al_new spec limits)"
  shows "al_reset al = (al_new spec limits)\<lparr>al_compute_gas := (cg_new spec (tx_compute_gas_limit limits))
    \<lparr>cg_detained_limit := if is_enabled spec REX1 then tx_compute_gas_limit limits
                          else detained_compute_gas_limit al\<rparr>\<rparr>"
  using assms
  by (auto simp: al_config_def sg_config_def ds_config_def kv_config_def cg_config_def al_reset_def
      al_new_def sg_reset_def ds_reset_def kv_reset_def cg_reset_def Let_def sg_new_def ds_new_def
      kv_new_def cg_new_def tracker_reset_eq_new detained_compute_gas_limit_def detained_limit_def
      tracker_new_def tracker_tx_limit_def entry_new_def)

section \<open>Properties\<close>

text \<open>
  Resetting between transactions. Whatever hooks a
  transaction went through, from Rex1 on the reset restores the state that the limits were built
  in; before Rex1 the lowered compute gas limit is the one thing that survives.
\<close>

lemma reset_restores_new_limits:
  assumes "al_run R enc D evs (al_new spec limits) = Some (Inr al)"
  shows "al_reset al = (al_new spec limits)\<lparr>al_compute_gas := (cg_new spec (tx_compute_gas_limit limits))
      \<lparr>cg_detained_limit := if is_enabled spec REX1 then tx_compute_gas_limit limits
                            else detained_compute_gas_limit al\<rparr>\<rparr>
    \<and> (is_enabled spec REX1 \<longrightarrow> al_reset al = al_new spec limits)"
  using al_reset_config [OF al_run_config [OF assms]]
  by (simp add: al_new_def cg_new_def)

end
