(* ===== verification/Dynamic_Gas.thy ===== *)
theory Dynamic_Gas
  imports Spec_Id
begin

text \<open>
  Dynamic storage gas: \<^verbatim>\<open>DynamicGasCost\<close> of \<^verbatim>\<open>external/gas.rs\<close> and the bucket sizes of
  \<^verbatim>\<open>external/salt.rs\<close>. The SALT environment is an interface of the host: its three methods are
  the fields of the parameter record \<open>SaltEnv\<close>, and \<open>empty_salt_env\<close> is the implementation that the
  repository ships. The products and the subtraction of one wrap as they do in a release build.
\<close>

section \<open>The environment\<close>

type_synonym BucketId = u32

definition MIN_BUCKET_SIZE_BITS :: nat where
  "MIN_BUCKET_SIZE_BITS = 8"

definition MIN_BUCKET_SIZE :: usize where
  "MIN_BUCKET_SIZE = push_bit MIN_BUCKET_SIZE_BITS 1"

record 'e SaltEnv =
  get_bucket_capacity :: "BucketId \<Rightarrow> 'e + u64"
  bucket_id_for_account :: "address \<Rightarrow> BucketId"
  bucket_id_for_slot :: "address \<Rightarrow> u256 \<Rightarrow> BucketId"

definition empty_salt_env :: "'e SaltEnv" where
  "empty_salt_env = \<lparr>get_bucket_capacity = (\<lambda>_. Inr MIN_BUCKET_SIZE),
     bucket_id_for_account = (\<lambda>_. 0), bucket_id_for_slot = (\<lambda>_ _. 0)\<rparr>"

definition MINI_REX_SSTORE_SET_STORAGE_GAS :: u64 where
  "MINI_REX_SSTORE_SET_STORAGE_GAS = 2000000"

definition MINI_REX_NEW_ACCOUNT_STORAGE_GAS :: u64 where
  "MINI_REX_NEW_ACCOUNT_STORAGE_GAS = 2000000"

definition REX_SSTORE_SET_STORAGE_GAS_BASE :: u64 where
  "REX_SSTORE_SET_STORAGE_GAS_BASE = 20000"

definition REX_NEW_ACCOUNT_STORAGE_GAS_BASE :: u64 where
  "REX_NEW_ACCOUNT_STORAGE_GAS_BASE = 25000"

definition REX_CONTRACT_CREATION_STORAGE_GAS_BASE :: u64 where
  "REX_CONTRACT_CREATION_STORAGE_GAS_BASE = 32000"

section \<open>The calculator\<close>

record 'e DynamicGasCost =
  dg_spec :: MegaSpecId
  dg_parent_block :: u64
  dg_salt_env :: "'e SaltEnv"
  bucket_cost_mulitipers :: "BucketId \<rightharpoonup> u64"

definition dg_new :: "MegaSpecId \<Rightarrow> 'e SaltEnv \<Rightarrow> u64 \<Rightarrow> 'e DynamicGasCost" where
  "dg_new spec salt_env parent_block = \<lparr>dg_spec = spec, dg_parent_block = parent_block,
     dg_salt_env = salt_env, bucket_cost_mulitipers = Map.empty\<rparr>"

definition dg_reset :: "u64 \<Rightarrow> 'e DynamicGasCost \<Rightarrow> 'e DynamicGasCost" where
  "dg_reset parent_block self =
     self\<lparr>bucket_cost_mulitipers := Map.empty, dg_parent_block := parent_block\<rparr>"

text \<open>The vector of cached bucket ids, in no particular order.\<close>

definition get_bucket_ids :: "'e DynamicGasCost \<Rightarrow> BucketId set" where
  "get_bucket_ids self = dom (bucket_cost_mulitipers self)"

definition load_bucket_cost_multiplier ::
  "BucketId \<Rightarrow> 'e DynamicGasCost \<Rightarrow> ('e + u64) \<times> 'e DynamicGasCost" where
  "load_bucket_cost_multiplier bucket_id self =
     (case bucket_cost_mulitipers self bucket_id of
        Some multiplier \<Rightarrow> (Inr multiplier, self)
      | None \<Rightarrow>
          (case get_bucket_capacity (dg_salt_env self) bucket_id of
             Inl e \<Rightarrow> (Inl e, self)
           | Inr capacity \<Rightarrow>
               let multiplier = capacity div MIN_BUCKET_SIZE
               in (Inr multiplier, self\<lparr>bucket_cost_mulitipers :=
                     (bucket_cost_mulitipers self)(bucket_id \<mapsto> multiplier)\<rparr>)))"

definition sstore_set_gas ::
  "address \<Rightarrow> u256 \<Rightarrow> 'e DynamicGasCost \<Rightarrow> ('e + u64) \<times> 'e DynamicGasCost" where
  "sstore_set_gas address key self =
     (let bucket_id = bucket_id_for_slot (dg_salt_env self) address key in
      case load_bucket_cost_multiplier bucket_id self of
        (Inl e, self') \<Rightarrow> (Inl e, self')
      | (Inr multiplier, self') \<Rightarrow>
          (Inr (if is_enabled (dg_spec self') REX
                then REX_SSTORE_SET_STORAGE_GAS_BASE * (multiplier - 1)
                else MINI_REX_SSTORE_SET_STORAGE_GAS * multiplier), self'))"

definition new_account_gas :: "address \<Rightarrow> 'e DynamicGasCost \<Rightarrow> ('e + u64) \<times> 'e DynamicGasCost" where
  "new_account_gas address self =
     (let bucket_id = bucket_id_for_account (dg_salt_env self) address in
      case load_bucket_cost_multiplier bucket_id self of
        (Inl e, self') \<Rightarrow> (Inl e, self')
      | (Inr multiplier, self') \<Rightarrow>
          (Inr (if is_enabled (dg_spec self') REX
                then REX_NEW_ACCOUNT_STORAGE_GAS_BASE * (multiplier - 1)
                else MINI_REX_NEW_ACCOUNT_STORAGE_GAS * multiplier), self'))"

definition create_contract_gas :: "address \<Rightarrow> 'e DynamicGasCost \<Rightarrow> ('e + u64) \<times> 'e DynamicGasCost"
  where
  "create_contract_gas address self =
     (let bucket_id = bucket_id_for_account (dg_salt_env self) address in
      case load_bucket_cost_multiplier bucket_id self of
        (Inl e, self') \<Rightarrow> (Inl e, self')
      | (Inr multiplier, self') \<Rightarrow>
          (Inr (if is_enabled (dg_spec self') REX
                then REX_CONTRACT_CREATION_STORAGE_GAS_BASE * (multiplier - 1)
                else MINI_REX_NEW_ACCOUNT_STORAGE_GAS * multiplier), self'))"

text \<open>The conversion of the block number to \<^verbatim>\<open>u64\<close> panics when it does not fit.\<close>

definition dg_on_new_block :: "u256 \<Rightarrow> 'e DynamicGasCost \<Rightarrow> 'e DynamicGasCost option" where
  "dg_on_new_block block_number self =
     (if unat block_number < 2 ^ 64
      then Some (dg_reset (saturating_sub (ucast block_number) 1) self)
      else None)"

section \<open>The cache\<close>

lemma MIN_BUCKET_SIZE_eq [simp]: "MIN_BUCKET_SIZE = 256"
  by (simp add: MIN_BUCKET_SIZE_def MIN_BUCKET_SIZE_BITS_def)

text \<open>The cache holds nothing but the multipliers of the environment. Initially and after a reset
  it does, and every query keeps it so.\<close>

definition coherent :: "'e DynamicGasCost \<Rightarrow> bool" where
  "coherent self \<longleftrightarrow> (\<forall>b m. bucket_cost_mulitipers self b = Some m \<longrightarrow>
     (\<exists>c. get_bucket_capacity (dg_salt_env self) b = Inr c \<and> m = c div MIN_BUCKET_SIZE))"

lemma coherent_new: "coherent (dg_new spec env parent)"
  by (simp add: coherent_def dg_new_def)

lemma load_multiplier:
  assumes "coherent self"
  shows "fst (load_bucket_cost_multiplier b self) =
      (case get_bucket_capacity (dg_salt_env self) b of Inl e \<Rightarrow> Inl e | Inr c \<Rightarrow> Inr (c div 256))"
    and "coherent (snd (load_bucket_cost_multiplier b self))"
    and "dg_salt_env (snd (load_bucket_cost_multiplier b self)) = dg_salt_env self"
    and "dg_spec (snd (load_bucket_cost_multiplier b self)) = dg_spec self"
proof -
  have hit: "\<exists>c. get_bucket_capacity (dg_salt_env self) b = Inr c \<and> m = c div 256"
    if "bucket_cost_mulitipers self b = Some m" for m
    using assms that by (auto simp: coherent_def)
  show "fst (load_bucket_cost_multiplier b self) =
      (case get_bucket_capacity (dg_salt_env self) b of Inl e \<Rightarrow> Inl e | Inr c \<Rightarrow> Inr (c div 256))"
    using hit by (fastforce simp: load_bucket_cost_multiplier_def Let_def
        split: option.splits sum.splits)
  show "coherent (snd (load_bucket_cost_multiplier b self))"
    and "dg_salt_env (snd (load_bucket_cost_multiplier b self)) = dg_salt_env self"
    and "dg_spec (snd (load_bucket_cost_multiplier b self)) = dg_spec self"
    using assms by (auto simp: load_bucket_cost_multiplier_def coherent_def Let_def
        split: option.splits sum.splits)
qed

text \<open>What the three queries share: a base price of the spec and the bucket of what is created.\<close>

lemma gas_query:
  assumes "coherent self"
    and "query = (case load_bucket_cost_multiplier b self of
        (Inl e, self') \<Rightarrow> (Inl e, self') | (Inr m, self') \<Rightarrow> (Inr (price (dg_spec self') m), self'))"
  shows "fst query = (case get_bucket_capacity (dg_salt_env self) b of
      Inl e \<Rightarrow> Inl e | Inr c \<Rightarrow> Inr (price (dg_spec self) (c div 256)))"
    and "coherent (snd query)" and "dg_salt_env (snd query) = dg_salt_env self"
    and "dg_spec (snd query) = dg_spec self"
  using load_multiplier [OF assms(1), of b] assms(2)
  by (auto split: prod.splits sum.splits)

lemma unat_price:
  fixes base c :: u64
  assumes "unat base * unat c < 2 ^ 64"
  shows "unat (base * (c div 256)) = unat base * (unat c div 256)"
    and "256 \<le> c \<Longrightarrow> unat (base * (c div 256 - 1)) = unat base * (unat c div 256 - 1)"
proof -
  have m: "unat (c div 256) = unat c div 256" by (simp add: unat_div)
  have le: "unat base * (unat c div 256) \<le> unat base * unat c"
    by (intro mult_le_mono2) simp
  with assms have "unat base * unat (c div 256) < 2 ^ 64"
    unfolding m by (rule le_less_trans [rotated])
  then show "unat (base * (c div 256)) = unat base * (unat c div 256)"
    using unat_mult_exact [of base "c div 256"] m by simp
  show "unat (base * (c div 256 - 1)) = unat base * (unat c div 256 - 1)" if "256 \<le> c"
  proof -
    have "1 \<le> unat c div 256"
      using that by (simp add: word_le_nat_alt Suc_le_eq div_greater_zero_iff)
    then have "1 \<le> c div 256" using m by (simp add: word_le_nat_alt)
    then have one: "unat (c div 256 - 1) = unat c div 256 - 1"
      using m by (simp add: unat_sub)
    have "unat base * (unat c div 256 - 1) \<le> unat base * unat c"
      by (intro mult_le_mono2) (meson diff_le_self div_le_dividend le_trans)
    with assms have "unat base * unat (c div 256 - 1) < 2 ^ 64"
      unfolding one by (rule le_less_trans [rotated])
    then show ?thesis
      using unat_mult_exact [of base "c div 256 - 1"] one by simp
  qed
qed

section \<open>Properties\<close>



text \<open>
  The price of a slot as a number. For a bucket of at
  least the minimum size, and as long as the full price times the capacity is below \<open>2^64\<close>, there is
  no wrap-around: in Rex a slot costs 20000 gas for every full 256 slots of capacity beyond the
  first 256, nothing in a bucket of minimum size; before Rex it costs two million gas for every
  full 256 slots of capacity.
\<close>

lemma storage_gas_scales_with_capacity:
  assumes "coherent self"
    and "get_bucket_capacity (dg_salt_env self) (bucket_id_for_slot (dg_salt_env self) address key) = Inr c"
    and "256 \<le> c" and "2000000 * unat c < 2 ^ 64"
  shows "\<exists>gas. fst (sstore_set_gas address key self) = Inr gas \<and>
    unat gas = (if is_enabled (dg_spec self) REX then 20000 * (unat c div 256 - 1)
                else 2000000 * (unat c div 256))"
proof -
  have "unat (20000 * (c div 256 - 1)) = 20000 * (unat c div 256 - 1)"
    using unat_price(2) [of 20000 c] assms(3,4) by simp
  moreover have "unat (2000000 * (c div 256)) = 2000000 * (unat c div 256)"
    using unat_price(1) [of 2000000 c] assms(4) by simp
  moreover have "fst (sstore_set_gas address key self) =
      Inr (if is_enabled (dg_spec self) REX then 20000 * (c div 256 - 1) else 2000000 * (c div 256))"
    using gas_query(1) [OF assms(1) refl, where b = "bucket_id_for_slot (dg_salt_env self) address key" and
        price = "\<lambda>s m. if is_enabled s REX then REX_SSTORE_SET_STORAGE_GAS_BASE * (m - 1)
               else MINI_REX_SSTORE_SET_STORAGE_GAS * m"] assms(2)
    by (simp add: sstore_set_gas_def Let_def REX_SSTORE_SET_STORAGE_GAS_BASE_def
        MINI_REX_SSTORE_SET_STORAGE_GAS_def)
  ultimately show ?thesis by simp
qed

text \<open>
  A capacity below the minimum is not handled. The multiplier
  is then zero and in Rex the subtraction of one wraps around, so that the price of a slot is close
  to \<open>2^64\<close> instead of zero; only the environment's promise of a minimum capacity excludes it.
\<close>

lemma small_bucket_price_wraps:
  "fst (sstore_set_gas address key (dg_new REX4
     \<lparr>get_bucket_capacity = (\<lambda>_. Inr 255), bucket_id_for_account = (\<lambda>_. 0),
      bucket_id_for_slot = (\<lambda>_ _. 0)\<rparr> parent)) = (Inr (- 20000) :: unit + u64)"
  by (simp add: sstore_set_gas_def load_bucket_cost_multiplier_def dg_new_def Let_def
      REX_SSTORE_SET_STORAGE_GAS_BASE_def)

end
