(* ===== verification/Mega_Context.thy ===== *)
theory Mega_Context
  imports Limit_Config Dynamic_Gas
begin

text \<open>
  The execution context of \<^verbatim>\<open>evm/context.rs\<close>: the upstream context with the spec, the additional
  limits, the storage gas calculator, the volatile data tracker and the external environments. A
  shared cell (\<^verbatim>\<open>Rc<RefCell<..>>\<close>) is the value it holds: one context is its only writer. The
  constructors of upstream values (\<^verbatim>\<open>Context::op()\<close>, \<^verbatim>\<open>CfgEnv::new_with_spec\<close>,
  \<^verbatim>\<open>OpContext::with_db\<close>) are parameters; a conversion of a block number to \<^verbatim>\<open>u64\<close> panics when
  it does not fit.
\<close>

section \<open>Upstream data\<close>

record 's CfgEnv =
  cfg_spec :: 's
  cfg_chain_id :: u64
  cfg_tx_chain_id_check :: bool
  cfg_limit_contract_code_size :: "usize option"
  cfg_limit_contract_initcode_size :: "usize option"
  cfg_disable_nonce_check :: bool
  cfg_max_blobs_per_tx :: "u64 option"
  cfg_blob_base_fee_update_fraction :: "u64 option"
  cfg_tx_gas_limit_cap :: "u64 option"
  cfg_memory_limit :: u64
  cfg_disable_balance_check :: bool
  cfg_disable_block_gas_limit :: bool
  cfg_disable_eip3541 :: bool
  cfg_disable_eip3607 :: bool
  cfg_disable_base_fee :: bool

record BlockEnv =
  block_env_number :: u256
  block_env_beneficiary :: address

text \<open>An error of a context: a database error or the message of a custom error.\<close>

datatype 'e ContextError = DbError 'e | CustomError string

text \<open>The upstream context: what the sources read and write of it, and the rest as \<open>op_rest\<close>.\<close>

record ('e, 'c, 'm) OpContext =
  op_block :: BlockEnv
  op_tx :: MegaTransaction
  op_cfg :: "OpSpecId CfgEnv"
  op_journal :: Journal
  op_db :: "'e Database"
  op_chain :: 'c
  op_error :: "'e ContextError option"
  op_rest :: 'm

text \<open>The oracle environment of \<^verbatim>\<open>external/oracle.rs\<close>: a storage and the hints received so far, in
  order. What the service does with hints is its own business; that it gets them is observable.\<close>

record OracleEnv =
  get_oracle_storage :: "u256 \<Rightarrow> u256 option"
  oracle_hints :: "(address \<times> b256 \<times> bytes) list"

definition empty_oracle_env :: OracleEnv where
  "empty_oracle_env = \<lparr>get_oracle_storage = (\<lambda>_. None), oracle_hints = []\<rparr>"

definition oracle_on_hint :: "address \<Rightarrow> b256 \<Rightarrow> bytes \<Rightarrow> OracleEnv \<Rightarrow> OracleEnv" where
  "oracle_on_hint from topic data env = env\<lparr>oracle_hints := oracle_hints env @ [(from, topic, data)]\<rparr>"

record 'se ExternalEnvs =
  ext_salt_env :: "'se SaltEnv"
  ext_oracle_env :: OracleEnv

definition empty_external_envs :: "'se ExternalEnvs" where
  "empty_external_envs = \<lparr>ext_salt_env = empty_salt_env, ext_oracle_env = empty_oracle_env\<rparr>"

section \<open>The context\<close>

record ('e, 'c, 'm, 'se) MegaContext =
  inner :: "('e, 'c, 'm) OpContext"
  mc_spec :: MegaSpecId
  disable_beneficiary :: bool
  additional_limit :: AdditionalLimit
  mc_salt_env :: "'se SaltEnv"
  dynamic_storage_gas_cost :: "'se DynamicGasCost"
  oracle_env :: OracleEnv
  volatile_data_tracker :: VolatileDataAccessTracker
  disable_sandbox :: bool

definition MAX_CONTRACT_SIZE :: usize where
  "MAX_CONTRACT_SIZE = 512 * 1024"

definition ADDITIONAL_INITCODE_SIZE :: usize where
  "ADDITIONAL_INITCODE_SIZE = 24 * 1024"

definition MAX_INITCODE_SIZE :: usize where
  "MAX_INITCODE_SIZE = MAX_CONTRACT_SIZE + ADDITIONAL_INITCODE_SIZE"

text \<open>\<^verbatim>\<open>block.number.to::<u64>().saturating_sub(1)\<close>\<close>

definition parent_block_number :: "BlockEnv \<Rightarrow> u64 option" where
  "parent_block_number block =
     (if unat (block_env_number block) < 2 ^ 64
      then Some (saturating_sub (ucast (block_env_number block)) 1) else None)"

text \<open>The default size limits of MiniRex for a configuration that sets none.\<close>

definition default_size_limits :: "MegaSpecId \<Rightarrow> 's CfgEnv \<Rightarrow> 's CfgEnv" where
  "default_size_limits spec cfg =
     (if is_enabled spec MINI_REX
      then let cfg = (if cfg_limit_contract_code_size cfg = None
                      then cfg\<lparr>cfg_limit_contract_code_size := Some MAX_CONTRACT_SIZE\<rparr> else cfg)
           in if cfg_limit_contract_initcode_size cfg = None
              then cfg\<lparr>cfg_limit_contract_initcode_size := Some MAX_INITCODE_SIZE\<rparr> else cfg
      else cfg)"

definition new_with_shared_ext_envs ::
  "('e Database \<Rightarrow> ('e, 'c, 'm) OpContext) \<Rightarrow> (OpSpecId \<Rightarrow> OpSpecId CfgEnv) \<Rightarrow> 'e Database \<Rightarrow>
   MegaSpecId \<Rightarrow> 'se SaltEnv \<Rightarrow> OracleEnv \<Rightarrow> ('e, 'c, 'm, 'se) MegaContext option" where
  "new_with_shared_ext_envs context_op new_with_spec db spec salt_env oracle = do {
     let inn = (context_op db)\<lparr>op_cfg := new_with_spec (into_op_spec spec)\<rparr>;
     let inn = (if is_enabled spec MINI_REX
                then inn\<lparr>op_cfg := (op_cfg inn)\<lparr>cfg_limit_contract_code_size := Some MAX_CONTRACT_SIZE,
                                             cfg_limit_contract_initcode_size := Some MAX_INITCODE_SIZE\<rparr>\<rparr>
                else inn);
     let tx_limits = limits_from_spec spec;
     parent \<leftarrow> parent_block_number (op_block inn);
     Some \<lparr>inner = inn, mc_spec = spec, disable_beneficiary = False,
       additional_limit = al_new spec tx_limits, mc_salt_env = salt_env,
       dynamic_storage_gas_cost = dg_new spec salt_env parent, oracle_env = oracle,
       volatile_data_tracker = volatile_new (block_env_access_compute_gas_limit tx_limits)
         (oracle_access_compute_gas_limit tx_limits),
       disable_sandbox = False\<rparr>
   }"

definition context_new ::
  "('e Database \<Rightarrow> ('e, 'c, 'm) OpContext) \<Rightarrow> (OpSpecId \<Rightarrow> OpSpecId CfgEnv) \<Rightarrow> 'e Database \<Rightarrow>
   MegaSpecId \<Rightarrow> ('e, 'c, 'm, 'se) MegaContext option" where
  "context_new context_op new_with_spec db spec =
     new_with_shared_ext_envs context_op new_with_spec db spec empty_salt_env empty_oracle_env"

definition new_with_context ::
  "('e, 'c, 'm) OpContext \<Rightarrow> MegaSpecId \<Rightarrow> 'se ExternalEnvs \<Rightarrow> ('e, 'c, 'm, 'se) MegaContext option" where
  "new_with_context context spec external_envs = do {
     let inn = context\<lparr>op_cfg := default_size_limits spec
                          ((op_cfg context)\<lparr>cfg_spec := into_op_spec spec\<rparr>)\<rparr>;
     let tx_limits = limits_from_spec spec;
     let salt_env = ext_salt_env external_envs;
     parent \<leftarrow> parent_block_number (op_block inn);
     Some \<lparr>inner = inn, mc_spec = spec, disable_beneficiary = False,
       additional_limit = al_new spec tx_limits, mc_salt_env = salt_env,
       dynamic_storage_gas_cost = dg_new spec salt_env parent,
       oracle_env = ext_oracle_env external_envs,
       volatile_data_tracker = volatile_new (block_env_access_compute_gas_limit tx_limits)
         (oracle_access_compute_gas_limit tx_limits),
       disable_sandbox = False\<rparr>
   }"

section \<open>Configurations\<close>

definition into_op_cfg :: "(OpSpecId \<Rightarrow> OpSpecId CfgEnv) \<Rightarrow> MegaSpecId CfgEnv \<Rightarrow> OpSpecId CfgEnv" where
  "into_op_cfg new_with_spec self = (new_with_spec (into_op_spec (cfg_spec self)))
     \<lparr>cfg_chain_id := cfg_chain_id self,
      cfg_tx_chain_id_check := cfg_tx_chain_id_check self,
      cfg_limit_contract_code_size := cfg_limit_contract_code_size self,
      cfg_limit_contract_initcode_size := cfg_limit_contract_initcode_size self,
      cfg_disable_nonce_check := cfg_disable_nonce_check self,
      cfg_max_blobs_per_tx := cfg_max_blobs_per_tx self,
      cfg_blob_base_fee_update_fraction := cfg_blob_base_fee_update_fraction self,
      cfg_tx_gas_limit_cap := cfg_tx_gas_limit_cap self,
      cfg_memory_limit := cfg_memory_limit self,
      cfg_disable_balance_check := cfg_disable_balance_check self,
      cfg_disable_block_gas_limit := cfg_disable_block_gas_limit self,
      cfg_disable_eip3541 := cfg_disable_eip3541 self,
      cfg_disable_eip3607 := cfg_disable_eip3607 self,
      cfg_disable_base_fee := cfg_disable_base_fee self\<rparr>"

definition into_megaeth_cfg ::
  "(MegaSpecId \<Rightarrow> MegaSpecId CfgEnv) \<Rightarrow> MegaSpecId \<Rightarrow> OpSpecId CfgEnv \<Rightarrow> MegaSpecId CfgEnv" where
  "into_megaeth_cfg new_with_spec spec self = (new_with_spec spec)
     \<lparr>cfg_chain_id := cfg_chain_id self,
      cfg_tx_chain_id_check := cfg_tx_chain_id_check self,
      cfg_limit_contract_code_size := cfg_limit_contract_code_size self,
      cfg_limit_contract_initcode_size := cfg_limit_contract_initcode_size self,
      cfg_disable_nonce_check := cfg_disable_nonce_check self,
      cfg_max_blobs_per_tx := cfg_max_blobs_per_tx self,
      cfg_blob_base_fee_update_fraction := cfg_blob_base_fee_update_fraction self,
      cfg_tx_gas_limit_cap := cfg_tx_gas_limit_cap self,
      cfg_memory_limit := cfg_memory_limit self,
      cfg_disable_balance_check := cfg_disable_balance_check self,
      cfg_disable_block_gas_limit := cfg_disable_block_gas_limit self,
      cfg_disable_eip3541 := cfg_disable_eip3541 self,
      cfg_disable_eip3607 := cfg_disable_eip3607 self,
      cfg_disable_base_fee := cfg_disable_base_fee self\<rparr>"

section \<open>Hooks\<close>

definition on_new_block :: "('e, 'c, 'm, 'se) MegaContext \<Rightarrow> ('e, 'c, 'm, 'se) MegaContext option" where
  "on_new_block ctx =
     (if is_enabled (mc_spec ctx) MINI_REX
      then do {
        dg \<leftarrow> dg_on_new_block (block_env_number (op_block (inner ctx))) (dynamic_storage_gas_cost ctx);
        Some (ctx\<lparr>dynamic_storage_gas_cost := dg\<rparr>)
      }
      else Some ctx)"

definition reset_volatile_data_access ::
  "('e, 'c, 'm, 'se) MegaContext \<Rightarrow> ('e, 'c, 'm, 'se) MegaContext" where
  "reset_volatile_data_access ctx =
     ctx\<lparr>volatile_data_tracker := volatile_reset (volatile_data_tracker ctx)\<rparr>"

definition mark_block_env_accessed ::
  "VolatileDataAccessType \<Rightarrow> ('e, 'c, 'm, 'se) MegaContext \<Rightarrow> ('e, 'c, 'm, 'se) MegaContext" where
  "mark_block_env_accessed access_type ctx =
     ctx\<lparr>volatile_data_tracker :=
           tracker_mark_block_env_accessed access_type (volatile_data_tracker ctx)\<rparr>"

definition check_and_mark_beneficiary_balance_access ::
  "address \<Rightarrow> ('e, 'c, 'm, 'se) MegaContext \<Rightarrow> bool \<times> ('e, 'c, 'm, 'se) MegaContext" where
  "check_and_mark_beneficiary_balance_access address ctx =
     (if block_env_beneficiary (op_block (inner ctx)) = address
      then (True, ctx\<lparr>volatile_data_tracker :=
                        mark_beneficiary_balance_accessed (volatile_data_tracker ctx)\<rparr>)
      else (False, ctx))"

definition check_tx_beneficiary_access ::
  "('e, 'c, 'm, 'se) MegaContext \<Rightarrow> ('e, 'c, 'm, 'se) MegaContext" where
  "check_tx_beneficiary_access ctx =
     (let tx = op_tx (inner ctx);
          beneficiary = block_env_beneficiary (op_block (inner ctx));
          ctx = (if tx_caller tx = beneficiary
                 then ctx\<lparr>volatile_data_tracker :=
                            mark_beneficiary_balance_accessed (volatile_data_tracker ctx)\<rparr>
                 else ctx)
      in case tx_kind tx of
           TxCall recipient \<Rightarrow>
             if recipient = beneficiary
             then ctx\<lparr>volatile_data_tracker :=
                        mark_beneficiary_balance_accessed (volatile_data_tracker ctx)\<rparr>
             else ctx
         | TxCreate \<Rightarrow> ctx)"

definition on_new_tx :: "('e, 'c, 'm, 'se) MegaContext \<Rightarrow> ('e, 'c, 'm, 'se) MegaContext option" where
  "on_new_tx ctx =
     (let ctx = check_tx_beneficiary_access (reset_volatile_data_access ctx)
      in if is_enabled (mc_spec ctx) MINI_REX
         then do {
           (_, al) \<leftarrow> al_before_tx_start (op_tx (inner ctx)) (al_reset (additional_limit ctx));
           Some (ctx\<lparr>additional_limit := al\<rparr>)
         }
         else Some ctx)"

section \<open>Builders\<close>

definition ctx_with_db ::
  "('e2 Database \<Rightarrow> ('e, 'c, 'm) OpContext \<Rightarrow> ('e2, 'c, 'm) OpContext) \<Rightarrow> 'e2 Database \<Rightarrow>
   ('e, 'c, 'm, 'se) MegaContext \<Rightarrow> ('e2, 'c, 'm, 'se) MegaContext" where
  "ctx_with_db inner_with_db db self =
     \<lparr>inner = inner_with_db db (inner self), mc_spec = mc_spec self,
      disable_beneficiary = disable_beneficiary self, additional_limit = additional_limit self,
      mc_salt_env = mc_salt_env self, dynamic_storage_gas_cost = dynamic_storage_gas_cost self,
      oracle_env = oracle_env self, volatile_data_tracker = volatile_data_tracker self,
      disable_sandbox = disable_sandbox self\<rparr>"

definition ctx_with_tx ::
  "MegaTransaction \<Rightarrow> ('e, 'c, 'm, 'se) MegaContext \<Rightarrow> ('e, 'c, 'm, 'se) MegaContext" where
  "ctx_with_tx tx self = self\<lparr>inner := (inner self)\<lparr>op_tx := tx\<rparr>\<rparr>"

definition ctx_with_block ::
  "BlockEnv \<Rightarrow> ('e, 'c, 'm, 'se) MegaContext \<Rightarrow> ('e, 'c, 'm, 'se) MegaContext option" where
  "ctx_with_block block self = on_new_block (self\<lparr>inner := (inner self)\<lparr>op_block := block\<rparr>\<rparr>)"

definition ctx_with_cfg ::
  "(OpSpecId \<Rightarrow> OpSpecId CfgEnv) \<Rightarrow> MegaSpecId CfgEnv \<Rightarrow> ('e, 'c, 'm, 'se) MegaContext \<Rightarrow>
   ('e, 'c, 'm, 'se) MegaContext" where
  "ctx_with_cfg new_with_spec cfg self =
     (let self = self\<lparr>mc_spec := cfg_spec cfg\<rparr>;
          self = self\<lparr>inner := (inner self)\<lparr>op_cfg := into_op_cfg new_with_spec cfg\<rparr>\<rparr>
      in self\<lparr>inner := (inner self)\<lparr>op_cfg :=
                default_size_limits (mc_spec self) (op_cfg (inner self))\<rparr>\<rparr>)"

definition with_external_envs ::
  "'se2 ExternalEnvs \<Rightarrow> ('e, 'c, 'm, 'se) MegaContext \<Rightarrow> ('e, 'c, 'm, 'se2) MegaContext option" where
  "with_external_envs external_envs self = do {
     parent \<leftarrow> parent_block_number (op_block (inner self));
     let salt_env = ext_salt_env external_envs;
     Some \<lparr>inner = inner self, mc_spec = mc_spec self,
       disable_beneficiary = disable_beneficiary self, additional_limit = additional_limit self,
       mc_salt_env = salt_env, dynamic_storage_gas_cost = dg_new (mc_spec self) salt_env parent,
       oracle_env = ext_oracle_env external_envs,
       volatile_data_tracker = volatile_data_tracker self, disable_sandbox = disable_sandbox self\<rparr>
   }"

definition with_chain :: "'c \<Rightarrow> ('e, 'c, 'm, 'se) MegaContext \<Rightarrow> ('e, 'c, 'm, 'se) MegaContext" where
  "with_chain chain self = self\<lparr>inner := (inner self)\<lparr>op_chain := chain\<rparr>\<rparr>"

definition ctx_with_tx_runtime_limits ::
  "EvmTxRuntimeLimits \<Rightarrow> ('e, 'c, 'm, 'se) MegaContext \<Rightarrow> ('e, 'c, 'm, 'se) MegaContext" where
  "ctx_with_tx_runtime_limits tx_limits self =
     self\<lparr>additional_limit := al_new (mc_spec self) tx_limits,
          volatile_data_tracker := volatile_new (block_env_access_compute_gas_limit tx_limits)
            (oracle_access_compute_gas_limit tx_limits)\<rparr>"

section \<open>Getters\<close>

definition mega_spec :: "('e, 'c, 'm, 'se) MegaContext \<Rightarrow> MegaSpecId" where
  "mega_spec ctx = mc_spec ctx"

definition is_sandbox_disabled :: "('e, 'c, 'm, 'se) MegaContext \<Rightarrow> bool" where
  "is_sandbox_disabled ctx = disable_sandbox ctx"

definition with_sandbox_disabled ::
  "bool \<Rightarrow> ('e, 'c, 'm, 'se) MegaContext \<Rightarrow> ('e, 'c, 'm, 'se) MegaContext" where
  "with_sandbox_disabled value self = self\<lparr>disable_sandbox := value\<rparr>"

definition generated_data_size :: "('e, 'c, 'm, 'se) MegaContext \<Rightarrow> u64 option" where
  "generated_data_size ctx = ds_tx_usage (al_data_size (additional_limit ctx))"

definition kv_update_count :: "('e, 'c, 'm, 'se) MegaContext \<Rightarrow> u64 option" where
  "kv_update_count ctx = kv_tx_usage (al_kv_update (additional_limit ctx))"

definition accessed_bucket_ids :: "('e, 'c, 'm, 'se) MegaContext \<Rightarrow> BucketId set" where
  "accessed_bucket_ids ctx = get_bucket_ids (dynamic_storage_gas_cost ctx)"

definition ctx_get_block_env_accesses :: "('e, 'c, 'm, 'se) MegaContext \<Rightarrow> VolatileDataAccess" where
  "ctx_get_block_env_accesses ctx = get_block_env_accesses (volatile_data_tracker ctx)"

definition ctx_disable_beneficiary ::
  "('e, 'c, 'm, 'se) MegaContext \<Rightarrow> ('e, 'c, 'm, 'se) MegaContext" where
  "ctx_disable_beneficiary ctx = ctx\<lparr>disable_beneficiary := True\<rparr>"

section \<open>The factory\<close>

text \<open>The context that \<^verbatim>\<open>MegaEvmFactory::create_evm\<close> of \<^verbatim>\<open>evm/factory.rs\<close> builds. The default
  transaction and the default L1 block info are upstream values.\<close>

record EvmEnv =
  ee_cfg_env :: "MegaSpecId CfgEnv"
  ee_block_env :: BlockEnv

definition create_evm_context ::
  "('e Database \<Rightarrow> ('e, 'c, 'm) OpContext) \<Rightarrow> (OpSpecId \<Rightarrow> OpSpecId CfgEnv) \<Rightarrow> MegaTransaction \<Rightarrow> 'c \<Rightarrow>
   (u64 \<Rightarrow> 'se ExternalEnvs) \<Rightarrow> 'e Database \<Rightarrow> EvmEnv \<Rightarrow> ('e, 'c, 'm, 'se) MegaContext option" where
  "create_evm_context context_op new_with_spec default_tx default_chain external_env_factory db evm_env = do {
     let spec_id = cfg_spec (ee_cfg_env evm_env);
     block_number \<leftarrow> (if unat (block_env_number (ee_block_env evm_env)) < 2 ^ 64
                      then Some (ucast (block_env_number (ee_block_env evm_env))) else None);
     let runtime_limits = limits_from_spec spec_id;
     ctx \<leftarrow> (context_new context_op new_with_spec db spec_id :: ('e, 'c, 'm, unit) MegaContext option);
     ctx \<leftarrow> with_external_envs (external_env_factory block_number) ctx;
     let ctx = ctx_with_tx default_tx ctx;
     ctx \<leftarrow> ctx_with_block (ee_block_env evm_env) ctx;
     let ctx = ctx_with_cfg new_with_spec (ee_cfg_env evm_env) ctx;
     let ctx = with_chain default_chain ctx;
     Some (ctx_with_tx_runtime_limits runtime_limits ctx)
   }"

section \<open>Lemmas\<close>

lemma ds_start_entry:
  "discardable_usage (tx_entry (ds_frame_tracker (ds_before_tx_start tx t))) =
     discardable_usage (tx_entry (ds_frame_tracker t))"
  "frame_stack (ds_frame_tracker (ds_before_tx_start tx t)) = frame_stack (ds_frame_tracker t)"
proof -
  have "discardable_usage (tx_entry (ds_frame_tracker (ds_record_authorities as t))) =
      discardable_usage (tx_entry (ds_frame_tracker t)) \<and>
      frame_stack (ds_frame_tracker (ds_record_authorities as t)) = frame_stack (ds_frame_tracker t)" for as t
    by (induction as arbitrary: t) (simp_all add: ds_record_tx_def update_tx_def add_persistent_def)
  then show "discardable_usage (tx_entry (ds_frame_tracker (ds_before_tx_start tx t))) =
      discardable_usage (tx_entry (ds_frame_tracker t))"
    "frame_stack (ds_frame_tracker (ds_before_tx_start tx t)) = frame_stack (ds_frame_tracker t)"
    by (simp_all add: ds_before_tx_start_def ds_record_tx_def update_tx_def add_persistent_def)
qed

lemma kv_start_entry:
  "discardable_usage (tx_entry (kv_frame_tracker (kv_before_tx_start tx t))) =
     discardable_usage (tx_entry (kv_frame_tracker t))"
  "frame_stack (kv_frame_tracker (kv_before_tx_start tx t)) = frame_stack (kv_frame_tracker t)"
proof -
  have "discardable_usage (tx_entry (kv_frame_tracker (kv_record_authorities as t))) =
      discardable_usage (tx_entry (kv_frame_tracker t)) \<and>
      frame_stack (kv_frame_tracker (kv_record_authorities as t)) = frame_stack (kv_frame_tracker t)" for as t
    by (induction as arbitrary: t) (simp_all add: kv_record_tx_def update_tx_def add_persistent_def)
  then show "discardable_usage (tx_entry (kv_frame_tracker (kv_before_tx_start tx t))) =
      discardable_usage (tx_entry (kv_frame_tracker t))"
    "frame_stack (kv_frame_tracker (kv_before_tx_start tx t)) = frame_stack (kv_frame_tracker t)"
    by (simp_all add: kv_before_tx_start_def kv_record_tx_def update_tx_def add_persistent_def)
qed

lemma net_usage_frameless:
  assumes "frame_stack t = []" and "discardable_usage (tx_entry t) = 0"
  shows "net_usage t = Some (saturating_sub (persistent_usage (tx_entry t)) (refund (tx_entry t)))"
proof -
  have "unat (persistent_usage (tx_entry t)) < 2 ^ 64" by (simp del: unat_u64_less) (rule unat_u64_less)
  then show ?thesis using assms by (simp add: net_usage_def used_def checked_add_def)
qed

lemma al_check_limit_total:
  assumes "ds_check_limit (al_data_size al) \<noteq> None" and "kv_check_limit (al_kv_update al) \<noteq> None"
    and "cg_check_limit (al_compute_gas al) \<noteq> None" and "sg_check_limit (al_state_growth al) \<noteq> None"
  shows "al_check_limit al \<noteq> None"
  using assms by (auto simp: al_check_limit_def)

lemma al_before_tx_start_total: "al_before_tx_start tx (al_new spec limits) \<noteq> None"
proof -
  let ?d = "ds_before_tx_start tx (ds_new spec (tx_data_size_limit limits))"
  let ?k = "kv_before_tx_start tx (kv_new spec (tx_kv_updates_limit limits))"
  have d: "frame_stack (ds_frame_tracker ?d) = []" "discardable_usage (tx_entry (ds_frame_tracker ?d)) = 0"
    by (simp_all add: ds_start_entry ds_new_def tracker_new_def entry_new_def)
  have k: "frame_stack (kv_frame_tracker ?k) = []" "discardable_usage (tx_entry (kv_frame_tracker ?k)) = 0"
    by (simp_all add: kv_start_entry kv_new_def tracker_new_def entry_new_def)
  have "ds_check_limit ?d \<noteq> None" "kv_check_limit ?k \<noteq> None"
    using net_usage_frameless [OF d] net_usage_frameless [OF k] d(1) k(1)
    by (simp_all add: ds_check_limit_def kv_check_limit_def exceeds_current_frame_limit_def
        ds_tx_usage_def kv_tx_usage_def Let_def)
  moreover have "cg_check_limit (cg_new spec l) \<noteq> None" "sg_check_limit (sg_new spec l) \<noteq> None" for l
    by (simp_all add: cg_check_limit_def cg_check_tx_limit_def sg_check_limit_def cg_new_def sg_new_def
        exceeds_current_frame_limit_def cg_tx_usage_def sg_tx_usage_def tracker_new_def Let_def
        net_usage_frameless entry_new_def)
  ultimately have "al_check_limit ((al_new spec limits)\<lparr>al_data_size := ?d, al_kv_update := ?k\<rparr>) \<noteq> None"
    by (intro al_check_limit_total) (simp_all add: al_new_def)
  then show ?thesis by (auto simp: al_before_tx_start_def al_new_def bind_eq_None_iff)
qed

lemma volatile_reset_eq_new:
  "volatile_reset t = volatile_new (block_env_access_limit t) (oracle_access_limit t)"
  by (simp add: volatile_reset_def volatile_new_def)

text \<open>The sender and the recipient of a transaction count as accesses of the beneficiary's balance.\<close>

definition tx_touches_beneficiary :: "('e, 'c, 'm, 'se) MegaContext \<Rightarrow> bool" where
  "tx_touches_beneficiary ctx \<longleftrightarrow>
     tx_caller (op_tx (inner ctx)) = block_env_beneficiary (op_block (inner ctx)) \<or>
     tx_kind (op_tx (inner ctx)) = TxCall (block_env_beneficiary (op_block (inner ctx)))"

lemma mark_beneficiary_twice:
  "mark_beneficiary_balance_accessed (mark_beneficiary_balance_accessed t) =
     mark_beneficiary_balance_accessed t"
  by (auto simp: mark_beneficiary_balance_accessed_def apply_or_create_limit_def access_insert_def
      or.assoc [symmetric] split: option.splits)

lemma check_tx_beneficiary_access_eq:
  "check_tx_beneficiary_access ctx =
     (if tx_touches_beneficiary ctx
      then ctx\<lparr>volatile_data_tracker := mark_beneficiary_balance_accessed (volatile_data_tracker ctx)\<rparr>
      else ctx)"
  by (auto simp: check_tx_beneficiary_access_def tx_touches_beneficiary_def Let_def
      mark_beneficiary_twice split: TxKind.splits)

section \<open>A concrete context\<close>

definition sample_cfg :: "'s \<Rightarrow> 's CfgEnv" where
  "sample_cfg spec = \<lparr>cfg_spec = spec, cfg_chain_id = 1, cfg_tx_chain_id_check = True,
     cfg_limit_contract_code_size = None, cfg_limit_contract_initcode_size = None,
     cfg_disable_nonce_check = False, cfg_max_blobs_per_tx = None,
     cfg_blob_base_fee_update_fraction = None, cfg_tx_gas_limit_cap = None, cfg_memory_limit = 4096,
     cfg_disable_balance_check = False, cfg_disable_block_gas_limit = False,
     cfg_disable_eip3541 = False, cfg_disable_eip3607 = False, cfg_disable_base_fee = False\<rparr>"

definition sample_op_context :: "unit Database \<Rightarrow> (unit, unit, unit) OpContext" where
  "sample_op_context db = \<lparr>op_block = \<lparr>block_env_number = 7, block_env_beneficiary = 3\<rparr>,
     op_tx = sample_tx, op_cfg = sample_cfg ISTHMUS, op_journal = sample_cached_journal, op_db = db,
     op_chain = (), op_error = None, op_rest = ()\<rparr>"

definition sample_context :: "MegaSpecId \<Rightarrow> (unit, unit, unit, unit) MegaContext" where
  "sample_context spec = \<lparr>inner = sample_op_context sample_database, mc_spec = spec,
     disable_beneficiary = False, additional_limit = al_new spec (limits_from_spec spec),
     mc_salt_env = empty_salt_env, dynamic_storage_gas_cost = dg_new spec empty_salt_env 6,
     oracle_env = empty_oracle_env, volatile_data_tracker = volatile_new 20000000 20000000,
     disable_sandbox = False\<rparr>"

section \<open>Properties\<close>

text \<open>
  Property C21 (transactions_start_fresh): a new transaction does not see the previous one. From
  Rex1 on, preparing a context whose limits were built from given limits, whatever happened since,
  gives the context that preparing newly built limits and a new tracker gives; it does not
  panic, and the one volatile access of the fresh tracker is the beneficiary's balance, exactly when
  the sender or the recipient is the beneficiary.
\<close>

theorem transactions_start_fresh:
  assumes "al_config (additional_limit ctx) = al_config (al_new (mc_spec ctx) limits)"
    and "is_enabled (mc_spec ctx) REX1"
  shows "on_new_tx ctx =
      on_new_tx (ctx\<lparr>additional_limit := al_new (mc_spec ctx) limits,
        volatile_data_tracker := volatile_new (block_env_access_limit (volatile_data_tracker ctx))
          (oracle_access_limit (volatile_data_tracker ctx))\<rparr>)
    \<and> (\<exists>ctx'. on_new_tx ctx = Some ctx'
        \<and> accessed (volatile_data_tracker ctx') = tx_touches_beneficiary ctx
        \<and> get_compute_gas_limit (volatile_data_tracker ctx') =
            (if tx_touches_beneficiary ctx
             then Some (block_env_access_limit (volatile_data_tracker ctx)) else None)
        \<and> disable_depth (volatile_data_tracker ctx') = None)"
proof -
  let ?fresh = "ctx\<lparr>additional_limit := al_new (mc_spec ctx) limits,
        volatile_data_tracker := volatile_new (block_env_access_limit (volatile_data_tracker ctx))
          (oracle_access_limit (volatile_data_tracker ctx))\<rparr>"
  have touches: "tx_touches_beneficiary (ctx\<lparr>volatile_data_tracker := v\<rparr>) = tx_touches_beneficiary ctx"
    "tx_touches_beneficiary (ctx\<lparr>additional_limit := a, volatile_data_tracker := v\<rparr>) =
       tx_touches_beneficiary ctx" for a v
    by (simp_all add: tx_touches_beneficiary_def)
  have reset: "al_reset (additional_limit ctx) = al_new (mc_spec ctx) limits"
    "al_reset (al_new (mc_spec ctx) limits) = al_new (mc_spec ctx) limits"
    using al_reset_config [OF assms(1)] al_reset_config [OF refl, of "mc_spec ctx" limits] assms(2)
    by (simp_all add: al_new_def cg_new_def)
  have mini: "is_enabled (mc_spec ctx) MINI_REX"
    using assms(2) by (cases "mc_spec ctx") (simp_all add: is_enabled_def)
  obtain ok al where start: "al_before_tx_start (op_tx (inner ctx)) (al_new (mc_spec ctx) limits) = Some (ok, al)"
    using al_before_tx_start_total [of "op_tx (inner ctx)" "mc_spec ctx" limits] by auto
  have run: "on_new_tx ctx = Some ((check_tx_beneficiary_access (reset_volatile_data_access ctx))
      \<lparr>additional_limit := al\<rparr>)"
    using start reset(1) mini
    by (simp add: on_new_tx_def check_tx_beneficiary_access_eq reset_volatile_data_access_def Let_def)
  have "on_new_tx ?fresh = on_new_tx ctx"
    using start reset(2) mini run
    by (simp add: on_new_tx_def check_tx_beneficiary_access_eq reset_volatile_data_access_def Let_def
        touches volatile_reset_eq_new volatile_new_def)
  then show ?thesis
    using run
    by (auto simp: check_tx_beneficiary_access_eq reset_volatile_data_access_def touches
        volatile_reset_def accessed_def get_compute_gas_limit_def mark_beneficiary_balance_accessed_def
        apply_or_create_limit_def access_insert_def BENEFICIARY_BALANCE_FLAG_def)
qed

theorem transactions_start_fresh_witness:
  "on_new_tx ((sample_context REX4)\<lparr>additional_limit :=
       (al_new REX4 limits_rex4)\<lparr>rescued_gas := 77, has_exceeded_limit := ExceedsLimit KVUpdate 1 2 False\<rparr>\<rparr>)
   = on_new_tx (sample_context REX4)"
proof -
  have config: "al_config ((al_new REX4 limits_rex4)\<lparr>rescued_gas := 77,
      has_exceeded_limit := ExceedsLimit KVUpdate 1 2 False\<rparr>) = al_config (al_new REX4 limits_rex4)"
    by (simp add: al_config_def)
  show ?thesis
    using transactions_start_fresh [of "(sample_context REX4)\<lparr>additional_limit :=
       (al_new REX4 limits_rex4)\<lparr>rescued_gas := 77, has_exceeded_limit := ExceedsLimit KVUpdate 1 2 False\<rparr>\<rparr>"
        limits_rex4] config
    by (simp add: sample_context_def limits_from_spec.simps volatile_new_def)
qed

text \<open>
  The context the factory creates for an environment
  whose block number fits into 64 bits. Creation succeeds; the context, its upstream configuration,
  its limits and its storage gas calculator belong to the same spec, the limits are the ones of that
  spec in their initial state, and from MiniRex on the gas calculator looks at the parent block
  and the contract size limits have a value.
\<close>

lemma created_contexts_are_consistent:
  assumes "unat (block_env_number (ee_block_env env)) < 2 ^ 64"
    and "unat (block_env_number (op_block (context_op db))) < 2 ^ 64"
    and "\<And>s. cfg_spec (new_with_spec s) = s"
  shows "\<exists>ctx. create_evm_context context_op new_with_spec tx chain envs db env = Some ctx
    \<and> mc_spec ctx = cfg_spec (ee_cfg_env env)
    \<and> cfg_spec (op_cfg (inner ctx)) = into_op_spec (mc_spec ctx)
    \<and> additional_limit ctx = al_new (mc_spec ctx) (limits_from_spec (mc_spec ctx))
    \<and> dg_spec (dynamic_storage_gas_cost ctx) = mc_spec ctx
    \<and> op_block (inner ctx) = ee_block_env env \<and> \<not> disable_sandbox ctx
    \<and> (is_enabled (mc_spec ctx) MINI_REX \<longrightarrow>
        dg_parent_block (dynamic_storage_gas_cost ctx) =
          saturating_sub (ucast (block_env_number (ee_block_env env))) 1
        \<and> cfg_limit_contract_code_size (op_cfg (inner ctx)) \<noteq> None
        \<and> cfg_limit_contract_initcode_size (op_cfg (inner ctx)) \<noteq> None)"
  using assms
  by (cases "cfg_spec (ee_cfg_env env)")
    (simp_all add: create_evm_context_def context_new_def new_with_shared_ext_envs_def Let_def
      parent_block_number_def with_external_envs_def ctx_with_tx_def ctx_with_block_def on_new_block_def
      dg_on_new_block_def dg_reset_def dg_new_def ctx_with_cfg_def into_op_cfg_def with_chain_def
      ctx_with_tx_runtime_limits_def default_size_limits_def is_enabled_def)

text \<open>
  Converting a configuration to the upstream spec type and
  back keeps every field.
\<close>

lemma cfg_conversion_round_trip:
  assumes "\<And>s. cfg_spec (new_mega s) = s" and "\<And>s. cfg_spec (new_op s) = s"
  shows "into_megaeth_cfg new_mega (cfg_spec cfg) (into_op_cfg new_op cfg) = cfg
    \<and> (cfg_spec op = into_op_spec spec \<longrightarrow> into_op_cfg new_op (into_megaeth_cfg new_mega spec op) = op)"
  using assms by (simp add: into_megaeth_cfg_def into_op_cfg_def)

end
