(* ===== verification/Keyless_Deploy.thy ===== *)
theory Keyless_Deploy
  imports Sandbox_Error Sandbox_Db Mega_Context
begin

text \<open>
  Keyless deployment (\<^verbatim>\<open>sandbox/tx.rs\<close> and \<^verbatim>\<open>sandbox/execution.rs\<close>): decoding of the signed
  transaction, its checks, its execution in a sandbox that reads the parent's state, and the merge
  of the sandbox's state into the parent's journal. The parameter record \<open>K\<close> holds what the
  sources call of other crates: the RLP and ABI codecs, signature recovery, the iteration order of
  hash maps, default values, logging, and the run of a transaction by the EVM of the sandbox, which
  returns its result and the oracle environment after it, or nothing when it panics.
\<close>

section \<open>Data\<close>

record SignedTxLegacy =
  tl_nonce :: u64
  tl_effective_gas_price :: u128
  tl_gas_limit :: u64
  tl_to :: TxKind
  tl_value :: u256
  tl_input :: bytes
  tl_chain_id :: "u64 option"

datatype Output = OutputCall bytes | OutputCreate bytes "address option"

datatype ('h, 'log) ExecutionResult =
    ExecSuccess (exec_gas_used: u64) Output "'log list"
  | ExecRevert (exec_gas_used: u64) bytes
  | ExecHalt (exec_gas_used: u64) 'h

record ('op, 'log) ResultAndState =
  rs_result :: "('op MegaHaltReason, 'log) ExecutionResult"
  rs_state :: "(address \<times> Account) list"

record 'log SandboxResult =
  sr_gas_used :: u64
  sr_deploy_address :: address
  sr_logs :: "'log list"

datatype ('op, 'log) SandboxOutcome =
    OutcomeSuccess "(address \<times> Account) list" "'log SandboxResult"
  | OutcomeFailure "(address \<times> Account) list" "'op KeylessDeployError"

record ('ir, 'gas, 'e, 'c, 'm, 'se, 'op, 'te, 'log) keyless_env =
  ke_revm :: "('ir, 'gas) revm"
  rlp_decode_signed :: "bytes \<Rightarrow> SignedTxLegacy option"
  ke_recover_signer :: "SignedTxLegacy \<Rightarrow> address option"
  address_create :: "address \<Rightarrow> u64 \<Rightarrow> address"
  abi_encode_error :: "SolError \<Rightarrow> bytes"
  abi_encode_returns :: "u64 \<Rightarrow> address \<Rightarrow> bytes \<Rightarrow> bytes"
  fmt_db_error :: "'e \<Rightarrow> string"
  fmt_evm_error :: "'te \<Rightarrow> string"
  state_entries :: "(address \<rightharpoonup> Account) \<Rightarrow> (address \<times> Account) list"
  bytecode_is_empty :: "Bytecode \<Rightarrow> bool"
  bytecode_default :: Bytecode
  account_default :: Account
  account_info_default :: AccountInfo
  tx_env_default :: MegaTransaction
  ke_context_op :: "string Database \<Rightarrow> (string, 'c, 'm) OpContext"
  ke_cfg_with_spec :: "OpSpecId \<Rightarrow> OpSpecId CfgEnv"
  ke_transact_raw :: "(string, 'c, 'm, 'se) MegaContext \<Rightarrow> MegaTransaction \<Rightarrow>
    (('te + ('op, 'log) ResultAndState) \<times> OracleEnv) option"
  context_log :: "'log \<Rightarrow> ('e, 'c, 'm) OpContext \<Rightarrow> ('e, 'c, 'm) OpContext"

section \<open>The keyless transaction\<close>

definition decode_keyless_tx ::
  "(bytes \<Rightarrow> SignedTxLegacy option) \<Rightarrow> bytes \<Rightarrow> 'op KeylessDeployError + SignedTxLegacy" where
  "decode_keyless_tx rlp_decode rlp_bytes =
     (case rlp_decode rlp_bytes of
        None \<Rightarrow> Inl MalformedEncoding
      | Some signed_tx \<Rightarrow>
          if tl_to signed_tx \<noteq> TxCreate then Inl NotContractCreation
          else if tl_chain_id signed_tx \<noteq> None then Inl NotPreEIP155
          else Inr signed_tx)"

definition recover_signer ::
  "(SignedTxLegacy \<Rightarrow> address option) \<Rightarrow> SignedTxLegacy \<Rightarrow> 'op KeylessDeployError + address" where
  "recover_signer recover signed_tx =
     (case recover signed_tx of None \<Rightarrow> Inl InvalidSignature | Some signer \<Rightarrow> Inr signer)"

definition calculate_keyless_deploy_address :: "(address \<Rightarrow> u64 \<Rightarrow> address) \<Rightarrow> address \<Rightarrow> address" where
  "calculate_keyless_deploy_address create signer = create signer 0"

definition get_account_nonce ::
  "('e \<Rightarrow> string) \<Rightarrow> address \<Rightarrow> ('e, 'c, 'm, 'se) MegaContext \<Rightarrow> 'op KeylessDeployError + u64" where
  "get_account_nonce fmt address ctx =
     (case j_state (op_journal (inner ctx)) address of
        Some acc \<Rightarrow> Inr (nonce (acc_info acc))
      | None \<Rightarrow>
          (case db_basic (op_db (inner ctx)) address of
             Inl e \<Rightarrow> Inl (InternalError (fmt e))
           | Inr found \<Rightarrow> Inr (case found of Some i \<Rightarrow> nonce i | None \<Rightarrow> 0)))"

text \<open>\<^verbatim>\<open>gas_limit_override.try_into().unwrap_or(u64::MAX)\<close>\<close>

definition u256_to_u64_or_max :: "u256 \<Rightarrow> u64" where
  "u256_to_u64_or_max x = (if unat x < 2 ^ 64 then ucast x else u64_max)"

text \<open>Steps 2 to 7 of the call: the checks, and the transaction to run in the sandbox together with
  the expected address.\<close>

definition keyless_sandbox_tx ::
  "MegaTransaction \<Rightarrow> bytes \<Rightarrow> u64 \<Rightarrow> address \<Rightarrow> SignedTxLegacy \<Rightarrow> MegaTransaction" where
  "keyless_sandbox_tx dflt tx_bytes gas_limit deploy_signer keyless_tx =
     dflt\<lparr>tx_caller := deploy_signer, tx_kind := TxCreate, tx_input := tl_input keyless_tx,
       tx_value := tl_value keyless_tx, tx_gas_limit := gas_limit,
       tx_gas_price := tl_effective_gas_price keyless_tx, tx_nonce := 0, tx_enveloped := Some tx_bytes\<rparr>"

definition keyless_checks ::
  "('ir, 'gas, 'e, 'c, 'm, 'se, 'op, 'te, 'log) keyless_env \<Rightarrow> CallInputs \<Rightarrow> bytes \<Rightarrow> u256 \<Rightarrow>
   ('e, 'c, 'm, 'se) MegaContext \<Rightarrow> 'op KeylessDeployError + (MegaTransaction \<times> address)" where
  "keyless_checks K call_inputs tx_bytes gas_limit_override ctx =
     (if ci_value call_inputs \<noteq> 0 then Inl NoEtherTransfer
      else case decode_keyless_tx (rlp_decode_signed K) tx_bytes of
        Inl e \<Rightarrow> Inl e
      | Inr keyless_tx \<Rightarrow>
          if tl_nonce keyless_tx \<noteq> 0 then Inl (NonZeroTxNonce (tl_nonce keyless_tx))
          else let gas_limit = u256_to_u64_or_max gas_limit_override
               in if gas_limit < tl_gas_limit keyless_tx
                  then Inl (GasLimitTooLow (tl_gas_limit keyless_tx) gas_limit)
                  else case recover_signer (ke_recover_signer K) keyless_tx of
                    Inl e \<Rightarrow> Inl e
                  | Inr deploy_signer \<Rightarrow>
                      let deploy_address = calculate_keyless_deploy_address (address_create K) deploy_signer
                      in case get_account_nonce (fmt_db_error K) deploy_signer ctx of
                           Inl e \<Rightarrow> Inl e
                         | Inr signer_nonce \<Rightarrow>
                             if signer_nonce > 1 then Inl (SignerNonceTooHigh signer_nonce)
                             else let sandbox_tx = keyless_sandbox_tx (tx_env_default K) tx_bytes
                                        gas_limit deploy_signer keyless_tx
                                  in case db_basic (op_db (inner ctx)) deploy_address of
                                       Inl e \<Rightarrow> Inl (InternalError (fmt_db_error K e))
                                     | Inr found \<Rightarrow>
                                         (case found of
                                            Some i \<Rightarrow>
                                              if code_hash i \<noteq> KECCAK_EMPTY (op_db (inner ctx))
                                              then Inl ContractAlreadyExists
                                              else Inr (sandbox_tx, deploy_address)
                                          | None \<Rightarrow> Inr (sandbox_tx, deploy_address)))"

section \<open>The sandbox\<close>

definition process_sandbox_transact_result ::
  "('te \<Rightarrow> string) \<Rightarrow> 'te + ('op, 'log) ResultAndState \<Rightarrow>
   'op KeylessDeployError + ('op, 'log) SandboxOutcome" where
  "process_sandbox_transact_result fmt result =
     (case result of
        Inr rs \<Rightarrow>
          (case rs_result rs of
             ExecSuccess gas_used output logs \<Rightarrow>
               (case output of
                  OutputCreate bytecode (Some created_addr) \<Rightarrow>
                    if bytecode = []
                    then Inr (OutcomeFailure (rs_state rs) (EmptyCodeDeployed gas_used))
                    else Inr (OutcomeSuccess (rs_state rs)
                           \<lparr>sr_gas_used = gas_used, sr_deploy_address = created_addr, sr_logs = logs\<rparr>)
                | _ \<Rightarrow> Inl NoContractCreated)
           | ExecRevert gas_used output \<Rightarrow>
               Inr (OutcomeFailure (rs_state rs) (ExecutionReverted gas_used output))
           | ExecHalt gas_used reason \<Rightarrow>
               Inr (OutcomeFailure (rs_state rs) (ExecutionHalted gas_used reason)))
      | Inl e \<Rightarrow> Inl (InternalError (fmt e)))"

text \<open>The context of the sandbox: from Rex4 on it shares the external environments of the parent.\<close>

definition sandbox_context ::
  "('ir, 'gas, 'e, 'c, 'm, 'se, 'op, 'te, 'log) keyless_env \<Rightarrow> 'e SandboxDb \<Rightarrow>
   ('e, 'c, 'm, 'se) MegaContext \<Rightarrow> (string, 'c, 'm, 'se) MegaContext option" where
  "sandbox_context K sandbox_db ctx = do {
     let db = sandbox_database (fmt_db_error K) (bytecode_default K) sandbox_db;
     sandbox_ctx \<leftarrow>
       (if is_enabled (mega_spec ctx) REX4
        then new_with_shared_ext_envs (ke_context_op K) (ke_cfg_with_spec K) db (mega_spec ctx)
               (mc_salt_env ctx) (oracle_env ctx)
        else context_new (ke_context_op K) (ke_cfg_with_spec K) db (mega_spec ctx));
     sandbox_ctx \<leftarrow> ctx_with_block (op_block (inner ctx)) sandbox_ctx;
     Some (with_sandbox_disabled True (with_chain (op_chain (inner ctx)) sandbox_ctx))
   }"

definition execute_keyless_deploy_sandbox ::
  "('ir, 'gas, 'e, 'c, 'm, 'se, 'op, 'te, 'log) keyless_env \<Rightarrow> MegaTransaction \<Rightarrow>
   ('e, 'c, 'm, 'se) MegaContext \<Rightarrow>
   (('op KeylessDeployError + ('op, 'log) SandboxOutcome) \<times> ('e, 'c, 'm, 'se) MegaContext) option" where
  "execute_keyless_deploy_sandbox K sandbox_tx ctx =
     (let deploy_signer = tx_caller sandbox_tx;
          sandbox_db = with_nonce_override deploy_signer
            (sandbox_db_new (bytecode_is_empty K)
               (state_entries K (j_state (op_journal (inner ctx)))) (op_db (inner ctx)))
      in case sandbox_basic (fmt_db_error K) deploy_signer sandbox_db of
           Inl e \<Rightarrow> Some (Inl (InternalError e), ctx)
         | Inr found \<Rightarrow>
             let signer_account = (case found of Some i \<Rightarrow> i | None \<Rightarrow> account_info_default K);
                 gas_cost = ucast (tx_gas_limit sandbox_tx) * ucast (tx_gas_price sandbox_tx) :: u256
             in case checked_add gas_cost (tx_value sandbox_tx) of
                  None \<Rightarrow> Some (Inl InsufficientBalance, ctx)
                | Some total_cost \<Rightarrow>
                    if balance signer_account < total_cost
                    then Some (Inl InsufficientBalance, ctx)
                    else do {
                      sandbox_ctx \<leftarrow> sandbox_context K sandbox_db ctx;
                      (result, orc) \<leftarrow> ke_transact_raw K sandbox_ctx sandbox_tx;
                      Some (process_sandbox_transact_result (fmt_evm_error K) result,
                            if is_enabled (mega_spec ctx) REX4 then ctx\<lparr>oracle_env := orc\<rparr> else ctx)
                    })"

definition apply_sandbox_state ::
  "Account \<Rightarrow> (address \<times> Account) list \<Rightarrow> ('e, 'c, 'm, 'se) MegaContext \<Rightarrow>
   ('e, 'c, 'm, 'se) MegaContext option" where
  "apply_sandbox_state dflt sandbox_state ctx = do {
     merged \<leftarrow> merge_evm_state_optional_status dflt False
                (j_state (op_journal (inner ctx))) sandbox_state;
     Some (ctx\<lparr>inner := (inner ctx)\<lparr>op_journal := (op_journal (inner ctx))\<lparr>j_state := merged\<rparr>\<rparr>\<rparr>)
   }"

section \<open>The call\<close>

definition KEYLESS_DEPLOY_OVERHEAD_GAS :: u64 where
  "KEYLESS_DEPLOY_OVERHEAD_GAS = 100000"

text \<open>The macros that build the frame result.\<close>

definition keyless_frame_result ::
  "'ir \<Rightarrow> bytes \<Rightarrow> 'gas \<Rightarrow> CallInputs \<Rightarrow> ('ir, 'gas) FrameResult" where
  "keyless_frame_result result output gas call_inputs =
     CallResult \<lparr>ir_result = result, ir_output = output, ir_gas = gas\<rparr> (ci_return_memory_offset call_inputs)"

definition make_error ::
  "('ir, 'gas, 'e, 'c, 'm, 'se, 'op, 'te, 'log) keyless_env \<Rightarrow> 'gas \<Rightarrow> CallInputs \<Rightarrow>
   'op KeylessDeployError \<Rightarrow> ('ir, 'gas) FrameResult" where
  "make_error K gas call_inputs error =
     keyless_frame_result (IR_Revert (ke_revm K)) (encode_error_result (abi_encode_error K) error)
       gas call_inputs"

definition make_halt ::
  "('ir, 'gas, 'e, 'c, 'm, 'se, 'op, 'te, 'log) keyless_env \<Rightarrow> 'gas \<Rightarrow> CallInputs \<Rightarrow>
   ('ir, 'gas) FrameResult" where
  "make_halt K gas call_inputs =
     keyless_frame_result (IR_OutOfGas (ke_revm K)) []
       (gas_new_spent (ke_revm K) (gas_limit_of (ke_revm K) gas)) call_inputs"

definition make_success ::
  "('ir, 'gas, 'e, 'c, 'm, 'se, 'op, 'te, 'log) keyless_env \<Rightarrow> 'gas \<Rightarrow> CallInputs \<Rightarrow>
   u64 \<Rightarrow> address \<Rightarrow> ('ir, 'gas) FrameResult" where
  "make_success K gas call_inputs gas_used deployed_address =
     keyless_frame_result (IR_Return (ke_revm K))
       (abi_encode_returns K gas_used deployed_address []) gas call_inputs"

definition make_execution_failure ::
  "('ir, 'gas, 'e, 'c, 'm, 'se, 'op, 'te, 'log) keyless_env \<Rightarrow> 'gas \<Rightarrow> CallInputs \<Rightarrow>
   u64 \<Rightarrow> 'op KeylessDeployError \<Rightarrow> ('ir, 'gas) FrameResult" where
  "make_execution_failure K gas call_inputs gas_used error =
     keyless_frame_result (IR_Return (ke_revm K))
       (abi_encode_returns K gas_used 0 (encode_error_result (abi_encode_error K) error))
       gas call_inputs"

text \<open>Recording the overhead as compute gas: a frame result when a limit is exceeded. The call
  of \<^verbatim>\<open>check_limit\<close> on the compute gas tracker must report an exceeded limit, or the code panics.\<close>

definition keyless_record_overhead ::
  "('ir, 'gas, 'e, 'c, 'm, 'se, 'op, 'te, 'log) keyless_env \<Rightarrow> 'gas \<Rightarrow> CallInputs \<Rightarrow>
   ('e, 'c, 'm, 'se) MegaContext \<Rightarrow>
   (('ir, 'gas) FrameResult option \<times> ('e, 'c, 'm, 'se) MegaContext) option" where
  "keyless_record_overhead K gas call_inputs ctx =
     (if is_enabled (mc_spec ctx) REX3
      then do {
        (ok, al) \<leftarrow> record_compute_gas KEYLESS_DEPLOY_OVERHEAD_GAS (additional_limit ctx);
        let ctx = ctx\<lparr>additional_limit := al\<rparr>;
        if \<not> ok
        then do {
          check \<leftarrow> cg_check_limit (al_compute_gas al);
          (case check of
             ExceedsLimit _ lim u frame_local \<Rightarrow>
               Some (Some (if frame_local
                           then make_error K gas call_inputs (InsufficientComputeGas lim u)
                           else mark_frame_result_as_exceeding_limit
                                  (EXCEEDING_LIMIT_INSTRUCTION_RESULT (ke_revm K)) []
                                  (make_halt K gas call_inputs)), ctx)
           | WithinLimit \<Rightarrow> None)
        }
        else Some (None, ctx)
      }
      else Some (None, ctx))"

text \<open>Step 8: running the sandbox and applying its state.\<close>

definition keyless_run ::
  "('ir, 'gas, 'e, 'c, 'm, 'se, 'op, 'te, 'log) keyless_env \<Rightarrow> 'gas \<Rightarrow> CallInputs \<Rightarrow>
   MegaTransaction \<Rightarrow> address \<Rightarrow> ('e, 'c, 'm, 'se) MegaContext \<Rightarrow>
   (('ir, 'gas) FrameResult \<times> ('e, 'c, 'm, 'se) MegaContext) option" where
  "keyless_run K gas call_inputs sandbox_tx deploy_address ctx = do {
     (outcome, ctx) \<leftarrow> execute_keyless_deploy_sandbox K sandbox_tx ctx;
     (case outcome of
        Inr (OutcomeSuccess state result) \<Rightarrow> do {
          ctx \<leftarrow> apply_sandbox_state (account_default K) state ctx;
          if sr_deploy_address result \<noteq> deploy_address
          then Some (make_error K gas call_inputs AddressMismatch, ctx)
          else Some (make_success K gas call_inputs (sr_gas_used result) (sr_deploy_address result),
                     ctx\<lparr>inner := fold (context_log K) (sr_logs result) (inner ctx)\<rparr>)
        }
      | Inr (OutcomeFailure state error) \<Rightarrow> do {
          ctx \<leftarrow> apply_sandbox_state (account_default K) state ctx;
          let gas_used = (case error of
                            ExecutionReverted gas_used _ \<Rightarrow> gas_used
                          | ExecutionHalted gas_used _ \<Rightarrow> gas_used
                          | EmptyCodeDeployed gas_used \<Rightarrow> gas_used
                          | _ \<Rightarrow> 0);
          Some (make_execution_failure K gas call_inputs gas_used error, ctx)
        }
      | Inl e \<Rightarrow> Some (make_error K gas call_inputs e, ctx))
   }"

definition execute_keyless_deploy_call ::
  "('ir, 'gas, 'e, 'c, 'm, 'se, 'op, 'te, 'log) keyless_env \<Rightarrow> CallInputs \<Rightarrow> bytes \<Rightarrow> u256 \<Rightarrow>
   ('e, 'c, 'm, 'se) MegaContext \<Rightarrow> (('ir, 'gas) FrameResult \<times> ('e, 'c, 'm, 'se) MegaContext) option"
  where
  "execute_keyless_deploy_call K call_inputs tx_bytes gas_limit_override ctx =
     (case gas_record_cost (ke_revm K) KEYLESS_DEPLOY_OVERHEAD_GAS
             (gas_new (ke_revm K) (ci_gas_limit call_inputs)) of
        (has_sufficient_gas, gas) \<Rightarrow>
          if \<not> has_sufficient_gas then Some (make_halt K gas call_inputs, ctx)
          else do {
            (early, ctx) \<leftarrow> keyless_record_overhead K gas call_inputs ctx;
            (case early of
               Some result \<Rightarrow> Some (result, ctx)
             | None \<Rightarrow>
                 (case keyless_checks K call_inputs tx_bytes gas_limit_override ctx of
                    Inl e \<Rightarrow> Some (make_error K gas call_inputs e, ctx)
                  | Inr (sandbox_tx, deploy_address) \<Rightarrow>
                      keyless_run K gas call_inputs sandbox_tx deploy_address ctx))
          })"

section \<open>Lemmas\<close>

lemma sandbox_context_sel:
  assumes "sandbox_context K db ctx = Some sctx"
  shows "disable_sandbox sctx" and "mc_spec sctx = mc_spec ctx"
  using assms
  by (auto simp: sandbox_context_def context_new_def new_with_shared_ext_envs_def ctx_with_block_def
      on_new_block_def with_sandbox_disabled_def with_chain_def mega_spec_def Let_def
      bind_eq_Some_conv split: if_splits)

text \<open>The gas and the price of a transaction cannot overflow 256 bits.\<close>

lemma unat_gas_cost:
  "unat (ucast (g :: u64) * ucast (p :: u128) :: u256) = unat g * unat p"
proof -
  have bound: "unat g < 2 ^ 64" "unat p < 2 ^ 128"
    by (rule order.strict_trans2 [OF unsigned_less], simp)+
  then have up: "unat (ucast g :: u256) = unat g" "unat (ucast p :: u256) = unat p"
    by (simp_all add: unsigned_ucast_eq take_bit_nat_eq_self_iff order.strict_trans [OF unat_u64_less])
  have "unat g * unat p < 2 ^ 64 * 2 ^ 128"
    using bound by (intro mult_strict_mono) simp_all
  then have "unat (ucast g :: u256) * unat (ucast p :: u256) < 2 ^ LENGTH(256)"
    by (simp add: up)
  from unat_mult_exact [OF this] show ?thesis by (simp add: up)
qed

definition parent_balance ::
  "('ir, 'gas, 'e, 'c, 'm, 'se, 'op, 'te, 'log) keyless_env \<Rightarrow> ('e, 'c, 'm, 'se) MegaContext \<Rightarrow>
   address \<Rightarrow> u256" where
  "parent_balance K ctx a =
     (case j_state (op_journal (inner ctx)) a of
        Some acc \<Rightarrow> balance (acc_info acc)
      | None \<Rightarrow> (case db_basic (op_db (inner ctx)) a of
                  Inr (Some i) \<Rightarrow> balance i | _ \<Rightarrow> balance (account_info_default K)))"

definition keyless_cost :: "MegaTransaction \<Rightarrow> nat" where
  "keyless_cost tx = unat (tx_gas_limit tx) * unat (tx_gas_price tx) + unat (tx_value tx)"

lemma sandbox_signer_balance:
  assumes "map_of entries = j_state (op_journal (inner ctx))"
    and "sandbox_basic fmt a (with_nonce_override a
      (sandbox_db_new is_empty entries (op_db (inner ctx)))) = Inr found"
  shows "balance (case found of Some i \<Rightarrow> i | None \<Rightarrow> account_info_default K) = parent_balance K ctx a"
  using assms
  by (auto simp: sandbox_basic_def with_nonce_override_def sandbox_db_new_def parent_balance_def
      split: option.splits sum.splits)

text \<open>What a run of the sandbox leaves of the parent, and what a completed one tells.\<close>

lemma sandbox_run_facts:
  assumes "execute_keyless_deploy_sandbox K tx ctx = Some (outcome, ctx')"
    and entries: "map_of (state_entries K (j_state (op_journal (inner ctx)))) = j_state (op_journal (inner ctx))"
  shows "inner ctx' = inner ctx" and "additional_limit ctx' = additional_limit ctx"
    and "outcome = Inr out \<Longrightarrow> \<exists>sctx rs orc. disable_sandbox sctx \<and> mc_spec sctx = mc_spec ctx
      \<and> ke_transact_raw K sctx tx = Some (Inr rs, orc)
      \<and> process_sandbox_transact_result (fmt_evm_error K) (Inr rs) = Inr out
      \<and> keyless_cost tx \<le> unat (parent_balance K ctx (tx_caller tx))"
proof -
  define db where "db = with_nonce_override (tx_caller tx) (sandbox_db_new (bytecode_is_empty K)
    (state_entries K (j_state (op_journal (inner ctx)))) (op_db (inner ctx)))"
  define cost :: u256 where "cost = ucast (tx_gas_limit tx) * ucast (tx_gas_price tx)"
  note run = assms(1) [unfolded execute_keyless_deploy_sandbox_def Let_def, folded db_def, folded cost_def]
  show "inner ctx' = inner ctx" "additional_limit ctx' = additional_limit ctx"
    using run by (auto simp: bind_eq_Some_conv split: sum.splits option.splits if_splits)
  assume out: "outcome = Inr out"
  obtain found where found: "sandbox_basic (fmt_db_error K) (tx_caller tx) db = Inr found"
    using run out by (cases "sandbox_basic (fmt_db_error K) (tx_caller tx) db") auto
  obtain total where total: "checked_add cost (tx_value tx) = Some total"
    using run out found by (cases "checked_add cost (tx_value tx)") auto
  have enough: "\<not> balance (case found of Some i \<Rightarrow> i | None \<Rightarrow> account_info_default K) < total"
    using run out found total by (auto split: if_splits)
  then obtain sctx result orc where sctx: "sandbox_context K db ctx = Some sctx"
    "ke_transact_raw K sctx tx = Some (result, orc)"
    "process_sandbox_transact_result (fmt_evm_error K) result = Inr out"
    using run out found total by (auto simp: bind_eq_Some_conv)
  obtain rs where rs: "result = Inr rs"
    using sctx(3) by (cases result) (simp_all add: process_sandbox_transact_result_def)
  have "unat total = keyless_cost tx"
    using total unat_gas_cost [of "tx_gas_limit tx" "tx_gas_price tx"]
    by (auto simp: checked_add_def keyless_cost_def cost_def unat_add_exact split: if_splits)
  moreover have "balance (case found of Some i \<Rightarrow> i | None \<Rightarrow> account_info_default K) =
      parent_balance K ctx (tx_caller tx)"
    using sandbox_signer_balance entries found unfolding db_def by blast
  ultimately have "keyless_cost tx \<le> unat (parent_balance K ctx (tx_caller tx))"
    using enough by (simp add: not_less word_le_nat_alt)
  then show "\<exists>sctx rs orc. disable_sandbox sctx \<and> mc_spec sctx = mc_spec ctx
      \<and> ke_transact_raw K sctx tx = Some (Inr rs, orc)
      \<and> process_sandbox_transact_result (fmt_evm_error K) (Inr rs) = Inr out
      \<and> keyless_cost tx \<le> unat (parent_balance K ctx (tx_caller tx))"
    using sctx rs sandbox_context_sel [OF sctx(1)] by blast
qed

lemma process_success_created:
  assumes "process_sandbox_transact_result fmt (Inr rs) = Inr (OutcomeSuccess state res)"
  shows "\<exists>g out logs. rs_result rs = ExecSuccess g (OutputCreate out (Some (sr_deploy_address res))) logs
    \<and> state = rs_state rs"
  using assms
  by (auto simp: process_sandbox_transact_result_def split: ExecutionResult.splits Output.splits
      option.splits if_splits)

lemma process_failure_state:
  assumes "process_sandbox_transact_result fmt (Inr rs) = Inr (OutcomeFailure state e)"
  shows "state = rs_state rs"
  using assms
  by (auto simp: process_sandbox_transact_result_def split: ExecutionResult.splits Output.splits
      option.splits if_splits)

lemma keyless_results [simp]:
  "ir_result (interp_of (make_error K g ci e)) = IR_Revert (ke_revm K)"
  "ir_result (interp_of (make_halt K g ci)) = IR_OutOfGas (ke_revm K)"
  "ir_result (interp_of (make_success K g ci u a)) = IR_Return (ke_revm K)"
  "ir_result (interp_of (make_execution_failure K g ci u e)) = IR_Return (ke_revm K)"
  by (simp_all add: make_error_def make_halt_def make_success_def make_execution_failure_def
      keyless_frame_result_def)

lemma apply_sandbox_state_Some:
  "apply_sandbox_state dflt state ctx = Some ctx' \<longleftrightarrow>
     (\<exists>merged. merge_evm_state_optional_status dflt False (j_state (op_journal (inner ctx))) state = Some merged
       \<and> ctx' = ctx\<lparr>inner := (inner ctx)\<lparr>op_journal := (op_journal (inner ctx))\<lparr>j_state := merged\<rparr>\<rparr>\<rparr>)"
  by (auto simp: apply_sandbox_state_def bind_eq_Some_conv)

text \<open>What passing the checks means.\<close>

definition keyless_admissible ::
  "('ir, 'gas, 'e, 'c, 'm, 'se, 'op, 'te, 'log) keyless_env \<Rightarrow> CallInputs \<Rightarrow> bytes \<Rightarrow> u256 \<Rightarrow>
   ('e, 'c, 'm, 'se) MegaContext \<Rightarrow> SignedTxLegacy \<Rightarrow> address \<Rightarrow> bool" where
  "keyless_admissible K ci tx_bytes override ctx keyless_tx signer \<longleftrightarrow>
     ci_value ci = 0 \<and> rlp_decode_signed K tx_bytes = Some keyless_tx
     \<and> tl_to keyless_tx = TxCreate \<and> tl_chain_id keyless_tx = None \<and> tl_nonce keyless_tx = 0
     \<and> unat (tl_gas_limit keyless_tx) \<le> unat override
     \<and> ke_recover_signer K keyless_tx = Some signer
     \<and> (\<exists>n. get_account_nonce (fmt_db_error K) signer ctx = (Inr n :: 'op KeylessDeployError + u64) \<and> n \<le> 1)
     \<and> (\<exists>found. db_basic (op_db (inner ctx)) (address_create K signer 0) = Inr found
         \<and> (\<forall>i. found = Some i \<longrightarrow> code_hash i = KECCAK_EMPTY (op_db (inner ctx))))"

lemma u256_to_u64_or_max_bound:
  assumes "\<not> u256_to_u64_or_max x < g"
  shows "unat g \<le> unat x"
proof (cases "unat x < 2 ^ 64")
  case True
  then have "unat (u256_to_u64_or_max x) = unat x"
    by (simp add: u256_to_u64_or_max_def unsigned_ucast_eq take_bit_nat_eq_self_iff)
  then show ?thesis using assms by (simp add: not_less word_le_nat_alt)
next
  case False
  then have "18446744073709551616 \<le> unat x" by simp
  then show ?thesis using unat_u64_less [of g] by linarith
qed

lemma keyless_checks_Inr:
  fixes K :: "('ir, 'gas, 'e, 'c, 'm, 'se, 'op, 'te, 'log) keyless_env"
  assumes "keyless_checks K ci tx_bytes override ctx = Inr (tx, a)"
  shows "\<exists>keyless_tx signer. keyless_admissible K ci tx_bytes override ctx keyless_tx signer
    \<and> a = address_create K signer 0
    \<and> tx = keyless_sandbox_tx (tx_env_default K) tx_bytes (u256_to_u64_or_max override) signer keyless_tx"
proof -
  note run = assms [unfolded keyless_checks_def decode_keyless_tx_def recover_signer_def
      calculate_keyless_deploy_address_def Let_def]
  obtain ktx where ktx: "rlp_decode_signed K tx_bytes = Some ktx" "ci_value ci = 0"
    "tl_to ktx = TxCreate" "tl_chain_id ktx = None" "tl_nonce ktx = 0"
    "\<not> u256_to_u64_or_max override < tl_gas_limit ktx"
    using run by (cases "rlp_decode_signed K tx_bytes") (auto split: if_splits)
  obtain signer where signer: "ke_recover_signer K ktx = Some signer"
    using run ktx by (cases "ke_recover_signer K ktx") auto
  obtain n where n: "get_account_nonce (fmt_db_error K) signer ctx = (Inr n :: 'op KeylessDeployError + u64)" "n \<le> 1"
    using run ktx signer
    by (cases "get_account_nonce (fmt_db_error K) signer ctx :: 'op KeylessDeployError + u64")
      (auto split: if_splits)
  obtain found where found: "db_basic (op_db (inner ctx)) (address_create K signer 0) = Inr found"
    using run ktx signer n by (cases "db_basic (op_db (inner ctx)) (address_create K signer 0)") (auto split: if_splits)
  have "keyless_admissible K ci tx_bytes override ctx ktx signer"
    using ktx signer n found run u256_to_u64_or_max_bound [OF ktx(6)]
    by (auto simp: keyless_admissible_def split: option.splits if_splits)
  then show ?thesis
    using run ktx signer n found by (auto split: option.splits if_splits)
qed

lemma keyless_record_overhead_facts:
  assumes "keyless_record_overhead K gas ci ctx = Some (early, ctx')"
  shows "(\<exists>al. ctx' = ctx\<lparr>additional_limit := al\<rparr>)
    \<and> (revm_documented (ke_revm K) \<longrightarrow> early = Some r \<longrightarrow> \<not> ir_is_ok (ke_revm K) (ir_result (interp_of r)))"
proof (cases "is_enabled (mc_spec ctx) REX3")
  case True
  with assms obtain ok al where rec: "record_compute_gas KEYLESS_DEPLOY_OVERHEAD_GAS (additional_limit ctx) = Some (ok, al)"
    by (auto simp: keyless_record_overhead_def bind_eq_Some_conv)
  show ?thesis
  proof (cases ok)
    case False
    with True assms rec obtain check where "cg_check_limit (al_compute_gas al) = Some check"
      by (auto simp: keyless_record_overhead_def bind_eq_Some_conv Let_def)
    with False True assms rec show ?thesis
      by (cases check) (auto simp: keyless_record_overhead_def revm_documented_def Let_def
        mark_frame_result_as_exceeding_limit_def mark_interpreter_result_as_exceeding_limit_def
        EXCEEDING_LIMIT_INSTRUCTION_RESULT_def split: if_splits)
  qed (use True assms rec in \<open>auto simp: keyless_record_overhead_def Let_def\<close>)
next
  case False
  then show ?thesis
    using assms by (auto simp: keyless_record_overhead_def intro: exI [of _ "additional_limit ctx"])
qed

text \<open>Step 8, when the sandbox creates the contract at the address of its sender and nonce.\<close>

definition create_address_documented ::
  "('ir, 'gas, 'e, 'c, 'm, 'se, 'op, 'te, 'log) keyless_env \<Rightarrow> bool" where
  "create_address_documented K \<longleftrightarrow>
     (\<forall>sctx tx g out a logs state orc.
        ke_transact_raw K sctx tx =
          Some (Inr \<lparr>rs_result = ExecSuccess g (OutputCreate out (Some a)) logs, rs_state = state\<rparr>, orc) \<longrightarrow>
        tx_kind tx = TxCreate \<longrightarrow> a = address_create K (tx_caller tx) (tx_nonce tx))"

lemma keyless_run_facts:
  assumes run: "keyless_run K gas ci tx a ctx = Some (r, ctx')"
    and tx: "tx_kind tx = TxCreate" "a = address_create K (tx_caller tx) (tx_nonce tx)"
    and K: "revm_documented (ke_revm K)" "create_address_documented K"
    and entries: "map_of (state_entries K (j_state (op_journal (inner ctx)))) = j_state (op_journal (inner ctx))"
  shows "if ir_is_ok (ke_revm K) (ir_result (interp_of r))
    then \<exists>sctx rs orc merged logs. disable_sandbox sctx \<and> mc_spec sctx = mc_spec ctx
      \<and> ke_transact_raw K sctx tx = Some (Inr rs, orc)
      \<and> keyless_cost tx \<le> unat (parent_balance K ctx (tx_caller tx))
      \<and> merge_evm_state_optional_status (account_default K) False (j_state (op_journal (inner ctx)))
          (rs_state rs) = Some merged
      \<and> inner ctx' = fold (context_log K) logs
          ((inner ctx)\<lparr>op_journal := (op_journal (inner ctx))\<lparr>j_state := merged\<rparr>\<rparr>)
    else inner ctx' = inner ctx"
proof -
  obtain outcome ctx1 where sb: "execute_keyless_deploy_sandbox K tx ctx = Some (outcome, ctx1)"
    using run by (auto simp: keyless_run_def bind_eq_Some_conv)
  note facts = sandbox_run_facts [OF sb entries]
  have ret: "ir_is_ok (ke_revm K) (IR_Return (ke_revm K))" "\<not> ir_is_ok (ke_revm K) (IR_Revert (ke_revm K))"
    using K(1) by (simp_all add: revm_documented_def)
  show ?thesis
  proof (cases outcome)
    case (Inl e)
    then show ?thesis using run sb facts(1) ret by (auto simp: keyless_run_def)
  next
    case (Inr out)
    from facts(3) [OF Inr] obtain sctx rs orc where sctx: "disable_sandbox sctx" "mc_spec sctx = mc_spec ctx"
      "ke_transact_raw K sctx tx = Some (Inr rs, orc)"
      "process_sandbox_transact_result (fmt_evm_error K) (Inr rs) = Inr out"
      "keyless_cost tx \<le> unat (parent_balance K ctx (tx_caller tx))"
      by blast
    show ?thesis
    proof (cases out)
      case (OutcomeSuccess state res)
      then obtain g bs logs where rs: "rs_result rs = ExecSuccess g (OutputCreate bs (Some (sr_deploy_address res))) logs"
        "state = rs_state rs" using process_success_created sctx(4) by blast
      then have "rs = \<lparr>rs_result = ExecSuccess g (OutputCreate bs (Some (sr_deploy_address res))) logs,
          rs_state = state\<rparr>" by simp
      with sctx(3) K(2) tx have "sr_deploy_address res = a" unfolding create_address_documented_def by blast
      then show ?thesis
        using run sb Inr OutcomeSuccess facts(1) ret sctx rs(2)
        by (force simp: keyless_run_def bind_eq_Some_conv apply_sandbox_state_Some)
    next
      case (OutcomeFailure state e)
      then have "state = rs_state rs" using process_failure_state sctx(4) by blast
      then show ?thesis
        using run sb Inr OutcomeFailure facts(1) ret sctx
        by (force simp: keyless_run_def bind_eq_Some_conv apply_sandbox_state_Some intro: exI [of _ "[]"])
    qed
  qed
qed

section \<open>Properties\<close>


text \<open>A concrete environment: the sandbox deploys a contract without touching an account.\<close>

definition sample_keyless_env ::
  "(nat, u64, unit, unit, unit, unit, unit, unit, unit) keyless_env" where
  "sample_keyless_env = \<lparr>ke_revm = sample_revm,
     rlp_decode_signed = (\<lambda>_. Some \<lparr>tl_nonce = 0, tl_effective_gas_price = 0, tl_gas_limit = 7,
       tl_to = TxCreate, tl_value = 0, tl_input = [], tl_chain_id = None\<rparr>),
     ke_recover_signer = (\<lambda>_. Some 9), address_create = (\<lambda>a n. a + ucast n + 1),
     abi_encode_error = (\<lambda>_. [1]), abi_encode_returns = (\<lambda>_ _ _. [2]),
     fmt_db_error = (\<lambda>_. ''db''), fmt_evm_error = (\<lambda>_. ''evm''), state_entries = (\<lambda>_. []),
     bytecode_is_empty = (\<lambda>_. False), bytecode_default = PlainCode [],
     account_default = account_not_existing sample_database 0,
     account_info_default = empty_account_info, tx_env_default = sample_tx,
     ke_context_op = (\<lambda>db. \<lparr>op_block = \<lparr>block_env_number = 7, block_env_beneficiary = 3\<rparr>,
       op_tx = sample_tx, op_cfg = sample_cfg ISTHMUS,
       op_journal = \<lparr>j_state = Map.empty, j_transaction_id = 0, j_depth = 0\<rparr>, op_db = db,
       op_chain = (), op_error = None, op_rest = ()\<rparr>),
     ke_cfg_with_spec = sample_cfg,
     ke_transact_raw = (\<lambda>_ tx. Some (Inr \<lparr>rs_result = ExecSuccess 5
       (OutputCreate [1] (Some (tx_caller tx + ucast (tx_nonce tx) + 1))) [], rs_state = []\<rparr>, empty_oracle_env)),
     context_log = (\<lambda>_ c. c)\<rparr>"

definition sample_keyless_context :: "MegaSpecId \<Rightarrow> (unit, unit, unit, unit) MegaContext" where
  "sample_keyless_context spec = (sample_context spec)\<lparr>inner := (sample_op_context sample_database)
     \<lparr>op_journal := \<lparr>j_state = Map.empty, j_transaction_id = 0, j_depth = 0\<rparr>\<rparr>\<rparr>"

definition sample_keyless_call :: CallInputs where
  "sample_keyless_call = \<lparr>ci_target_address = KEYLESS_DEPLOY_ADDRESS, ci_caller = 1,
     ci_scheme = SchemeCall, ci_input = [], ci_gas_limit = 200000, ci_return_memory_offset = (0, 0),
     ci_value = 0, ci_transfer_value = None, ci_transfers_value = False\<rparr>"

lemma sample_keyless_run:
  "execute_keyless_deploy_call sample_keyless_env sample_keyless_call [] 7 (sample_keyless_context REX2) =
     Some (make_success sample_keyless_env 100000 sample_keyless_call 5 10, sample_keyless_context REX2)"
  by (simp add: execute_keyless_deploy_call_def keyless_record_overhead_def keyless_checks_def
      keyless_run_def execute_keyless_deploy_sandbox_def sample_keyless_env_def sample_keyless_call_def
      sample_keyless_context_def sample_context_def sample_op_context_def sample_revm_def
      KEYLESS_DEPLOY_OVERHEAD_GAS_def is_enabled_def mega_spec_def decode_keyless_tx_def
      recover_signer_def calculate_keyless_deploy_address_def get_account_nonce_def Let_def
      u256_to_u64_or_max_def keyless_sandbox_tx_def sample_database_def sandbox_basic_def
      with_nonce_override_def sandbox_db_new_def empty_account_info_def checked_add_def
      sandbox_context_def context_new_def new_with_shared_ext_envs_def parent_block_number_def
      ctx_with_block_def on_new_block_def dg_on_new_block_def with_chain_def with_sandbox_disabled_def
      process_sandbox_transact_result_def apply_sandbox_state_def)

lemma sample_keyless_env_documented:
  "revm_documented (ke_revm sample_keyless_env)" "create_address_documented sample_keyless_env"
  "map_of (state_entries sample_keyless_env (j_state (op_journal (inner (sample_keyless_context s))))) =
     j_state (op_journal (inner (sample_keyless_context s)))"
  "ke_revm sample_keyless_env = sample_revm"
  by (simp_all add: sample_keyless_env_def sample_revm_documented create_address_documented_def
      sample_keyless_context_def)


lemma keyless_overhead_panics:
  assumes "is_enabled (mc_spec ctx) REX3" and "exceeded_limit (has_exceeded_limit (additional_limit ctx))"
    and "gas_record_cost (ke_revm K) KEYLESS_DEPLOY_OVERHEAD_GAS (gas_new (ke_revm K) (ci_gas_limit ci)) = (True, g)"
    and "cg_check_limit (record_gas_used KEYLESS_DEPLOY_OVERHEAD_GAS (al_compute_gas (additional_limit ctx)))
      = Some WithinLimit"
  shows "execute_keyless_deploy_call K ci tx_bytes override ctx = None"
  using assms
  by (cases "has_exceeded_limit (additional_limit ctx)")
    (simp_all add: execute_keyless_deploy_call_def keyless_record_overhead_def record_compute_gas_def
      al_check_limit_def Let_def)

lemma sample_data_size_exceeded:
  "ds_check_limit (ds_before_tx_start sample_tx (ds_new REX3 10)) = Some (ExceedsLimit DataSize 10 447 False)"
  by (simp add: ds_check_limit_def ds_before_tx_start_def sample_tx_def ds_new_def ds_record_tx_def
      ds_intrinsic_size_def is_enabled_def update_tx_def add_persistent_def tracker_new_def entry_new_def
      ds_tx_usage_def net_usage_frameless len_u64_def BASE_TX_SIZE_def AUTHORIZATION_SIZE_def
      saturating_sub_def tracker_tx_limit_def)


end
