(* ===== verification/Frame_Level.thy ===== *)
theory Frame_Level
  imports Limit_Hooks
begin

text \<open>
  The number of frames on the stacks of the four trackers, \<open>level d\<close>: every hook that neither
  panics nor fails changes it by what its name says, whatever amounts the trackers recorded.
\<close>

section \<open>Levels\<close>

definition level :: "nat \<Rightarrow> AdditionalLimit \<Rightarrow> bool" where
  "level d al \<longleftrightarrow> sg_depth (al_state_growth al) = d \<and> ds_depth (al_data_size al) = d \<and>
     kv_depth (al_kv_update al) = d \<and> cg_depth (al_compute_gas al) = d"

lemma aligned_level: "aligned c d al \<Longrightarrow> level d al"
  by (simp add: aligned_def level_def)

lemma length_update_tx [simp]: "frame_stack (update_tx f t) = frame_stack t"
  by (simp add: update_tx_def)

lemma length_push_frame:
  "push_frame i t = Some t' \<Longrightarrow> length (frame_stack t') = Suc (length (frame_stack t))"
  by (auto simp: push_frame_def push_frame_with_limit_def bind_eq_Some_conv)

lemma length_push_with_limit [simp]:
  "length (frame_stack (push_frame_with_limit l i t)) = Suc (length (frame_stack t))"
  by (simp add: push_frame_with_limit_def)

lemma length_pop_frame [simp]:
  "length (frame_stack (snd (pop_frame ok t))) = length (frame_stack t) - 1"
  by (simp add: pop_frame_def split: list.split)

lemma sg_push_depth: "sg_push_frame t = Some t' \<Longrightarrow> sg_depth t' = Suc (sg_depth t)"
  by (auto simp: sg_push_frame_def sg_depth_def bind_eq_Some_conv length_push_frame split: if_splits)

lemma ds_push_depth: "ds_push_frame i t = Some t' \<Longrightarrow> ds_depth t' = Suc (ds_depth t)"
  by (auto simp: ds_push_frame_def ds_depth_def bind_eq_Some_conv length_push_frame split: if_splits)

lemma kv_push_depth: "kv_push_frame i t = Some t' \<Longrightarrow> kv_depth t' = Suc (kv_depth t)"
  by (auto simp: kv_push_frame_def kv_depth_def bind_eq_Some_conv length_push_frame split: if_splits)

lemma cg_push_depth: "cg_push_frame t = Some t' \<Longrightarrow> cg_depth t' = Suc (cg_depth t)"
  by (auto simp: cg_push_frame_def cg_depth_def bind_eq_Some_conv length_push_frame split: if_splits)

lemma record_depth [simp]:
  "sg_depth (record_growth n s) = sg_depth s" "sg_depth (sg_record_refund n s) = sg_depth s"
  "ds_depth (ds_record_discardable n t) = ds_depth t" "ds_depth (ds_record_refund n t) = ds_depth t"
  "kv_depth (kv_record_discardable n k) = kv_depth k" "kv_depth (kv_record_refund n k) = kv_depth k"
  "cg_depth (record_gas_used n g) = cg_depth g"
  by (simp_all add: sg_depth_def ds_depth_def kv_depth_def cg_depth_def record_growth_def
      sg_record_refund_def ds_record_discardable_def ds_record_refund_def kv_record_discardable_def
      kv_record_refund_def record_gas_used_def split: option.split)

lemma sg_enter_depth:
  assumes "sg_before_frame_init D x j t = Some (r, j', t')"
  shows "sg_depth t' = Suc (sg_depth t)"
proof -
  obtain t1 where t1: "sg_push_frame t = Some t1" using assms
    by (auto simp: sg_before_frame_init_def bind_eq_Some_conv)
  have "sg_depth t' = sg_depth t1"
  proof (cases "fi_input x")
    case (CallInput ci)
    obtain q j1 where q: "inspect_account_delegated D (sg_spec t1) (ci_target_address ci) j = (q, j1)"
      by fastforce
    then show ?thesis using assms t1 CallInput
      by (cases q) (auto simp: sg_before_frame_init_def split: if_splits prod.splits)
  qed (use assms t1 in \<open>auto simp: sg_before_frame_init_def\<close>)
  then show ?thesis using sg_push_depth [OF t1] by simp
qed

lemma ds_enter_depth: "ds_before_frame_init x t = Some t' \<Longrightarrow> ds_depth t' = Suc (ds_depth t)"
  by (auto simp: ds_before_frame_init_def Let_def bind_eq_Some_conv dest!: ds_push_depth
      split: FrameInput.splits if_splits)

lemma kv_enter_depth: "kv_before_frame_init x t = Some t' \<Longrightarrow> kv_depth t' = Suc (kv_depth t)"
  by (auto simp: kv_before_frame_init_def Let_def bind_eq_Some_conv dest!: kv_push_depth
      split: FrameInput.splits if_splits)

lemma cg_enter_depth: "cg_before_frame_init x t = Some t' \<Longrightarrow> cg_depth t' = Suc (cg_depth t)"
  by (simp add: cg_before_frame_init_def cg_push_depth)

lemma leave_depth:
  "sg_before_frame_return_result l ok s = Some s' \<Longrightarrow> sg_depth s' = sg_depth s - 1"
  "ds_before_frame_return_result l ok t = Some t' \<Longrightarrow> ds_depth t' = ds_depth t - 1"
  "kv_before_frame_return_result l ok k = Some k' \<Longrightarrow> kv_depth k' = kv_depth k - 1"
  "cg_before_frame_return_result l ok g = Some g' \<Longrightarrow> cg_depth g' = cg_depth g - 1"
  by (auto simp: sg_before_frame_return_result_def ds_before_frame_return_result_def
      kv_before_frame_return_result_def cg_before_frame_return_result_def sg_depth_def ds_depth_def
      kv_depth_def cg_depth_def split: if_splits)

lemma on_frame_depth:
  "ds_after_frame_init_on_frame f t = Some t' \<Longrightarrow> ds_depth t' = ds_depth t"
  "kv_after_frame_init_on_frame f k = Some k' \<Longrightarrow> kv_depth k' = kv_depth k"
  by (auto simp: ds_after_frame_init_on_frame_def kv_after_frame_init_on_frame_def ds_depth_def
      kv_depth_def bind_eq_Some_conv split: if_splits option.splits)

section \<open>The hooks of the additional limits\<close>

lemma check_level: "al_check_limit al = Some (c, al') \<Longrightarrow> level d al' = level d al"
  by (drule al_check_limit_SomeD(1)) (simp add: level_def)

lemma rescue_level: "try_rescue_gas R gas al = Some al' \<Longrightarrow> level d al' = level d al"
  by (auto simp: try_rescue_gas_def rescue_gas_def bind_eq_Some_conv level_def dest!: al_check_limit_SomeD(1)
      split: if_splits)

lemma push_empty_level: "al_push_empty_frame al = Some al' \<Longrightarrow> level (Suc d) al' = level d al"
  by (auto simp: al_push_empty_frame_def bind_eq_Some_conv level_def sg_push_empty_frame_def
      ds_push_empty_frame_def kv_push_empty_frame_def cg_push_empty_frame_def
      dest!: sg_push_depth ds_push_depth kv_push_depth cg_push_depth)

lemma record_gas_level: "record_compute_gas g al = Some (ok, al') \<Longrightarrow> level d al' = level d al"
  by (auto simp: record_compute_gas_def bind_eq_Some_conv level_def dest!: al_check_limit_SomeD(1))

lemma set_limit_level: "set_compute_gas_limit l al = Some al' \<Longrightarrow> level d al' = level d al"
  by (auto simp: set_compute_gas_limit_def set_detained_limit_def bind_eq_Some_conv level_def cg_depth_def
      Let_def split: if_splits)

lemma before_frame_init_level:
  assumes "al_before_frame_init R enc D x j al = Some (Inr r, j', al')"
  shows "level (Suc d) al' = level d al"
proof -
  obtain q j1 s where s: "sg_before_frame_init D x j (al_state_growth al) = Some (q, j1, s)"
    using assms by (auto simp: al_before_frame_init_def bind_eq_Some_conv)
  then obtain u where q: "q = Inr u" using assms by (cases q) (auto simp: al_before_frame_init_def)
  obtain t k g where hooks: "ds_before_frame_init x (al_data_size al) = Some t"
    "kv_before_frame_init x (al_kv_update al) = Some k" "cg_before_frame_init x (al_compute_gas al) = Some g"
    using assms s q by (auto simp: al_before_frame_init_def bind_eq_Some_conv)
  let ?al = "al\<lparr>al_state_growth := s, al_data_size := t, al_kv_update := k, al_compute_gas := g\<rparr>"
  obtain c al1 where check: "al_check_limit ?al = Some (c, al1)"
    using assms s q hooks by (auto simp: al_before_frame_init_def bind_eq_Some_conv)
  have "level (Suc d) al1 = level (Suc d) ?al" by (rule check_level [OF check])
  also have "\<dots> = level d al"
    using sg_enter_depth [OF s] ds_enter_depth [OF hooks(1)] kv_enter_depth [OF hooks(2)]
      cg_enter_depth [OF hooks(3)] by (simp add: level_def)
  finally have l: "level (Suc d) al1 = level d al" .
  show ?thesis
    using assms s q hooks check l
    by (auto simp: al_before_frame_init_def bind_eq_Some_conv Let_def split: if_splits dest: rescue_level)
qed

lemma after_frame_init_level:
  "al_after_frame_init R r al = Some al' \<Longrightarrow> level d al' = level d al"
  by (auto simp: al_after_frame_init_def bind_eq_Some_conv level_def on_frame_depth
      dest: rescue_level [of _ _ _ _ d] split: ItemOrResult.splits)

lemma before_frame_run_level:
  "al_before_frame_run R enc f al = Some (r, al') \<Longrightarrow> level d al' = level d al"
  by (auto simp: al_before_frame_run_def bind_eq_Some_conv dest: check_level split: if_splits)

lemma after_frame_run_level:
  assumes "al_after_frame_run R g r al = Some (r', al')"
  shows "level d al' = level d al"
proof (cases g)
  case None
  then show ?thesis using assms by (auto simp: al_after_frame_run_def bind_eq_Some_conv dest: rescue_level)
next
  case (Some gas)
  then obtain ok al1 where "record_compute_gas (saturating_sub gas (gas_remaining R (ir_gas (interp_of r)))) al =
      Some (ok, al1)"
    using assms by (auto simp: al_after_frame_run_def bind_eq_Some_conv Let_def)
  with Some assms show ?thesis
    by (auto simp: al_after_frame_run_def bind_eq_Some_conv Let_def
        dest!: rescue_level [of _ _ _ _ d] record_gas_level [of _ _ _ _ d])
qed

lemma ds_after_run_depth [simp]: "ds_depth (ds_after_frame_run f a t) = ds_depth t"
  by (simp add: ds_after_frame_run_def split: InterpreterAction.split)

lemma after_frame_run_instructions_level:
  assumes "al_after_frame_run_instructions R enc f a al = Some (a', al')"
  shows "level d al' = level d al"
proof -
  let ?al = "al\<lparr>al_data_size := ds_after_frame_run f a (al_data_size al)\<rparr>"
  have "al' = ?al \<or> (\<exists>c. al_check_limit ?al = Some (c, al'))"
    using assms
    by (cases a) (auto simp: al_after_frame_run_instructions_def Let_def bind_eq_Some_conv split: if_splits)
  then have "level d al' = level d ?al" using check_level by blast
  then show ?thesis by (simp add: level_def)
qed

lemma before_frame_return_level:
  assumes "al_before_frame_return_result R enc l r al = Some (r', al')" and "level d al"
  shows "level (d - 1) al'"
proof -
  obtain s t k g where leave: "sg_before_frame_return_result l (ir_is_ok R (ir_result (interp_of r))) (al_state_growth al) = Some s"
    "ds_before_frame_return_result l (ir_is_ok R (ir_result (interp_of r))) (al_data_size al) = Some t"
    "kv_before_frame_return_result l (ir_is_ok R (ir_result (interp_of r))) (al_kv_update al) = Some k"
    "cg_before_frame_return_result l (ir_is_ok R (ir_result (interp_of r))) (al_compute_gas al) = Some g"
    using assms(1) by (auto simp: al_before_frame_return_result_def bind_eq_Some_conv Let_def)
  let ?al = "al\<lparr>al_state_growth := s, al_data_size := t, al_kv_update := k, al_compute_gas := g\<rparr>"
  obtain c al1 where check: "al_check_limit ?al = Some (c, al1)" and flag: "\<exists>q. al' = al1\<lparr>has_exceeded_limit := q\<rparr>"
  proof -
    have "\<exists>c al1. al_check_limit ?al = Some (c, al1) \<and> (al' = al1 \<or> al' = al1\<lparr>has_exceeded_limit := WithinLimit\<rparr>)"
      using assms(1) leave
      by (auto simp: al_before_frame_return_result_def bind_eq_Some_conv Let_def split: if_splits)
    then obtain c al1 where c: "al_check_limit ?al = Some (c, al1)"
      "al' = al1 \<or> al' = al1\<lparr>has_exceeded_limit := WithinLimit\<rparr>" by blast
    have "al1 = al1\<lparr>has_exceeded_limit := has_exceeded_limit al1\<rparr>" by simp
    with c that show thesis by metis
  qed
  have "level (d - 1) ?al" using assms(2) leave_depth leave by (simp add: level_def)
  then have "level (d - 1) al1" using check_level [OF check] by simp
  then show ?thesis using flag by (auto simp: level_def)
qed

lemma reset_level: "level 0 (al_reset al)"
  by (simp add: level_def al_reset_def sg_depth_def ds_depth_def kv_depth_def cg_depth_def
      sg_reset_def ds_reset_def kv_reset_def cg_reset_def tracker_reset_def Let_def)

lemma before_tx_start_level:
  assumes "al_before_tx_start tx al = Some (ok, al')"
  shows "level d al' = level d al"
proof -
  have "ds_depth (ds_record_authorities as t) = ds_depth t" "kv_depth (kv_record_authorities as k) = kv_depth k" for as t k
    by (induction as arbitrary: t k) (simp_all add: ds_depth_def kv_depth_def ds_record_tx_def kv_record_tx_def)
  then have "ds_depth (ds_before_tx_start tx t) = ds_depth t" "kv_depth (kv_before_tx_start tx k) = kv_depth k" for t k
    by (simp_all add: ds_before_tx_start_def kv_before_tx_start_def ds_depth_def kv_depth_def ds_record_tx_def kv_record_tx_def)
  then show ?thesis
    using assms
    by (auto simp: al_before_tx_start_def bind_eq_Some_conv level_def dest!: check_level [of _ _ _ d])
qed

end
