(* ===== verification/Interceptors.thy ===== *)
theory Interceptors
  imports Keyless_Deploy Frame_Level
begin

text \<open>
  The interception of calls to system contracts (\<^verbatim>\<open>system/intercept.rs\<close>). An interceptor is a
  function of the call, its depth and the context: \<^term>\<open>None\<close> is a panic, \<open>Some (None, ctx)\<close> a call
  that is not handled, \<open>Some (Some r, ctx)\<close> a synthetic result. The generated ABI codecs are the
  parameter record \<open>I\<close>. The trait that the interceptors implement is the locale
  \<open>system_contract_interceptor\<close>, interpreted for each of the four.
\<close>

section \<open>Definitions\<close>

record ('ir, 'gas, 'e, 'c, 'm, 'se, 'op, 'te, 'log) intercept_env =
  ie_keyless :: "('ir, 'gas, 'e, 'c, 'm, 'se, 'op, 'te, 'log) keyless_env"
  decode_send_hint :: "bytes \<Rightarrow> (b256 \<times> bytes) option"
  decode_keyless_deploy :: "bytes \<Rightarrow> (bytes \<times> u256) option"
  decode_disable_volatile :: "bytes \<Rightarrow> bool"
  decode_enable_volatile :: "bytes \<Rightarrow> bool"
  decode_is_volatile_disabled :: "bytes \<Rightarrow> bool"
  encode_is_volatile_disabled :: "bool \<Rightarrow> bytes"
  decode_remaining_compute_gas :: "bytes \<Rightarrow> bool"
  encode_remaining_compute_gas :: "u64 \<Rightarrow> bytes"
  NON_ZERO_TRANSFER_SELECTOR :: bytes
  DISABLED_BY_PARENT_REVERT_DATA :: bytes

abbreviation ie_revm where
  "ie_revm I \<equiv> ke_revm (ie_keyless I)"

definition synthetic_result ::
  "('ir, 'gas) revm \<Rightarrow> 'ir \<Rightarrow> bytes \<Rightarrow> CallInputs \<Rightarrow> ('ir, 'gas) FrameResult" where
  "synthetic_result R result output call_inputs =
     CallResult \<lparr>ir_result = result, ir_output = output, ir_gas = gas_new R (ci_gas_limit call_inputs)\<rparr>
       (ci_return_memory_offset call_inputs)"

definition reject_non_zero_transfer ::
  "('ir, 'gas, 'e, 'c, 'm, 'se, 'op, 'te, 'log) intercept_env \<Rightarrow> CallInputs \<Rightarrow>
   ('ir, 'gas) FrameResult option" where
  "reject_non_zero_transfer I call_inputs =
     (if (case ci_transfer_value call_inputs of Some v \<Rightarrow> v \<noteq> 0 | None \<Rightarrow> False)
      then Some (synthetic_result (ie_revm I) (IR_Revert (ie_revm I)) (NON_ZERO_TRANSFER_SELECTOR I)
                   call_inputs)
      else None)"

type_synonym ('ir, 'gas, 'e, 'c, 'm, 'se) interceptor =
  "CallInputs \<Rightarrow> usize \<Rightarrow> ('e, 'c, 'm, 'se) MegaContext \<Rightarrow>
   (('ir, 'gas) FrameResult option \<times> ('e, 'c, 'm, 'se) MegaContext) option"

definition oracle_hint_intercept ::
  "('ir, 'gas, 'e, 'c, 'm, 'se, 'op, 'te, 'log) intercept_env \<Rightarrow> ('ir, 'gas, 'e, 'c, 'm, 'se) interceptor"
  where
  "oracle_hint_intercept I call_inputs depth ctx =
     (if ci_target_address call_inputs \<noteq> ORACLE_CONTRACT_ADDRESS then Some (None, ctx)
      else case decode_send_hint I (ci_input call_inputs) of
             Some (topic, data) \<Rightarrow>
               Some (None, ctx\<lparr>oracle_env :=
                 oracle_on_hint (ci_caller call_inputs) topic data (oracle_env ctx)\<rparr>)
           | None \<Rightarrow> Some (None, ctx))"

definition keyless_deploy_intercept ::
  "('ir, 'gas, 'e, 'c, 'm, 'se, 'op, 'te, 'log) intercept_env \<Rightarrow> ('ir, 'gas, 'e, 'c, 'm, 'se) interceptor"
  where
  "keyless_deploy_intercept I call_inputs depth ctx =
     (if is_sandbox_disabled ctx \<or> depth \<noteq> 0 then Some (None, ctx)
      else if ci_target_address call_inputs \<noteq> KEYLESS_DEPLOY_ADDRESS then Some (None, ctx)
      else case decode_keyless_deploy I (ci_input call_inputs) of
             None \<Rightarrow> Some (None, ctx)
           | Some (tx_bytes, gas_limit_override) \<Rightarrow> do {
               (result, ctx) \<leftarrow> execute_keyless_deploy_call (ie_keyless I) call_inputs tx_bytes
                                  gas_limit_override ctx;
               Some (Some result, ctx)
             })"

definition access_control_intercept ::
  "('ir, 'gas, 'e, 'c, 'm, 'se, 'op, 'te, 'log) intercept_env \<Rightarrow> ('ir, 'gas, 'e, 'c, 'm, 'se) interceptor"
  where
  "access_control_intercept I call_inputs depth ctx =
     (let R = ie_revm I; input_bytes = ci_input call_inputs; caller_journal_depth = depth
      in if ci_target_address call_inputs \<noteq> ACCESS_CONTROL_ADDRESS then Some (None, ctx)
         else if decode_disable_volatile I input_bytes
         then (case reject_non_zero_transfer I call_inputs of
                 Some result \<Rightarrow> Some (Some result, ctx)
               | None \<Rightarrow>
                   Some (Some (synthetic_result R (IR_Return R) [] call_inputs),
                         ctx\<lparr>volatile_data_tracker :=
                               disable_access caller_journal_depth (volatile_data_tracker ctx)\<rparr>))
         else if decode_enable_volatile I input_bytes
         then (case reject_non_zero_transfer I call_inputs of
                 Some result \<Rightarrow> Some (Some result, ctx)
               | None \<Rightarrow>
                   (case enable_access caller_journal_depth (volatile_data_tracker ctx) of
                      (success, tracker) \<Rightarrow>
                        Some (Some (if success then synthetic_result R (IR_Return R) [] call_inputs
                                    else synthetic_result R (IR_Revert R)
                                           (DISABLED_BY_PARENT_REVERT_DATA I) call_inputs),
                              ctx\<lparr>volatile_data_tracker := tracker\<rparr>)))
         else if decode_is_volatile_disabled I input_bytes
         then (case reject_non_zero_transfer I call_inputs of
                 Some result \<Rightarrow> Some (Some result, ctx)
               | None \<Rightarrow>
                   let disabled = volatile_access_disabled caller_journal_depth (volatile_data_tracker ctx)
                   in Some (Some (synthetic_result R (IR_Return R)
                                    (encode_is_volatile_disabled I disabled) call_inputs), ctx))
         else Some (None, ctx))"

definition limit_control_intercept ::
  "('ir, 'gas, 'e, 'c, 'm, 'se, 'op, 'te, 'log) intercept_env \<Rightarrow> ('ir, 'gas, 'e, 'c, 'm, 'se) interceptor"
  where
  "limit_control_intercept I call_inputs depth ctx =
     (if ci_target_address call_inputs \<noteq> LIMIT_CONTROL_ADDRESS then Some (None, ctx)
      else if decode_remaining_compute_gas I (ci_input call_inputs)
      then (case reject_non_zero_transfer I call_inputs of
              Some result \<Rightarrow> Some (Some result, ctx)
            | None \<Rightarrow> do {
                remaining \<leftarrow> current_call_remaining_compute_gas (additional_limit ctx);
                Some (Some (synthetic_result (ie_revm I) (IR_Return (ie_revm I))
                              (encode_remaining_compute_gas I remaining) call_inputs), ctx)
              })
      else Some (None, ctx))"

text \<open>The specs that activate the interceptors.\<close>

definition ORACLE_HINT_ACTIVATION_SPEC :: MegaSpecId where
  "ORACLE_HINT_ACTIVATION_SPEC = REX2"

definition KEYLESS_DEPLOY_ACTIVATION_SPEC :: MegaSpecId where
  "KEYLESS_DEPLOY_ACTIVATION_SPEC = REX2"

definition ACCESS_CONTROL_ACTIVATION_SPEC :: MegaSpecId where
  "ACCESS_CONTROL_ACTIVATION_SPEC = REX4"

definition LIMIT_CONTROL_ACTIVATION_SPEC :: MegaSpecId where
  "LIMIT_CONTROL_ACTIVATION_SPEC = REX4"

definition dispatch_system_contract_interceptors ::
  "('ir, 'gas, 'e, 'c, 'm, 'se, 'op, 'te, 'log) intercept_env \<Rightarrow> ('ir, 'gas, 'e, 'c, 'm, 'se) interceptor"
  where
  "dispatch_system_contract_interceptors I call_inputs depth ctx = do {
     let spec = mc_spec ctx;
     (_, ctx) \<leftarrow> (if is_enabled spec ORACLE_HINT_ACTIVATION_SPEC
                  then oracle_hint_intercept I call_inputs depth ctx else Some (None, ctx));
     (result, ctx) \<leftarrow> (if is_enabled spec KEYLESS_DEPLOY_ACTIVATION_SPEC
                       then keyless_deploy_intercept I call_inputs depth ctx else Some (None, ctx));
     (case result of
        Some r \<Rightarrow> Some (Some r, ctx)
      | None \<Rightarrow> do {
          (result, ctx) \<leftarrow> (if is_enabled spec ACCESS_CONTROL_ACTIVATION_SPEC
                            then access_control_intercept I call_inputs depth ctx else Some (None, ctx));
          (case result of
             Some r \<Rightarrow> Some (Some r, ctx)
           | None \<Rightarrow>
               if is_enabled spec LIMIT_CONTROL_ACTIVATION_SPEC
               then limit_control_intercept I call_inputs depth ctx else Some (None, ctx))
        })
   }"

section \<open>The contract of an interceptor\<close>

text \<open>
  An interceptor is registered for one address and one spec: calls to other addresses pass through
  it unchanged. What it does keeps the trackers aligned at their depth, so that the caller
  has to push one empty frame for a synthetic result.
\<close>

locale system_contract_interceptor =
  fixes intercept :: "('ir, 'gas, 'e, 'c, 'm, 'se) interceptor"
    and address :: address
    and activation :: MegaSpecId
    and cost :: nat
  assumes other_target: "ci_target_address ci \<noteq> address \<Longrightarrow> intercept ci depth ctx = Some (None, ctx)"
    and keeps_limits: "intercept ci depth ctx = Some (r, ctx') \<Longrightarrow> aligned c d (additional_limit ctx) \<Longrightarrow>
      c + cost < 2 ^ 64 \<Longrightarrow> aligned (c + cost) d (additional_limit ctx')"
    and keeps_level: "intercept ci depth ctx = Some (r, ctx') \<Longrightarrow>
      level d (additional_limit ctx') = level d (additional_limit ctx)"
    and keeps_spec: "intercept ci depth ctx = Some (r, ctx') \<Longrightarrow>
      mc_spec ctx' = mc_spec ctx \<and> disable_sandbox ctx' = disable_sandbox ctx"
begin

lemma guarded_other_target:
  "ci_target_address ci \<noteq> address \<Longrightarrow>
    (if is_enabled spec activation then intercept ci depth ctx else Some (None, ctx)) = Some (None, ctx)"
  by (simp add: other_target)

lemma guarded_keeps_limits:
  assumes "(if is_enabled spec activation then intercept ci depth ctx else Some (None, ctx)) = Some (r, ctx')"
    and "aligned c d (additional_limit ctx)" and "c + cost < 2 ^ 64"
  shows "aligned (c + cost) d (additional_limit ctx')"
    and "mc_spec ctx' = mc_spec ctx" and "disable_sandbox ctx' = disable_sandbox ctx"
  using assms keeps_limits keeps_spec
  by (auto split: if_splits elim: aligned_mono)

end

section \<open>The four interceptors\<close>

lemma sandbox_keeps_context:
  assumes "execute_keyless_deploy_sandbox K tx ctx = Some (outcome, ctx')"
  shows "additional_limit ctx' = additional_limit ctx \<and> mc_spec ctx' = mc_spec ctx
    \<and> disable_sandbox ctx' = disable_sandbox ctx"
  using assms
  by (auto simp: execute_keyless_deploy_sandbox_def Let_def bind_eq_Some_conv
      split: sum.splits option.splits if_splits)

lemma keyless_run_keeps_context:
  assumes "keyless_run K gas ci tx a ctx = Some (r, ctx')"
  shows "additional_limit ctx' = additional_limit ctx \<and> mc_spec ctx' = mc_spec ctx
    \<and> disable_sandbox ctx' = disable_sandbox ctx"
proof -
  obtain outcome ctx1 where sb: "execute_keyless_deploy_sandbox K tx ctx = Some (outcome, ctx1)"
    using assms by (auto simp: keyless_run_def bind_eq_Some_conv)
  have "additional_limit ctx' = additional_limit ctx1 \<and> mc_spec ctx' = mc_spec ctx1
    \<and> disable_sandbox ctx' = disable_sandbox ctx1"
  proof (cases outcome)
    case (Inl e)
    then show ?thesis using assms sb by (auto simp: keyless_run_def)
  next
    case (Inr out)
    show ?thesis
    proof (cases out)
      case (OutcomeSuccess state res)
      then show ?thesis using assms sb Inr
        by (clarsimp simp: keyless_run_def apply_sandbox_state_Some bind_eq_Some_conv) (auto split: if_splits)
    next
      case (OutcomeFailure state e)
      then show ?thesis using assms sb Inr
        by (clarsimp simp: keyless_run_def apply_sandbox_state_Some bind_eq_Some_conv)
    qed
  qed
  then show ?thesis using sandbox_keeps_context [OF sb] by (elim conjE) (intro conjI; simp only:)
qed

lemma keyless_overhead_limit:
  assumes "keyless_record_overhead K gas ci ctx = Some (early, ctx')" and "is_enabled (mc_spec ctx) REX3"
    and "record_compute_gas KEYLESS_DEPLOY_OVERHEAD_GAS (additional_limit ctx) = Some (ok, al)"
  shows "additional_limit ctx' = al"
proof (cases ok)
  case False
  with assms obtain check where "cg_check_limit (al_compute_gas al) = Some check"
    by (auto simp: keyless_record_overhead_def Let_def bind_eq_Some_conv)
  with False assms show ?thesis
    by (cases check) (auto simp: keyless_record_overhead_def Let_def)
qed (use assms in \<open>auto simp: keyless_record_overhead_def Let_def\<close>)

lemma keyless_overhead_aligned:
  assumes "keyless_record_overhead K gas ci ctx = Some (early, ctx')"
    and "aligned c d (additional_limit ctx)" and "c + 100000 < 2 ^ 64"
  shows "aligned (c + 100000) d (additional_limit ctx')"
proof (cases "is_enabled (mc_spec ctx) REX3")
  case True
  have cost: "unat KEYLESS_DEPLOY_OVERHEAD_GAS = 100000" by (simp add: KEYLESS_DEPLOY_OVERHEAD_GAS_def)
  obtain ok al where "record_compute_gas KEYLESS_DEPLOY_OVERHEAD_GAS (additional_limit ctx) = Some (ok, al)"
    "aligned (c + 100000) d al"
    using record_compute_gas_aligned [OF assms(2), of KEYLESS_DEPLOY_OVERHEAD_GAS] assms(3) cost by auto
  then show ?thesis using keyless_overhead_limit [OF assms(1) True] by simp
next
  case False
  then show ?thesis
    using assms by (auto simp: keyless_record_overhead_def elim: aligned_mono)
qed

lemma keyless_overhead_level:
  assumes "keyless_record_overhead K gas ci ctx = Some (early, ctx')"
  shows "level d (additional_limit ctx') = level d (additional_limit ctx)"
proof (cases "is_enabled (mc_spec ctx) REX3")
  case True
  with assms obtain ok al where rec: "record_compute_gas KEYLESS_DEPLOY_OVERHEAD_GAS (additional_limit ctx) = Some (ok, al)"
    by (auto simp: keyless_record_overhead_def bind_eq_Some_conv)
  then show ?thesis
    using record_gas_level [OF rec, of d] keyless_overhead_limit [OF assms True rec] by simp
qed (use assms in \<open>auto simp: keyless_record_overhead_def\<close>)

lemma keyless_call_keeps:
  assumes "execute_keyless_deploy_call K ci tx_bytes override ctx = Some (r, ctx')"
  shows "aligned c d (additional_limit ctx) \<Longrightarrow> c + 100000 < 2 ^ 64 \<Longrightarrow>
      aligned (c + 100000) d (additional_limit ctx')"
    and "mc_spec ctx' = mc_spec ctx \<and> disable_sandbox ctx' = disable_sandbox ctx"
    and "level d (additional_limit ctx') = level d (additional_limit ctx)"
proof -
  have "(aligned c d (additional_limit ctx) \<longrightarrow> c + 100000 < 2 ^ 64 \<longrightarrow>
      aligned (c + 100000) d (additional_limit ctx'))
    \<and> level d (additional_limit ctx') = level d (additional_limit ctx)
    \<and> mc_spec ctx' = mc_spec ctx \<and> disable_sandbox ctx' = disable_sandbox ctx"
  proof (cases "gas_record_cost (ke_revm K) KEYLESS_DEPLOY_OVERHEAD_GAS (gas_new (ke_revm K) (ci_gas_limit ci))")
    case (Pair ok gas)
    show ?thesis
    proof (cases ok)
      case False
      then show ?thesis using assms Pair
        by (auto simp: execute_keyless_deploy_call_def elim: aligned_mono)
    next
      case True
      then obtain early ctx1 where early: "keyless_record_overhead K gas ci ctx = Some (early, ctx1)"
        using assms Pair by (auto simp: execute_keyless_deploy_call_def bind_eq_Some_conv)
      then obtain al where ctx1: "ctx1 = ctx\<lparr>additional_limit := al\<rparr>"
        using keyless_record_overhead_facts [OF early, THEN conjunct1] by auto
      have "additional_limit ctx' = additional_limit ctx1 \<and> mc_spec ctx' = mc_spec ctx1
        \<and> disable_sandbox ctx' = disable_sandbox ctx1"
        using assms Pair True early
        by (auto simp: execute_keyless_deploy_call_def split: option.splits sum.splits
            dest!: keyless_run_keeps_context)
      then show ?thesis
        using keyless_overhead_aligned [OF early] keyless_overhead_level [OF early, of d] ctx1 by simp
    qed
  qed
  then show "aligned c d (additional_limit ctx) \<Longrightarrow> c + 100000 < 2 ^ 64 \<Longrightarrow>
      aligned (c + 100000) d (additional_limit ctx')"
    "mc_spec ctx' = mc_spec ctx \<and> disable_sandbox ctx' = disable_sandbox ctx"
    "level d (additional_limit ctx') = level d (additional_limit ctx)" by blast+
qed

interpretation hint: system_contract_interceptor "oracle_hint_intercept I" ORACLE_CONTRACT_ADDRESS
  ORACLE_HINT_ACTIVATION_SPEC 0
  by unfold_locales (auto simp: oracle_hint_intercept_def split: if_splits option.splits)

interpretation keyless: system_contract_interceptor "keyless_deploy_intercept I" KEYLESS_DEPLOY_ADDRESS
  KEYLESS_DEPLOY_ACTIVATION_SPEC 100000
  by unfold_locales
    (auto simp: keyless_deploy_intercept_def bind_eq_Some_conv split: if_splits option.splits prod.splits
      elim: aligned_mono dest: keyless_call_keeps)

interpretation access: system_contract_interceptor "access_control_intercept I" ACCESS_CONTROL_ADDRESS
  ACCESS_CONTROL_ACTIVATION_SPEC 0
  by unfold_locales
    (auto simp: access_control_intercept_def Let_def split: if_splits option.splits prod.splits)

interpretation limits: system_contract_interceptor "limit_control_intercept I" LIMIT_CONTROL_ADDRESS
  LIMIT_CONTROL_ACTIVATION_SPEC 0
  by unfold_locales
    (auto simp: limit_control_intercept_def bind_eq_Some_conv split: if_splits option.splits)

section \<open>Properties\<close>

text \<open>The interceptors as a table from addresses to a spec and a function.\<close>

definition interceptor_table ::
  "('ir, 'gas, 'e, 'c, 'm, 'se, 'op, 'te, 'log) intercept_env \<Rightarrow>
   (address \<times> MegaSpecId \<times> ('ir, 'gas, 'e, 'c, 'm, 'se) interceptor) list" where
  "interceptor_table I =
     [(ORACLE_CONTRACT_ADDRESS, REX2, oracle_hint_intercept I),
      (KEYLESS_DEPLOY_ADDRESS, REX2, keyless_deploy_intercept I),
      (ACCESS_CONTROL_ADDRESS, REX4, access_control_intercept I),
      (LIMIT_CONTROL_ADDRESS, REX4, limit_control_intercept I)]"

lemmas activation_specs = ORACLE_HINT_ACTIVATION_SPEC_def KEYLESS_DEPLOY_ACTIVATION_SPEC_def
  ACCESS_CONTROL_ACTIVATION_SPEC_def LIMIT_CONTROL_ACTIVATION_SPEC_def

lemmas address_neqs = system_addresses_neq system_addresses_neq [symmetric]

lemmas pass_through = hint.other_target keyless.other_target access.other_target limits.other_target

lemma oracle_hint_never_intercepts:
  "\<exists>ctx'. oracle_hint_intercept I ci depth ctx = Some (None, ctx') \<and> mc_spec ctx' = mc_spec ctx"
  by (auto simp: oracle_hint_intercept_def split: option.splits)

lemma dispatch_table:
  "dispatch_system_contract_interceptors I ci depth ctx =
     (case map_of (interceptor_table I) (ci_target_address ci) of
        Some (spec, intercept) \<Rightarrow>
          if is_enabled (mc_spec ctx) spec then intercept ci depth ctx else Some (None, ctx)
      | None \<Rightarrow> Some (None, ctx))"
proof -
  obtain ctx' where hint: "oracle_hint_intercept I ci depth ctx = Some (None, ctx')"
    using oracle_hint_never_intercepts by blast
  note dispatch = dispatch_system_contract_interceptors_def interceptor_table_def activation_specs Let_def
  consider "ci_target_address ci = ORACLE_CONTRACT_ADDRESS" | "ci_target_address ci = KEYLESS_DEPLOY_ADDRESS"
    | "ci_target_address ci = ACCESS_CONTROL_ADDRESS" | "ci_target_address ci = LIMIT_CONTROL_ADDRESS"
    | "ci_target_address ci \<notin> {ORACLE_CONTRACT_ADDRESS, KEYLESS_DEPLOY_ADDRESS, ACCESS_CONTROL_ADDRESS,
        LIMIT_CONTROL_ADDRESS}" by blast
  then show ?thesis
  proof cases
    case 1
    then show ?thesis by (simp add: dispatch hint pass_through address_neqs)
  next
    case 2
    then show ?thesis
      by (cases "keyless_deploy_intercept I ci depth ctx")
        (auto simp: dispatch pass_through address_neqs split: option.splits)
  next
    case 3
    then show ?thesis
      by (cases "access_control_intercept I ci depth ctx")
        (auto simp: dispatch pass_through address_neqs split: option.splits)
  next
    case 4
    then show ?thesis by (simp add: dispatch pass_through address_neqs)
  next
    case 5
    then show ?thesis by (simp add: dispatch pass_through)
  qed
qed


lemma dispatch_keeps:
  assumes "dispatch_system_contract_interceptors I ci depth ctx = Some (r, ctx')"
  shows "aligned c d (additional_limit ctx) \<Longrightarrow> c + 100000 < 2 ^ 64 \<Longrightarrow>
      aligned (c + 100000) d (additional_limit ctx')"
    and "mc_spec ctx' = mc_spec ctx \<and> disable_sandbox ctx' = disable_sandbox ctx"
    and "level d (additional_limit ctx') = level d (additional_limit ctx)"
proof -
  have up: "aligned c d al \<Longrightarrow> aligned (c + 100000) d al" for al by (erule aligned_mono) simp
  consider (hint) "oracle_hint_intercept I ci depth ctx = Some (r, ctx')"
    | (keyless) "keyless_deploy_intercept I ci depth ctx = Some (r, ctx')"
    | (access) "access_control_intercept I ci depth ctx = Some (r, ctx')"
    | (limits) "limit_control_intercept I ci depth ctx = Some (r, ctx')" | (pass) "ctx' = ctx"
    using assms [unfolded dispatch_table]
    by (auto simp: interceptor_table_def split: if_splits)
  then have "(aligned c d (additional_limit ctx) \<longrightarrow> c + 100000 < 2 ^ 64 \<longrightarrow>
      aligned (c + 100000) d (additional_limit ctx'))
    \<and> level d (additional_limit ctx') = level d (additional_limit ctx)
    \<and> mc_spec ctx' = mc_spec ctx \<and> disable_sandbox ctx' = disable_sandbox ctx"
  proof cases
    case hint
    then show ?thesis using hint.keeps_limits [OF hint, of c d] hint.keeps_level [OF hint, of d] hint.keeps_spec [OF hint]
      by (auto intro: up)
  next
    case keyless
    then show ?thesis using keyless.keeps_limits [OF keyless, of c d] keyless.keeps_level [OF keyless, of d] keyless.keeps_spec [OF keyless] by simp
  next
    case access
    then show ?thesis using access.keeps_limits [OF access, of c d] access.keeps_level [OF access, of d] access.keeps_spec [OF access]
      by (auto intro: up)
  next
    case limits
    then show ?thesis using limits.keeps_limits [OF limits, of c d] limits.keeps_level [OF limits, of d] limits.keeps_spec [OF limits]
      by (auto intro: up)
  qed (auto intro: up)
  then show "aligned c d (additional_limit ctx) \<Longrightarrow> c + 100000 < 2 ^ 64 \<Longrightarrow>
      aligned (c + 100000) d (additional_limit ctx')"
    "mc_spec ctx' = mc_spec ctx \<and> disable_sandbox ctx' = disable_sandbox ctx"
    "level d (additional_limit ctx') = level d (additional_limit ctx)" by blast+
qed

text \<open>
  Property C26 (dispatch_by_address): the chain of interceptors is a table lookup. A call is handled
  by the one interceptor registered for its target, when the spec of the context activates it, and
  passes through unchanged otherwise; the order of the chain and the fall-through between
  interceptors have no effect.
\<close>

theorem dispatch_by_address:
  "dispatch_system_contract_interceptors I ci depth ctx =
     (case map_of (interceptor_table I) (ci_target_address ci) of
        Some (spec, intercept) \<Rightarrow>
          if is_enabled (mc_spec ctx) spec then intercept ci depth ctx else Some (None, ctx)
      | None \<Rightarrow> Some (None, ctx))"
  by (rule dispatch_table)


definition sample_intercept_env ::
  "(nat, u64, unit, unit, unit, unit, unit, unit, unit) intercept_env" where
  "sample_intercept_env = \<lparr>ie_keyless = sample_keyless_env, decode_send_hint = (\<lambda>_. None),
     decode_keyless_deploy = (\<lambda>i. Some (i, 7)), decode_disable_volatile = (\<lambda>i. i = [1]),
     decode_enable_volatile = (\<lambda>i. i = [2]), decode_is_volatile_disabled = (\<lambda>i. i = [3]),
     encode_is_volatile_disabled = (\<lambda>b. if b then [1] else [0]),
     decode_remaining_compute_gas = (\<lambda>i. i = [4]), encode_remaining_compute_gas = (\<lambda>_. [5]),
     NON_ZERO_TRANSFER_SELECTOR = [6], DISABLED_BY_PARENT_REVERT_DATA = [7]\<rparr>"

definition sample_control_call :: CallInputs where
  "sample_control_call = sample_keyless_call\<lparr>ci_target_address := ACCESS_CONTROL_ADDRESS, ci_input := [1]\<rparr>"


end
