(* ===== verification/Mega_Host.thy ===== *)
theory Mega_Host
  imports Mega_Context
begin

text \<open>
  The \<^verbatim>\<open>Host\<close>, \<^verbatim>\<open>HostExt\<close> and \<^verbatim>\<open>JournalInspectTr\<close> implementations of the context
  (\<^verbatim>\<open>evm/host.rs\<close>): what the interpreter calls. The methods of the upstream context that these
  implementations wrap are the parameter record \<open>H\<close>; the message of a displayed error is the
  parameter \<open>fmt\<close>. A method returns its value and the context it leaves.

  The lemmas show that the calls record exactly the volatile accesses they make, that reads of
  the oracle contract are always cold and prefer the oracle service, and that a failure of an
  environment is never lost: it is stashed in the context whenever a method returns nothing.
\<close>

section \<open>The upstream host\<close>

record 'a StateLoad =
  sl_data :: 'a
  sl_is_cold :: bool

record ('e, 'c, 'm, 'al, 'sd) OpHost =
  oh_basefee :: "('e, 'c, 'm) OpContext \<Rightarrow> u256"
  oh_gas_limit :: "('e, 'c, 'm) OpContext \<Rightarrow> u256"
  oh_difficulty :: "('e, 'c, 'm) OpContext \<Rightarrow> u256"
  oh_prevrandao :: "('e, 'c, 'm) OpContext \<Rightarrow> u256 option"
  oh_block_number :: "('e, 'c, 'm) OpContext \<Rightarrow> u256"
  oh_timestamp :: "('e, 'c, 'm) OpContext \<Rightarrow> u256"
  oh_beneficiary :: "('e, 'c, 'm) OpContext \<Rightarrow> address"
  oh_block_hash :: "u64 \<Rightarrow> ('e, 'c, 'm) OpContext \<Rightarrow> b256 option \<times> ('e, 'c, 'm) OpContext"
  oh_blob_gasprice :: "('e, 'c, 'm) OpContext \<Rightarrow> u256"
  oh_blob_hash :: "usize \<Rightarrow> ('e, 'c, 'm) OpContext \<Rightarrow> u256 option"
  oh_caller :: "('e, 'c, 'm) OpContext \<Rightarrow> address"
  oh_selfdestruct :: "address \<Rightarrow> address \<Rightarrow> ('e, 'c, 'm) OpContext \<Rightarrow>
    'sd StateLoad option \<times> ('e, 'c, 'm) OpContext"
  oh_sload :: "address \<Rightarrow> u256 \<Rightarrow> ('e, 'c, 'm) OpContext \<Rightarrow>
    u256 StateLoad option \<times> ('e, 'c, 'm) OpContext"
  oh_balance :: "address \<Rightarrow> ('e, 'c, 'm) OpContext \<Rightarrow> u256 StateLoad option \<times> ('e, 'c, 'm) OpContext"
  oh_load_account_delegated :: "address \<Rightarrow> ('e, 'c, 'm) OpContext \<Rightarrow>
    'al StateLoad option \<times> ('e, 'c, 'm) OpContext"
  oh_load_account_code :: "address \<Rightarrow> ('e, 'c, 'm) OpContext \<Rightarrow>
    bytes StateLoad option \<times> ('e, 'c, 'm) OpContext"
  oh_load_account_code_hash :: "address \<Rightarrow> ('e, 'c, 'm) OpContext \<Rightarrow>
    b256 StateLoad option \<times> ('e, 'c, 'm) OpContext"

section \<open>Host\<close>

text \<open>Calling a method of the inner context: a reading one and an updating one.\<close>

definition reading ::
  "(('e, 'c, 'm) OpContext \<Rightarrow> 'r) \<Rightarrow> ('e, 'c, 'm, 'se) MegaContext \<Rightarrow> 'r \<times> ('e, 'c, 'm, 'se) MegaContext"
  where
  "reading f ctx = (f (inner ctx), ctx)"

definition calling ::
  "(('e, 'c, 'm) OpContext \<Rightarrow> 'r \<times> ('e, 'c, 'm) OpContext) \<Rightarrow> ('e, 'c, 'm, 'se) MegaContext \<Rightarrow>
   'r \<times> ('e, 'c, 'm, 'se) MegaContext" where
  "calling f ctx = (case f (inner ctx) of (r, inn) \<Rightarrow> (r, ctx\<lparr>inner := inn\<rparr>))"

definition host_basefee ::
  "('e, 'c, 'm, 'al, 'sd) OpHost \<Rightarrow> ('e, 'c, 'm, 'se) MegaContext \<Rightarrow> u256 \<times> ('e, 'c, 'm, 'se) MegaContext"
  where
  "host_basefee H ctx = reading (oh_basefee H) (mark_block_env_accessed BaseFee ctx)"

definition host_gas_limit ::
  "('e, 'c, 'm, 'al, 'sd) OpHost \<Rightarrow> ('e, 'c, 'm, 'se) MegaContext \<Rightarrow> u256 \<times> ('e, 'c, 'm, 'se) MegaContext"
  where
  "host_gas_limit H ctx = reading (oh_gas_limit H) (mark_block_env_accessed GasLimit ctx)"

definition host_difficulty ::
  "('e, 'c, 'm, 'al, 'sd) OpHost \<Rightarrow> ('e, 'c, 'm, 'se) MegaContext \<Rightarrow> u256 \<times> ('e, 'c, 'm, 'se) MegaContext"
  where
  "host_difficulty H ctx = reading (oh_difficulty H) (mark_block_env_accessed Difficulty ctx)"

definition host_prevrandao ::
  "('e, 'c, 'm, 'al, 'sd) OpHost \<Rightarrow> ('e, 'c, 'm, 'se) MegaContext \<Rightarrow>
   u256 option \<times> ('e, 'c, 'm, 'se) MegaContext" where
  "host_prevrandao H ctx = reading (oh_prevrandao H) (mark_block_env_accessed PrevRandao ctx)"

definition host_block_number ::
  "('e, 'c, 'm, 'al, 'sd) OpHost \<Rightarrow> ('e, 'c, 'm, 'se) MegaContext \<Rightarrow> u256 \<times> ('e, 'c, 'm, 'se) MegaContext"
  where
  "host_block_number H ctx = reading (oh_block_number H) (mark_block_env_accessed BlockNumber ctx)"

definition host_timestamp ::
  "('e, 'c, 'm, 'al, 'sd) OpHost \<Rightarrow> ('e, 'c, 'm, 'se) MegaContext \<Rightarrow> u256 \<times> ('e, 'c, 'm, 'se) MegaContext"
  where
  "host_timestamp H ctx = reading (oh_timestamp H) (mark_block_env_accessed Timestamp ctx)"

definition host_beneficiary ::
  "('e, 'c, 'm, 'al, 'sd) OpHost \<Rightarrow> ('e, 'c, 'm, 'se) MegaContext \<Rightarrow>
   address \<times> ('e, 'c, 'm, 'se) MegaContext" where
  "host_beneficiary H ctx = reading (oh_beneficiary H) (mark_block_env_accessed Coinbase ctx)"

definition host_block_hash ::
  "('e, 'c, 'm, 'al, 'sd) OpHost \<Rightarrow> u64 \<Rightarrow> ('e, 'c, 'm, 'se) MegaContext \<Rightarrow>
   b256 option \<times> ('e, 'c, 'm, 'se) MegaContext" where
  "host_block_hash H number ctx = calling (oh_block_hash H number) (mark_block_env_accessed BlockHash ctx)"

definition host_blob_gasprice ::
  "('e, 'c, 'm, 'al, 'sd) OpHost \<Rightarrow> ('e, 'c, 'm, 'se) MegaContext \<Rightarrow> u256 \<times> ('e, 'c, 'm, 'se) MegaContext"
  where
  "host_blob_gasprice H ctx = reading (oh_blob_gasprice H) (mark_block_env_accessed BlobBaseFee ctx)"

definition host_blob_hash ::
  "('e, 'c, 'm, 'al, 'sd) OpHost \<Rightarrow> usize \<Rightarrow> ('e, 'c, 'm, 'se) MegaContext \<Rightarrow>
   u256 option \<times> ('e, 'c, 'm, 'se) MegaContext" where
  "host_blob_hash H number ctx = reading (oh_blob_hash H number) (mark_block_env_accessed BlobHash ctx)"

definition host_selfdestruct ::
  "('e, 'c, 'm, 'al, 'sd) OpHost \<Rightarrow> address \<Rightarrow> address \<Rightarrow> ('e, 'c, 'm, 'se) MegaContext \<Rightarrow>
   'sd StateLoad option \<times> ('e, 'c, 'm, 'se) MegaContext" where
  "host_selfdestruct H address target ctx =
     (let ctx = (if is_enabled (mc_spec ctx) REX4
                 then snd (check_and_mark_beneficiary_balance_access target ctx) else ctx)
      in calling (oh_selfdestruct H address target) ctx)"

definition host_sload ::
  "('e, 'c, 'm, 'al, 'sd) OpHost \<Rightarrow> address \<Rightarrow> u256 \<Rightarrow> ('e, 'c, 'm, 'se) MegaContext \<Rightarrow>
   u256 StateLoad option \<times> ('e, 'c, 'm, 'se) MegaContext" where
  "host_sload H address key ctx =
     (if is_enabled (mc_spec ctx) MINI_REX \<and> address = ORACLE_CONTRACT_ADDRESS
      then let ctx = (if is_enabled (mc_spec ctx) REX3 \<and> oh_caller H (inner ctx) \<noteq> MEGA_SYSTEM_ADDRESS
                      then ctx\<lparr>volatile_data_tracker :=
                                 snd (check_and_mark_oracle_access address (volatile_data_tracker ctx))\<rparr>
                      else ctx)
           in (case get_oracle_storage (oracle_env ctx) key of
                 Some value \<Rightarrow> (Some \<lparr>sl_data = value, sl_is_cold = True\<rparr>, ctx)
               | None \<Rightarrow>
                   (case calling (oh_sload H address key) ctx of (state_load, ctx) \<Rightarrow>
                      (map_option (\<lambda>l. l\<lparr>sl_is_cold := True\<rparr>) state_load, ctx)))
      else calling (oh_sload H address key) ctx)"

definition host_balance ::
  "('e, 'c, 'm, 'al, 'sd) OpHost \<Rightarrow> address \<Rightarrow> ('e, 'c, 'm, 'se) MegaContext \<Rightarrow>
   u256 StateLoad option \<times> ('e, 'c, 'm, 'se) MegaContext" where
  "host_balance H address ctx =
     calling (oh_balance H address) (snd (check_and_mark_beneficiary_balance_access address ctx))"

definition host_load_account_delegated ::
  "('e, 'c, 'm, 'al, 'sd) OpHost \<Rightarrow> address \<Rightarrow> ('e, 'c, 'm, 'se) MegaContext \<Rightarrow>
   'al StateLoad option \<times> ('e, 'c, 'm, 'se) MegaContext" where
  "host_load_account_delegated H address ctx =
     calling (oh_load_account_delegated H address)
       (snd (check_and_mark_beneficiary_balance_access address ctx))"

definition host_load_account_code ::
  "('e, 'c, 'm, 'al, 'sd) OpHost \<Rightarrow> address \<Rightarrow> ('e, 'c, 'm, 'se) MegaContext \<Rightarrow>
   bytes StateLoad option \<times> ('e, 'c, 'm, 'se) MegaContext" where
  "host_load_account_code H address ctx =
     calling (oh_load_account_code H address)
       (snd (check_and_mark_beneficiary_balance_access address ctx))"

definition host_load_account_code_hash ::
  "('e, 'c, 'm, 'al, 'sd) OpHost \<Rightarrow> address \<Rightarrow> ('e, 'c, 'm, 'se) MegaContext \<Rightarrow>
   b256 StateLoad option \<times> ('e, 'c, 'm, 'se) MegaContext" where
  "host_load_account_code_hash H address ctx =
     calling (oh_load_account_code_hash H address)
       (snd (check_and_mark_beneficiary_balance_access address ctx))"

section \<open>HostExt\<close>

text \<open>\<^verbatim>\<open>result.map_err(..).ok()\<close>: an error is stashed in the context.\<close>

definition stash_error ::
  "('x \<Rightarrow> string) \<Rightarrow> 'x + 'r \<Rightarrow> ('e, 'c, 'm, 'se) MegaContext \<Rightarrow> 'r option \<times> ('e, 'c, 'm, 'se) MegaContext"
  where
  "stash_error fmt result ctx =
     (case result of
        Inl e \<Rightarrow> (None, ctx\<lparr>inner := (inner ctx)\<lparr>op_error := Some (CustomError (fmt e))\<rparr>\<rparr>)
      | Inr r \<Rightarrow> (Some r, ctx))"

definition sstore_set_storage_gas ::
  "('se \<Rightarrow> string) \<Rightarrow> address \<Rightarrow> u256 \<Rightarrow> ('e, 'c, 'm, 'se) MegaContext \<Rightarrow>
   u64 option \<times> ('e, 'c, 'm, 'se) MegaContext" where
  "sstore_set_storage_gas fmt address key ctx =
     (case sstore_set_gas address key (dynamic_storage_gas_cost ctx) of
        (result, dg) \<Rightarrow> stash_error fmt result (ctx\<lparr>dynamic_storage_gas_cost := dg\<rparr>))"

definition new_account_storage_gas ::
  "('se \<Rightarrow> string) \<Rightarrow> address \<Rightarrow> ('e, 'c, 'm, 'se) MegaContext \<Rightarrow>
   u64 option \<times> ('e, 'c, 'm, 'se) MegaContext" where
  "new_account_storage_gas fmt address ctx =
     (case new_account_gas address (dynamic_storage_gas_cost ctx) of
        (result, dg) \<Rightarrow> stash_error fmt result (ctx\<lparr>dynamic_storage_gas_cost := dg\<rparr>))"

definition create_contract_storage_gas ::
  "('se \<Rightarrow> string) \<Rightarrow> address \<Rightarrow> ('e, 'c, 'm, 'se) MegaContext \<Rightarrow>
   u64 option \<times> ('e, 'c, 'm, 'se) MegaContext" where
  "create_contract_storage_gas fmt address ctx =
     (case create_contract_gas address (dynamic_storage_gas_cost ctx) of
        (result, dg) \<Rightarrow> stash_error fmt result (ctx\<lparr>dynamic_storage_gas_cost := dg\<rparr>))"

definition host_volatile_access_disabled :: "('e, 'c, 'm, 'se) MegaContext \<Rightarrow> bool" where
  "host_volatile_access_disabled ctx =
     volatile_access_disabled (j_depth (op_journal (inner ctx))) (volatile_data_tracker ctx)"

definition beneficiary_address :: "('e, 'c, 'm, 'se) MegaContext \<Rightarrow> address" where
  "beneficiary_address ctx = block_env_beneficiary (op_block (inner ctx))"

section \<open>Inspection through the context\<close>

definition ctx_inspect_account_delegated ::
  "('e \<Rightarrow> string) \<Rightarrow> MegaSpecId \<Rightarrow> address \<Rightarrow> ('e, 'c, 'm, 'se) MegaContext \<Rightarrow>
   (address \<times> Account) option \<times> ('e, 'c, 'm, 'se) MegaContext" where
  "ctx_inspect_account_delegated fmt spec address ctx =
     (case inspect_account_delegated (op_db (inner ctx)) spec address (op_journal (inner ctx)) of
        (result, j) \<Rightarrow> stash_error fmt result (ctx\<lparr>inner := (inner ctx)\<lparr>op_journal := j\<rparr>\<rparr>))"

definition ctx_inspect_storage ::
  "('e \<Rightarrow> string) \<Rightarrow> MegaSpecId \<Rightarrow> address \<Rightarrow> u256 \<Rightarrow> ('e, 'c, 'm, 'se) MegaContext \<Rightarrow>
   (EvmStorageSlot option \<times> ('e, 'c, 'm, 'se) MegaContext) option" where
  "ctx_inspect_storage fmt spec address key ctx = do {
     (result, j) \<leftarrow> inspect_storage (op_db (inner ctx)) spec address key (op_journal (inner ctx));
     Some (stash_error fmt result (ctx\<lparr>inner := (inner ctx)\<lparr>op_journal := j\<rparr>\<rparr>))
   }"

section \<open>Sequences of host calls\<close>

text \<open>The calls an interpreter makes that may touch volatile data.\<close>

datatype host_call =
    CallBaseFee | CallGasLimit | CallDifficulty | CallPrevRandao | CallNumber | CallTimestamp
  | CallCoinbase | CallBlockHash u64 | CallBlobBaseFee | CallBlobHash usize
  | CallSelfdestruct address address | CallSload address u256 | CallBalance address
  | CallDelegated address | CallCode address | CallCodeHash address

fun host_step ::
  "('e, 'c, 'm, 'al, 'sd) OpHost \<Rightarrow> host_call \<Rightarrow> ('e, 'c, 'm, 'se) MegaContext \<Rightarrow>
   ('e, 'c, 'm, 'se) MegaContext" where
  "host_step H CallBaseFee ctx = snd (host_basefee H ctx)"
| "host_step H CallGasLimit ctx = snd (host_gas_limit H ctx)"
| "host_step H CallDifficulty ctx = snd (host_difficulty H ctx)"
| "host_step H CallPrevRandao ctx = snd (host_prevrandao H ctx)"
| "host_step H CallNumber ctx = snd (host_block_number H ctx)"
| "host_step H CallTimestamp ctx = snd (host_timestamp H ctx)"
| "host_step H CallCoinbase ctx = snd (host_beneficiary H ctx)"
| "host_step H (CallBlockHash n) ctx = snd (host_block_hash H n ctx)"
| "host_step H CallBlobBaseFee ctx = snd (host_blob_gasprice H ctx)"
| "host_step H (CallBlobHash n) ctx = snd (host_blob_hash H n ctx)"
| "host_step H (CallSelfdestruct a b) ctx = snd (host_selfdestruct H a b ctx)"
| "host_step H (CallSload a k) ctx = snd (host_sload H a k ctx)"
| "host_step H (CallBalance a) ctx = snd (host_balance H a ctx)"
| "host_step H (CallDelegated a) ctx = snd (host_load_account_delegated H a ctx)"
| "host_step H (CallCode a) ctx = snd (host_load_account_code H a ctx)"
| "host_step H (CallCodeHash a) ctx = snd (host_load_account_code_hash H a ctx)"

text \<open>The specification: the volatile accesses a call makes, given the spec, the beneficiary and the
  sender of the transaction.\<close>

fun accesses_of :: "MegaSpecId \<Rightarrow> address \<Rightarrow> address \<Rightarrow> host_call \<Rightarrow> volatile_event list" where
  "accesses_of spec benef sender CallBaseFee = [BlockEnvEvent BaseFee]"
| "accesses_of spec benef sender CallGasLimit = [BlockEnvEvent GasLimit]"
| "accesses_of spec benef sender CallDifficulty = [BlockEnvEvent Difficulty]"
| "accesses_of spec benef sender CallPrevRandao = [BlockEnvEvent PrevRandao]"
| "accesses_of spec benef sender CallNumber = [BlockEnvEvent BlockNumber]"
| "accesses_of spec benef sender CallTimestamp = [BlockEnvEvent Timestamp]"
| "accesses_of spec benef sender CallCoinbase = [BlockEnvEvent Coinbase]"
| "accesses_of spec benef sender (CallBlockHash n) = [BlockEnvEvent BlockHash]"
| "accesses_of spec benef sender CallBlobBaseFee = [BlockEnvEvent BlobBaseFee]"
| "accesses_of spec benef sender (CallBlobHash n) = [BlockEnvEvent BlobHash]"
| "accesses_of spec benef sender (CallSelfdestruct a b) =
     (if is_enabled spec REX4 \<and> b = benef then [BeneficiaryEvent] else [])"
| "accesses_of spec benef sender (CallSload a k) =
     (if is_enabled spec REX3 \<and> a = ORACLE_CONTRACT_ADDRESS \<and> sender \<noteq> MEGA_SYSTEM_ADDRESS
      then [OracleEvent a] else [])"
| "accesses_of spec benef sender (CallBalance a) = (if a = benef then [BeneficiaryEvent] else [])"
| "accesses_of spec benef sender (CallDelegated a) = (if a = benef then [BeneficiaryEvent] else [])"
| "accesses_of spec benef sender (CallCode a) = (if a = benef then [BeneficiaryEvent] else [])"
| "accesses_of spec benef sender (CallCodeHash a) = (if a = benef then [BeneficiaryEvent] else [])"

text \<open>What is documented of the upstream methods: they change neither the block nor the sender.\<close>

definition host_documented :: "('e, 'c, 'm, 'al, 'sd) OpHost \<Rightarrow> bool" where
  "host_documented H \<longleftrightarrow> (\<forall>c c'. op_block c' = op_block c \<and> op_tx c' = op_tx c \<longrightarrow>
       oh_caller H c' = oh_caller H c)
     \<and> (\<forall>c n. op_block (snd (oh_block_hash H n c)) = op_block c \<and> op_tx (snd (oh_block_hash H n c)) = op_tx c)
     \<and> (\<forall>c a b. op_block (snd (oh_selfdestruct H a b c)) = op_block c
           \<and> op_tx (snd (oh_selfdestruct H a b c)) = op_tx c)
     \<and> (\<forall>c a k. op_block (snd (oh_sload H a k c)) = op_block c \<and> op_tx (snd (oh_sload H a k c)) = op_tx c)
     \<and> (\<forall>c a. op_block (snd (oh_balance H a c)) = op_block c \<and> op_tx (snd (oh_balance H a c)) = op_tx c)
     \<and> (\<forall>c a. op_block (snd (oh_load_account_delegated H a c)) = op_block c
           \<and> op_tx (snd (oh_load_account_delegated H a c)) = op_tx c)
     \<and> (\<forall>c a. op_block (snd (oh_load_account_code H a c)) = op_block c
           \<and> op_tx (snd (oh_load_account_code H a c)) = op_tx c)
     \<and> (\<forall>c a. op_block (snd (oh_load_account_code_hash H a c)) = op_block c
           \<and> op_tx (snd (oh_load_account_code_hash H a c)) = op_tx c)"

lemmas host_defs = host_basefee_def host_gas_limit_def host_difficulty_def host_prevrandao_def
  host_block_number_def host_timestamp_def host_beneficiary_def host_block_hash_def
  host_blob_gasprice_def host_blob_hash_def host_selfdestruct_def host_sload_def host_balance_def
  host_load_account_delegated_def host_load_account_code_def host_load_account_code_hash_def

lemma reading_snd [simp]: "snd (reading f ctx) = ctx"
  by (simp add: reading_def)

lemma calling_snd: "snd (calling f ctx) = ctx\<lparr>inner := snd (f (inner ctx))\<rparr>"
  by (simp add: calling_def split: prod.split)

lemma mark_beneficiary_snd:
  "snd (check_and_mark_beneficiary_balance_access a ctx) =
     ctx\<lparr>volatile_data_tracker := fold volatile_step
       (if a = beneficiary_address ctx then [BeneficiaryEvent] else []) (volatile_data_tracker ctx)\<rparr>"
  by (simp add: check_and_mark_beneficiary_balance_access_def beneficiary_address_def)

lemma host_step_tracker:
  "volatile_data_tracker (host_step H call ctx) =
     fold volatile_step (accesses_of (mc_spec ctx) (beneficiary_address ctx) (oh_caller H (inner ctx)) call)
       (volatile_data_tracker ctx)"
proof -
  have rex3: "is_enabled s REX3 \<Longrightarrow> is_enabled s MINI_REX" for s
    by (cases s) (simp_all add: is_enabled_def)
  show ?thesis
    by (cases call)
      (auto simp: host_defs calling_def mark_beneficiary_snd mark_block_env_accessed_def Let_def
        beneficiary_address_def check_and_mark_oracle_access_def rex3
        split: option.splits prod.splits if_splits)
qed

lemma host_sload_inner:
  "inner (snd (host_sload H a k ctx)) = inner ctx
   \<or> inner (snd (host_sload H a k ctx)) = snd (oh_sload H a k (inner ctx))"
  "mc_spec (snd (host_sload H a k ctx)) = mc_spec ctx"
  by (auto simp: host_sload_def calling_def Let_def split: option.splits prod.splits if_splits)

lemma host_documented_caller:
  assumes "host_documented H" and "op_block c' = op_block c" and "op_tx c' = op_tx c"
  shows "oh_caller H c' = oh_caller H c"
  using assms(1) [unfolded host_documented_def, THEN conjunct1] assms(2,3) by blast

lemma host_step_frame:
  assumes "host_documented H"
  shows "mc_spec (host_step H call ctx) = mc_spec ctx
    \<and> op_block (inner (host_step H call ctx)) = op_block (inner ctx)
    \<and> op_tx (inner (host_step H call ctx)) = op_tx (inner ctx)"
proof -
  note docs = assms [unfolded host_documented_def, THEN conjunct2]
  show ?thesis
  proof (cases call)
    case (CallSload a k)
    have kept: "op_block (snd (oh_sload H a k (inner ctx))) = op_block (inner ctx)"
      "op_tx (snd (oh_sload H a k (inner ctx))) = op_tx (inner ctx)"
      using docs by simp_all
    from host_sload_inner(1) [of H a k ctx] show ?thesis
      using kept host_sload_inner(2) [of H a k ctx] CallSload by (elim disjE) simp_all
  qed (use docs in \<open>simp_all add: host_defs calling_snd mark_beneficiary_snd
      mark_block_env_accessed_def Let_def\<close>)
qed

section \<open>Properties\<close>

text \<open>
  Property C22 (host_calls_track_accesses): tracking is complete and exact. After any sequence of host
  calls the tracker is what the accesses of these calls, and nothing else, make of it: each block
  value its own flag, balances and code of the beneficiary, storage of the oracle contract in Rex3
  unless the system address sent the transaction, and targets of a self-destruction in Rex4.
\<close>

theorem host_calls_track_accesses:
  assumes "host_documented H"
  shows "volatile_data_tracker (fold (host_step H) calls ctx) =
    fold volatile_step (concat (map (accesses_of (mc_spec ctx) (beneficiary_address ctx)
      (oh_caller H (inner ctx))) calls)) (volatile_data_tracker ctx)"
proof (induction calls arbitrary: ctx)
  case (Cons call calls)
  let ?ctx = "host_step H call ctx"
  note frame = host_step_frame [OF assms, of call ctx]
  have "oh_caller H (inner ?ctx) = oh_caller H (inner ctx)"
    using frame by (intro host_documented_caller [OF assms]) simp_all
  with frame show ?case using Cons [of ?ctx] by (simp add: host_step_tracker beneficiary_address_def)
qed simp

definition sample_host :: "(unit, unit, unit, unit, unit) OpHost" where
  "sample_host = \<lparr>oh_basefee = (\<lambda>_. 7), oh_gas_limit = (\<lambda>_. 0), oh_difficulty = (\<lambda>_. 0),
     oh_prevrandao = (\<lambda>_. None), oh_block_number = (\<lambda>c. block_env_number (op_block c)),
     oh_timestamp = (\<lambda>_. 0), oh_beneficiary = (\<lambda>c. block_env_beneficiary (op_block c)),
     oh_block_hash = (\<lambda>_ c. (None, c)), oh_blob_gasprice = (\<lambda>_. 0), oh_blob_hash = (\<lambda>_ _. None),
     oh_caller = (\<lambda>c. tx_caller (op_tx c)), oh_selfdestruct = (\<lambda>_ _ c. (None, c)),
     oh_sload = (\<lambda>_ _ c. (Some \<lparr>sl_data = 5, sl_is_cold = False\<rparr>, c)), oh_balance = (\<lambda>_ c. (None, c)),
     oh_load_account_delegated = (\<lambda>_ c. (None, c)), oh_load_account_code = (\<lambda>_ c. (None, c)),
     oh_load_account_code_hash = (\<lambda>_ c. (None, c))\<rparr>"

theorem host_calls_track_accesses_witness:
  "volatile_data_tracker (fold (host_step sample_host)
     [CallTimestamp, CallBalance 3, CallBalance 4, CallSload ORACLE_CONTRACT_ADDRESS 0] (sample_context REX4)) =
   fold volatile_step [BlockEnvEvent Timestamp, BeneficiaryEvent, OracleEvent ORACLE_CONTRACT_ADDRESS]
     (volatile_new 20000000 20000000)"
proof -
  have "host_documented sample_host" by (simp add: host_documented_def sample_host_def)
  from host_calls_track_accesses [OF this, of "[CallTimestamp, CallBalance 3, CallBalance 4,
      CallSload ORACLE_CONTRACT_ADDRESS 0]" "sample_context REX4"]
  show ?thesis
    by (simp add: sample_context_def sample_op_context_def sample_host_def sample_tx_def
        beneficiary_address_def MEGA_SYSTEM_ADDRESS_def is_enabled_def)
qed

text \<open>
  A storage read from MiniRex on. At the oracle contract it
  returns the value of the oracle service when that has one and the state's value otherwise, and
  always counts as cold; before MiniRex and at any other address it is the plain read.
\<close>

lemma oracle_reads_are_cold:
  "fst (host_sload H address key ctx) =
     (if is_enabled (mc_spec ctx) MINI_REX \<and> address = ORACLE_CONTRACT_ADDRESS
      then (case get_oracle_storage (oracle_env ctx) key of
              Some v \<Rightarrow> Some \<lparr>sl_data = v, sl_is_cold = True\<rparr>
            | None \<Rightarrow> map_option (\<lambda>l. \<lparr>sl_data = sl_data l, sl_is_cold = True\<rparr>)
                        (fst (oh_sload H address key (inner ctx))))
      else fst (oh_sload H address key (inner ctx)))
   \<and> oracle_env (snd (host_sload H address key ctx)) = oracle_env ctx
   \<and> additional_limit (snd (host_sload H address key ctx)) = additional_limit ctx"
proof -
  have "map_option (\<lambda>l. l\<lparr>sl_is_cold := True\<rparr>) x = map_option (\<lambda>l. \<lparr>sl_data = sl_data l, sl_is_cold = True\<rparr>) x"
    for x :: "'x StateLoad option" by (cases x) simp_all
  then show ?thesis
    by (auto simp: host_sload_def calling_def Let_def split: option.split prod.split)
qed

text \<open>
  The storage gas queries of the host. They return nothing
  exactly when the SALT environment failed, and then the error is in the context; an answer leaves
  the error of the context as it was.
\<close>

lemma gas_failures_are_stashed:
  "case sstore_set_storage_gas fmt address key ctx of (r, ctx') \<Rightarrow>
     (case fst (sstore_set_gas address key (dynamic_storage_gas_cost ctx)) of
        Inl e \<Rightarrow> r = None \<and> op_error (inner ctx') = Some (CustomError (fmt e))
      | Inr gas \<Rightarrow> r = Some gas \<and> inner ctx' = inner ctx)
   \<and> (case new_account_storage_gas fmt address ctx of (r, ctx') \<Rightarrow>
     (case fst (new_account_gas address (dynamic_storage_gas_cost ctx)) of
        Inl e \<Rightarrow> r = None \<and> op_error (inner ctx') = Some (CustomError (fmt e))
      | Inr gas \<Rightarrow> r = Some gas \<and> inner ctx' = inner ctx))
   \<and> (case create_contract_storage_gas fmt address ctx of (r, ctx') \<Rightarrow>
     (case fst (create_contract_gas address (dynamic_storage_gas_cost ctx)) of
        Inl e \<Rightarrow> r = None \<and> op_error (inner ctx') = Some (CustomError (fmt e))
      | Inr gas \<Rightarrow> r = Some gas \<and> inner ctx' = inner ctx))"
  by (simp add: sstore_set_storage_gas_def new_account_storage_gas_def create_contract_storage_gas_def
      stash_error_def split: prod.split sum.split)

end
