(* ===== verification/Mega_Evm.thy ===== *)
theory Mega_Evm
  imports Interceptors Mega_Host
begin

text \<open>
  The state of the EVM and its frame hooks: the implementations of \<^verbatim>\<open>EvmTr\<close> and
  \<^verbatim>\<open>InspectorEvmTr\<close> in \<^verbatim>\<open>evm/execution.rs\<close>. The upstream EVM is the context and the rest
  \<open>evm_inner\<close> (frame stack, instruction table, precompiles, inspector). The methods of the upstream
  EVM, frame, interpreter and inspector are the parameter record \<open>U\<close>; they work on the whole state.
  A hook returns an error or a value together with the new state, or \<^term>\<open>None\<close> when it panics;
  \<open>and_then\<close> is the \<^verbatim>\<open>?\<close> operator on such hooks.
\<close>

section \<open>State and upstream operations\<close>

record ('e, 'c, 'm, 'se, 'st) MegaEvm =
  evm_ctx :: "('e, 'c, 'm, 'se) MegaContext"
  evm_inner :: 'st

type_synonym ('s, 'err, 'a) hook = "'s \<Rightarrow> (('err + 'a) \<times> 's) option"

definition and_then :: "('s, 'err, 'a) hook \<Rightarrow> ('a \<Rightarrow> ('s, 'err, 'b) hook) \<Rightarrow> ('s, 'err, 'b) hook" where
  "and_then m f s =
     (case m s of
        None \<Rightarrow> None
      | Some (r, s) \<Rightarrow> (case r of Inl e \<Rightarrow> Some (Inl e, s) | Inr a \<Rightarrow> f a s))"

text \<open>An upstream method does not panic: it returns a result and a state.\<close>

definition upstream :: "('s \<Rightarrow> ('err + 'a) \<times> 's) \<Rightarrow> ('s, 'err, 'a) hook" where
  "upstream f s = Some (f s)"

record ('ir, 'gas, 'e, 'c, 'm, 'se, 'op, 'te, 'log, 'st) evm_env =
  ue_intercept :: "('ir, 'gas, 'e, 'c, 'm, 'se, 'op, 'te, 'log) intercept_env"
  ue_limit_data :: "u8 \<Rightarrow> u64 \<Rightarrow> bytes"
  up_frame_init :: "FrameInit \<Rightarrow> ('e, 'c, 'm, 'se, 'st) MegaEvm \<Rightarrow>
    ('e ContextError + ('gas EthFrame, ('ir, 'gas) FrameResult) ItemOrResult) \<times> ('e, 'c, 'm, 'se, 'st) MegaEvm"
  up_frame_return_result :: "('ir, 'gas) FrameResult \<Rightarrow> ('e, 'c, 'm, 'se, 'st) MegaEvm \<Rightarrow>
    ('e ContextError + ('ir, 'gas) FrameResult option) \<times> ('e, 'c, 'm, 'se, 'st) MegaEvm"
  up_top_frame :: "('e, 'c, 'm, 'se, 'st) MegaEvm \<Rightarrow> 'gas EthFrame"
  up_top_frame_input :: "('e, 'c, 'm, 'se, 'st) MegaEvm \<Rightarrow> FrameInput"
  up_run_plain :: "('e, 'c, 'm, 'se, 'st) MegaEvm \<Rightarrow>
    (('ir, 'gas) InterpreterAction \<times> ('e, 'c, 'm, 'se, 'st) MegaEvm) option"
  up_inspect_instructions :: "('e, 'c, 'm, 'se, 'st) MegaEvm \<Rightarrow>
    (('ir, 'gas) InterpreterAction \<times> ('e, 'c, 'm, 'se, 'st) MegaEvm) option"
  up_process_next_action :: "('ir, 'gas) InterpreterAction \<Rightarrow> ('e, 'c, 'm, 'se, 'st) MegaEvm \<Rightarrow>
    ('e ContextError + (FrameInit, ('ir, 'gas) FrameResult) ItemOrResult) \<times> ('e, 'c, 'm, 'se, 'st) MegaEvm"
  up_set_finished :: "('e, 'c, 'm, 'se, 'st) MegaEvm \<Rightarrow> ('e, 'c, 'm, 'se, 'st) MegaEvm"
  up_frame_start :: "FrameInput \<Rightarrow> ('e, 'c, 'm, 'se, 'st) MegaEvm \<Rightarrow>
    ('ir, 'gas) FrameResult option \<times> FrameInput \<times> ('e, 'c, 'm, 'se, 'st) MegaEvm"
  up_frame_end :: "FrameInput \<Rightarrow> ('ir, 'gas) FrameResult \<Rightarrow> ('e, 'c, 'm, 'se, 'st) MegaEvm \<Rightarrow>
    ('ir, 'gas) FrameResult \<times> ('e, 'c, 'm, 'se, 'st) MegaEvm"
  up_initialize_interp :: "('e, 'c, 'm, 'se, 'st) MegaEvm \<Rightarrow> ('e, 'c, 'm, 'se, 'st) MegaEvm"

abbreviation ue_revm where
  "ue_revm U \<equiv> ie_revm (ue_intercept U)"

definition evm_spec :: "('e, 'c, 'm, 'se, 'st) MegaEvm \<Rightarrow> MegaSpecId" where
  "evm_spec evm = mc_spec (evm_ctx evm)"

definition evm_limit :: "('e, 'c, 'm, 'se, 'st) MegaEvm \<Rightarrow> AdditionalLimit" where
  "evm_limit evm = additional_limit (evm_ctx evm)"

definition set_limit ::
  "AdditionalLimit \<Rightarrow> ('e, 'c, 'm, 'se, 'st) MegaEvm \<Rightarrow> ('e, 'c, 'm, 'se, 'st) MegaEvm" where
  "set_limit al evm = evm\<lparr>evm_ctx := (evm_ctx evm)\<lparr>additional_limit := al\<rparr>\<rparr>"

section \<open>Entering a frame\<close>

text \<open>Detention by a call of the oracle contract, from MiniRex until Rex3.\<close>

definition detects_oracle :: "bool \<Rightarrow> CallScheme \<Rightarrow> bool" where
  "detects_oracle is_rex_enabled scheme =
     (case scheme of
        SchemeCall \<Rightarrow> True
      | SchemeStaticCall \<Rightarrow> is_rex_enabled
      | SchemeCallCode \<Rightarrow> False
      | SchemeDelegateCall \<Rightarrow> False)"

definition mark_oracle_call ::
  "FrameInit \<Rightarrow> ('e, 'c, 'm, 'se) MegaContext \<Rightarrow> ('e, 'c, 'm, 'se) MegaContext option" where
  "mark_oracle_call frame_init ctx =
     (if is_enabled (mc_spec ctx) MINI_REX \<and> \<not> is_enabled (mc_spec ctx) REX3
      then case fi_input frame_init of
             CallInput call_inputs \<Rightarrow>
               if detects_oracle (is_enabled (mc_spec ctx) REX) (ci_scheme call_inputs)
                  \<and> ci_caller call_inputs \<noteq> MEGA_SYSTEM_ADDRESS
               then (case check_and_mark_oracle_access (ci_target_address call_inputs)
                            (volatile_data_tracker ctx) of
                       (marked, tracker) \<Rightarrow>
                         let ctx = ctx\<lparr>volatile_data_tracker := tracker\<rparr>
                         in if marked
                            then (case get_compute_gas_limit tracker of
                                    Some limit \<Rightarrow> do {
                                      al \<leftarrow> set_compute_gas_limit limit (additional_limit ctx);
                                      Some (ctx\<lparr>additional_limit := al\<rparr>)
                                    }
                                  | None \<Rightarrow> Some ctx)
                            else Some ctx)
               else Some ctx
           | _ \<Rightarrow> Some ctx
      else Some ctx)"

text \<open>The interceptors: a synthetic result comes with an empty frame for the trackers.\<close>

definition intercept_call ::
  "('ir, 'gas, 'e, 'c, 'm, 'se, 'op, 'te, 'log, 'st) evm_env \<Rightarrow> FrameInit \<Rightarrow>
   ('e, 'c, 'm, 'se) MegaContext \<Rightarrow> (('ir, 'gas) FrameResult option \<times> ('e, 'c, 'm, 'se) MegaContext) option"
  where
  "intercept_call U frame_init ctx =
     (case fi_input frame_init of
        CallInput call_inputs \<Rightarrow> do {
          (result, ctx) \<leftarrow> dispatch_system_contract_interceptors (ue_intercept U) call_inputs
                             (fi_depth frame_init) ctx;
          (case result of
             Some r \<Rightarrow>
               if is_enabled (mc_spec ctx) MINI_REX
               then do {
                 al \<leftarrow> al_push_empty_frame (additional_limit ctx);
                 Some (Some r, ctx\<lparr>additional_limit := al\<rparr>)
               }
               else Some (Some r, ctx)
           | None \<Rightarrow> Some (None, ctx))
        }
      | _ \<Rightarrow> Some (None, ctx))"

text \<open>The limits before the frame is created, on the journal and the database of the context.\<close>

definition limit_frame_init ::
  "('ir, 'gas, 'e, 'c, 'm, 'se, 'op, 'te, 'log, 'st) evm_env \<Rightarrow> FrameInit \<Rightarrow>
   (('e, 'c, 'm, 'se, 'st) MegaEvm, 'e ContextError, ('ir, 'gas) FrameResult option) hook" where
  "limit_frame_init U frame_init evm =
     (if is_enabled (evm_spec evm) MINI_REX
      then do {
        let inn = inner (evm_ctx evm);
        (r, j, al) \<leftarrow> al_before_frame_init (ue_revm U) (ue_limit_data U) (op_db inn) frame_init
                       (op_journal inn) (evm_limit evm);
        let ctx = (evm_ctx evm)\<lparr>inner := inn\<lparr>op_journal := j\<rparr>, additional_limit := al\<rparr>;
        Some (map_sum DbError id r, evm\<lparr>evm_ctx := ctx\<rparr>)
      }
      else Some (Inr None, evm))"

definition frame_init ::
  "('ir, 'gas, 'e, 'c, 'm, 'se, 'op, 'te, 'log, 'st) evm_env \<Rightarrow> FrameInit \<Rightarrow>
   (('e, 'c, 'm, 'se, 'st) MegaEvm, 'e ContextError, ('gas EthFrame, ('ir, 'gas) FrameResult) ItemOrResult) hook"
  where
  "frame_init U fi evm = do {
     ctx \<leftarrow> mark_oracle_call fi (evm_ctx evm);
     (result, ctx) \<leftarrow> intercept_call U fi ctx;
     let evm = evm\<lparr>evm_ctx := ctx\<rparr>;
     (case result of
        Some r \<Rightarrow> Some (Inr (ResultItem r), evm)
      | None \<Rightarrow>
          and_then (limit_frame_init U fi) (\<lambda>exceeded.
            case exceeded of
              Some r \<Rightarrow> (\<lambda>evm. Some (Inr (ResultItem r), evm))
            | None \<Rightarrow>
                and_then (upstream (up_frame_init U fi)) (\<lambda>init_result evm.
                  if is_enabled (evm_spec evm) MINI_REX
                  then do {
                    al \<leftarrow> al_after_frame_init (ue_revm U) init_result (evm_limit evm);
                    Some (Inr init_result, set_limit al evm)
                  }
                  else Some (Inr init_result, evm))) evm)
   }"

section \<open>Running a frame\<close>

definition CODEDEPOSIT_STORAGE_GAS :: u64 where
  "CODEDEPOSIT_STORAGE_GAS = 10000"

definition before_frame_run ::
  "('ir, 'gas, 'e, 'c, 'm, 'se, 'op, 'te, 'log, 'st) evm_env \<Rightarrow> 'gas EthFrame \<Rightarrow>
   ('e, 'c, 'm, 'se) MegaContext \<Rightarrow> (('ir, 'gas) InterpreterAction option \<times> ('e, 'c, 'm, 'se) MegaContext) option"
  where
  "before_frame_run U frame ctx =
     (if is_enabled (mc_spec ctx) MINI_REX
      then do {
        (result, al) \<leftarrow> al_before_frame_run (ue_revm U) (ue_limit_data U) frame (additional_limit ctx);
        Some (map_option ReturnAction result, ctx\<lparr>additional_limit := al\<rparr>)
      }
      else Some (None, ctx))"

text \<open>The storage gas of deployed code, charged on the result of a successful creation.\<close>

definition charge_code_deposit ::
  "('ir, 'gas) revm \<Rightarrow> 'gas EthFrame \<Rightarrow> ('ir, 'gas) InterpreterAction \<Rightarrow> ('ir, 'gas) InterpreterAction" where
  "charge_code_deposit R frame action =
     (case action of
        ReturnAction result \<Rightarrow>
          if frame_is_create frame \<and> ir_is_ok R (ir_result result)
          then (case gas_record_cost R (CODEDEPOSIT_STORAGE_GAS * len_u64 (ir_output result)) (ir_gas result) of
                  (paid, gas) \<Rightarrow>
                    let result = result\<lparr>ir_gas := gas\<rparr>
                    in ReturnAction (if paid then result else result\<lparr>ir_result := IR_OutOfGas R\<rparr>))
          else action
      | NewFrameAction _ \<Rightarrow> action)"

definition after_frame_run_instructions ::
  "('ir, 'gas, 'e, 'c, 'm, 'se, 'op, 'te, 'log, 'st) evm_env \<Rightarrow> 'gas EthFrame \<Rightarrow>
   ('ir, 'gas) InterpreterAction \<Rightarrow> ('e, 'c, 'm, 'se) MegaContext \<Rightarrow>
   (('ir, 'gas) InterpreterAction \<times> ('e, 'c, 'm, 'se) MegaContext) option" where
  "after_frame_run_instructions U frame action ctx =
     (if \<not> is_enabled (mc_spec ctx) MINI_REX then Some (action, ctx)
      else do {
        (action, al) \<leftarrow> al_after_frame_run_instructions (ue_revm U) (ue_limit_data U) frame
                          (charge_code_deposit (ue_revm U) frame action) (additional_limit ctx);
        Some (action, ctx\<lparr>additional_limit := al\<rparr>)
      })"

definition after_frame_run ::
  "('ir, 'gas, 'e, 'c, 'm, 'se, 'op, 'te, 'log, 'st) evm_env \<Rightarrow>
   (FrameInit, ('ir, 'gas) FrameResult) ItemOrResult \<Rightarrow> u64 option \<Rightarrow> ('e, 'c, 'm, 'se) MegaContext \<Rightarrow>
   ((FrameInit, ('ir, 'gas) FrameResult) ItemOrResult \<times> ('e, 'c, 'm, 'se) MegaContext) option" where
  "after_frame_run U frame_output gas_remaining_before_process_action ctx =
     (if \<not> is_enabled (mc_spec ctx) MINI_REX then Some (frame_output, ctx)
      else case frame_output of
             ResultItem frame_result \<Rightarrow> do {
               (frame_result, al) \<leftarrow> al_after_frame_run (ue_revm U) gas_remaining_before_process_action
                                       frame_result (additional_limit ctx);
               Some (ResultItem frame_result, ctx\<lparr>additional_limit := al\<rparr>)
             }
           | Item fi \<Rightarrow> Some (Item fi, ctx))"

text \<open>The shared body of \<open>frame_run\<close> and \<open>inspect_frame_run\<close>, which differ in how the
  instructions are executed.\<close>

definition frame_run_with ::
  "('ir, 'gas, 'e, 'c, 'm, 'se, 'op, 'te, 'log, 'st) evm_env \<Rightarrow>
   (('e, 'c, 'm, 'se, 'st) MegaEvm \<Rightarrow> (('ir, 'gas) InterpreterAction \<times> ('e, 'c, 'm, 'se, 'st) MegaEvm) option) \<Rightarrow>
   (('e, 'c, 'm, 'se, 'st) MegaEvm, 'e ContextError, (FrameInit, ('ir, 'gas) FrameResult) ItemOrResult) hook"
  where
  "frame_run_with U run evm = do {
     (early, ctx) \<leftarrow> before_frame_run U (up_top_frame U evm) (evm_ctx evm);
     let evm = evm\<lparr>evm_ctx := ctx\<rparr>;
     (action, evm) \<leftarrow> (case early of Some action \<Rightarrow> Some (action, evm) | None \<Rightarrow> run evm);
     (action, ctx) \<leftarrow> after_frame_run_instructions U (up_top_frame U evm) action (evm_ctx evm);
     let evm = evm\<lparr>evm_ctx := ctx\<rparr>;
     let gas_remaining_before =
       (case action of
          ReturnAction result \<Rightarrow>
            if is_enabled (evm_spec evm) MINI_REX then Some (gas_remaining (ue_revm U) (ir_gas result)) else None
        | NewFrameAction _ \<Rightarrow> None);
     and_then (upstream (up_process_next_action U action)) (\<lambda>frame_output evm. do {
       let evm = (case frame_output of ResultItem _ \<Rightarrow> up_set_finished U evm | Item _ \<Rightarrow> evm);
       (frame_output, ctx) \<leftarrow> after_frame_run U frame_output gas_remaining_before (evm_ctx evm);
       Some (Inr frame_output, evm\<lparr>evm_ctx := ctx\<rparr>)
     }) evm
   }"

definition frame_run ::
  "('ir, 'gas, 'e, 'c, 'm, 'se, 'op, 'te, 'log, 'st) evm_env \<Rightarrow>
   (('e, 'c, 'm, 'se, 'st) MegaEvm, 'e ContextError, (FrameInit, ('ir, 'gas) FrameResult) ItemOrResult) hook"
  where
  "frame_run U evm = frame_run_with U (up_run_plain U) evm"

section \<open>Returning from a frame\<close>

definition frame_return_result ::
  "('ir, 'gas, 'e, 'c, 'm, 'se, 'op, 'te, 'log, 'st) evm_env \<Rightarrow> ('ir, 'gas) FrameResult \<Rightarrow>
   (('e, 'c, 'm, 'se, 'st) MegaEvm, 'e ContextError, ('ir, 'gas) FrameResult option) hook" where
  "frame_return_result U result evm = do {
     (result, evm) \<leftarrow>
       (if is_enabled (evm_spec evm) MINI_REX
        then do {
          (result, al) \<leftarrow> al_before_frame_return_result (ue_revm U) (ue_limit_data U) False result
                            (evm_limit evm);
          Some (result, set_limit al evm)
        }
        else Some (result, evm));
     and_then (upstream (up_frame_return_result U result)) (\<lambda>ret evm.
       if is_enabled (evm_spec evm) REX4
       then let depth = j_depth (op_journal (inner (evm_ctx evm)));
                ctx = (evm_ctx evm)\<lparr>volatile_data_tracker :=
                         enable_access_if_returning depth (volatile_data_tracker (evm_ctx evm))\<rparr>
            in Some (Inr ret, evm\<lparr>evm_ctx := ctx\<rparr>)
       else Some (Inr ret, evm)) evm
   }"

section \<open>With an inspector\<close>

definition inspect_frame_init ::
  "('ir, 'gas, 'e, 'c, 'm, 'se, 'op, 'te, 'log, 'st) evm_env \<Rightarrow> FrameInit \<Rightarrow>
   (('e, 'c, 'm, 'se, 'st) MegaEvm, 'e ContextError, ('gas EthFrame, ('ir, 'gas) FrameResult) ItemOrResult) hook"
  where
  "inspect_frame_init U fi evm =
     (case up_frame_start U (fi_input fi) evm of
        (Some output, input, evm) \<Rightarrow> do {
          evm \<leftarrow> (if is_enabled (evm_spec evm) MINI_REX
                  then do {
                    al \<leftarrow> al_push_empty_frame (evm_limit evm);
                    Some (set_limit al evm)
                  }
                  else Some evm);
          (case up_frame_end U input output evm of
             (output, evm) \<Rightarrow> Some (Inr (ResultItem output), evm))
        }
      | (None, input, evm) \<Rightarrow>
          and_then (frame_init U (fi\<lparr>fi_input := input\<rparr>)) (\<lambda>init_result evm.
            case init_result of
              ResultItem output \<Rightarrow>
                (case up_frame_end U input output evm of
                   (output, evm) \<Rightarrow> Some (Inr (ResultItem output), evm))
            | Item frame \<Rightarrow> Some (Inr (Item frame), up_initialize_interp U evm)) evm)"

definition inspect_frame_run ::
  "('ir, 'gas, 'e, 'c, 'm, 'se, 'op, 'te, 'log, 'st) evm_env \<Rightarrow>
   (('e, 'c, 'm, 'se, 'st) MegaEvm, 'e ContextError, (FrameInit, ('ir, 'gas) FrameResult) ItemOrResult) hook"
  where
  "inspect_frame_run U =
     and_then (frame_run_with U (up_inspect_instructions U)) (\<lambda>frame_output evm.
       case frame_output of
         ResultItem frame_result \<Rightarrow>
           (case up_frame_end U (up_top_frame_input U evm) frame_result evm of
              (frame_result, evm) \<Rightarrow> Some (Inr (ResultItem frame_result), evm))
       | Item fi \<Rightarrow> Some (Inr (Item fi), evm))"

end
