(* ===== verification/Frame_Calls.thy ===== *)
theory Frame_Calls
  imports Mega_Evm
begin

text \<open>
  The balance of the frame hooks. The upstream loop that calls them is not modelled: the relation
  \<open>evm_calls\<close> admits every order of calls. It counts the frames that were entered, or answered
  without being created, and not yet returned; the invariant is that all four trackers have
  this number of frames, through synthetic results, exceeded limits and inspectors alike.
\<close>

section \<open>Elimination of sequenced hooks\<close>

lemma and_then_Inr:
  assumes "and_then m f s = Some (Inr b, s')"
  obtains a s1 where "m s = Some (Inr a, s1)" and "f a s1 = Some (Inr b, s')"
  using assms by (auto simp: and_then_def split: option.splits sum.splits)

lemma upstream_Some [simp]: "upstream f s = Some (r, s') \<longleftrightarrow> f s = (r, s')"
  by (simp add: upstream_def)

lemma and_then_upstream_Inr:
  assumes "and_then (upstream g) f s = Some (Inr b, s')"
  obtains a s1 where "g s = (Inr a, s1)" and "f a s1 = Some (Inr b, s')"
  using assms by (elim and_then_Inr) simp

lemma limit_sel [simp]:
  "evm_limit (set_limit al evm) = al" "evm_spec (set_limit al evm) = evm_spec evm"
  "evm_limit (evm\<lparr>evm_ctx := ctx\<rparr>) = additional_limit ctx"
  "evm_spec (evm\<lparr>evm_ctx := ctx\<rparr>) = mc_spec ctx"
  "additional_limit (evm_ctx evm) = evm_limit evm" "mc_spec (evm_ctx evm) = evm_spec evm"
  by (simp_all add: evm_limit_def evm_spec_def set_limit_def)

section \<open>What upstream code leaves alone\<close>

text \<open>Upstream code is generic over the context: it keeps the limits and the spec, which its
  interfaces do not show. The interpreter runs the instructions of the program, which record
  resources; they never enter or leave a frame.\<close>

definition keeps_limits :: "(('e, 'c, 'm, 'se, 'st) MegaEvm \<Rightarrow> ('e, 'c, 'm, 'se, 'st) MegaEvm) \<Rightarrow> bool" where
  "keeps_limits f \<longleftrightarrow> (\<forall>evm. evm_limit (f evm) = evm_limit evm \<and> evm_spec (f evm) = evm_spec evm)"

definition keeps_frames ::
  "(('e, 'c, 'm, 'se, 'st) MegaEvm \<Rightarrow> ('a \<times> ('e, 'c, 'm, 'se, 'st) MegaEvm) option) \<Rightarrow> bool" where
  "keeps_frames run \<longleftrightarrow>
     (\<forall>evm a evm'. run evm = Some (a, evm') \<longrightarrow>
        evm_spec evm' = evm_spec evm \<and> (\<forall>d. level d (evm_limit evm') = level d (evm_limit evm)))"

definition upstream_neutral ::
  "('ir, 'gas, 'e, 'c, 'm, 'se, 'op, 'te, 'log, 'st) evm_env \<Rightarrow> bool" where
  "upstream_neutral U \<longleftrightarrow>
     (\<forall>fi. keeps_limits (\<lambda>evm. snd (up_frame_init U fi evm))) \<and>
     (\<forall>r. keeps_limits (\<lambda>evm. snd (up_frame_return_result U r evm))) \<and>
     (\<forall>a. keeps_limits (\<lambda>evm. snd (up_process_next_action U a evm))) \<and>
     keeps_limits (up_set_finished U) \<and> keeps_limits (up_initialize_interp U) \<and>
     (\<forall>i. keeps_limits (\<lambda>evm. snd (snd (up_frame_start U i evm)))) \<and>
     (\<forall>i r. keeps_limits (\<lambda>evm. snd (up_frame_end U i r evm))) \<and>
     keeps_frames (up_run_plain U) \<and> keeps_frames (up_inspect_instructions U)"

lemma keeps_limitsD:
  assumes "keeps_limits (\<lambda>evm. snd (f evm))" and "f evm = (r, evm')"
  shows "evm_limit evm' = evm_limit evm \<and> evm_spec evm' = evm_spec evm"
proof -
  have "evm_limit (snd (f evm)) = evm_limit evm \<and> evm_spec (snd (f evm)) = evm_spec evm"
    using assms(1) by (simp add: keeps_limits_def)
  then show ?thesis by (simp add: assms(2))
qed

lemma upstream_neutralD:
  assumes "upstream_neutral U"
  shows "up_frame_init U fi evm = (r, evm') \<Longrightarrow> evm_limit evm' = evm_limit evm \<and> evm_spec evm' = evm_spec evm"
    and "up_frame_return_result U fr evm = (rr, evm') \<Longrightarrow> evm_limit evm' = evm_limit evm \<and> evm_spec evm' = evm_spec evm"
    and "up_process_next_action U ac evm = (ra, evm') \<Longrightarrow> evm_limit evm' = evm_limit evm \<and> evm_spec evm' = evm_spec evm"
    and "up_frame_start U fin evm = (rs, fin', evm') \<Longrightarrow> evm_limit evm' = evm_limit evm \<and> evm_spec evm' = evm_spec evm"
    and "up_frame_end U fin fr evm = (re, evm') \<Longrightarrow> evm_limit evm' = evm_limit evm \<and> evm_spec evm' = evm_spec evm"
    and "evm_limit (up_set_finished U evm) = evm_limit evm \<and> evm_spec (up_set_finished U evm) = evm_spec evm"
    and "evm_limit (up_initialize_interp U evm) = evm_limit evm \<and> evm_spec (up_initialize_interp U evm) = evm_spec evm"
    and "up_run_plain U evm = Some (act, evm') \<Longrightarrow>
      level d (evm_limit evm') = level d (evm_limit evm) \<and> evm_spec evm' = evm_spec evm"
    and "up_inspect_instructions U evm = Some (act, evm') \<Longrightarrow>
      level d (evm_limit evm') = level d (evm_limit evm) \<and> evm_spec evm' = evm_spec evm"
proof -
  note neutral = assms [unfolded upstream_neutral_def]
  show "up_frame_init U fi evm = (r, evm') \<Longrightarrow> evm_limit evm' = evm_limit evm \<and> evm_spec evm' = evm_spec evm"
    using neutral by (intro keeps_limitsD [of "up_frame_init U fi"]) simp_all
  show "up_frame_return_result U fr evm = (rr, evm') \<Longrightarrow> evm_limit evm' = evm_limit evm \<and> evm_spec evm' = evm_spec evm"
    using neutral by (intro keeps_limitsD [of "up_frame_return_result U fr"]) simp_all
  show "up_process_next_action U ac evm = (ra, evm') \<Longrightarrow> evm_limit evm' = evm_limit evm \<and> evm_spec evm' = evm_spec evm"
    using neutral by (intro keeps_limitsD [of "up_process_next_action U ac"]) simp_all
  show "up_frame_end U fin fr evm = (re, evm') \<Longrightarrow> evm_limit evm' = evm_limit evm \<and> evm_spec evm' = evm_spec evm"
    using neutral by (intro keeps_limitsD [of "up_frame_end U fin fr"]) simp_all
  show "up_frame_start U fin evm = (rs, fin', evm') \<Longrightarrow> evm_limit evm' = evm_limit evm \<and> evm_spec evm' = evm_spec evm"
    using neutral by (intro keeps_limitsD [of "\<lambda>evm. snd (up_frame_start U fin evm)" evm fin']) simp_all
  show "evm_limit (up_set_finished U evm) = evm_limit evm \<and> evm_spec (up_set_finished U evm) = evm_spec evm"
    "evm_limit (up_initialize_interp U evm) = evm_limit evm \<and> evm_spec (up_initialize_interp U evm) = evm_spec evm"
    using neutral by (simp_all add: keeps_limits_def)
  show "up_run_plain U evm = Some (act, evm') \<Longrightarrow>
      level d (evm_limit evm') = level d (evm_limit evm) \<and> evm_spec evm' = evm_spec evm"
    "up_inspect_instructions U evm = Some (act, evm') \<Longrightarrow>
      level d (evm_limit evm') = level d (evm_limit evm) \<and> evm_spec evm' = evm_spec evm"
    using neutral unfolding keeps_frames_def by blast+
qed

section \<open>The hooks\<close>

lemma mark_oracle_call_level:
  assumes "mark_oracle_call fi ctx = Some ctx'"
  shows "level d (additional_limit ctx') = level d (additional_limit ctx) \<and> mc_spec ctx' = mc_spec ctx"
proof (cases "is_enabled (mc_spec ctx) MINI_REX \<and> \<not> is_enabled (mc_spec ctx) REX3 \<and>
    (\<exists>ci. fi_input fi = CallInput ci \<and> detects_oracle (is_enabled (mc_spec ctx) REX) (ci_scheme ci) \<and>
      ci_caller ci \<noteq> MEGA_SYSTEM_ADDRESS)")
  case True
  then obtain ci where ci: "fi_input fi = CallInput ci" by blast
  obtain marked tracker where check: "check_and_mark_oracle_access (ci_target_address ci) (volatile_data_tracker ctx)
      = (marked, tracker)" by fastforce
  show ?thesis
    using assms True ci check
    by (cases "get_compute_gas_limit tracker"; cases marked)
      (auto simp: mark_oracle_call_def bind_eq_Some_conv Let_def dest: set_limit_level [of _ _ _ d])
next
  case False
  then have "mark_oracle_call fi ctx = Some ctx"
    by (cases "fi_input fi") (auto simp: mark_oracle_call_def)
  then show ?thesis using assms by simp
qed

lemma intercept_call_level:
  assumes "intercept_call U fi ctx = Some (r, ctx')" and "is_enabled (mc_spec ctx) MINI_REX"
  shows "level (if r = None then d else Suc d) (additional_limit ctx') = level d (additional_limit ctx)
    \<and> mc_spec ctx' = mc_spec ctx"
proof (cases "fi_input fi")
  case (CallInput ci)
  obtain q ctx1 where q: "dispatch_system_contract_interceptors (ue_intercept U) ci (fi_depth fi) ctx = Some (q, ctx1)"
    using assms(1) CallInput by (auto simp: intercept_call_def bind_eq_Some_conv)
  show ?thesis
    using assms CallInput q dispatch_keeps(2) [OF q] dispatch_keeps(3) [OF q, of d]
    by (cases q) (auto simp: intercept_call_def bind_eq_Some_conv dest: push_empty_level [of _ _ d])
qed (use assms in \<open>auto simp: intercept_call_def\<close>)

lemma frame_init_level:
  fixes evm :: "('e, 'c, 'm, 'se, 'st) MegaEvm"
  assumes "frame_init U fi evm = Some (Inr r, evm')" and "upstream_neutral U"
    and "is_enabled (evm_spec evm) MINI_REX"
  shows "level (Suc d) (evm_limit evm') = level d (evm_limit evm) \<and> evm_spec evm' = evm_spec evm"
proof -
  obtain ctx1 where ctx1: "mark_oracle_call fi (evm_ctx evm) = Some ctx1"
    using assms(1) by (auto simp: frame_init_def bind_eq_Some_conv)
  obtain q ctx2 where ctx2: "intercept_call U fi ctx1 = Some (q, ctx2)"
    using assms(1) ctx1 by (auto simp: frame_init_def bind_eq_Some_conv)
  have spec1: "mc_spec ctx1 = evm_spec evm" and lev1: "level d (additional_limit ctx1) = level d (evm_limit evm)"
    using mark_oracle_call_level [OF ctx1, of d] by simp_all
  have lev2: "level (if q = None then d else Suc d) (additional_limit ctx2) = level d (evm_limit evm)"
    and spec2: "mc_spec ctx2 = evm_spec evm"
    using intercept_call_level [OF ctx2, of d] assms(3) spec1 lev1 by simp_all
  show ?thesis
  proof (cases q)
    case (Some res)
    then show ?thesis using assms(1) ctx1 ctx2 lev2 spec2 by (auto simp: frame_init_def)
  next
    case None
    define evm2 where "evm2 = evm\<lparr>evm_ctx := ctx2\<rparr>"
    obtain ex evm3 where ex: "limit_frame_init U fi evm2 = Some (Inr ex, evm3)"
      and rest: "(case ex of Some r \<Rightarrow> (\<lambda>evm. Some (Inr (ResultItem r), evm))
        | None \<Rightarrow> and_then (upstream (up_frame_init U fi)) (\<lambda>init_result evm.
            if is_enabled (evm_spec evm) MINI_REX
            then do { al \<leftarrow> al_after_frame_init (ue_revm U) init_result (evm_limit evm);
                      Some (Inr init_result, set_limit al evm) }
            else Some (Inr init_result, evm))) evm3 = Some (Inr r, evm')"
      using assms(1) ctx1 ctx2 None unfolding evm2_def
      by (auto simp: frame_init_def elim!: and_then_Inr)
    have lev3: "level (Suc d) (evm_limit evm3) = level d (evm_limit evm)" "evm_spec evm3 = evm_spec evm"
    proof -
      have mini: "is_enabled (evm_spec evm2) MINI_REX" using assms(3) spec2 by (simp add: evm2_def)
      obtain rr j al where hook: "al_before_frame_init (ue_revm U) (ue_limit_data U) (op_db (inner (evm_ctx evm2)))
          fi (op_journal (inner (evm_ctx evm2))) (evm_limit evm2) = Some (rr, j, al)"
        using ex mini by (auto simp: limit_frame_init_def Let_def bind_eq_Some_conv)
      have "rr = Inr ex" "evm_limit evm3 = al" "evm_spec evm3 = evm_spec evm2"
        using ex mini hook by (cases rr; auto simp: limit_frame_init_def Let_def)+
      then show "level (Suc d) (evm_limit evm3) = level d (evm_limit evm)" "evm_spec evm3 = evm_spec evm"
        using before_frame_init_level [of "ue_revm U" "ue_limit_data U" "op_db (inner (evm_ctx evm2))" fi
            "op_journal (inner (evm_ctx evm2))" "evm_limit evm2" ex j al d] hook lev2 None spec2
        by (simp_all add: evm2_def)
    qed
    show ?thesis
    proof (cases ex)
      case (Some res)
      then show ?thesis using rest lev3 by auto
    next
      case None
      then obtain ir evm4 where up: "up_frame_init U fi evm3 = (Inr ir, evm4)"
        and last: "(if is_enabled (evm_spec evm4) MINI_REX
            then do { al \<leftarrow> al_after_frame_init (ue_revm U) ir (evm_limit evm4);
                      Some (Inr ir, set_limit al evm4) }
            else Some (Inr ir, evm4)) = Some (Inr r :: 'e ContextError + _, evm')"
        using rest by (simp, elim and_then_upstream_Inr) (rule that; assumption)
      from upstream_neutralD(1) [OF assms(2) up] lev3 last show ?thesis
        by (auto simp: bind_eq_Some_conv dest!: after_frame_init_level [of _ _ _ _ "Suc d"] split: if_splits)
    qed
  qed
qed

lemma frame_run_with_level:
  fixes evm :: "('e, 'c, 'm, 'se, 'st) MegaEvm"
  assumes "frame_run_with U run evm = Some (Inr out, evm')" and "upstream_neutral U" and "keeps_frames run"
  shows "level d (evm_limit evm') = level d (evm_limit evm) \<and> evm_spec evm' = evm_spec evm"
proof -
  obtain early ctx1 where ctx1: "before_frame_run U (up_top_frame U evm) (evm_ctx evm) = Some (early, ctx1)"
    using assms(1) by (auto simp: frame_run_with_def bind_eq_Some_conv)
  have l1: "level d (additional_limit ctx1) = level d (evm_limit evm)" "mc_spec ctx1 = evm_spec evm"
    using ctx1 by (auto simp: before_frame_run_def bind_eq_Some_conv split: if_splits
        dest: before_frame_run_level [of _ _ _ _ _ _ d])
  define evm1 where "evm1 = evm\<lparr>evm_ctx := ctx1\<rparr>"
  obtain action evm2 where run: "(case early of Some action \<Rightarrow> Some (action, evm1) | None \<Rightarrow> run evm1) =
      Some (action, evm2)"
    using assms(1) ctx1 unfolding evm1_def by (auto simp: frame_run_with_def bind_eq_Some_conv Let_def)
  have l2: "level d (evm_limit evm2) = level d (evm_limit evm)" "evm_spec evm2 = evm_spec evm"
    using run assms(3) l1 by (cases early; auto simp: keeps_frames_def evm1_def)+
  obtain action2 ctx2 where ctx2: "after_frame_run_instructions U (up_top_frame U evm2) action (evm_ctx evm2) =
      Some (action2, ctx2)"
    using assms(1) ctx1 run unfolding evm1_def by (auto simp: frame_run_with_def bind_eq_Some_conv Let_def)
  have l3: "level d (additional_limit ctx2) = level d (evm_limit evm)" "mc_spec ctx2 = evm_spec evm"
    using ctx2 l2 by (auto simp: after_frame_run_instructions_def bind_eq_Some_conv split: if_splits
        dest: after_frame_run_instructions_level [of _ _ _ _ _ _ _ d])
  define evm3 where "evm3 = evm2\<lparr>evm_ctx := ctx2\<rparr>"
  obtain g where "and_then (upstream (up_process_next_action U action2)) (\<lambda>frame_output evm. do {
       let evm = (case frame_output of ResultItem _ \<Rightarrow> up_set_finished U evm | Item _ \<Rightarrow> evm);
       (frame_output, ctx) \<leftarrow> after_frame_run U frame_output g (evm_ctx evm);
       Some (Inr frame_output, evm\<lparr>evm_ctx := ctx\<rparr>)
     }) evm3 = Some (Inr out, evm')"
    using assms(1) ctx1 run ctx2 unfolding evm3_def evm1_def
    by (simp add: frame_run_with_def Let_def)
  then obtain fo evm4 where fo: "up_process_next_action U action2 evm3 = (Inr fo, evm4)"
    and last: "(do { let evm = (case fo of ResultItem _ \<Rightarrow> up_set_finished U evm4 | Item _ \<Rightarrow> evm4);
       (frame_output, ctx) \<leftarrow> after_frame_run U fo g (evm_ctx evm);
       Some (Inr frame_output, evm\<lparr>evm_ctx := ctx\<rparr>) }) = Some (Inr out :: 'e ContextError + _, evm')"
    by (elim and_then_upstream_Inr) (rule that; assumption)
  have l4: "level d (evm_limit evm4) = level d (evm_limit evm)" "evm_spec evm4 = evm_spec evm"
    using upstream_neutralD(3) [OF assms(2) fo] l3 by (simp_all add: evm3_def)
  show ?thesis
    using last l4 upstream_neutralD(6) [OF assms(2), of evm4]
    by (cases fo) (auto simp: after_frame_run_def bind_eq_Some_conv Let_def split: if_splits
        dest: after_frame_run_level [of _ _ _ _ _ _ d])
qed

lemma frame_return_result_level:
  assumes "frame_return_result U r evm = Some (Inr ret, evm')" and "upstream_neutral U"
    and "is_enabled (evm_spec evm) MINI_REX" and "level d (evm_limit evm)"
  shows "level (d - 1) (evm_limit evm') \<and> evm_spec evm' = evm_spec evm"
proof -
  obtain r1 al where hook: "al_before_frame_return_result (ue_revm U) (ue_limit_data U) False r (evm_limit evm) = Some (r1, al)"
    using assms(1,3) by (auto simp: frame_return_result_def bind_eq_Some_conv)
  have "and_then (upstream (up_frame_return_result U r1)) (\<lambda>ret evm.
       if is_enabled (evm_spec evm) REX4
       then let depth = j_depth (op_journal (inner (evm_ctx evm)));
                ctx = (evm_ctx evm)\<lparr>volatile_data_tracker :=
                         enable_access_if_returning depth (volatile_data_tracker (evm_ctx evm))\<rparr>
            in Some (Inr ret, evm\<lparr>evm_ctx := ctx\<rparr>)
       else Some (Inr ret, evm)) (set_limit al evm) = Some (Inr ret, evm')"
    using assms(1,3) hook by (simp add: frame_return_result_def)
  then obtain ret1 evm2 where up: "up_frame_return_result U r1 (set_limit al evm) = (Inr ret1, evm2)"
    and same: "evm_limit evm' = evm_limit evm2" "evm_spec evm' = evm_spec evm2"
    by (elim and_then_upstream_Inr) (auto simp: Let_def split: if_splits)
  show ?thesis
    using upstream_neutralD(2) [OF assms(2) up] same before_frame_return_level [OF hook assms(4)] by simp
qed

lemma inspect_frame_init_level:
  fixes evm :: "('e, 'c, 'm, 'se, 'st) MegaEvm"
  assumes "inspect_frame_init U fi evm = Some (Inr r, evm')" and "upstream_neutral U"
    and "is_enabled (evm_spec evm) MINI_REX"
  shows "level (Suc d) (evm_limit evm') = level d (evm_limit evm) \<and> evm_spec evm' = evm_spec evm"
proof -
  obtain early input evm1 where start: "up_frame_start U (fi_input fi) evm = (early, input, evm1)"
    by (cases "up_frame_start U (fi_input fi) evm") auto
  note s = upstream_neutralD(4) [OF assms(2) start]
  show ?thesis
  proof (cases early)
    case (Some res)
    then obtain al where al: "al_push_empty_frame (evm_limit evm1) = Some al"
      using assms(1,3) start s by (auto simp: inspect_frame_init_def bind_eq_Some_conv split: if_splits)
    obtain output2 evm2 where fin: "up_frame_end U input res (set_limit al evm1) = (output2, evm2)" by fastforce
    show ?thesis
      using assms(1,3) start s Some al fin upstream_neutralD(5) [OF assms(2) fin] push_empty_level [OF al, of d]
      by (simp add: inspect_frame_init_def)
  next
    case None
    obtain ir evm2 where init: "frame_init U (fi\<lparr>fi_input := input\<rparr>) evm1 = Some (Inr ir, evm2)"
      and last: "(case ir of
              ResultItem output \<Rightarrow>
                (case up_frame_end U input output evm2 of
                   (output, evm) \<Rightarrow> Some (Inr (ResultItem output), evm))
            | Item frame \<Rightarrow> Some (Inr (Item frame), up_initialize_interp U evm2)) = Some (Inr r :: 'e ContextError + _, evm')"
      using assms(1) start None by (simp add: inspect_frame_init_def) (elim and_then_Inr, rule that; assumption)
    have l: "level (Suc d) (evm_limit evm2) = level d (evm_limit evm1) \<and> evm_spec evm2 = evm_spec evm1"
      using frame_init_level [OF init assms(2)] assms(3) s by simp
    show ?thesis
    proof (cases ir)
      case (Item f)
      then show ?thesis using last l s upstream_neutralD(7) [OF assms(2), of evm2] by auto
    next
      case (ResultItem res)
      obtain output2 evm3 where fin: "up_frame_end U input res evm2 = (output2, evm3)" by fastforce
      then show ?thesis
        using ResultItem last l s upstream_neutralD(5) [OF assms(2) fin] by simp
    qed
  qed
qed

lemma inspect_frame_run_level:
  fixes evm :: "('e, 'c, 'm, 'se, 'st) MegaEvm"
  assumes "inspect_frame_run U evm = Some (Inr out, evm')" and "upstream_neutral U"
  shows "level d (evm_limit evm') = level d (evm_limit evm) \<and> evm_spec evm' = evm_spec evm"
proof -
  obtain fo evm1 where run: "frame_run_with U (up_inspect_instructions U) evm = Some (Inr fo, evm1)"
    and last: "(case fo of
         ResultItem frame_result \<Rightarrow>
           (case up_frame_end U (up_top_frame_input U evm1) frame_result evm1 of
              (frame_result, evm) \<Rightarrow> Some (Inr (ResultItem frame_result), evm))
       | Item fi \<Rightarrow> Some (Inr (Item fi), evm1)) = Some (Inr out :: 'e ContextError + _, evm')"
    using assms(1) unfolding inspect_frame_run_def by (elim and_then_Inr) (rule that; assumption)
  have l: "level d (evm_limit evm1) = level d (evm_limit evm) \<and> evm_spec evm1 = evm_spec evm"
    using frame_run_with_level [OF run assms(2)] assms(2) unfolding upstream_neutral_def by blast
  show ?thesis
  proof (cases fo)
    case (Item f)
    then show ?thesis using last l by simp
  next
    case (ResultItem res)
    obtain out2 evm2 where fin: "up_frame_end U (up_top_frame_input U evm1) res evm1 = (out2, evm2)" by fastforce
    then show ?thesis using ResultItem last l upstream_neutralD(5) [OF assms(2) fin] by simp
  qed
qed

section \<open>Sequences of hooks\<close>

text \<open>The calls a transaction makes from its start on; a hook that fails or panics ends them.
  Between the hooks the handler and upstream code change the state without touching the limits, or
  record compute gas. The number counts the frames that were entered and have not returned.\<close>

inductive evm_calls ::
  "('ir, 'gas, 'e, 'c, 'm, 'se, 'op, 'te, 'log, 'st) evm_env \<Rightarrow> nat \<Rightarrow> ('e, 'c, 'm, 'se, 'st) MegaEvm \<Rightarrow> bool"
  for U where
  calls_start: "on_new_tx ctx = Some (evm_ctx evm) \<Longrightarrow> is_enabled (mc_spec ctx) MINI_REX \<Longrightarrow> evm_calls U 0 evm"
| calls_upstream: "evm_calls U d evm \<Longrightarrow> evm_limit evm' = evm_limit evm \<Longrightarrow> evm_spec evm' = evm_spec evm \<Longrightarrow>
    evm_calls U d evm'"
| calls_record: "evm_calls U d evm \<Longrightarrow> record_compute_gas g (evm_limit evm) = Some (ok, al) \<Longrightarrow>
    evm_calls U d (set_limit al evm)"
| calls_init: "evm_calls U d evm \<Longrightarrow> frame_init U fi evm = Some (Inr r, evm') \<Longrightarrow> evm_calls U (Suc d) evm'"
| calls_inspect_init: "evm_calls U d evm \<Longrightarrow> inspect_frame_init U fi evm = Some (Inr r, evm') \<Longrightarrow>
    evm_calls U (Suc d) evm'"
| calls_run: "evm_calls U d evm \<Longrightarrow> frame_run U evm = Some (Inr out, evm') \<Longrightarrow> evm_calls U d evm'"
| calls_inspect_run: "evm_calls U d evm \<Longrightarrow> inspect_frame_run U evm = Some (Inr out, evm') \<Longrightarrow>
    evm_calls U d evm'"
| calls_return: "evm_calls U (Suc d) evm \<Longrightarrow> frame_return_result U fr evm = Some (Inr ret, evm') \<Longrightarrow>
    evm_calls U d evm'"

lemma on_new_tx_level:
  assumes "on_new_tx ctx = Some ctx'" and "is_enabled (mc_spec ctx) MINI_REX"
  shows "level 0 (additional_limit ctx') \<and> mc_spec ctx' = mc_spec ctx"
proof -
  define ctx1 where "ctx1 = check_tx_beneficiary_access (reset_volatile_data_access ctx)"
  have spec: "mc_spec ctx1 = mc_spec ctx"
    by (simp add: ctx1_def check_tx_beneficiary_access_eq reset_volatile_data_access_def)
  then obtain ok al where "al_before_tx_start (op_tx (inner ctx1)) (al_reset (additional_limit ctx1)) = Some (ok, al)"
    and "ctx' = ctx1\<lparr>additional_limit := al\<rparr>"
    using assms unfolding on_new_tx_def ctx1_def [symmetric]
    by (auto simp: bind_eq_Some_conv Let_def)
  then show ?thesis
    using before_tx_start_level [of "op_tx (inner ctx1)" "al_reset (additional_limit ctx1)" ok al 0]
      reset_level spec by simp
qed

lemma evm_calls_level:
  assumes "evm_calls U d evm" and "upstream_neutral U"
  shows "level d (evm_limit evm) \<and> is_enabled (evm_spec evm) MINI_REX"
  using assms(1)
proof (induction rule: evm_calls.induct)
  case (calls_start ctx evm)
  then show ?case using on_new_tx_level [OF calls_start] by simp
next
  case (calls_upstream d evm evm')
  then show ?case by simp
next
  case (calls_record d evm g ok al)
  then show ?case using record_gas_level [OF calls_record.hyps(2), of d] by simp
next
  case (calls_init d evm fi r evm')
  then show ?case using frame_init_level [OF calls_init.hyps(2) assms(2), of d] by simp
next
  case (calls_inspect_init d evm fi r evm')
  then show ?case using inspect_frame_init_level [OF calls_inspect_init.hyps(2) assms(2), of d] by simp
next
  case (calls_run d evm out evm')
  have "keeps_frames (up_run_plain U)" using assms(2) by (simp add: upstream_neutral_def)
  then show ?case
    using frame_run_with_level [OF calls_run.hyps(2) [unfolded frame_run_def] assms(2), of d] calls_run.IH by simp
next
  case (calls_inspect_run d evm out evm')
  then show ?case using inspect_frame_run_level [OF calls_inspect_run.hyps(2) assms(2), of d] by simp
next
  case (calls_return d evm fr ret evm')
  then show ?case using frame_return_result_level [OF calls_return.hyps(2) assms(2), of "Suc d"] calls_return.IH by simp
qed

lemma return_without_frame:
  assumes "level 0 (evm_limit evm)" and "is_enabled (evm_spec evm) MINI_REX"
  shows "frame_return_result U r evm = None"
proof -
  have "\<not> has_active_frame (sg_frame_tracker (al_state_growth (evm_limit evm)))"
    using assms(1) by (simp add: level_def sg_depth_def has_active_frame_def)
  then show ?thesis
    using assms(2) by (simp add: frame_return_result_def al_before_frame_return_result_def
        sg_before_frame_return_result_def Let_def)
qed

text \<open>
  Property C28 (frames_stay_balanced): whatever the order in which the upstream loop calls the frame
  hooks, with or without an inspector, after \<open>d\<close> entered and not yet returned frames all four
  trackers have \<open>d\<close> frames. Intercepted calls, results the inspector makes up and frames refused
  for an exceeded limit are counted as well. A return without an open frame panics.
\<close>

theorem frames_stay_balanced:
  assumes "evm_calls U d evm" and "upstream_neutral U"
  shows "sg_depth (al_state_growth (evm_limit evm)) = d \<and> ds_depth (al_data_size (evm_limit evm)) = d
    \<and> kv_depth (al_kv_update (evm_limit evm)) = d \<and> cg_depth (al_compute_gas (evm_limit evm)) = d
    \<and> (d = 0 \<longrightarrow> frame_return_result U r evm = None)"
  using evm_calls_level [OF assms] return_without_frame [of evm U r] by (auto simp: level_def)

text \<open>A concrete upstream EVM: its inspector answers every frame itself.\<close>

definition sample_ir :: "(nat, u64) InterpreterResult" where
  "sample_ir = \<lparr>ir_result = IR_Return sample_revm, ir_output = [], ir_gas = 5\<rparr>"

definition sample_evm_env :: "(nat, u64, unit, unit, unit, unit, unit, unit, unit, unit) evm_env" where
  "sample_evm_env = \<lparr>ue_intercept = sample_intercept_env, ue_limit_data = (\<lambda>_ _. []),
     up_frame_init = (\<lambda>_ evm. (Inr (Item \<lparr>frame_is_create = False, frame_created_address = None, frame_gas = 5\<rparr>), evm)),
     up_frame_return_result = (\<lambda>r evm. (Inr (Some r), evm)),
     up_top_frame = (\<lambda>_. \<lparr>frame_is_create = False, frame_created_address = None, frame_gas = 5\<rparr>),
     up_top_frame_input = (\<lambda>_. EmptyInput),
     up_run_plain = (\<lambda>evm. Some (ReturnAction sample_ir, evm)),
     up_inspect_instructions = (\<lambda>evm. Some (ReturnAction sample_ir, evm)),
     up_process_next_action = (\<lambda>a evm. (case a of
        ReturnAction r \<Rightarrow> (Inr (ResultItem (CallResult r (0, 0))), evm)
      | NewFrameAction i \<Rightarrow> (Inr (Item \<lparr>fi_depth = 1, fi_input = i\<rparr>), evm))),
     up_set_finished = (\<lambda>evm. evm),
     up_frame_start = (\<lambda>i evm. (Some (CallResult sample_ir (0, 0)), i, evm)),
     up_frame_end = (\<lambda>_ r evm. (r, evm)), up_initialize_interp = (\<lambda>evm. evm)\<rparr>"

lemma sample_evm_env_neutral: "upstream_neutral sample_evm_env"
  by (auto simp: upstream_neutral_def keeps_limits_def keeps_frames_def sample_evm_env_def
      split: InterpreterAction.split)

definition sample_evm :: "(unit, unit, unit, unit, unit) MegaEvm" where
  "sample_evm = \<lparr>evm_ctx = the (on_new_tx (sample_context REX4)), evm_inner = ()\<rparr>"

lemma sample_evm_starts: "evm_calls sample_evm_env 0 sample_evm" "evm_spec sample_evm = REX4"
proof -
  define ctx1 where "ctx1 = check_tx_beneficiary_access (reset_volatile_data_access (sample_context REX4))"
  have new: "additional_limit ctx1 = al_new REX4 (limits_from_spec REX4)" "mc_spec ctx1 = REX4"
    by (simp_all add: ctx1_def check_tx_beneficiary_access_eq reset_volatile_data_access_def sample_context_def)
  have "al_reset (additional_limit ctx1) = al_new REX4 (limits_from_spec REX4)"
    using al_reset_config [OF refl, of REX4 "limits_from_spec REX4"] new
    by (simp add: is_enabled_def al_new_def cg_new_def)
  then obtain ok al where "al_before_tx_start (op_tx (inner ctx1)) (al_reset (additional_limit ctx1)) = Some (ok, al)"
    using al_before_tx_start_total [of "op_tx (inner ctx1)" REX4 "limits_from_spec REX4"] by auto
  then obtain ctx where "on_new_tx (sample_context REX4) = Some ctx"
    using new by (simp add: on_new_tx_def ctx1_def [symmetric] Let_def is_enabled_def)
  then show "evm_calls sample_evm_env 0 sample_evm" "evm_spec sample_evm = REX4"
    using on_new_tx_level [of "sample_context REX4"]
    by (auto simp: sample_evm_def evm_spec_def sample_context_def is_enabled_def intro!: calls_start)
qed

lemma first_push: "level 0 al \<Longrightarrow> al_push_empty_frame al \<noteq> None"
  by (auto simp: level_def sg_depth_def ds_depth_def kv_depth_def cg_depth_def al_push_empty_frame_def
      sg_push_empty_frame_def ds_push_empty_frame_def kv_push_empty_frame_def cg_push_empty_frame_def
      sg_push_frame_def ds_push_frame_def kv_push_frame_def cg_push_frame_def push_frame_def max_forward_limit_def)

theorem frames_stay_balanced_witness:
  "\<exists>evm. evm_calls sample_evm_env 1 evm \<and> sg_depth (al_state_growth (evm_limit evm)) = 1"
proof -
  obtain al where "al_push_empty_frame (evm_limit sample_evm) = Some al"
    using first_push [of "evm_limit sample_evm"] evm_calls_level [OF sample_evm_starts(1) sample_evm_env_neutral]
    by auto
  then have "inspect_frame_init sample_evm_env \<lparr>fi_depth = 0, fi_input = EmptyInput\<rparr> sample_evm =
      Some (Inr (ResultItem (CallResult sample_ir (0, 0))), set_limit al sample_evm)"
    by (simp add: inspect_frame_init_def sample_evm_env_def sample_evm_starts(2) is_enabled_def)
  then have "evm_calls sample_evm_env (Suc 0) (set_limit al sample_evm)"
    by (rule calls_inspect_init [OF sample_evm_starts(1)])
  with frames_stay_balanced [OF this sample_evm_env_neutral] show ?thesis by auto
qed

end
