(* ===== verification/Mega_Handler.thy ===== *)
theory Mega_Handler
  imports Frame_Calls
begin

text \<open>
  The transaction handler (\<^verbatim>\<open>MegaHandler\<close> in \<^verbatim>\<open>evm/execution.rs\<close>): the implementations of the
  upstream traits \<^verbatim>\<open>Handler\<close> and \<^verbatim>\<open>InspectorHandler\<close>. Each method is a hook on the state of the EVM
  (error or value, and the new state; \<^term>\<open>None\<close> for a panic). The steps inherited from
  the upstream handler and the conversions into its error type are fields of the
  parameter \<open>H\<close>.
\<close>

section \<open>Upstream steps\<close>

record InitialAndFloorGas =
  initial_gas :: u64
  floor_gas :: u64

datatype InvalidTransaction = CallGasCostMoreThanGasLimit (itx_gas_limit: u64) (itx_initial_gas: u64)

record ('ir, 'gas, 'e, 'c, 'm, 'se, 'op, 'te, 'log, 'st, 'err) handler_env =
  he_evm :: "('ir, 'gas, 'e, 'c, 'm, 'se, 'op, 'te, 'log, 'st) evm_env"
  DEPOSIT_TRANSACTION_TYPE :: u8
  info_is_empty :: "AccountInfo \<Rightarrow> bool"
  get_tokens_in_calldata :: "bytes \<Rightarrow> bool \<Rightarrow> u64"
  is_basic_out_of_gas :: "'op \<Rightarrow> bool"
  fmt_salt_error :: "'se \<Rightarrow> string"
  fmt_callee_error :: "address \<Rightarrow> string"
  err_from_string :: "string \<Rightarrow> 'err"
  err_from_invalid :: "InvalidTransaction \<Rightarrow> 'err"
  err_from_db :: "'e \<Rightarrow> 'err"
  op_validate_env :: "('e, 'c, 'm, 'se, 'st) MegaEvm \<Rightarrow> ('err + unit) \<times> ('e, 'c, 'm, 'se, 'st) MegaEvm"
  op_validate_initial_tx_gas :: "('e, 'c, 'm, 'se, 'st) MegaEvm \<Rightarrow>
    ('err + InitialAndFloorGas) \<times> ('e, 'c, 'm, 'se, 'st) MegaEvm"
  op_pre_execution :: "('e, 'c, 'm, 'se, 'st) MegaEvm \<Rightarrow> ('err + u64) \<times> ('e, 'c, 'm, 'se, 'st) MegaEvm"
  op_first_frame_input :: "u64 \<Rightarrow> ('e, 'c, 'm, 'se, 'st) MegaEvm \<Rightarrow>
    ('err + FrameInit) \<times> ('e, 'c, 'm, 'se, 'st) MegaEvm"
  op_run_exec_loop :: "FrameInit \<Rightarrow> (('e, 'c, 'm, 'se, 'st) MegaEvm, 'err, ('ir, 'gas) FrameResult) hook"
  op_inspect_run_exec_loop ::
    "FrameInit \<Rightarrow> (('e, 'c, 'm, 'se, 'st) MegaEvm, 'err, ('ir, 'gas) FrameResult) hook"
  op_last_frame_result :: "('ir, 'gas) FrameResult \<Rightarrow> ('e, 'c, 'm, 'se, 'st) MegaEvm \<Rightarrow>
    ('err + ('ir, 'gas) FrameResult) \<times> ('e, 'c, 'm, 'se, 'st) MegaEvm"
  op_reward_beneficiary :: "('ir, 'gas) FrameResult \<Rightarrow> ('e, 'c, 'm, 'se, 'st) MegaEvm \<Rightarrow>
    ('err + ('ir, 'gas) FrameResult) \<times> ('e, 'c, 'm, 'se, 'st) MegaEvm"
  op_post_execution ::
    "(('ir, 'gas) FrameResult \<Rightarrow> (('e, 'c, 'm, 'se, 'st) MegaEvm, 'err, ('ir, 'gas) FrameResult) hook) \<Rightarrow>
     ('ir, 'gas) FrameResult \<Rightarrow> InitialAndFloorGas \<Rightarrow> u64 \<Rightarrow>
     (('e, 'c, 'm, 'se, 'st) MegaEvm, 'err, ('ir, 'gas) FrameResult) hook"
  op_execution_result :: "('ir, 'gas) FrameResult \<Rightarrow> ('e, 'c, 'm, 'se, 'st) MegaEvm \<Rightarrow>
    ('err + ('op, 'log) ExecutionResult) \<times> ('e, 'c, 'm, 'se, 'st) MegaEvm"
  op_catch_error :: "'err \<Rightarrow> ('e, 'c, 'm, 'se, 'st) MegaEvm \<Rightarrow>
    ('err + ('op, 'log) ExecutionResult) \<times> ('e, 'c, 'm, 'se, 'st) MegaEvm"

abbreviation he_revm where
  "he_revm H \<equiv> ue_revm (he_evm H)"

abbreviation evm_tx :: "('e, 'c, 'm, 'se, 'st) MegaEvm \<Rightarrow> MegaTransaction" where
  "evm_tx evm \<equiv> op_tx (inner (evm_ctx evm))"

section \<open>Before the run\<close>

text \<open>A system transaction is turned into a deposit: the upstream type accessor answers the deposit
  type as soon as the source hash is set.\<close>

definition mark_system_tx :: "u8 \<Rightarrow> MegaTransaction \<Rightarrow> MegaTransaction" where
  "mark_system_tx deposit_type tx =
     (if sent_from_mega_system_address tx
      then tx\<lparr>tx_source_hash := MEGA_SYSTEM_TRANSACTION_SOURCE_HASH, tx_type := deposit_type, tx_gas_price := 0\<rparr>
      else tx)"

definition set_tx :: "MegaTransaction \<Rightarrow> ('e, 'c, 'm, 'se) MegaContext \<Rightarrow> ('e, 'c, 'm, 'se) MegaContext" where
  "set_tx tx ctx = ctx\<lparr>inner := (inner ctx)\<lparr>op_tx := tx\<rparr>\<rparr>"

definition before_run ::
  "('ir, 'gas, 'e, 'c, 'm, 'se, 'op, 'te, 'log, 'st, 'err) handler_env \<Rightarrow>
   (('e, 'c, 'm, 'se, 'st) MegaEvm, 'err, unit) hook" where
  "before_run H evm =
     (let ctx = evm_ctx evm; tx = op_tx (inner ctx)
      in if is_enabled (mc_spec ctx) MINI_REX \<and> sent_from_mega_system_address tx
            \<and> \<not> is_mega_system_transaction tx
         then Some (Inl (err_from_string H ''Mega system transaction callee is not in the whitelist''), evm)
         else do {
           let ctx = (if is_enabled (mc_spec ctx) MINI_REX
                      then set_tx (mark_system_tx (DEPOSIT_TRANSACTION_TYPE H) tx) ctx else ctx);
           ctx \<leftarrow> on_new_tx ctx;
           Some (Inr (), evm\<lparr>evm_ctx := ctx\<rparr>)
         })"

definition gen_oog_frame_result :: "('ir, 'gas) revm \<Rightarrow> TxKind \<Rightarrow> u64 \<Rightarrow> ('ir, 'gas) FrameResult" where
  "gen_oog_frame_result R kind limit =
     (let result = \<lparr>ir_result = IR_OutOfGas R, ir_output = [], ir_gas = gas_new_spent R limit\<rparr>
      in case kind of
           TxCall _ \<Rightarrow> CallResult result (0, 0)
         | TxCreate \<Rightarrow> CreateResult result None)"

definition before_execution ::
  "('ir, 'gas, 'e, 'c, 'm, 'se, 'op, 'te, 'log, 'st, 'err) handler_env \<Rightarrow> InitialAndFloorGas \<Rightarrow>
   ('e, 'c, 'm, 'se, 'st) MegaEvm \<Rightarrow> ('ir, 'gas) FrameResult option" where
  "before_execution H gas evm =
     (let tx = evm_tx evm
      in if tx_gas_limit tx < initial_gas gas
         then Some (gen_oog_frame_result (he_revm H) (tx_kind tx) (tx_gas_limit tx))
         else None)"

section \<open>Validation\<close>

definition CALLDATA_STANDARD_TOKEN_STORAGE_GAS :: u64 where
  "CALLDATA_STANDARD_TOKEN_STORAGE_GAS = 4 * 10"

definition CALLDATA_STANDARD_TOKEN_STORAGE_FLOOR_GAS :: u64 where
  "CALLDATA_STANDARD_TOKEN_STORAGE_FLOOR_GAS = 10 * 10"

definition TX_INTRINSIC_STORAGE_GAS :: u64 where
  "TX_INTRINSIC_STORAGE_GAS = 39000"

text \<open>Storage gas of the account or contract that the transaction creates.\<close>

definition callee_storage_gas ::
  "('ir, 'gas, 'e, 'c, 'm, 'se, 'op, 'te, 'log, 'st, 'err) handler_env \<Rightarrow> ('e, 'c, 'm, 'se) MegaContext \<Rightarrow>
   ('err + address \<times> u64 option) \<times> ('e, 'c, 'm, 'se) MegaContext" where
  "callee_storage_gas H ctx =
     (let tx = op_tx (inner ctx)
      in case tx_kind tx of
           TxCreate \<Rightarrow>
             let created = address_create (ie_keyless (ue_intercept (he_evm H))) (tx_caller tx) (tx_nonce tx)
             in (case (if is_enabled (mc_spec ctx) REX
                       then create_contract_storage_gas (fmt_salt_error H) created ctx
                       else new_account_storage_gas (fmt_salt_error H) created ctx) of
                   (storage_gas, ctx) \<Rightarrow> (Inr (created, storage_gas), ctx))
         | TxCall address \<Rightarrow>
             if tx_value tx = 0 then (Inr (address, Some 0), ctx)
             else (case db_basic (op_db (inner ctx)) address of
                     Inl e \<Rightarrow> (Inl (err_from_db H e), ctx)
                   | Inr found \<Rightarrow>
                       if (case found of None \<Rightarrow> True | Some acc \<Rightarrow> info_is_empty H acc)
                       then (case new_account_storage_gas (fmt_salt_error H) address ctx of
                               (storage_gas, ctx) \<Rightarrow> (Inr (address, storage_gas), ctx))
                       else (Inr (address, Some 0), ctx)))"

text \<open>The gas of the call data and of the transaction itself.\<close>

definition add_calldata_gas ::
  "('ir, 'gas, 'e, 'c, 'm, 'se, 'op, 'te, 'log, 'st, 'err) handler_env \<Rightarrow> MegaSpecId \<Rightarrow> MegaTransaction \<Rightarrow>
   InitialAndFloorGas \<Rightarrow> InitialAndFloorGas" where
  "add_calldata_gas H spec tx gas =
     (let tokens = get_tokens_in_calldata H (tx_input tx) True
      in \<lparr>initial_gas = initial_gas gas + CALLDATA_STANDARD_TOKEN_STORAGE_GAS * tokens
            + (if is_enabled spec REX then TX_INTRINSIC_STORAGE_GAS else 0),
          floor_gas = floor_gas gas + CALLDATA_STANDARD_TOKEN_STORAGE_FLOOR_GAS * tokens\<rparr>)"

text \<open>What \<open>validate\<close> does after the upstream validation.\<close>

definition validate_storage_gas ::
  "('ir, 'gas, 'e, 'c, 'm, 'se, 'op, 'te, 'log, 'st, 'err) handler_env \<Rightarrow> InitialAndFloorGas \<Rightarrow>
   (('e, 'c, 'm, 'se, 'st) MegaEvm, 'err, InitialAndFloorGas) hook" where
  "validate_storage_gas H gas evm =
     (if is_enabled (evm_spec evm) MINI_REX
      then do {
        (_, al) \<leftarrow> record_compute_gas (initial_gas gas) (evm_limit evm);
        let evm = set_limit al evm;
        let gas = add_calldata_gas H (evm_spec evm) (evm_tx evm) gas;
        if tx_gas_limit (evm_tx evm) < initial_gas gas
        then Some (Inl (err_from_invalid H
                          (CallGasCostMoreThanGasLimit (tx_gas_limit (evm_tx evm)) (initial_gas gas))), evm)
        else (case callee_storage_gas H (evm_ctx evm) of
                (r, ctx) \<Rightarrow>
                  let evm = evm\<lparr>evm_ctx := ctx\<rparr>
                  in Some (case r of
                             Inl e \<Rightarrow> Inl e
                           | Inr (callee, None) \<Rightarrow> Inl (err_from_string H (fmt_callee_error H callee))
                           | Inr (callee, Some storage_gas) \<Rightarrow>
                               Inr (gas\<lparr>initial_gas := initial_gas gas + storage_gas\<rparr>), evm))
      }
      else Some (Inr gas, evm))"

definition validate ::
  "('ir, 'gas, 'e, 'c, 'm, 'se, 'op, 'te, 'log, 'st, 'err) handler_env \<Rightarrow>
   (('e, 'c, 'm, 'se, 'st) MegaEvm, 'err, InitialAndFloorGas) hook" where
  "validate H =
     and_then (upstream (op_validate_env H)) (\<lambda>_.
     and_then (upstream (op_validate_initial_tx_gas H)) (validate_storage_gas H))"

section \<open>Execution\<close>

definition last_frame_result ::
  "('ir, 'gas, 'e, 'c, 'm, 'se, 'op, 'te, 'log, 'st, 'err) handler_env \<Rightarrow> ('ir, 'gas) FrameResult \<Rightarrow>
   (('e, 'c, 'm, 'se, 'st) MegaEvm, 'err, ('ir, 'gas) FrameResult) hook" where
  "last_frame_result H result evm = do {
     let is_mini_rex = is_enabled (evm_spec evm) MINI_REX;
     (result, evm) \<leftarrow>
       (if is_mini_rex
        then do {
          (result, al) \<leftarrow> al_before_frame_return_result (he_revm H) (ue_limit_data (he_evm H)) True result
                            (evm_limit evm);
          Some (result, set_limit al evm)
        }
        else Some (result, evm));
     and_then (upstream (op_last_frame_result H result)) (\<lambda>result evm.
       Some (Inr (if is_mini_rex
                  then map_interp (\<lambda>r. r\<lparr>ir_gas := gas_erase_cost (he_revm H) (rescued_gas (evm_limit evm)) (ir_gas r)\<rparr>)
                         result
                  else result), evm)) evm
   }"

definition execution_with ::
  "(FrameInit \<Rightarrow> (('e, 'c, 'm, 'se, 'st) MegaEvm, 'err, ('ir, 'gas) FrameResult) hook) \<Rightarrow>
   ('ir, 'gas, 'e, 'c, 'm, 'se, 'op, 'te, 'log, 'st, 'err) handler_env \<Rightarrow> InitialAndFloorGas \<Rightarrow>
   (('e, 'c, 'm, 'se, 'st) MegaEvm, 'err, ('ir, 'gas) FrameResult) hook" where
  "execution_with exec_loop H gas evm =
     (case before_execution H gas evm of
        Some oog \<Rightarrow> Some (Inr oog, evm)
      | None \<Rightarrow>
          let frame_gas = tx_gas_limit (evm_tx evm) - initial_gas gas
          in and_then (upstream (op_first_frame_input H frame_gas)) (\<lambda>first.
             and_then (exec_loop first) (last_frame_result H)) evm)"

definition execution where
  "execution H = execution_with (op_run_exec_loop H) H"

definition inspect_execution where
  "inspect_execution H = execution_with (op_inspect_run_exec_loop H) H"

definition reward_beneficiary ::
  "('ir, 'gas, 'e, 'c, 'm, 'se, 'op, 'te, 'log, 'st, 'err) handler_env \<Rightarrow> ('ir, 'gas) FrameResult \<Rightarrow>
   (('e, 'c, 'm, 'se, 'st) MegaEvm, 'err, ('ir, 'gas) FrameResult) hook" where
  "reward_beneficiary H result evm =
     (if disable_beneficiary (evm_ctx evm) then Some (Inr result, evm)
      else upstream (op_reward_beneficiary H result) evm)"

section \<open>Results\<close>

fun map_haltreason :: "('h \<Rightarrow> 'g) \<Rightarrow> ('h, 'log) ExecutionResult \<Rightarrow> ('g, 'log) ExecutionResult" where
  "map_haltreason f (ExecSuccess g out logs) = ExecSuccess g out logs"
| "map_haltreason f (ExecRevert g out) = ExecRevert g out"
| "map_haltreason f (ExecHalt g h) = ExecHalt g (f h)"

text \<open>The closure that \<open>execution_result\<close> applies to the halt reason; it updates the limits.\<close>

definition mega_halt_reason ::
  "('op \<Rightarrow> bool) \<Rightarrow> VolatileDataAccess option \<Rightarrow> 'op \<Rightarrow> AdditionalLimit \<Rightarrow>
   ('op MegaHaltReason \<times> AdditionalLimit) option" where
  "mega_halt_reason basic_oog volatile_info reason al = do {
     (exceeding, al) \<leftarrow> is_exceeding_limit_halt basic_oog reason al;
     if exceeding
     then do {
       detained \<leftarrow> (case volatile_info of
                      Some access_type \<Rightarrow> detained_compute_gas_halt_reason access_type al
                    | None \<Rightarrow> Some None);
       (case detained of
          Some halt \<Rightarrow> Some (halt, al)
        | None \<Rightarrow> do {
            (c, al) \<leftarrow> al_check_limit al;
            halt \<leftarrow> maybe_halt_reason c;
            Some (halt, al)
          })
     }
     else Some (Base reason, al)
   }"

definition execution_result ::
  "('ir, 'gas, 'e, 'c, 'm, 'se, 'op, 'te, 'log, 'st, 'err) handler_env \<Rightarrow> ('ir, 'gas) FrameResult \<Rightarrow>
   (('e, 'c, 'm, 'se, 'st) MegaEvm, 'err, ('op MegaHaltReason, 'log) ExecutionResult) hook" where
  "execution_result H result evm =
     (let volatile_info = (if is_enabled (evm_spec evm) MINI_REX
                           then get_volatile_data_info (volatile_data_tracker (evm_ctx evm)) else None)
      in and_then (upstream (op_execution_result H result)) (\<lambda>result evm.
           case result of
             ExecSuccess g out logs \<Rightarrow> Some (Inr (ExecSuccess g out logs), evm)
           | ExecRevert g out \<Rightarrow> Some (Inr (ExecRevert g out), evm)
           | ExecHalt g reason \<Rightarrow> do {
               (halt, al) \<leftarrow> mega_halt_reason (is_basic_out_of_gas H) volatile_info reason (evm_limit evm);
               Some (Inr (ExecHalt g halt), set_limit al evm)
             }) evm)"

definition catch_error ::
  "('ir, 'gas, 'e, 'c, 'm, 'se, 'op, 'te, 'log, 'st, 'err) handler_env \<Rightarrow> 'err \<Rightarrow>
   (('e, 'c, 'm, 'se, 'st) MegaEvm, 'err, ('op MegaHaltReason, 'log) ExecutionResult) hook" where
  "catch_error H e =
     and_then (upstream (op_catch_error H e)) (\<lambda>result evm. Some (Inr (map_haltreason Base result), evm))"

section \<open>Runs\<close>

definition run_with where
  "run_with exec H =
     and_then (before_run H) (\<lambda>_.
     and_then (validate H) (\<lambda>gas.
     and_then (upstream (op_pre_execution H)) (\<lambda>eip7702_refund.
     and_then (exec H gas) (\<lambda>exec_result.
     and_then (op_post_execution H (reward_beneficiary H) exec_result gas eip7702_refund)
       (execution_result H)))))"

definition run_without_catch_error where
  "run_without_catch_error H = run_with execution H"

definition inspect_run_without_catch_error where
  "inspect_run_without_catch_error H = run_with inspect_execution H"

definition run_system_call ::
  "('ir, 'gas, 'e, 'c, 'm, 'se, 'op, 'te, 'log, 'st, 'err) handler_env \<Rightarrow>
   (('e, 'c, 'm, 'se, 'st) MegaEvm, 'err, ('op MegaHaltReason, 'log) ExecutionResult) hook" where
  "run_system_call H evm = do {
     ctx \<leftarrow> on_new_tx (evm_ctx evm);
     (r, evm) \<leftarrow> and_then (execution H \<lparr>initial_gas = 0, floor_gas = 0\<rparr>) (execution_result H)
                   (evm\<lparr>evm_ctx := ctx\<rparr>);
     (case r of
        Inr out \<Rightarrow> Some (Inr out, evm)
      | Inl e \<Rightarrow> catch_error H e evm)
   }"

section \<open>Lemmas\<close>

lemma check_twice:
  assumes "al_check_limit al = Some (c, al1)" and "exceeded_limit c"
  shows "al_check_limit al1 = Some (c, al1)"
  using al_check_limit_SomeD(1) [OF assms(1)] assms(2) by (simp add: al_check_limit_def)

lemma exceeded_reason: "exceeded_limit c \<Longrightarrow> \<exists>h. maybe_halt_reason c = Some h"
  by (auto simp: maybe_halt_reason_def exceeded_iff split: LimitCheck.split LimitKind.split)

lemma on_new_tx_inner: "on_new_tx ctx = Some ctx' \<Longrightarrow> inner ctx' = inner ctx"
  by (auto simp: on_new_tx_def bind_eq_Some_conv Let_def check_tx_beneficiary_access_eq
      reset_volatile_data_access_def split: if_splits)

lemma stash_error_tx [simp]: "op_tx (inner (snd (stash_error fmt r ctx))) = op_tx (inner ctx)"
  by (simp add: stash_error_def split: sum.split)

lemma storage_gas_tx [simp]:
  "op_tx (inner (snd (new_account_storage_gas fmt a ctx))) = op_tx (inner ctx)"
  "op_tx (inner (snd (create_contract_storage_gas fmt a ctx))) = op_tx (inner ctx)"
  by (simp_all add: new_account_storage_gas_def create_contract_storage_gas_def case_prod_beta)

lemma callee_storage_gas_tx:
  assumes "callee_storage_gas H ctx = (q, ctx')"
  shows "op_tx (inner ctx') = op_tx (inner ctx)"
proof -
  have "op_tx (inner (snd (callee_storage_gas H ctx))) = op_tx (inner ctx)"
    by (simp add: callee_storage_gas_def Let_def case_prod_beta split: TxKind.split sum.split)
  then show ?thesis by (simp add: assms)
qed

text \<open>The two outcomes of \<open>before_run\<close>.\<close>

lemma before_run_refused:
  assumes "is_enabled (evm_spec evm) MINI_REX" and "sent_from_mega_system_address (evm_tx evm)"
    and "\<not> is_mega_system_transaction (evm_tx evm)"
  shows "before_run H evm = Some (Inl (err_from_string H
    ''Mega system transaction callee is not in the whitelist''), evm)"
proof -
  have refused: "is_enabled (mc_spec (evm_ctx evm)) MINI_REX \<and> sent_from_mega_system_address (evm_tx evm)
      \<and> \<not> is_mega_system_transaction (evm_tx evm)"
    using assms unfolding evm_spec_def by (intro conjI)
  show ?thesis unfolding before_run_def Let_def if_P [OF refused] by (rule refl)
qed

lemma before_run_accepted_eq:
  assumes "\<not> (is_enabled (evm_spec evm) MINI_REX \<and> sent_from_mega_system_address (evm_tx evm) \<and>
      \<not> is_mega_system_transaction (evm_tx evm))"
  shows "before_run H evm = do {
      ctx \<leftarrow> on_new_tx (if is_enabled (evm_spec evm) MINI_REX
               then set_tx (mark_system_tx (DEPOSIT_TRANSACTION_TYPE H) (evm_tx evm)) (evm_ctx evm) else evm_ctx evm);
      Some (Inr (), evm\<lparr>evm_ctx := ctx\<rparr>) }"
  unfolding before_run_def Let_def if_not_P [OF assms [unfolded evm_spec_def]] evm_spec_def by (rule refl)

lemma before_run_accepted:
  assumes "\<not> (is_enabled (evm_spec evm) MINI_REX \<and> sent_from_mega_system_address (evm_tx evm) \<and>
      \<not> is_mega_system_transaction (evm_tx evm))"
    and "before_run H evm = Some (r, evm')"
  shows "r = Inr ()" and "\<exists>ctx. on_new_tx ctx = Some (evm_ctx evm') \<and> mc_spec ctx = evm_spec evm"
    and "evm_tx evm' = (if is_enabled (evm_spec evm) MINI_REX
      then mark_system_tx (DEPOSIT_TRANSACTION_TYPE H) (evm_tx evm) else evm_tx evm)"
proof -
  define ctx0 where "ctx0 = (if is_enabled (evm_spec evm) MINI_REX
      then set_tx (mark_system_tx (DEPOSIT_TRANSACTION_TYPE H) (evm_tx evm)) (evm_ctx evm) else evm_ctx evm)"
  obtain ctx where "on_new_tx ctx0 = Some ctx" "Some (Inr (), evm\<lparr>evm_ctx := ctx\<rparr>) = Some (r, evm')"
    using assms(2) unfolding before_run_accepted_eq [OF assms(1)] ctx0_def [symmetric] bind_eq_Some_conv
    by (elim exE conjE) (rule that)
  then have started: "on_new_tx ctx0 = Some (evm_ctx evm')" and r: "r = Inr ()" by auto
  show "r = Inr ()" by (rule r)
  have "mc_spec ctx0 = evm_spec evm" by (simp add: ctx0_def set_tx_def)
  with started show "\<exists>ctx. on_new_tx ctx = Some (evm_ctx evm') \<and> mc_spec ctx = evm_spec evm" by (intro exI conjI)
  show "evm_tx evm' = (if is_enabled (evm_spec evm) MINI_REX
      then mark_system_tx (DEPOSIT_TRANSACTION_TYPE H) (evm_tx evm) else evm_tx evm)"
    unfolding on_new_tx_inner [OF started] ctx0_def by (simp add: set_tx_def)
qed

text \<open>The halt reason, once the check of the limits and the usage of compute gas are known.\<close>

definition reported_halt ::
  "VolatileDataAccess option \<Rightarrow> 'op \<Rightarrow> LimitCheck \<Rightarrow> bool \<Rightarrow> u64 \<Rightarrow> u64 \<Rightarrow> 'op MegaHaltReason" where
  "reported_halt volatile_info reason c detained limit usage =
     (case maybe_halt_reason c of
        None \<Rightarrow> Base reason
      | Some h \<Rightarrow>
          (case volatile_info of
             Some access_type \<Rightarrow> if detained then VolatileDataAccessOutOfGas access_type limit usage else h
           | None \<Rightarrow> h))"

lemma mega_halt_reason_eq:
  fixes reason :: 'op
  assumes "al_check_limit al = Some (c, al1)" and "cg_tx_usage (al_compute_gas al) = Some u"
    and "basic_oog reason"
  shows "mega_halt_reason basic_oog volatile_info reason al =
    Some (reported_halt volatile_info reason c
            (cg_detained_limit (al_compute_gas al) < u
              \<and> cg_detained_limit (al_compute_gas al) < tracker_tx_limit (cg_frame_tracker (al_compute_gas al)))
            (detained_limit (al_compute_gas al)) u, al1)"
proof -
  have same: "al_compute_gas al1 = al_compute_gas al"
    using al_check_limit_SomeD(1) [OF assms(1)] by simp
  show ?thesis
  proof (cases "exceeded_limit c")
    case True
    then obtain h :: "'op MegaHaltReason" where "maybe_halt_reason c = Some h" using exceeded_reason by blast
    then show ?thesis
      using assms same True check_twice [OF assms(1) True]
      by (cases volatile_info)
        (simp_all add: mega_halt_reason_def is_exceeding_limit_halt_def detained_compute_gas_halt_reason_def
          is_detained_exceed_def reported_halt_def)
  next
    case False
    then have "maybe_halt_reason c = (None :: 'op MegaHaltReason option)"
      by (simp add: exceeded_iff maybe_halt_reason_def)
    then show ?thesis
      using assms False by (simp add: mega_halt_reason_def is_exceeding_limit_halt_def reported_halt_def)
  qed
qed

text \<open>Outcomes of the validation and of the execution.\<close>

lemma validate_storage_gas_SomeD:
  assumes "is_enabled (evm_spec evm) MINI_REX" and "validate_storage_gas H g evm = Some (r, evm1)"
  defines "paid \<equiv> add_calldata_gas H (evm_spec evm) (evm_tx evm) g"
  shows "unat (tx_gas_limit (evm_tx evm)) < unat (initial_gas paid) \<Longrightarrow>
      r = Inl (err_from_invalid H (CallGasCostMoreThanGasLimit (tx_gas_limit (evm_tx evm)) (initial_gas paid)))"
    and "\<not> unat (tx_gas_limit (evm_tx evm)) < unat (initial_gas paid) \<Longrightarrow>
      \<exists>ctx. op_tx (inner ctx) = evm_tx evm \<and> evm_tx evm1 = evm_tx evm \<and>
        (\<forall>g'. r = Inr g' \<longrightarrow> (\<exists>callee storage_gas.
           callee_storage_gas H ctx = (Inr (callee, Some storage_gas), evm_ctx evm1) \<and>
           g' = paid\<lparr>initial_gas := initial_gas paid + storage_gas\<rparr>))"
proof -
  obtain ok al where al: "record_compute_gas (initial_gas g) (evm_limit evm) = Some (ok, al)"
    using assms(1,2) by (auto simp: validate_storage_gas_def bind_eq_Some_conv)
  let ?ctx = "evm_ctx (set_limit al evm)"
  have tx: "op_tx (inner ?ctx) = evm_tx evm" by (simp add: set_limit_def)
  obtain q ctx where call: "callee_storage_gas H ?ctx = (q, ctx)" by fastforce
  show "r = Inl (err_from_invalid H (CallGasCostMoreThanGasLimit (tx_gas_limit (evm_tx evm)) (initial_gas paid)))"
    if "unat (tx_gas_limit (evm_tx evm)) < unat (initial_gas paid)"
    using that assms(1,2) al by (auto simp: validate_storage_gas_def paid_def tx word_less_nat_alt)
  assume "\<not> unat (tx_gas_limit (evm_tx evm)) < unat (initial_gas paid)"
  then have "r = (case q of
      Inl e \<Rightarrow> Inl e
    | Inr (callee, None) \<Rightarrow> Inl (err_from_string H (fmt_callee_error H callee))
    | Inr (callee, Some storage_gas) \<Rightarrow> Inr (paid\<lparr>initial_gas := initial_gas paid + storage_gas\<rparr>))"
    and "evm1 = (set_limit al evm)\<lparr>evm_ctx := ctx\<rparr>"
    using assms(1,2) al call
    by (cases q; auto simp: validate_storage_gas_def paid_def tx Let_def word_less_nat_alt split: option.split)+
  then show "\<exists>ctx. op_tx (inner ctx) = evm_tx evm \<and> evm_tx evm1 = evm_tx evm \<and>
      (\<forall>g'. r = Inr g' \<longrightarrow> (\<exists>callee storage_gas.
         callee_storage_gas H ctx = (Inr (callee, Some storage_gas), evm_ctx evm1) \<and>
         g' = paid\<lparr>initial_gas := initial_gas paid + storage_gas\<rparr>))"
    using call tx callee_storage_gas_tx [OF call]
    by (intro exI [of _ ?ctx]) (auto split: sum.splits option.splits prod.splits)
qed

lemma execution_by_nat:
  "execution H gas evm =
     (if unat (tx_gas_limit (evm_tx evm)) < unat (initial_gas gas)
      then Some (Inr (gen_oog_frame_result (he_revm H) (tx_kind (evm_tx evm)) (tx_gas_limit (evm_tx evm))), evm)
      else and_then
        (upstream (op_first_frame_input H (of_nat (unat (tx_gas_limit (evm_tx evm)) - unat (initial_gas gas)))))
        (\<lambda>first. and_then (op_run_exec_loop H first) (last_frame_result H)) evm)"
proof -
  have "a - b = of_nat (unat a - unat b)" if "\<not> unat a < unat b" for a b :: u64
  proof -
    have "unat (a - b) = unat a - unat b" using that by (simp add: unat_sub word_le_nat_alt)
    then have "of_nat (unat (a - b)) = (of_nat (unat a - unat b) :: u64)" by simp
    then show ?thesis by simp
  qed
  then show ?thesis
    by (auto simp: execution_def execution_with_def before_execution_def word_less_nat_alt Let_def)
qed

section \<open>Properties\<close>

text \<open>
  The halt reason of a transaction, on limits reached within
  64 bits. Determining it does not panic. A halt that is not a basic out-of-gas keeps its reason and
  touches nothing; a basic out-of-gas keeps its reason exactly when the check finds no exceeded limit;
  otherwise the volatile access is blamed exactly when compute gas was detained below the limit of
  the transaction and exceeded, and the first exceeded limit is reported in all other cases.
\<close>

lemma halt_reason_never_panics:
  assumes "aligned c d al" and "c < 2 ^ 64"
  shows "\<exists>k u. al_check_limit al = Some (k, al\<lparr>has_exceeded_limit := k\<rparr>)
    \<and> cg_tx_usage (al_compute_gas al) = Some u
    \<and> mega_halt_reason basic_oog volatile_info reason al =
        (if basic_oog reason
         then Some (reported_halt volatile_info reason k
                (cg_detained_limit (al_compute_gas al) < u
                  \<and> cg_detained_limit (al_compute_gas al) < tracker_tx_limit (cg_frame_tracker (al_compute_gas al)))
                (detained_limit (al_compute_gas al)) u, al\<lparr>has_exceeded_limit := k\<rparr>)
         else Some (Base reason, al))
    \<and> (reported_halt volatile_info reason k b l u = Base r \<longleftrightarrow> k = WithinLimit \<and> r = reason)"
proof -
  obtain k where k: "al_check_limit al = Some (k, al\<lparr>has_exceeded_limit := k\<rparr>)"
    using al_check_total [OF assms] by blast
  obtain u where u: "cg_tx_usage (al_compute_gas al) = Some u"
    using compute.usage_law [OF alignedD(4) [OF assms(1)] assms(2)] by blast
  have "reported_halt volatile_info reason k b l u = Base r \<longleftrightarrow> k = WithinLimit \<and> r = reason"
    by (auto simp: reported_halt_def maybe_halt_reason_def split: LimitCheck.splits LimitKind.splits option.splits)
  then show ?thesis
    using k u mega_halt_reason_eq [OF k u, of basic_oog reason volatile_info]
    by (cases "basic_oog reason") (auto simp: mega_halt_reason_def is_exceeding_limit_halt_def)
qed

text \<open>
  Property C31 (system_calls_become_deposits): transactions from the system address. One that is not
  a legacy call of the oracle contract is refused before anything changes; any other is run as a
  deposit with gas price zero and the fixed source hash, everything else of it unchanged. Other
  transactions are not changed.
\<close>

theorem system_calls_become_deposits:
  assumes "is_enabled (evm_spec evm) MINI_REX" and "before_run H evm = Some (r, evm')"
  shows "if sent_from_mega_system_address (evm_tx evm) \<and>
        (tx_type (evm_tx evm) \<noteq> 0 \<or> tx_kind (evm_tx evm) \<noteq> TxCall ORACLE_CONTRACT_ADDRESS)
     then (\<exists>e. r = Inl e) \<and> evm' = evm
     else r = Inr () \<and> evm_tx evm' =
       (if sent_from_mega_system_address (evm_tx evm)
        then (evm_tx evm)\<lparr>tx_source_hash := MEGA_SYSTEM_TRANSACTION_SOURCE_HASH,
               tx_type := DEPOSIT_TRANSACTION_TYPE H, tx_gas_price := 0\<rparr>
        else evm_tx evm)
       \<and> (sent_from_mega_system_address (evm_tx evm) \<longrightarrow>
            is_deposit_like_transaction (DEPOSIT_TRANSACTION_TYPE H) (evm_tx evm'))"
proof (cases "sent_from_mega_system_address (evm_tx evm) \<and> \<not> is_mega_system_transaction (evm_tx evm)")
  case True
  then show ?thesis
    using before_run_refused [OF assms(1), of H] assms(2) is_mega_system_transaction_iff [of "evm_tx evm"] by auto
next
  case False
  then have "r = Inr ()" and "evm_tx evm' = mark_system_tx (DEPOSIT_TRANSACTION_TYPE H) (evm_tx evm)"
    using before_run_accepted(1,3) [OF _ assms(2)] assms(1) by auto
  then show ?thesis
    using False is_mega_system_transaction_iff [of "evm_tx evm"]
    by (auto simp: mark_system_tx_def is_deposit_like_transaction_def)
qed

definition sample_handler_env ::
  "(nat, u64, unit, unit, unit, unit, unit, unit, unit, unit, nat) handler_env" where
  "sample_handler_env = \<lparr>he_evm = sample_evm_env, DEPOSIT_TRANSACTION_TYPE = 126,
     info_is_empty = (\<lambda>i. balance i = 0 \<and> nonce i = 0), get_tokens_in_calldata = (\<lambda>i _. 4 * len_u64 i),
     is_basic_out_of_gas = (\<lambda>_. True), fmt_salt_error = (\<lambda>_. ''salt''), fmt_callee_error = (\<lambda>_. ''callee''),
     err_from_string = (\<lambda>_. 1), err_from_invalid = (\<lambda>_. 2), err_from_db = (\<lambda>_. 3),
     op_validate_env = (\<lambda>evm. (Inr (), evm)),
     op_validate_initial_tx_gas = (\<lambda>evm. (Inr \<lparr>initial_gas = 21000, floor_gas = 21000\<rparr>, evm)),
     op_pre_execution = (\<lambda>evm. (Inr 0, evm)),
     op_first_frame_input = (\<lambda>_ evm. (Inr \<lparr>fi_depth = 0, fi_input = EmptyInput\<rparr>, evm)),
     op_run_exec_loop = (\<lambda>fi evm. (case inspect_frame_init sample_evm_env fi evm of
        Some (Inr (ResultItem r), evm) \<Rightarrow> Some (Inr r, evm) | _ \<Rightarrow> None)),
     op_inspect_run_exec_loop = (\<lambda>fi evm. (case inspect_frame_init sample_evm_env fi evm of
        Some (Inr (ResultItem r), evm) \<Rightarrow> Some (Inr r, evm) | _ \<Rightarrow> None)),
     op_last_frame_result = (\<lambda>r evm. (Inr r, evm)), op_reward_beneficiary = (\<lambda>r evm. (Inr r, evm)),
     op_post_execution = (\<lambda>reward r _ _. reward r),
     op_execution_result = (\<lambda>r evm. (Inr (ExecRevert 5 []), evm)),
     op_catch_error = (\<lambda>e evm. (Inl e, evm))\<rparr>"

definition sample_system_evm :: "(unit, unit, unit, unit, unit) MegaEvm" where
  "sample_system_evm = \<lparr>evm_ctx = (sample_context REX4)\<lparr>inner := (sample_op_context sample_database)
     \<lparr>op_tx := sample_tx\<lparr>tx_caller := MEGA_SYSTEM_ADDRESS, tx_type := 0\<rparr>\<rparr>\<rparr>, evm_inner = ()\<rparr>"

theorem system_calls_become_deposits_witness:
  "\<exists>e. before_run sample_handler_env sample_system_evm = Some (Inl e, sample_system_evm)"
proof -
  have callee: "2 \<noteq> ORACLE_CONTRACT_ADDRESS" by (simp add: ORACLE_CONTRACT_ADDRESS_def)
  have run: "before_run sample_handler_env sample_system_evm = Some (Inl 1, sample_system_evm)"
    using callee
    by (simp add: before_run_def sample_system_evm_def sample_context_def sample_op_context_def sample_tx_def
        is_enabled_def sent_from_mega_system_address_def is_mega_system_transaction_iff sample_handler_env_def)
  have "is_enabled (evm_spec sample_system_evm) MINI_REX"
    by (simp add: evm_spec_def sample_system_evm_def sample_context_def is_enabled_def)
  from system_calls_become_deposits [OF this run] run callee show ?thesis by auto
qed

text \<open>
  Property C30 (first_frame_gas): how the gas limit of a transaction is split, as natural numbers. The
  gas due up front is the intrinsic gas, 40 per token of call data, 39000 from Rex on and the storage gas
  of the account the transaction creates. Validation fails when the limit does not cover the first
  three; without the storage gas, execution runs out of gas before any frame is
  created; otherwise the first frame gets exactly the rest.
\<close>

theorem first_frame_gas:
  assumes "is_enabled (evm_spec evm) MINI_REX"
    and "validate_storage_gas H gas evm = Some (r, evm1)"
    and "due = unat (initial_gas gas) + 40 * unat (get_tokens_in_calldata H (tx_input (evm_tx evm)) True)
           + (if is_enabled (evm_spec evm) REX then 39000 else 0)"
    and "due < 2 ^ 64"
  shows "(unat (tx_gas_limit (evm_tx evm)) < due \<longrightarrow>
      r = Inl (err_from_invalid H (CallGasCostMoreThanGasLimit (tx_gas_limit (evm_tx evm)) (of_nat due))))
    \<and> (\<forall>paid. r = Inr paid \<longrightarrow> due \<le> unat (tx_gas_limit (evm_tx evm)) \<and>
       (\<exists>ctx callee storage_gas. op_tx (inner ctx) = evm_tx evm \<and>
          callee_storage_gas H ctx = (Inr (callee, Some storage_gas), evm_ctx evm1) \<and>
          (due + unat storage_gas < 2 ^ 64 \<longrightarrow>
            unat (initial_gas paid) = due + unat storage_gas \<and>
            execution H paid evm1 =
              (if unat (tx_gas_limit (evm_tx evm)) < due + unat storage_gas
               then Some (Inr (gen_oog_frame_result (he_revm H) (tx_kind (evm_tx evm)) (tx_gas_limit (evm_tx evm))), evm1)
               else and_then
                 (upstream (op_first_frame_input H
                    (of_nat (unat (tx_gas_limit (evm_tx evm)) - (due + unat storage_gas)))))
                 (\<lambda>first. and_then (op_run_exec_loop H first) (last_frame_result H)) evm1))))"
proof -
  let ?limit = "tx_gas_limit (evm_tx evm)"
  let ?gas = "add_calldata_gas H (evm_spec evm) (evm_tx evm) gas"
  have gas: "initial_gas ?gas = of_nat due"
    by (simp add: assms(3) add_calldata_gas_def CALLDATA_STANDARD_TOKEN_STORAGE_GAS_def
        TX_INTRINSIC_STORAGE_GAS_def Let_def)
  have due: "initial_gas ?gas = of_nat due" "unat (initial_gas ?gas) = due"
    unfolding gas using assms(4) by (simp_all add: unsigned_of_nat take_bit_nat_eq_self)
  show ?thesis
  proof (cases "unat ?limit < due")
    case True
    then show ?thesis using validate_storage_gas_SomeD(1) [OF assms(1,2)] due by simp
  next
    case False
    then obtain ctx where tx: "op_tx (inner ctx) = evm_tx evm" "evm_tx evm1 = evm_tx evm"
      and paid: "\<And>paid. r = Inr paid \<Longrightarrow> \<exists>callee storage_gas.
        callee_storage_gas H ctx = (Inr (callee, Some storage_gas), evm_ctx evm1) \<and>
        paid = ?gas\<lparr>initial_gas := initial_gas ?gas + storage_gas\<rparr>"
      using validate_storage_gas_SomeD(2) [OF assms(1,2)] due by auto
    have split: "unat (initial_gas (?gas\<lparr>initial_gas := initial_gas ?gas + s\<rparr>)) = due + unat s"
      if "due + unat s < 2 ^ 64" for s
      using that due(2) by (simp add: unat_add_lem [THEN iffD1])
    show ?thesis
    proof (intro conjI impI allI)
      fix paid assume "r = Inr paid"
      from paid [OF this] obtain callee s where
        "callee_storage_gas H ctx = (Inr (callee, Some s), evm_ctx evm1)"
        and "paid = ?gas\<lparr>initial_gas := initial_gas ?gas + s\<rparr>" by blast
      then show "\<exists>ctx callee storage_gas. op_tx (inner ctx) = evm_tx evm \<and>
          callee_storage_gas H ctx = (Inr (callee, Some storage_gas), evm_ctx evm1) \<and>
          (due + unat storage_gas < 2 ^ 64 \<longrightarrow>
            unat (initial_gas paid) = due + unat storage_gas \<and>
            execution H paid evm1 =
              (if unat ?limit < due + unat storage_gas
               then Some (Inr (gen_oog_frame_result (he_revm H) (tx_kind (evm_tx evm)) ?limit), evm1)
               else and_then
                 (upstream (op_first_frame_input H (of_nat (unat ?limit - (due + unat storage_gas)))))
                 (\<lambda>first. and_then (op_run_exec_loop H first) (last_frame_result H)) evm1))"
        using split [of s] tx
        by (intro exI [of _ ctx] exI [of _ callee] exI [of _ s]) (simp add: execution_by_nat del: InitialAndFloorGas.simps)
    qed (use False in simp_all)
  qed
qed

text \<open>A call of a contract without value: 21000 and 12 tokens of call data.\<close>

definition sample_fresh_evm :: "(unit, unit, unit, unit, unit) MegaEvm" where
  "sample_fresh_evm = \<lparr>evm_ctx = sample_context REX4, evm_inner = ()\<rparr>"

lemma sample_fresh [simp]:
  "evm_spec sample_fresh_evm = REX4" "evm_tx sample_fresh_evm = sample_tx"
  "evm_limit sample_fresh_evm = al_new REX4 (limits_from_spec REX4)"
  by (simp_all add: sample_fresh_evm_def sample_context_def evm_spec_def sample_op_context_def evm_limit_def)

lemma sample_validation_of:
  fixes evm :: "(unit, unit, unit, unit, unit) MegaEvm"
  assumes "record_compute_gas 21000 (evm_limit evm) = Some (ok, al)" and "evm_tx evm = sample_tx"
    and "is_enabled (evm_spec evm) MINI_REX" and "is_enabled (evm_spec evm) REX"
  shows "validate_storage_gas sample_handler_env \<lparr>initial_gas = 21000, floor_gas = 21000\<rparr> evm =
    Some (Inr \<lparr>initial_gas = 60480, floor_gas = 22200\<rparr>, set_limit al evm)"
proof -
  have gas: "add_calldata_gas sample_handler_env (evm_spec evm) sample_tx \<lparr>initial_gas = 21000, floor_gas = 21000\<rparr> =
      \<lparr>initial_gas = 60480, floor_gas = 22200\<rparr>"
    using assms(4) by (simp add: add_calldata_gas_def sample_tx_def sample_handler_env_def len_u64_def
        CALLDATA_STANDARD_TOKEN_STORAGE_GAS_def TX_INTRINSIC_STORAGE_GAS_def
        CALLDATA_STANDARD_TOKEN_STORAGE_FLOOR_GAS_def Let_def)
  have tx: "evm_tx (set_limit al evm) = sample_tx" using assms(2) by (simp add: set_limit_def)
  then have "callee_storage_gas sample_handler_env (evm_ctx (set_limit al evm)) =
      (Inr (2, Some 0), evm_ctx (set_limit al evm))"
    unfolding callee_storage_gas_def by (simp add: sample_tx_def Let_def)
  moreover have "\<not> tx_gas_limit sample_tx < 60480" by (simp add: sample_tx_def)
  ultimately show ?thesis using assms tx gas by (simp add: validate_storage_gas_def Let_def)
qed

lemma sample_validation:
  "\<exists>evm. validate_storage_gas sample_handler_env \<lparr>initial_gas = 21000, floor_gas = 21000\<rparr> sample_fresh_evm =
     Some (Inr \<lparr>initial_gas = 60480, floor_gas = 22200\<rparr>, evm)"
proof -
  obtain ok al where "record_compute_gas 21000 (evm_limit sample_fresh_evm) = Some (ok, al)"
    using record_compute_gas_aligned [OF aligned_new, of 21000 REX4 "limits_from_spec REX4"] by auto
  from sample_validation_of [OF this] show ?thesis by (simp add: is_enabled_def)
qed

theorem first_frame_gas_witness:
  "\<exists>evm. validate_storage_gas sample_handler_env \<lparr>initial_gas = 21000, floor_gas = 21000\<rparr> sample_fresh_evm
      = Some (Inr \<lparr>initial_gas = 60480, floor_gas = 22200\<rparr>, evm)
    \<and> execution sample_handler_env \<lparr>initial_gas = 60480, floor_gas = 22200\<rparr> evm = and_then
        (upstream (op_first_frame_input sample_handler_env 39520))
        (\<lambda>first. and_then (op_run_exec_loop sample_handler_env first) (last_frame_result sample_handler_env)) evm"
proof -
  obtain evm where run: "validate_storage_gas sample_handler_env \<lparr>initial_gas = 21000, floor_gas = 21000\<rparr>
      sample_fresh_evm = Some (Inr \<lparr>initial_gas = 60480, floor_gas = 22200\<rparr>, evm)"
    using sample_validation by blast
  have due: "60480 = unat (initial_gas \<lparr>initial_gas = 21000, floor_gas = 21000\<rparr>)
      + 40 * unat (get_tokens_in_calldata sample_handler_env (tx_input (evm_tx sample_fresh_evm)) True)
      + (if is_enabled (evm_spec sample_fresh_evm) REX then 39000 else (0::nat))"
    by (simp add: is_enabled_def sample_tx_def sample_handler_env_def len_u64_def)
  have mini: "is_enabled (evm_spec sample_fresh_evm) MINI_REX" by (simp add: is_enabled_def)
  have small: "60480 < (2::nat) ^ 64" by simp
  note facts = conjunct2 [OF first_frame_gas [OF mini run due small], THEN spec, THEN mp, OF refl, THEN conjunct2]
  from facts obtain ctx callee sg where
    call: "callee_storage_gas sample_handler_env ctx = (Inr (callee, Some sg), evm_ctx evm)"
    and tx: "op_tx (inner ctx) = sample_tx"
    and split: "60480 + unat sg < 2 ^ 64 \<longrightarrow> execution sample_handler_env \<lparr>initial_gas = 60480, floor_gas = 22200\<rparr> evm =
      (if unat (tx_gas_limit sample_tx) < 60480 + unat sg
       then Some (Inr (gen_oog_frame_result (he_revm sample_handler_env) (tx_kind sample_tx) (tx_gas_limit sample_tx)), evm)
       else and_then (upstream (op_first_frame_input sample_handler_env
              (of_nat (unat (tx_gas_limit sample_tx) - (60480 + unat sg)))))
         (\<lambda>first. and_then (op_run_exec_loop sample_handler_env first) (last_frame_result sample_handler_env)) evm)"
    unfolding sample_fresh by blast
  have "sg = 0" using call tx by (simp add: callee_storage_gas_def sample_tx_def Let_def)
  then show ?thesis using split run by (simp add: sample_tx_def)
qed

end
