(* ===== verification/Handler_Frames.thy ===== *)
theory Handler_Frames
  imports Mega_Handler
begin

text \<open>
  A whole transaction through the handler and the frame hooks: the trackers of the additional
  limits have no frame left when it succeeds. The statements are triples on hooks, composed along
  \<open>and_then\<close>; a hook that fails or panics satisfies every triple.
\<close>

section \<open>Triples on hooks\<close>

definition keeps :: "('s \<Rightarrow> bool) \<Rightarrow> ('s, 'err, 'a) hook \<Rightarrow> ('s \<Rightarrow> bool) \<Rightarrow> bool" where
  "keeps P f Q \<longleftrightarrow> (\<forall>s a s'. P s \<longrightarrow> f s = Some (Inr a, s') \<longrightarrow> Q s')"

lemma keepsD: "keeps P f Q \<Longrightarrow> P s \<Longrightarrow> f s = Some (Inr a, s') \<Longrightarrow> Q s'"
  unfolding keeps_def by blast

lemma keeps_and_then [intro]:
  "keeps P f Q \<Longrightarrow> (\<And>a. keeps Q (g a) R) \<Longrightarrow> keeps P (and_then f g) R"
  unfolding keeps_def by (blast elim: and_then_Inr)

lemma keeps_weaken: "keeps P f Q \<Longrightarrow> (\<And>s. P' s \<Longrightarrow> P s) \<Longrightarrow> (\<And>s. Q s \<Longrightarrow> Q' s) \<Longrightarrow> keeps P' f Q'"
  unfolding keeps_def by blast

lemma keeps_upstream:
  assumes "keeps_limits (\<lambda>evm. snd (f evm))"
    and "\<And>evm evm'. P evm \<Longrightarrow> evm_limit evm' = evm_limit evm \<Longrightarrow> evm_spec evm' = evm_spec evm \<Longrightarrow> P evm'"
  shows "keeps P (upstream f) P"
  using assms keeps_limitsD [OF assms(1)] unfolding keeps_def upstream_Some by blast

lemma calls_keeps: "keeps_limits (\<lambda>evm. snd (f evm)) \<Longrightarrow> keeps (evm_calls U d) (upstream f) (evm_calls U d)"
  by (rule keeps_upstream) (auto intro: calls_upstream)

section \<open>Upstream code\<close>

text \<open>The upstream steps keep the limits and the spec; the execution loop calls nothing but the frame
  hooks, and ends with the result of the outermost frame, which has returned unless it was never
  created. Post-execution works on the state through the reward hook it is given.\<close>

definition no_frame :: "('e, 'c, 'm, 'se, 'st) MegaEvm \<Rightarrow> bool" where
  "no_frame evm \<longleftrightarrow> level 0 (evm_limit evm) \<and> is_enabled (evm_spec evm) MINI_REX"

definition handler_neutral ::
  "('ir, 'gas, 'e, 'c, 'm, 'se, 'op, 'te, 'log, 'st, 'err) handler_env \<Rightarrow> bool" where
  "handler_neutral H \<longleftrightarrow> upstream_neutral (he_evm H) \<and>
     keeps_limits (\<lambda>evm. snd (op_validate_env H evm)) \<and>
     keeps_limits (\<lambda>evm. snd (op_validate_initial_tx_gas H evm)) \<and>
     keeps_limits (\<lambda>evm. snd (op_pre_execution H evm)) \<and>
     (\<forall>g. keeps_limits (\<lambda>evm. snd (op_first_frame_input H g evm))) \<and>
     (\<forall>r. keeps_limits (\<lambda>evm. snd (op_last_frame_result H r evm))) \<and>
     (\<forall>r. keeps_limits (\<lambda>evm. snd (op_reward_beneficiary H r evm))) \<and>
     (\<forall>r. keeps_limits (\<lambda>evm. snd (op_execution_result H r evm))) \<and>
     (\<forall>f r g n. (\<forall>r. keeps no_frame (f r) no_frame) \<longrightarrow> keeps no_frame (op_post_execution H f r g n) no_frame) \<and>
     (\<forall>fi. keeps (evm_calls (he_evm H) 0) (op_run_exec_loop H fi)
        (\<lambda>evm. evm_calls (he_evm H) 0 evm \<or> evm_calls (he_evm H) 1 evm)) \<and>
     (\<forall>fi. keeps (evm_calls (he_evm H) 0) (op_inspect_run_exec_loop H fi)
        (\<lambda>evm. evm_calls (he_evm H) 0 evm \<or> evm_calls (he_evm H) 1 evm))"

section \<open>The steps of the handler\<close>

lemma before_run_keeps:
  "keeps (\<lambda>evm. is_enabled (evm_spec evm) MINI_REX) (before_run H) (evm_calls (he_evm H) 0)"
  unfolding keeps_def
proof (intro allI impI)
  fix evm u evm'
  assume mini: "is_enabled (evm_spec evm) MINI_REX" and run: "before_run H evm = Some (Inr u, evm')"
  have "\<not> (is_enabled (evm_spec evm) MINI_REX \<and> sent_from_mega_system_address (evm_tx evm) \<and>
      \<not> is_mega_system_transaction (evm_tx evm))"
    using before_run_refused [OF mini, of H] run by auto
  then show "evm_calls (he_evm H) 0 evm'"
    using before_run_accepted(2) [OF _ run] mini calls_start by metis
qed

lemma stash_error_limits [simp]:
  "additional_limit (snd (stash_error fmt r ctx)) = additional_limit ctx"
  "mc_spec (snd (stash_error fmt r ctx)) = mc_spec ctx"
  by (simp_all add: stash_error_def split: sum.split)

lemma callee_storage_gas_limits:
  assumes "callee_storage_gas H ctx = (q, ctx')"
  shows "additional_limit ctx' = additional_limit ctx \<and> mc_spec ctx' = mc_spec ctx"
proof -
  have "additional_limit (snd (callee_storage_gas H ctx)) = additional_limit ctx \<and>
      mc_spec (snd (callee_storage_gas H ctx)) = mc_spec ctx"
    by (simp add: callee_storage_gas_def new_account_storage_gas_def create_contract_storage_gas_def
        Let_def case_prod_beta split: TxKind.split sum.split)
  then show ?thesis by (simp add: assms)
qed

lemma validate_keeps:
  assumes "handler_neutral H"
  shows "keeps (evm_calls (he_evm H) 0) (validate H) (evm_calls (he_evm H) 0)"
proof -
  have "keeps (evm_calls (he_evm H) 0) (validate_storage_gas H g) (evm_calls (he_evm H) 0)" for g
    unfolding keeps_def
  proof (intro allI impI)
    fix evm paid evm'
    assume calls: "evm_calls (he_evm H) 0 evm" and run: "validate_storage_gas H g evm = Some (Inr paid, evm')"
    show "evm_calls (he_evm H) 0 evm'"
    proof (cases "is_enabled (evm_spec evm) MINI_REX")
      case True
      then obtain ok al where al: "record_compute_gas (initial_gas g) (evm_limit evm) = Some (ok, al)"
        using run by (auto simp: validate_storage_gas_def bind_eq_Some_conv)
      obtain q ctx where call: "callee_storage_gas H (evm_ctx (set_limit al evm)) = (q, ctx)" by fastforce
      have "evm' = (set_limit al evm)\<lparr>evm_ctx := ctx\<rparr>"
        using run True al call by (auto simp: validate_storage_gas_def Let_def split: if_splits)
      then show ?thesis
        using calls_upstream [OF calls_record [OF calls al], of evm'] callee_storage_gas_limits [OF call] by simp
    next
      case False
      then show ?thesis using run calls by (simp add: validate_storage_gas_def)
    qed
  qed
  then show ?thesis
    unfolding validate_def using assms
    by (auto simp: handler_neutral_def intro!: keeps_and_then [OF calls_keeps])
qed

lemma last_frame_result_keeps:
  assumes "handler_neutral H"
  shows "keeps (\<lambda>evm. evm_calls (he_evm H) 0 evm \<or> evm_calls (he_evm H) 1 evm) (last_frame_result H r) no_frame"
  unfolding keeps_def
proof (intro allI impI)
  fix evm out evm'
  assume calls: "evm_calls (he_evm H) 0 evm \<or> evm_calls (he_evm H) 1 evm"
    and run: "last_frame_result H r evm = Some (Inr out, evm')"
  have neutral: "upstream_neutral (he_evm H)" "keeps_limits (\<lambda>evm. snd (op_last_frame_result H r evm))" for r
    using assms by (simp_all add: handler_neutral_def)
  obtain d where d: "level d (evm_limit evm)" "d \<le> 1" and mini: "is_enabled (evm_spec evm) MINI_REX"
    using calls evm_calls_level [OF _ neutral(1)] by (metis le_refl zero_le_one)
  obtain r1 al where hook: "al_before_frame_return_result (he_revm H) (ue_limit_data (he_evm H)) True r
      (evm_limit evm) = Some (r1, al)"
    using run mini by (auto simp: last_frame_result_def Let_def bind_eq_Some_conv)
  have "level 0 al" using before_frame_return_level [OF hook d(1)] d(2) by (cases d) simp_all
  moreover obtain r2 where "op_last_frame_result H r1 (set_limit al evm) = (Inr r2, evm')"
    using run mini hook by (auto simp: last_frame_result_def Let_def elim!: and_then_upstream_Inr)
  ultimately show "no_frame evm'"
    using keeps_limitsD [OF neutral(2)] mini by (fastforce simp: no_frame_def)
qed

lemma execution_keeps:
  assumes "handler_neutral H"
    and "\<And>fi. keeps (evm_calls (he_evm H) 0) (exec_loop fi)
      (\<lambda>evm. evm_calls (he_evm H) 0 evm \<or> evm_calls (he_evm H) 1 evm)"
  shows "keeps (evm_calls (he_evm H) 0) (execution_with exec_loop H gas) no_frame"
proof -
  have "keeps (evm_calls (he_evm H) 0) (and_then (upstream (op_first_frame_input H g))
      (\<lambda>first. and_then (exec_loop first) (last_frame_result H))) no_frame" for g
    using assms(1) by (intro keeps_and_then [OF calls_keeps] keeps_and_then [OF assms(2)]
        last_frame_result_keeps) (auto simp: handler_neutral_def)
  moreover have "no_frame evm" if "evm_calls (he_evm H) 0 evm" for evm
    using evm_calls_level [OF that] assms(1) by (simp add: no_frame_def handler_neutral_def)
  ultimately show ?thesis
    unfolding keeps_def execution_with_def Let_def by (auto split: option.splits)
qed

lemma no_frame_keeps: "keeps_limits (\<lambda>evm. snd (f evm)) \<Longrightarrow> keeps no_frame (upstream f) no_frame"
  by (rule keeps_upstream) (simp_all add: no_frame_def)

lemma execution_result_keeps:
  assumes "handler_neutral H"
  shows "keeps no_frame (execution_result H r) no_frame"
proof -
  have halt: "level 0 al \<Longrightarrow> mega_halt_reason oog vi reason al = Some (h, al') \<Longrightarrow> level 0 al'" for oog vi reason al h al'
    by (auto simp: mega_halt_reason_def is_exceeding_limit_halt_def bind_eq_Some_conv
        dest: check_level [of _ _ _ 0] split: if_splits option.splits)
  let ?body = "\<lambda>vi result evm. case result of
      ExecSuccess g out logs \<Rightarrow> Some (Inr (ExecSuccess g out logs), evm)
    | ExecRevert g out \<Rightarrow> Some (Inr (ExecRevert g out), evm)
    | ExecHalt g reason \<Rightarrow> do {
        (halt, al) \<leftarrow> mega_halt_reason (is_basic_out_of_gas H) vi reason (evm_limit evm);
        Some (Inr (ExecHalt g halt), set_limit al evm) }"
  have body: "keeps no_frame (?body vi result) no_frame" for vi result
    unfolding keeps_def by (cases result) (auto simp: no_frame_def bind_eq_Some_conv dest: halt)
  have "keeps no_frame (and_then (upstream (op_execution_result H r)) (?body vi)) no_frame" for vi
    using assms by (intro keeps_and_then [OF no_frame_keeps] body) (simp add: handler_neutral_def)
  then show ?thesis
    unfolding keeps_def execution_result_def Let_def by blast
qed

lemma run_with_keeps:
  assumes "handler_neutral H"
    and "\<And>fi. keeps (evm_calls (he_evm H) 0) (exec_loop fi)
      (\<lambda>evm. evm_calls (he_evm H) 0 evm \<or> evm_calls (he_evm H) 1 evm)"
  shows "keeps (\<lambda>evm. is_enabled (evm_spec evm) MINI_REX) (run_with (execution_with exec_loop) H) no_frame"
proof -
  have reward: "keeps no_frame (reward_beneficiary H r) no_frame" for r
  proof -
    have "keeps no_frame (upstream (op_reward_beneficiary H r)) no_frame"
      using assms(1) by (intro no_frame_keeps) (simp add: handler_neutral_def)
    then show ?thesis unfolding keeps_def reward_beneficiary_def by (metis option.inject prod.inject)
  qed
  have post: "keeps no_frame (op_post_execution H (reward_beneficiary H) r g n) no_frame" for r g n
    using assms(1) reward unfolding handler_neutral_def by blast
  have pre: "keeps (evm_calls (he_evm H) 0) (upstream (op_pre_execution H)) (evm_calls (he_evm H) 0)"
    using assms(1) by (intro keeps_upstream) (auto simp: handler_neutral_def intro: calls_upstream)
  show ?thesis
    unfolding run_with_def
    by (rule keeps_and_then [OF before_run_keeps], rule keeps_and_then [OF validate_keeps [OF assms(1)]],
        rule keeps_and_then [OF pre], rule keeps_and_then [OF execution_keeps [OF assms]],
        rule keeps_and_then [OF post], rule execution_result_keeps [OF assms(1)])
qed

lemma runs_leave_no_frame:
  assumes "handler_neutral H"
  shows "keeps (\<lambda>evm. is_enabled (evm_spec evm) MINI_REX) (run_without_catch_error H) no_frame"
    and "keeps (\<lambda>evm. is_enabled (evm_spec evm) MINI_REX) (inspect_run_without_catch_error H) no_frame"
  using run_with_keeps [OF assms(1), of "op_run_exec_loop H"]
    run_with_keeps [OF assms(1), of "op_inspect_run_exec_loop H"] assms(1)
  by (simp_all add: run_without_catch_error_def inspect_run_without_catch_error_def execution_def
      inspect_execution_def run_with_def handler_neutral_def)

section \<open>The property\<close>

text \<open>
  Property C29 (transaction_leaves_no_frame): a transaction that runs to a result through the handler,
  with or without an inspector. Whatever frames it entered, were refused, intercepted or
  answered by the inspector, and whether or not it ran out of gas before the first
  frame, the frame stacks of all four trackers are empty at the end.
\<close>

theorem transaction_leaves_no_frame:
  assumes "handler_neutral H" and "is_enabled (evm_spec evm) MINI_REX"
    and "run_without_catch_error H evm = Some (Inr out, evm')
      \<or> inspect_run_without_catch_error H evm = Some (Inr out, evm')"
  shows "sg_depth (al_state_growth (evm_limit evm')) = 0 \<and> ds_depth (al_data_size (evm_limit evm')) = 0
    \<and> kv_depth (al_kv_update (evm_limit evm')) = 0 \<and> cg_depth (al_compute_gas (evm_limit evm')) = 0"
proof -
  have "no_frame evm'" using runs_leave_no_frame [OF assms(1)] assms(2,3) by (auto elim: keepsD)
  then show ?thesis by (simp add: no_frame_def level_def)
qed

text \<open>The concrete handler: its inspector answers the outermost frame.\<close>

lemma sample_handler_neutral: "handler_neutral sample_handler_env"
proof -
  have env: "he_evm sample_handler_env = sample_evm_env" by (simp add: sample_handler_env_def)
  have loop: "keeps (evm_calls sample_evm_env 0) (\<lambda>evm. case inspect_frame_init sample_evm_env fi evm of
        Some (Inr (ResultItem r), evm) \<Rightarrow> Some (Inr r, evm) | _ \<Rightarrow> None)
      (\<lambda>evm. evm_calls sample_evm_env 0 evm \<or> evm_calls sample_evm_env 1 evm)" for fi
    unfolding keeps_def using calls_inspect_init [of sample_evm_env 0 _ fi]
    by (auto split: option.splits sum.splits ItemOrResult.splits)
  show ?thesis
    unfolding handler_neutral_def env using sample_evm_env_neutral loop
    by (intro conjI) (auto simp: sample_handler_env_def keeps_limits_def)
qed

text \<open>A transaction whose call data already exceeds the data size limit: every check repeats the
  exceeded limit.\<close>

definition stopped :: "nat \<Rightarrow> AdditionalLimit \<Rightarrow> bool" where
  "stopped d al \<longleftrightarrow> level d al \<and> (\<exists>k l u. has_exceeded_limit al = ExceedsLimit k l u False)"

lemma stopped_steps:
  assumes "stopped d al"
  shows "\<exists>ok al'. record_compute_gas g al = Some (ok, al') \<and> stopped d al'"
    and "d = 0 \<Longrightarrow> \<exists>al'. al_push_empty_frame al = Some al' \<and> stopped 1 al'"
    and "\<exists>r' al'. al_before_frame_return_result R enc True r al = Some (r', al')"
proof -
  obtain k l u where flag: "has_exceeded_limit al = ExceedsLimit k l u False" and level: "level d al"
    using assms by (auto simp: stopped_def)
  have "record_compute_gas g al = Some (False, al\<lparr>al_compute_gas := record_gas_used g (al_compute_gas al)\<rparr>)"
    using flag by (simp add: record_compute_gas_def al_check_limit_def)
  then show "\<exists>ok al'. record_compute_gas g al = Some (ok, al') \<and> stopped d al'"
    using level flag by (auto simp: stopped_def level_def)
  show "\<exists>r' al'. al_before_frame_return_result R enc True r al = Some (r', al')"
    using flag by (simp add: al_before_frame_return_result_def sg_before_frame_return_result_def
        ds_before_frame_return_result_def kv_before_frame_return_result_def
        cg_before_frame_return_result_def al_check_limit_def Let_def)
  assume "d = 0"
  then obtain al' where push: "al_push_empty_frame al = Some al'" using first_push level by blast
  moreover have "has_exceeded_limit al' = has_exceeded_limit al"
    using push by (auto simp: al_push_empty_frame_def bind_eq_Some_conv)
  ultimately show "\<exists>al'. al_push_empty_frame al = Some al' \<and> stopped 1 al'"
    using push_empty_level [OF push, of 0] level \<open>d = 0\<close> flag by (auto simp: stopped_def)
qed

definition sample_stopped_context :: "(unit, unit, unit, unit) MegaContext" where
  "sample_stopped_context =
     ctx_with_tx_runtime_limits (limits_rex3\<lparr>tx_data_size_limit := 10\<rparr>) (sample_keyless_context REX3)"

lemma sample_stopped_start:
  "\<exists>ctx. on_new_tx sample_stopped_context = Some ctx \<and> stopped 0 (additional_limit ctx) \<and> mc_spec ctx = REX3
     \<and> op_tx (inner ctx) = sample_tx"
proof -
  let ?limits = "limits_rex3\<lparr>tx_data_size_limit := 10\<rparr>"
  have new: "additional_limit sample_stopped_context = al_new REX3 ?limits" "mc_spec sample_stopped_context = REX3"
    "op_tx (inner sample_stopped_context) = sample_tx"
    by (simp_all add: sample_stopped_context_def ctx_with_tx_runtime_limits_def sample_keyless_context_def
        sample_context_def sample_op_context_def)
  let ?ctx1 = "check_tx_beneficiary_access (reset_volatile_data_access sample_stopped_context)"
  have same: "additional_limit ?ctx1 = al_new REX3 ?limits" "mc_spec ?ctx1 = REX3" "op_tx (inner ?ctx1) = sample_tx"
    using new by (simp_all add: check_tx_beneficiary_access_eq reset_volatile_data_access_def)
  have reset: "al_reset (al_new REX3 ?limits) = al_new REX3 ?limits"
    using al_reset_config [OF refl, of REX3 ?limits] by (simp add: is_enabled_def al_new_def cg_new_def)
  obtain al where start: "al_before_tx_start sample_tx (al_new REX3 ?limits) = Some (False, al)"
    and flag: "has_exceeded_limit al = ExceedsLimit DataSize 10 447 False"
    by (simp add: al_before_tx_start_def al_new_def al_check_limit_def sample_data_size_exceeded)
  have "on_new_tx sample_stopped_context = Some (?ctx1\<lparr>additional_limit := al\<rparr>)"
    unfolding on_new_tx_def Let_def same reset start by (simp add: is_enabled_def)
  moreover have "stopped 0 al"
    using before_tx_start_level [OF start, of 0] flag aligned_level [OF aligned_new] by (simp add: stopped_def)
  ultimately show ?thesis using same by simp
qed

lemma and_then_step: "m s = Some (Inr a, s') \<Longrightarrow> and_then m f s = f a s'"
  by (simp add: and_then_def)

lemma sample_fields:
  "op_validate_env sample_handler_env evm = (Inr (), evm)"
  "op_validate_initial_tx_gas sample_handler_env evm = (Inr \<lparr>initial_gas = 21000, floor_gas = 21000\<rparr>, evm)"
  "op_pre_execution sample_handler_env evm = (Inr 0, evm)"
  "op_first_frame_input sample_handler_env g evm = (Inr \<lparr>fi_depth = 0, fi_input = EmptyInput\<rparr>, evm)"
  "op_last_frame_result sample_handler_env r evm = (Inr r, evm)"
  "op_reward_beneficiary sample_handler_env r evm = (Inr r, evm)"
  "op_post_execution sample_handler_env reward r gas n = reward r"
  "op_execution_result sample_handler_env r evm = (Inr (ExecRevert 5 []), evm)"
  by (simp_all add: sample_handler_env_def)

lemma sample_stopped_run:
  "\<exists>out evm. run_without_catch_error sample_handler_env \<lparr>evm_ctx = sample_stopped_context, evm_inner = ()\<rparr> =
     Some (Inr out, evm)"
proof -
  let ?H = sample_handler_env
  let ?evm0 = "\<lparr>evm_ctx = sample_stopped_context, evm_inner = ()\<rparr> :: (unit, unit, unit, unit, unit) MegaEvm"
  obtain ctx where ctx: "on_new_tx sample_stopped_context = Some ctx" "stopped 0 (additional_limit ctx)"
    "mc_spec ctx = REX3" "op_tx (inner ctx) = sample_tx"
    using sample_stopped_start by blast
  define evm1 where "evm1 = (\<lparr>evm_ctx = ctx, evm_inner = ()\<rparr> :: (unit, unit, unit, unit, unit) MegaEvm)"
  have one: "evm_spec evm1 = REX3" "evm_tx evm1 = sample_tx" "evm_limit evm1 = additional_limit ctx"
    using ctx by (simp_all add: evm1_def evm_spec_def evm_limit_def)
  have other: "\<not> sent_from_mega_system_address (evm_tx ?evm0)"
    using ctx(4) on_new_tx_inner [OF ctx(1)]
    by (simp add: sent_from_mega_system_address_def sample_tx_def MEGA_SYSTEM_ADDRESS_def)
  have before: "before_run ?H ?evm0 = Some (Inr (), evm1)"
    using other ctx(1) by (subst before_run_accepted_eq) (auto simp: evm1_def mark_system_tx_def set_tx_def)
  obtain ok al where al: "record_compute_gas 21000 (evm_limit evm1) = Some (ok, al)" "stopped 0 al"
    using stopped_steps(1) ctx(2) one(3) by fastforce
  let ?evm2 = "set_limit al evm1"
  have validate: "validate ?H evm1 = Some (Inr \<lparr>initial_gas = 60480, floor_gas = 22200\<rparr>, ?evm2)"
    using sample_validation_of [OF al(1) one(2)] one(1)
    by (simp add: validate_def and_then_def upstream_def is_enabled_def sample_fields)
  obtain al2 where al2: "al_push_empty_frame al = Some al2" "stopped 1 al2"
    using stopped_steps(2) [OF al(2)] by blast
  obtain r' al3 where al3: "al_before_frame_return_result (he_revm ?H) (ue_limit_data (he_evm ?H)) True
      (CallResult sample_ir (0, 0)) al2 = Some (r', al3)"
    using stopped_steps(3) [OF al2(2)] by blast
  have tx2: "evm_tx ?evm2 = sample_tx" using one(2) by (simp add: set_limit_def)
  have loop: "op_run_exec_loop ?H \<lparr>fi_depth = 0, fi_input = EmptyInput\<rparr> ?evm2 =
      Some (Inr (CallResult sample_ir (0, 0)), set_limit al2 ?evm2)"
    using al2(1) one(1) by (simp add: sample_handler_env_def inspect_frame_init_def sample_evm_env_def is_enabled_def)
  have "\<exists>r. execution ?H \<lparr>initial_gas = 60480, floor_gas = 22200\<rparr> ?evm2 = Some (Inr r, set_limit al3 (set_limit al2 ?evm2))"
    unfolding execution_by_nat tx2 using al3 loop one(1)
    by (simp add: sample_tx_def and_then_def upstream_def last_frame_result_def is_enabled_def sample_fields)
  then obtain r where exec: "execution ?H \<lparr>initial_gas = 60480, floor_gas = 22200\<rparr> ?evm2 =
      Some (Inr r, set_limit al3 (set_limit al2 ?evm2))" by blast
  have pre: "upstream (op_pre_execution ?H) evm = Some (Inr 0, evm)" for evm
    by (simp add: sample_fields)
  have post: "op_post_execution ?H (reward_beneficiary ?H) r g n evm = Some (Inr r, evm)" for g n evm
    by (simp add: sample_fields reward_beneficiary_def)
  have "execution_result ?H r evm = Some (Inr (ExecRevert 5 []), evm)" for evm
    by (simp add: execution_result_def and_then_def upstream_def Let_def sample_fields)
  then show ?thesis
    by (simp add: run_without_catch_error_def run_with_def and_then_step [of "before_run ?H", OF before]
        and_then_step [of "validate ?H", OF validate] and_then_step [of "upstream (op_pre_execution ?H)", OF pre]
        and_then_step [of "execution ?H _", OF exec] and_then_step [of "op_post_execution ?H _ _ _ _", OF post])
qed

theorem transaction_leaves_no_frame_witness:
  "\<exists>out evm. run_without_catch_error sample_handler_env \<lparr>evm_ctx = sample_stopped_context, evm_inner = ()\<rparr> =
     Some (Inr out, evm) \<and> sg_depth (al_state_growth (evm_limit evm)) = 0"
proof -
  let ?evm0 = "\<lparr>evm_ctx = sample_stopped_context, evm_inner = ()\<rparr> :: (unit, unit, unit, unit, unit) MegaEvm"
  obtain out evm where run: "run_without_catch_error sample_handler_env ?evm0 = Some (Inr out, evm)"
    using sample_stopped_run by blast
  have "evm_spec ?evm0 = REX3"
    by (simp add: evm_spec_def sample_stopped_context_def ctx_with_tx_runtime_limits_def
        sample_keyless_context_def sample_context_def)
  then have "is_enabled (evm_spec ?evm0) MINI_REX" by (simp add: is_enabled_def)
  from transaction_leaves_no_frame [OF sample_handler_neutral this disjI1, OF run] run show ?thesis by blast
qed

end
