(* ===== verification/Instructions.thy ===== *)
theory Instructions
  imports Mega_Host
begin

text \<open>
  The opcode wrappers of \<^verbatim>\<open>evm/instructions.rs\<close>: the modules \<^verbatim>\<open>compute_gas_ext\<close>,
  \<^verbatim>\<open>storage_gas_ext\<close>, \<^verbatim>\<open>additional_limit_ext\<close>, \<^verbatim>\<open>forward_gas_ext\<close> and \<^verbatim>\<open>volatile_data_ext\<close>.
  An instruction maps the interpreter and the context to their new state, \<^term>\<open>None\<close> when
  it panics. The base instructions are upstream code, the field \<open>base_op\<close> of the parameter \<open>E\<close>; the
  upstream macros \<^verbatim>\<open>gas!\<close>, \<^verbatim>\<open>gas_or_fail!\<close> and \<^verbatim>\<open>as_usize_or_fail!\<close> are written out.
\<close>

section \<open>Interpreter and instructions\<close>

record ('ir, 'gas, 'st) Interpreter =
  it_stack :: "u256 list"
  it_gas :: 'gas
  it_action :: "('ir, 'gas) InterpreterAction option"
  it_target_address :: address
  it_spec_id :: u8
  it_memory :: bytes
  it_rest :: 'st

record ('ir, 'gas, 'st, 'e, 'c, 'm, 'se) InstrContext =
  is_interp :: "('ir, 'gas, 'st) Interpreter"
  is_host :: "('e, 'c, 'm, 'se) MegaContext"

type_synonym ('ir, 'gas, 'st, 'e, 'c, 'm, 'se) instruction =
  "('ir, 'gas, 'st, 'e, 'c, 'm, 'se) InstrContext \<Rightarrow> ('ir, 'gas, 'st, 'e, 'c, 'm, 'se) InstrContext option"

record ('ir, 'gas, 'st, 'e, 'c, 'm, 'se) instr_env =
  in_revm :: "('ir, 'gas) revm"
  IR_StackUnderflow :: 'ir
  IR_FatalExternalError :: 'ir
  IR_InvalidFEOpcode :: 'ir
  IR_InvalidOperandOOG :: 'ir
  ir_is_error :: "'ir \<Rightarrow> bool"
  base_op :: "u8 \<Rightarrow> ('ir, 'gas, 'st, 'e, 'c, 'm, 'se) instruction"
  control_unknown :: "('ir, 'gas, 'st, 'e, 'c, 'm, 'se) instruction"
  control_invalid :: "('ir, 'gas, 'st, 'e, 'c, 'm, 'se) instruction"
  in_fmt_salt_error :: "'se \<Rightarrow> string"
  in_fmt_db_error :: "'e \<Rightarrow> string"
  state_clear_aware_is_empty :: "u8 \<Rightarrow> Account \<Rightarrow> bool"
  slice_len :: "bytes \<Rightarrow> u64 \<Rightarrow> u64 \<Rightarrow> bytes option"
  keccak256 :: "bytes \<Rightarrow> b256"
  create_address :: "address \<Rightarrow> u64 \<Rightarrow> address"
  create2_address :: "address \<Rightarrow> u256 \<Rightarrow> b256 \<Rightarrow> address"
  volatile_data_access_disabled_revert_data :: "VolatileDataAccessType \<Rightarrow> bytes"

text \<open>\<^verbatim>\<open>StackInspectTr::inspect\<close>: the top of the stack is the last element.\<close>

definition inspect :: "nat \<Rightarrow> u256 list \<Rightarrow> u256 option" where
  "inspect n stack = (if n \<ge> length stack then None else Some (stack ! (length stack - 1 - n)))"

definition into_address :: "u256 \<Rightarrow> address" where
  "into_address w = ucast w"

definition set_action where
  "set_action a st = st\<lparr>is_interp := (is_interp st)\<lparr>it_action := Some a\<rparr>\<rparr>"

definition set_gas where
  "set_gas g st = st\<lparr>is_interp := (is_interp st)\<lparr>it_gas := g\<rparr>\<rparr>"

definition set_host where
  "set_host h st = st\<lparr>is_host := h\<rparr>"

text \<open>\<^verbatim>\<open>interpreter.halt(result)\<close> and the return that the disabled opcodes make up.\<close>

definition new_return ::
  "'ir \<Rightarrow> bytes \<Rightarrow> ('ir, 'gas, 'st, 'e, 'c, 'm, 'se) InstrContext \<Rightarrow> ('ir, 'gas, 'st, 'e, 'c, 'm, 'se) InstrContext"
  where
  "new_return result out st =
     set_action (ReturnAction \<lparr>ir_result = result, ir_output = out, ir_gas = it_gas (is_interp st)\<rparr>) st"

definition halt ::
  "'ir \<Rightarrow> ('ir, 'gas, 'st, 'e, 'c, 'm, 'se) InstrContext \<Rightarrow> ('ir, 'gas, 'st, 'e, 'c, 'm, 'se) InstrContext" where
  "halt result st = new_return result [] st"

definition instruction_result :: "('ir, 'gas, 'st, 'e, 'c, 'm, 'se) InstrContext \<Rightarrow> 'ir option" where
  "instruction_result st =
     (case it_action (is_interp st) of Some (ReturnAction r) \<Rightarrow> Some (ir_result r) | _ \<Rightarrow> None)"

definition aborted ::
  "('ir, 'gas, 'st, 'e, 'c, 'm, 'se) instr_env \<Rightarrow> ('ir, 'gas, 'st, 'e, 'c, 'm, 'se) InstrContext \<Rightarrow> bool" where
  "aborted E st = (case instruction_result st of Some r \<Rightarrow> ir_is_error E r | None \<Rightarrow> False)"

text \<open>\<^verbatim>\<open>run_inner_instruction_or_abort!\<close>, with the rest of the caller as a continuation.\<close>

definition run_inner_instruction_or_abort ::
  "('ir, 'gas, 'st, 'e, 'c, 'm, 'se) instr_env \<Rightarrow> ('ir, 'gas, 'st, 'e, 'c, 'm, 'se) instruction \<Rightarrow>
   ('ir, 'gas, 'st, 'e, 'c, 'm, 'se) instruction \<Rightarrow> ('ir, 'gas, 'st, 'e, 'c, 'm, 'se) instruction" where
  "run_inner_instruction_or_abort E inner_fn rest st = do {
     st \<leftarrow> inner_fn st;
     if aborted E st then Some st else rest st
   }"

text \<open>\<^verbatim>\<open>gas!\<close>: charge the interpreter or halt out of gas.\<close>

definition charge_gas ::
  "('ir, 'gas, 'st, 'e, 'c, 'm, 'se) instr_env \<Rightarrow> u64 \<Rightarrow> ('ir, 'gas, 'st, 'e, 'c, 'm, 'se) instruction \<Rightarrow>
   ('ir, 'gas, 'st, 'e, 'c, 'm, 'se) instruction" where
  "charge_gas E cost rest st =
     (case gas_record_cost (in_revm E) cost (it_gas (is_interp st)) of
        (paid, g) \<Rightarrow>
          let st = set_gas g st
          in if paid then rest st else Some (halt (IR_OutOfGas (in_revm E)) st))"

text \<open>\<^verbatim>\<open>let Some(x) = .. else halt(result)\<close> and \<^verbatim>\<open>as_usize_or_fail!\<close>.\<close>

definition or_halt ::
  "'ir \<Rightarrow> 'a option \<Rightarrow> ('a \<Rightarrow> ('ir, 'gas, 'st, 'e, 'c, 'm, 'se) instruction) \<Rightarrow>
   ('ir, 'gas, 'st, 'e, 'c, 'm, 'se) instruction" where
  "or_halt result r rest st = (case r of None \<Rightarrow> Some (halt result st) | Some x \<Rightarrow> rest x st)"

definition as_usize :: "u256 \<Rightarrow> u64 option" where
  "as_usize v = (if unat v < 2 ^ 64 then Some (ucast v) else None)"

abbreviation peek where
  "peek E n rest st \<equiv> or_halt (IR_StackUnderflow E) (inspect n (it_stack (is_interp st))) rest st"

section \<open>Compute gas\<close>

text \<open>Record a resource and halt when a limit is exceeded.\<close>

definition record_or_halt ::
  "('ir, 'gas, 'st, 'e, 'c, 'm, 'se) instr_env \<Rightarrow> (AdditionalLimit \<Rightarrow> (bool \<times> AdditionalLimit) option) \<Rightarrow>
   ('ir, 'gas, 'st, 'e, 'c, 'm, 'se) instruction" where
  "record_or_halt E record st = do {
     (ok, al) \<leftarrow> record (additional_limit (is_host st));
     let st = set_host ((is_host st)\<lparr>additional_limit := al\<rparr>) st;
     Some (if ok then st else halt (exceeding_instruction_result (in_revm E) al) st)
   }"

text \<open>\<^verbatim>\<open>compute_gas!\<close>\<close>

definition compute_gas ::
  "('ir, 'gas, 'st, 'e, 'c, 'm, 'se) instr_env \<Rightarrow> u64 \<Rightarrow> ('ir, 'gas, 'st, 'e, 'c, 'm, 'se) instruction" where
  "compute_gas E gas_used = record_or_halt E (record_compute_gas gas_used)"

text \<open>The gas that a new frame takes along.\<close>

definition forwarded_to_frame :: "('ir, 'gas) InterpreterAction option \<Rightarrow> u64" where
  "forwarded_to_frame a =
     (case a of
        Some (NewFrameAction (CallInput ci)) \<Rightarrow> ci_gas_limit ci
      | Some (NewFrameAction (CreateInput ci)) \<Rightarrow> cri_gas_limit ci
      | _ \<Rightarrow> 0)"

definition compute_gas_ext ::
  "('ir, 'gas, 'st, 'e, 'c, 'm, 'se) instr_env \<Rightarrow> u8 \<Rightarrow> ('ir, 'gas, 'st, 'e, 'c, 'm, 'se) instruction" where
  "compute_gas_ext E opcode st =
     (let gas_before = gas_remaining (in_revm E) (it_gas (is_interp st))
      in run_inner_instruction_or_abort E (base_op E opcode) (\<lambda>st.
           let gas_used = saturating_sub gas_before (gas_remaining (in_revm E) (it_gas (is_interp st)));
               gas_used = saturating_sub gas_used (forwarded_to_frame (it_action (is_interp st)))
           in compute_gas E gas_used st) st)"

section \<open>Storage gas\<close>

text \<open>\<^verbatim>\<open>JournalInspectTr\<close> for the context: a database error is stashed.\<close>

definition stash_inspection ::
  "('e \<Rightarrow> string) \<Rightarrow> ('e + 'r) \<times> Journal \<Rightarrow> ('e, 'c, 'm, 'se) MegaContext \<Rightarrow>
   'r option \<times> ('e, 'c, 'm, 'se) MegaContext" where
  "stash_inspection fmt result ctx =
     (case result of (r, j) \<Rightarrow>
        let inn = (inner ctx)\<lparr>op_journal := j\<rparr>
        in case r of
             Inl e \<Rightarrow> (None, ctx\<lparr>inner := inn\<lparr>op_error := Some (CustomError (fmt e))\<rparr>\<rparr>)
           | Inr x \<Rightarrow> (Some x, ctx\<lparr>inner := inn\<rparr>))"

definition host_inspect_account_delegated ::
  "('e \<Rightarrow> string) \<Rightarrow> MegaSpecId \<Rightarrow> address \<Rightarrow> ('e, 'c, 'm, 'se) MegaContext \<Rightarrow>
   Account option \<times> ('e, 'c, 'm, 'se) MegaContext" where
  "host_inspect_account_delegated fmt spec address ctx =
     stash_inspection fmt
       (apfst (map_sum id snd)
          (inspect_account_delegated (op_db (inner ctx)) spec address (op_journal (inner ctx)))) ctx"

definition host_inspect_storage ::
  "('e \<Rightarrow> string) \<Rightarrow> MegaSpecId \<Rightarrow> address \<Rightarrow> u256 \<Rightarrow> ('e, 'c, 'm, 'se) MegaContext \<Rightarrow>
   (EvmStorageSlot option \<times> ('e, 'c, 'm, 'se) MegaContext) option" where
  "host_inspect_storage fmt spec address key ctx = do {
     result \<leftarrow> inspect_storage (op_db (inner ctx)) spec address key (op_journal (inner ctx));
     Some (stash_inspection fmt result ctx)
   }"

text \<open>A host call with an optional result, and the early return when it has none.\<close>

definition on_host ::
  "('ir, 'gas, 'st, 'e, 'c, 'm, 'se) instr_env \<Rightarrow>
   (('e, 'c, 'm, 'se) MegaContext \<Rightarrow> 'a option \<times> ('e, 'c, 'm, 'se) MegaContext) \<Rightarrow>
   ('a \<Rightarrow> ('ir, 'gas, 'st, 'e, 'c, 'm, 'se) instruction) \<Rightarrow> ('ir, 'gas, 'st, 'e, 'c, 'm, 'se) instruction" where
  "on_host E f rest st =
     (case f (is_host st) of
        (r, host) \<Rightarrow> or_halt (IR_FatalExternalError E) r rest (set_host host st))"

text \<open>\<^verbatim>\<open>wrap_call_with_storage_gas!\<close>\<close>

definition storage_gas_call ::
  "('ir, 'gas, 'st, 'e, 'c, 'm, 'se) instr_env \<Rightarrow> u8 \<Rightarrow> bool \<Rightarrow> ('ir, 'gas, 'st, 'e, 'c, 'm, 'se) instruction"
  where
  "storage_gas_call E opcode has_transfer_logic st =
     (let spec = it_spec_id (is_interp st)
      in peek E 1 (\<lambda>to st.
         let to = into_address to
         in on_host E (host_inspect_account_delegated (in_fmt_db_error E) (mc_spec (is_host st)) to) (\<lambda>to_account st.
            let is_empty = state_clear_aware_is_empty E spec to_account;
                call = run_inner_instruction_or_abort E (compute_gas_ext E opcode) Some;
                charged = (\<lambda>has_transfer st.
                  if is_empty \<and> has_transfer
                  then on_host E (new_account_storage_gas (in_fmt_salt_error E) to)
                         (\<lambda>new_account_gas. charge_gas E new_account_gas call) st
                  else call st)
            in if has_transfer_logic
               then peek E 2 (\<lambda>value. charged (value \<noteq> 0)) st
               else charged False st) st) st)"

text \<open>The address of the contract that \<^verbatim>\<open>CREATE\<close> and \<^verbatim>\<open>CREATE2\<close> make. Reading the memory
  panics when the range is out of bounds.\<close>

definition with_created_address ::
  "('ir, 'gas, 'st, 'e, 'c, 'm, 'se) instr_env \<Rightarrow> bool \<Rightarrow> address \<Rightarrow> Account \<Rightarrow>
   (address \<Rightarrow> ('ir, 'gas, 'st, 'e, 'c, 'm, 'se) instruction) \<Rightarrow> ('ir, 'gas, 'st, 'e, 'c, 'm, 'se) instruction"
  where
  "with_created_address E is_create2 creator_address creator rest st =
     (if is_create2
      then peek E 1 (\<lambda>initcode_offset. \<lambda>st. peek E 2 (\<lambda>initcode_len.
             or_halt (IR_InvalidOperandOOG E) (as_usize initcode_offset) (\<lambda>initcode_offset.
             or_halt (IR_InvalidOperandOOG E) (as_usize initcode_len) (\<lambda>initcode_len st. do {
               c \<leftarrow> slice_len E (it_memory (is_interp st)) initcode_offset initcode_len;
               let initcode_hash = keccak256 E c;
               peek E 3 (\<lambda>salt. rest (create2_address E creator_address salt initcode_hash)) st
             }))) st) st
      else rest (create_address E creator_address (nonce (acc_info creator))) st)"

definition storage_gas_create ::
  "('ir, 'gas, 'st, 'e, 'c, 'm, 'se) instr_env \<Rightarrow> u8 \<Rightarrow> bool \<Rightarrow> ('ir, 'gas, 'st, 'e, 'c, 'm, 'se) instruction"
  where
  "storage_gas_create E opcode is_create2 st =
     (let spec = mc_spec (is_host st); creator_address = it_target_address (is_interp st)
      in on_host E (host_inspect_account_delegated (in_fmt_db_error E) spec creator_address) (\<lambda>creator.
         with_created_address E is_create2 creator_address creator (\<lambda>created_address.
           on_host E (if is_enabled spec REX
                      then create_contract_storage_gas (in_fmt_salt_error E) created_address
                      else new_account_storage_gas (in_fmt_salt_error E) created_address) (\<lambda>storage_gas.
             charge_gas E storage_gas
               (run_inner_instruction_or_abort E (compute_gas_ext E opcode) Some)))) st)"

definition LOG_TOPIC_STORAGE_GAS :: u64 where
  "LOG_TOPIC_STORAGE_GAS = 375 * 10"

definition LOG_DATA_STORAGE_GAS :: u64 where
  "LOG_DATA_STORAGE_GAS = 8 * 10"

definition checked_mul :: "u64 \<Rightarrow> u64 \<Rightarrow> u64 option" where
  "checked_mul a b = (if unat a * unat b < 2 ^ 64 then Some (a * b) else None)"

definition log_storage_cost :: "nat \<Rightarrow> u64 \<Rightarrow> u64 option" where
  "log_storage_cost n len = do {
     topic \<leftarrow> checked_mul LOG_TOPIC_STORAGE_GAS (of_nat n);
     cost \<leftarrow> checked_mul LOG_DATA_STORAGE_GAS len;
     checked_add cost topic
   }"

definition storage_gas_log ::
  "('ir, 'gas, 'st, 'e, 'c, 'm, 'se) instr_env \<Rightarrow> u8 \<Rightarrow> nat \<Rightarrow> ('ir, 'gas, 'st, 'e, 'c, 'm, 'se) instruction"
  where
  "storage_gas_log E opcode n st =
     peek E 1 (\<lambda>len.
       or_halt (IR_InvalidOperandOOG E) (as_usize len) (\<lambda>len.
       or_halt (IR_OutOfGas (in_revm E)) (log_storage_cost n len) (\<lambda>cost.
         charge_gas E cost (\<lambda>st.
           if n \<le> 4 then run_inner_instruction_or_abort E (compute_gas_ext E opcode) Some st
           else Some (halt (IR_InvalidFEOpcode E) st))))) st"

text \<open>The values of a slot that is about to be written.\<close>

definition with_slot ::
  "('ir, 'gas, 'st, 'e, 'c, 'm, 'se) instr_env \<Rightarrow>
   (u256 \<Rightarrow> SStoreResult \<Rightarrow> ('ir, 'gas, 'st, 'e, 'c, 'm, 'se) instruction) \<Rightarrow>
   ('ir, 'gas, 'st, 'e, 'c, 'm, 'se) instruction" where
  "with_slot E rest st =
     (let target_address = it_target_address (is_interp st)
      in peek E 0 (\<lambda>index st. do {
           (slot, host) \<leftarrow> host_inspect_storage (in_fmt_db_error E) (mc_spec (is_host st)) target_address index
                             (is_host st);
           or_halt (IR_FatalExternalError E) slot (\<lambda>slot st.
             let original = slot_original_value slot; present = slot_present_value slot
             in peek E 1 (\<lambda>new. rest index \<lparr>original_value = original, present_value = present,
                  new_value = new, is_original_eq_present = (original = present),
                  is_original_eq_new = (original = new)\<rparr>) st) (set_host host st)
         }) st)"

definition storage_gas_sstore ::
  "('ir, 'gas, 'st, 'e, 'c, 'm, 'se) instr_env \<Rightarrow> u8 \<Rightarrow> ('ir, 'gas, 'st, 'e, 'c, 'm, 'se) instruction" where
  "storage_gas_sstore E opcode =
     with_slot E (\<lambda>index values st.
       let run = run_inner_instruction_or_abort E (compute_gas_ext E opcode) Some
       in if original_value values = 0 \<and> present_value values = 0 \<and> new_value values \<noteq> 0
          then on_host E (sstore_set_storage_gas (in_fmt_salt_error E) (it_target_address (is_interp st)) index)
                 (\<lambda>storage_gas. charge_gas E storage_gas run) st
          else run st)"

section \<open>Additional limits\<close>

definition additional_limit_sstore ::
  "('ir, 'gas, 'st, 'e, 'c, 'm, 'se) instr_env \<Rightarrow> u8 \<Rightarrow> ('ir, 'gas, 'st, 'e, 'c, 'm, 'se) instruction" where
  "additional_limit_sstore E opcode =
     with_slot E (\<lambda>index values.
       run_inner_instruction_or_abort E (storage_gas_sstore E opcode) (record_or_halt E (on_sstore values)))"

definition additional_limit_log ::
  "('ir, 'gas, 'st, 'e, 'c, 'm, 'se) instr_env \<Rightarrow> u8 \<Rightarrow> nat \<Rightarrow> ('ir, 'gas, 'st, 'e, 'c, 'm, 'se) instruction"
  where
  "additional_limit_log E opcode n st =
     peek E 1 (\<lambda>len.
       or_halt (IR_InvalidOperandOOG E) (as_usize len) (\<lambda>len.
         run_inner_instruction_or_abort E (storage_gas_log E opcode n)
           (record_or_halt E (on_log (of_nat n) len)))) st"

section \<open>Gas forwarding\<close>

definition CALL_STIPEND :: u128 where
  "CALL_STIPEND = 2300"

text \<open>The share of the child's gas that it keeps under the 98/100 rule, and what returns to the
  parent, in 128-bit arithmetic.\<close>

definition cap_forwarded_gas :: "u64 \<Rightarrow> u64 \<Rightarrow> u128 \<Rightarrow> u64 \<times> u64" where
  "cap_forwarded_gas gas_left child_gas transfer_gas_stipend =
     (let forwarded_gas = ucast child_gas - transfer_gas_stipend;
          parent_original_gas_left = ucast gas_left + forwarded_gas;
          forwarded_gas_cap = parent_original_gas_left - parent_original_gas_left * 2 div 100;
          capped_forwarded_gas = min forwarded_gas forwarded_gas_cap;
          gas_to_return = forwarded_gas - capped_forwarded_gas
      in (ucast (capped_forwarded_gas + transfer_gas_stipend), ucast gas_to_return))"

definition cap_new_frame ::
  "('ir, 'gas, 'st, 'e, 'c, 'm, 'se) instr_env \<Rightarrow> bool \<Rightarrow> ('ir, 'gas, 'st, 'e, 'c, 'm, 'se) instruction" where
  "cap_new_frame E has_transfer st =
     (let gas_left = gas_remaining (in_revm E) (it_gas (is_interp st));
          return = (\<lambda>back st. set_gas (gas_erase_cost (in_revm E) back (it_gas (is_interp st))) st)
      in case it_action (is_interp st) of
           Some (NewFrameAction (CallInput ci)) \<Rightarrow>
             (case cap_forwarded_gas gas_left (ci_gas_limit ci) (if has_transfer then CALL_STIPEND else 0) of
                (child, back) \<Rightarrow>
                  Some (set_action (NewFrameAction (CallInput (ci\<lparr>ci_gas_limit := child\<rparr>))) (return back st)))
         | Some (NewFrameAction (CreateInput ci)) \<Rightarrow>
             (case cap_forwarded_gas gas_left (cri_gas_limit ci) 0 of
                (child, back) \<Rightarrow>
                  Some (set_action (NewFrameAction (CreateInput (ci\<lparr>cri_gas_limit := child\<rparr>))) (return back st)))
         | _ \<Rightarrow> Some st)"

definition check_call_has_transfer :: "('ir, 'gas, 'st, 'e, 'c, 'm, 'se) InstrContext \<Rightarrow> bool" where
  "check_call_has_transfer st = (case inspect 2 (it_stack (is_interp st)) of Some v \<Rightarrow> v \<noteq> 0 | None \<Rightarrow> False)"

definition no_transfer :: "('ir, 'gas, 'st, 'e, 'c, 'm, 'se) InstrContext \<Rightarrow> bool" where
  "no_transfer st = False"

text \<open>\<^verbatim>\<open>wrap_gas_cap!\<close>\<close>

definition wrap_gas_cap ::
  "('ir, 'gas, 'st, 'e, 'c, 'm, 'se) instr_env \<Rightarrow> ('ir, 'gas, 'st, 'e, 'c, 'm, 'se) instruction \<Rightarrow>
   (('ir, 'gas, 'st, 'e, 'c, 'm, 'se) InstrContext \<Rightarrow> bool) \<Rightarrow> ('ir, 'gas, 'st, 'e, 'c, 'm, 'se) instruction"
  where
  "wrap_gas_cap E wrapped_fn has_transfer_logic st =
     run_inner_instruction_or_abort E wrapped_fn (cap_new_frame E (has_transfer_logic st)) st"

section \<open>Volatile data\<close>

text \<open>\<^verbatim>\<open>apply_compute_gas_limit!\<close>\<close>

definition apply_compute_gas_limit :: "('ir, 'gas, 'st, 'e, 'c, 'm, 'se) instruction" where
  "apply_compute_gas_limit st =
     (case get_compute_gas_limit (volatile_data_tracker (is_host st)) of
        None \<Rightarrow> Some st
      | Some limit \<Rightarrow> do {
          al \<leftarrow> set_compute_gas_limit limit (additional_limit (is_host st));
          Some (set_host ((is_host st)\<lparr>additional_limit := al\<rparr>) st)
        })"

definition revert_disabled ::
  "('ir, 'gas, 'st, 'e, 'c, 'm, 'se) instr_env \<Rightarrow> VolatileDataAccessType \<Rightarrow>
   ('ir, 'gas, 'st, 'e, 'c, 'm, 'se) instruction" where
  "revert_disabled E access_type st =
     Some (new_return (IR_Revert (in_revm E)) (volatile_data_access_disabled_revert_data E access_type) st)"

definition detaining ::
  "('ir, 'gas, 'st, 'e, 'c, 'm, 'se) instr_env \<Rightarrow> u8 \<Rightarrow> ('ir, 'gas, 'st, 'e, 'c, 'm, 'se) instruction" where
  "detaining E opcode = run_inner_instruction_or_abort E (compute_gas_ext E opcode) apply_compute_gas_limit"

text \<open>\<^verbatim>\<open>wrap_op_detain_gas_unconditional!\<close>, \<^verbatim>\<open>wrap_op_detain_gas_conditional!\<close>, the \<^verbatim>\<open>SLOAD\<close> handler and
  \<^verbatim>\<open>wrap_call_volatile_check!\<close>\<close>

definition volatile_unconditional ::
  "('ir, 'gas, 'st, 'e, 'c, 'm, 'se) instr_env \<Rightarrow> u8 \<Rightarrow> VolatileDataAccessType \<Rightarrow>
   ('ir, 'gas, 'st, 'e, 'c, 'm, 'se) instruction" where
  "volatile_unconditional E opcode access_type st =
     (if host_volatile_access_disabled (is_host st) then revert_disabled E access_type st
      else detaining E opcode st)"

definition targets_disabled_beneficiary :: "nat \<Rightarrow> ('ir, 'gas, 'st, 'e, 'c, 'm, 'se) InstrContext \<Rightarrow> bool" where
  "targets_disabled_beneficiary n st =
     (case inspect n (it_stack (is_interp st)) of
        Some addr_word \<Rightarrow> into_address addr_word = beneficiary_address (is_host st)
          \<and> host_volatile_access_disabled (is_host st)
      | None \<Rightarrow> False)"

definition volatile_conditional ::
  "('ir, 'gas, 'st, 'e, 'c, 'm, 'se) instr_env \<Rightarrow> u8 \<Rightarrow> ('ir, 'gas, 'st, 'e, 'c, 'm, 'se) instruction" where
  "volatile_conditional E opcode st =
     (if targets_disabled_beneficiary 0 st then revert_disabled E Beneficiary st else detaining E opcode st)"

definition volatile_sload ::
  "('ir, 'gas, 'st, 'e, 'c, 'm, 'se) instr_env \<Rightarrow> u8 \<Rightarrow> ('ir, 'gas, 'st, 'e, 'c, 'm, 'se) instruction" where
  "volatile_sload E opcode st =
     (if it_target_address (is_interp st) = ORACLE_CONTRACT_ADDRESS \<and> host_volatile_access_disabled (is_host st)
      then revert_disabled E Oracle st else detaining E opcode st)"

definition wrap_call_volatile_check ::
  "('ir, 'gas, 'st, 'e, 'c, 'm, 'se) instr_env \<Rightarrow> ('ir, 'gas, 'st, 'e, 'c, 'm, 'se) instruction \<Rightarrow>
   ('ir, 'gas, 'st, 'e, 'c, 'm, 'se) instruction" where
  "wrap_call_volatile_check E inner_fn st =
     (if targets_disabled_beneficiary 1 st then revert_disabled E Beneficiary st else inner_fn st)"

end
