(* ===== verification/Instruction_Table.thy ===== *)
theory Instruction_Table
  imports Instructions
begin

text \<open>
  The instruction tables of \<^verbatim>\<open>evm/instructions.rs\<close> as data: an entry names the stack of wrappers
  around a base instruction, and \<open>execute\<close> gives it its meaning. The tables are built by the
  assignments of the code; the numbers of the opcodes are constants of an upstream crate.
\<close>

section \<open>Opcodes\<close>

abbreviation OP_STOP :: u8 where "OP_STOP \<equiv> 0x00"
abbreviation OP_ADD :: u8 where "OP_ADD \<equiv> 0x01"
abbreviation OP_MUL :: u8 where "OP_MUL \<equiv> 0x02"
abbreviation OP_SUB :: u8 where "OP_SUB \<equiv> 0x03"
abbreviation OP_DIV :: u8 where "OP_DIV \<equiv> 0x04"
abbreviation OP_SDIV :: u8 where "OP_SDIV \<equiv> 0x05"
abbreviation OP_MOD :: u8 where "OP_MOD \<equiv> 0x06"
abbreviation OP_SMOD :: u8 where "OP_SMOD \<equiv> 0x07"
abbreviation OP_ADDMOD :: u8 where "OP_ADDMOD \<equiv> 0x08"
abbreviation OP_MULMOD :: u8 where "OP_MULMOD \<equiv> 0x09"
abbreviation OP_EXP :: u8 where "OP_EXP \<equiv> 0x0a"
abbreviation OP_SIGNEXTEND :: u8 where "OP_SIGNEXTEND \<equiv> 0x0b"
abbreviation OP_LT :: u8 where "OP_LT \<equiv> 0x10"
abbreviation OP_GT :: u8 where "OP_GT \<equiv> 0x11"
abbreviation OP_SLT :: u8 where "OP_SLT \<equiv> 0x12"
abbreviation OP_SGT :: u8 where "OP_SGT \<equiv> 0x13"
abbreviation OP_EQ :: u8 where "OP_EQ \<equiv> 0x14"
abbreviation OP_ISZERO :: u8 where "OP_ISZERO \<equiv> 0x15"
abbreviation OP_AND :: u8 where "OP_AND \<equiv> 0x16"
abbreviation OP_OR :: u8 where "OP_OR \<equiv> 0x17"
abbreviation OP_XOR :: u8 where "OP_XOR \<equiv> 0x18"
abbreviation OP_NOT :: u8 where "OP_NOT \<equiv> 0x19"
abbreviation OP_BYTE :: u8 where "OP_BYTE \<equiv> 0x1a"
abbreviation OP_SHL :: u8 where "OP_SHL \<equiv> 0x1b"
abbreviation OP_SHR :: u8 where "OP_SHR \<equiv> 0x1c"
abbreviation OP_SAR :: u8 where "OP_SAR \<equiv> 0x1d"
abbreviation OP_CLZ :: u8 where "OP_CLZ \<equiv> 0x1e"
abbreviation OP_KECCAK256 :: u8 where "OP_KECCAK256 \<equiv> 0x20"
abbreviation OP_ADDRESS :: u8 where "OP_ADDRESS \<equiv> 0x30"
abbreviation OP_BALANCE :: u8 where "OP_BALANCE \<equiv> 0x31"
abbreviation OP_ORIGIN :: u8 where "OP_ORIGIN \<equiv> 0x32"
abbreviation OP_CALLER :: u8 where "OP_CALLER \<equiv> 0x33"
abbreviation OP_CALLVALUE :: u8 where "OP_CALLVALUE \<equiv> 0x34"
abbreviation OP_CALLDATALOAD :: u8 where "OP_CALLDATALOAD \<equiv> 0x35"
abbreviation OP_CALLDATASIZE :: u8 where "OP_CALLDATASIZE \<equiv> 0x36"
abbreviation OP_CALLDATACOPY :: u8 where "OP_CALLDATACOPY \<equiv> 0x37"
abbreviation OP_CODESIZE :: u8 where "OP_CODESIZE \<equiv> 0x38"
abbreviation OP_CODECOPY :: u8 where "OP_CODECOPY \<equiv> 0x39"
abbreviation OP_GASPRICE :: u8 where "OP_GASPRICE \<equiv> 0x3a"
abbreviation OP_EXTCODESIZE :: u8 where "OP_EXTCODESIZE \<equiv> 0x3b"
abbreviation OP_EXTCODECOPY :: u8 where "OP_EXTCODECOPY \<equiv> 0x3c"
abbreviation OP_RETURNDATASIZE :: u8 where "OP_RETURNDATASIZE \<equiv> 0x3d"
abbreviation OP_RETURNDATACOPY :: u8 where "OP_RETURNDATACOPY \<equiv> 0x3e"
abbreviation OP_EXTCODEHASH :: u8 where "OP_EXTCODEHASH \<equiv> 0x3f"
abbreviation OP_BLOCKHASH :: u8 where "OP_BLOCKHASH \<equiv> 0x40"
abbreviation OP_COINBASE :: u8 where "OP_COINBASE \<equiv> 0x41"
abbreviation OP_TIMESTAMP :: u8 where "OP_TIMESTAMP \<equiv> 0x42"
abbreviation OP_NUMBER :: u8 where "OP_NUMBER \<equiv> 0x43"
abbreviation OP_DIFFICULTY :: u8 where "OP_DIFFICULTY \<equiv> 0x44"
abbreviation OP_GASLIMIT :: u8 where "OP_GASLIMIT \<equiv> 0x45"
abbreviation OP_CHAINID :: u8 where "OP_CHAINID \<equiv> 0x46"
abbreviation OP_SELFBALANCE :: u8 where "OP_SELFBALANCE \<equiv> 0x47"
abbreviation OP_BASEFEE :: u8 where "OP_BASEFEE \<equiv> 0x48"
abbreviation OP_BLOBHASH :: u8 where "OP_BLOBHASH \<equiv> 0x49"
abbreviation OP_BLOBBASEFEE :: u8 where "OP_BLOBBASEFEE \<equiv> 0x4a"
abbreviation OP_POP :: u8 where "OP_POP \<equiv> 0x50"
abbreviation OP_MLOAD :: u8 where "OP_MLOAD \<equiv> 0x51"
abbreviation OP_MSTORE :: u8 where "OP_MSTORE \<equiv> 0x52"
abbreviation OP_MSTORE8 :: u8 where "OP_MSTORE8 \<equiv> 0x53"
abbreviation OP_SLOAD :: u8 where "OP_SLOAD \<equiv> 0x54"
abbreviation OP_SSTORE :: u8 where "OP_SSTORE \<equiv> 0x55"
abbreviation OP_JUMP :: u8 where "OP_JUMP \<equiv> 0x56"
abbreviation OP_JUMPI :: u8 where "OP_JUMPI \<equiv> 0x57"
abbreviation OP_PC :: u8 where "OP_PC \<equiv> 0x58"
abbreviation OP_MSIZE :: u8 where "OP_MSIZE \<equiv> 0x59"
abbreviation OP_GAS :: u8 where "OP_GAS \<equiv> 0x5a"
abbreviation OP_JUMPDEST :: u8 where "OP_JUMPDEST \<equiv> 0x5b"
abbreviation OP_TLOAD :: u8 where "OP_TLOAD \<equiv> 0x5c"
abbreviation OP_TSTORE :: u8 where "OP_TSTORE \<equiv> 0x5d"
abbreviation OP_MCOPY :: u8 where "OP_MCOPY \<equiv> 0x5e"
abbreviation OP_PUSH0 :: u8 where "OP_PUSH0 \<equiv> 0x5f"
abbreviation OP_CREATE :: u8 where "OP_CREATE \<equiv> 0xf0"
abbreviation OP_CALL :: u8 where "OP_CALL \<equiv> 0xf1"
abbreviation OP_CALLCODE :: u8 where "OP_CALLCODE \<equiv> 0xf2"
abbreviation OP_RETURN :: u8 where "OP_RETURN \<equiv> 0xf3"
abbreviation OP_DELEGATECALL :: u8 where "OP_DELEGATECALL \<equiv> 0xf4"
abbreviation OP_CREATE2 :: u8 where "OP_CREATE2 \<equiv> 0xf5"
abbreviation OP_STATICCALL :: u8 where "OP_STATICCALL \<equiv> 0xfa"
abbreviation OP_REVERT :: u8 where "OP_REVERT \<equiv> 0xfd"
abbreviation OP_INVALID :: u8 where "OP_INVALID \<equiv> 0xfe"
abbreviation OP_SELFDESTRUCT :: u8 where "OP_SELFDESTRUCT \<equiv> 0xff"

abbreviation OP_PUSH :: "nat \<Rightarrow> u8" where "OP_PUSH n \<equiv> of_nat (0x5f + n)"
abbreviation OP_DUP :: "nat \<Rightarrow> u8" where "OP_DUP n \<equiv> of_nat (0x7f + n)"
abbreviation OP_SWAP :: "nat \<Rightarrow> u8" where "OP_SWAP n \<equiv> of_nat (0x8f + n)"
abbreviation OP_LOG :: "nat \<Rightarrow> u8" where "OP_LOG n \<equiv> of_nat (0xa0 + n)"

section \<open>Handlers\<close>

datatype Handler =
    UnknownOp
  | InvalidOp
  | BaseOp u8
  | ComputeGas u8
  | Unconditional u8 VolatileDataAccessType
  | Conditional u8
  | DetainedSload u8
  | LimitedSstore u8
  | LimitedLog u8 nat
  | ForwardCall u8 (value_transfer: bool)
  | ForwardCreate u8 (is_create2: bool)
  | CheckedCall u8 (value_transfer: bool)

definition forward_call ::
  "('ir, 'gas, 'st, 'e, 'c, 'm, 'se) instr_env \<Rightarrow> u8 \<Rightarrow> bool \<Rightarrow> ('ir, 'gas, 'st, 'e, 'c, 'm, 'se) instruction"
  where
  "forward_call E opcode has_value =
     wrap_gas_cap E (storage_gas_call E opcode has_value)
       (if has_value then check_call_has_transfer else no_transfer)"

definition forward_create ::
  "('ir, 'gas, 'st, 'e, 'c, 'm, 'se) instr_env \<Rightarrow> u8 \<Rightarrow> bool \<Rightarrow> ('ir, 'gas, 'st, 'e, 'c, 'm, 'se) instruction"
  where
  "forward_create E opcode create2 = wrap_gas_cap E (storage_gas_create E opcode create2) no_transfer"

fun execute ::
  "('ir, 'gas, 'st, 'e, 'c, 'm, 'se) instr_env \<Rightarrow> Handler \<Rightarrow> ('ir, 'gas, 'st, 'e, 'c, 'm, 'se) instruction" where
  "execute E UnknownOp = control_unknown E"
| "execute E InvalidOp = control_invalid E"
| "execute E (BaseOp op) = base_op E op"
| "execute E (ComputeGas op) = compute_gas_ext E op"
| "execute E (Unconditional op t) = volatile_unconditional E op t"
| "execute E (Conditional op) = volatile_conditional E op"
| "execute E (DetainedSload op) = volatile_sload E op"
| "execute E (LimitedSstore op) = additional_limit_sstore E op"
| "execute E (LimitedLog op n) = additional_limit_log E op n"
| "execute E (ForwardCall op v) = forward_call E op v"
| "execute E (ForwardCreate op c) = forward_create E op c"
| "execute E (CheckedCall op v) = wrap_call_volatile_check E (forward_call E op v)"

section \<open>Tables\<close>

type_synonym op_table = "u8 \<Rightarrow> Handler"

text \<open>Assignments \<^verbatim>\<open>table[op] = handler\<close>, in order.\<close>

definition assign :: "(u8 \<times> (u8 \<Rightarrow> Handler)) list \<Rightarrow> op_table \<Rightarrow> op_table" where
  "assign entries table = fold (\<lambda>(op, handler) t. t(op := handler op)) entries table"

definition mini_rex_entries :: "(u8 \<times> (u8 \<Rightarrow> Handler)) list" where
  "mini_rex_entries =
     [
      (OP_STOP, ComputeGas), (OP_ADD, ComputeGas), (OP_MUL, ComputeGas), (OP_SUB, ComputeGas),
      (OP_DIV, ComputeGas), (OP_SDIV, ComputeGas), (OP_MOD, ComputeGas), (OP_SMOD, ComputeGas),
      (OP_ADDMOD, ComputeGas), (OP_MULMOD, ComputeGas), (OP_EXP, ComputeGas),
      (OP_SIGNEXTEND, ComputeGas),
      (OP_LT, ComputeGas), (OP_GT, ComputeGas), (OP_SLT, ComputeGas), (OP_SGT, ComputeGas),
      (OP_EQ, ComputeGas), (OP_ISZERO, ComputeGas), (OP_AND, ComputeGas), (OP_OR, ComputeGas),
      (OP_XOR, ComputeGas), (OP_NOT, ComputeGas), (OP_BYTE, ComputeGas), (OP_SHL, ComputeGas),
      (OP_SHR, ComputeGas), (OP_SAR, ComputeGas), (OP_CLZ, ComputeGas), (OP_KECCAK256, ComputeGas),
      (OP_ADDRESS, ComputeGas), (OP_BALANCE, Conditional), (OP_ORIGIN, ComputeGas),
      (OP_CALLER, ComputeGas), (OP_CALLVALUE, ComputeGas), (OP_CALLDATALOAD, ComputeGas),
      (OP_CALLDATASIZE, ComputeGas), (OP_CALLDATACOPY, ComputeGas), (OP_CODESIZE, ComputeGas),
      (OP_CODECOPY, ComputeGas), (OP_GASPRICE, ComputeGas), (OP_EXTCODESIZE, Conditional),
      (OP_EXTCODECOPY, Conditional), (OP_EXTCODEHASH, Conditional),
      (OP_RETURNDATASIZE, ComputeGas), (OP_RETURNDATACOPY, ComputeGas),
      (OP_BLOCKHASH, (\<lambda>op. Unconditional op BlockHash)),
      (OP_COINBASE, (\<lambda>op. Unconditional op Coinbase)),
      (OP_TIMESTAMP, (\<lambda>op. Unconditional op Timestamp)),
      (OP_NUMBER, (\<lambda>op. Unconditional op BlockNumber)),
      (OP_DIFFICULTY, (\<lambda>op. Unconditional op Difficulty)),
      (OP_GASLIMIT, (\<lambda>op. Unconditional op GasLimit)), (OP_CHAINID, ComputeGas),
      (OP_SELFBALANCE, ComputeGas), (OP_BASEFEE, (\<lambda>op. Unconditional op BaseFee)),
      (OP_BLOBBASEFEE, (\<lambda>op. Unconditional op BlobBaseFee)),
      (OP_BLOBHASH, (\<lambda>op. Unconditional op BlobHash)),
      (OP_POP, ComputeGas), (OP_MLOAD, ComputeGas), (OP_MSTORE, ComputeGas),
      (OP_MSTORE8, ComputeGas), (OP_SLOAD, ComputeGas), (OP_SSTORE, LimitedSstore),
      (OP_JUMP, ComputeGas), (OP_JUMPI, ComputeGas), (OP_PC, ComputeGas), (OP_MSIZE, ComputeGas),
      (OP_GAS, ComputeGas), (OP_JUMPDEST, ComputeGas), (OP_TLOAD, ComputeGas),
      (OP_TSTORE, ComputeGas), (OP_MCOPY, ComputeGas), (OP_PUSH0, ComputeGas)] @
     map (\<lambda>n. (OP_PUSH n, ComputeGas)) [1..<33] @
     map (\<lambda>n. (OP_DUP n, ComputeGas)) [1..<17] @
     map (\<lambda>n. (OP_SWAP n, ComputeGas)) [1..<17] @
     map (\<lambda>n. (OP_LOG n, \<lambda>op. LimitedLog op n)) [0..<5] @
     [
      (OP_CREATE, (\<lambda>op. ForwardCreate op False)),
      (OP_CREATE2, (\<lambda>op. ForwardCreate op True)),
      (OP_CALL, (\<lambda>op. ForwardCall op True)), (OP_CALLCODE, ComputeGas),
      (OP_DELEGATECALL, ComputeGas), (OP_STATICCALL, ComputeGas), (OP_INVALID, ComputeGas),
      (OP_RETURN, ComputeGas), (OP_REVERT, ComputeGas), (OP_SELFDESTRUCT, (\<lambda>_. InvalidOp))]"

definition mini_rex_table :: op_table where
  "mini_rex_table = assign mini_rex_entries (\<lambda>_. UnknownOp)"

definition rex_table :: op_table where
  "rex_table = assign
     [(OP_CALLCODE, \<lambda>op. ForwardCall op True), (OP_DELEGATECALL, \<lambda>op. ForwardCall op False),
      (OP_STATICCALL, \<lambda>op. ForwardCall op False)] mini_rex_table"

definition rex2_table :: op_table where
  "rex2_table = assign [(OP_SELFDESTRUCT, ComputeGas)] rex_table"

definition rex3_table :: op_table where
  "rex3_table = assign [(OP_SLOAD, DetainedSload)] rex2_table"

definition rex4_table :: op_table where
  "rex4_table = assign
     [(OP_CALL, \<lambda>op. CheckedCall op True), (OP_STATICCALL, \<lambda>op. CheckedCall op False),
      (OP_DELEGATECALL, \<lambda>op. CheckedCall op False), (OP_CALLCODE, \<lambda>op. CheckedCall op True),
      (OP_SELFDESTRUCT, Conditional)] rex3_table"

text \<open>\<^verbatim>\<open>MegaInstructions::new\<close>\<close>

fun instruction_table :: "MegaSpecId \<Rightarrow> op_table" where
  "instruction_table EQUIVALENCE = BaseOp"
| "instruction_table MINI_REX = mini_rex_table"
| "instruction_table REX = rex_table"
| "instruction_table REX1 = rex_table"
| "instruction_table REX2 = rex2_table"
| "instruction_table REX3 = rex3_table"
| "instruction_table REX4 = rex4_table"

end
