(* ===== verification/Precompiles.thy ===== *)
theory Precompiles
  imports Mega_Context
begin

text \<open>
  The precompile sets per spec, the fixed price of the KZG point evaluation and the recording of the
  compute gas of a precompile, \<^verbatim>\<open>evm/precompiles.rs\<close>. A set maps addresses to functions from the
  input and the gas limit to an output or an error. The sets of the OP stack, the precompiles themselves
  and the call of a precompile through \<^verbatim>\<open>PrecompilesMap\<close> are upstream.
\<close>

section \<open>Definitions\<close>

record PrecompileOutput =
  po_gas_used :: u64
  po_bytes :: bytes

type_synonym 'pe precompile = "bytes \<Rightarrow> u64 \<Rightarrow> 'pe + PrecompileOutput"
type_synonym 'pe precompiles = "address \<rightharpoonup> 'pe precompile"

record 'pe precompile_env =
  isthmus_precompiles :: "'pe precompiles"
  modexp_osaka :: "address \<times> 'pe precompile"
  kzg_address :: address
  kzg_run :: "'pe precompile"
  PrecompileError_OutOfGas :: 'pe

record 'pe MegaPrecompiles =
  mp_inner :: "'pe precompiles"
  mp_spec :: MegaSpecId

definition KZG_GAS_COST :: u64 where
  "KZG_GAS_COST = 100000"

definition KZG_POINT_EVALUATION :: "'pe precompile_env \<Rightarrow> address \<times> 'pe precompile" where
  "KZG_POINT_EVALUATION P = (kzg_address P, \<lambda>input gas_limit.
     if gas_limit < KZG_GAS_COST then Inl (PrecompileError_OutOfGas P)
     else map_sum id (\<lambda>out. out\<lparr>po_gas_used := KZG_GAS_COST\<rparr>) (kzg_run P input gas_limit))"

text \<open>\<^verbatim>\<open>extend\<close> overrides the entries one after the other.\<close>

definition extend_precompiles :: "(address \<times> 'pe precompile) list \<Rightarrow> 'pe precompiles \<Rightarrow> 'pe precompiles" where
  "extend_precompiles ps table = fold (\<lambda>(a, p) t. t(a \<mapsto> p)) ps table"

definition mini_rex_precompiles :: "'pe precompile_env \<Rightarrow> 'pe precompiles" where
  "mini_rex_precompiles P = extend_precompiles [modexp_osaka P, KZG_POINT_EVALUATION P] (isthmus_precompiles P)"

definition rex_precompiles :: "'pe precompile_env \<Rightarrow> 'pe precompiles" where
  "rex_precompiles P = mini_rex_precompiles P"

fun precompiles_new_with_spec :: "'pe precompile_env \<Rightarrow> MegaSpecId \<Rightarrow> 'pe MegaPrecompiles" where
  "precompiles_new_with_spec P EQUIVALENCE = \<lparr>mp_inner = isthmus_precompiles P, mp_spec = EQUIVALENCE\<rparr>"
| "precompiles_new_with_spec P MINI_REX = \<lparr>mp_inner = mini_rex_precompiles P, mp_spec = MINI_REX\<rparr>"
| "precompiles_new_with_spec P spec = \<lparr>mp_inner = rex_precompiles P, mp_spec = spec\<rparr>"

definition default_precompiles :: "'pe precompile_env \<Rightarrow> 'pe MegaPrecompiles" where
  "default_precompiles P = precompiles_new_with_spec P EQUIVALENCE"

definition precompiles_set_spec :: "'pe precompile_env \<Rightarrow> MegaSpecId \<Rightarrow> 'pe MegaPrecompiles \<Rightarrow> bool \<times> 'pe MegaPrecompiles" where
  "precompiles_set_spec P spec self =
     (if spec = mp_spec self then (False, self) else (True, precompiles_new_with_spec P spec))"

text \<open>\<^verbatim>\<open>PrecompilesMap::run\<close> for the context: the upstream call, then the gas it spent is recorded. The result
  of the recording is dropped; the next check of the limits repeats it.\<close>

definition precompile_run ::
  "(('e, 'c, 'm, 'se) MegaContext \<Rightarrow> (string + ('ir, 'gas) InterpreterResult option) \<times> ('e, 'c, 'm, 'se) MegaContext) \<Rightarrow>
   ('gas \<Rightarrow> u64) \<Rightarrow> ('e, 'c, 'm, 'se) MegaContext \<Rightarrow>
   ((string + ('ir, 'gas) InterpreterResult option) \<times> ('e, 'c, 'm, 'se) MegaContext) option" where
  "precompile_run op_run gas_spent context =
     (case op_run context of
        (Inr (Some out), context) \<Rightarrow>
          if is_enabled (mc_spec context) MINI_REX
          then do {
            (_, al) \<leftarrow> record_compute_gas (gas_spent (ir_gas out)) (additional_limit context);
            Some (Inr (Some out), context\<lparr>additional_limit := al\<rparr>)
          }
          else Some (Inr (Some out), context)
      | (r, context) \<Rightarrow> Some (r, context))"

section \<open>Lemmas\<close>

lemma custom_precompiles:
  assumes "spec \<noteq> EQUIVALENCE"
  shows "mp_inner (precompiles_new_with_spec P spec) = mini_rex_precompiles P"
    "mp_spec (precompiles_new_with_spec P spec) = spec"
  using assms by (cases spec; simp add: rex_precompiles_def)+

lemma mini_rex_lookup:
  "mini_rex_precompiles P a =
     (if a = kzg_address P then Some (snd (KZG_POINT_EVALUATION P))
      else if a = fst (modexp_osaka P) then Some (snd (modexp_osaka P))
      else isthmus_precompiles P a)"
  by (cases "modexp_osaka P")
    (simp add: mini_rex_precompiles_def extend_precompiles_def KZG_POINT_EVALUATION_def)

text \<open>Changing the spec of a set and building the set of the new spec are the same, so that switching
  back and forth leads to the same set.\<close>

lemma set_spec_is_new:
  assumes "self = precompiles_new_with_spec P spec"
  shows "snd (precompiles_set_spec P spec' self) = precompiles_new_with_spec P spec'"
  using assms by (cases spec; cases spec') (simp_all add: precompiles_set_spec_def)

lemma map_sum_id_iff:
  "map_sum id f x = Inl e \<longleftrightarrow> x = Inl e" "map_sum id f x = Inr y \<longleftrightarrow> (\<exists>z. x = Inr z \<and> y = f z)"
  by (cases x; auto)+

section \<open>Properties\<close>

text \<open>
  The precompiles of a custom spec. They are those of the
  OP stack but for two addresses: MODEXP is the Osaka version, and the point evaluation costs 100,000 gas
  whatever the upstream price, fails out of gas exactly below that when the upstream check would pass, and
  never reports more gas than its limit. Every way to reach the spec leads to this set.
\<close>

lemma precompiles_differ_in_two_entries:
  assumes "spec \<noteq> EQUIVALENCE" and "fst (modexp_osaka P) \<noteq> kzg_address P"
    and "self = precompiles_new_with_spec P spec0"
  shows "let table = mp_inner (snd (precompiles_set_spec P spec self)) in
    (\<forall>a. a \<noteq> kzg_address P \<and> a \<noteq> fst (modexp_osaka P) \<longrightarrow> table a = isthmus_precompiles P a)
    \<and> table (fst (modexp_osaka P)) = Some (snd (modexp_osaka P))
    \<and> (\<exists>kzg. table (kzg_address P) = Some kzg \<and> (\<forall>input gas_limit.
         (case kzg input gas_limit of
            Inl e \<Rightarrow> gas_limit < 100000 \<and> e = PrecompileError_OutOfGas P \<or> kzg_run P input gas_limit = Inl e
          | Inr out \<Rightarrow> po_gas_used out = 100000 \<and> 100000 \<le> gas_limit \<and>
              (\<exists>o'. kzg_run P input gas_limit = Inr o' \<and> po_bytes out = po_bytes o'))))"
proof -
  have table: "mp_inner (snd (precompiles_set_spec P spec self)) = mini_rex_precompiles P"
    using set_spec_is_new [OF assms(3), of spec] custom_precompiles(1) [OF assms(1), of P] by simp
  show ?thesis
    unfolding Let_def table mini_rex_lookup
    using assms(2) by (auto simp: KZG_POINT_EVALUATION_def KZG_GAS_COST_def not_less map_sum_id_iff split: sum.splits)
qed

end
