(* ===== verification/Hardforks.thy ===== *)
theory Hardforks
  imports Spec_Id
begin

text \<open>
  The hardfork schedule of \<^verbatim>\<open>block/hardfork.rs\<close>. A configuration is the vector of boxed hardforks
  with their conditions; the source compares hardforks by name only, so an entry is a name and a
  condition. \<^verbatim>\<open>ForkCondition\<close> is an upstream type: its constructors are data here, and its
  method \<^verbatim>\<open>active_at_timestamp\<close> is the parameter \<open>active\<close>.
\<close>

section \<open>Hardforks\<close>

datatype MegaHardfork = MiniRex | MiniRex1 | MiniRex2 | Rex | Rex1 | Rex2 | Rex3 | Rex4

fun hardfork_spec_id :: "MegaHardfork \<Rightarrow> MegaSpecId" where
  "hardfork_spec_id MiniRex = MINI_REX"
| "hardfork_spec_id MiniRex1 = EQUIVALENCE"
| "hardfork_spec_id MiniRex2 = MINI_REX"
| "hardfork_spec_id Rex = REX"
| "hardfork_spec_id Rex1 = REX1"
| "hardfork_spec_id Rex2 = REX2"
| "hardfork_spec_id Rex3 = REX3"
| "hardfork_spec_id Rex4 = REX4"

text \<open>The names that the \<^verbatim>\<open>hardfork!\<close> macro gives: the identifiers.\<close>

fun hardfork_name :: "MegaHardfork \<Rightarrow> string" where
  "hardfork_name MiniRex = ''MiniRex''"
| "hardfork_name MiniRex1 = ''MiniRex1''"
| "hardfork_name MiniRex2 = ''MiniRex2''"
| "hardfork_name Rex = ''Rex''"
| "hardfork_name Rex1 = ''Rex1''"
| "hardfork_name Rex2 = ''Rex2''"
| "hardfork_name Rex3 = ''Rex3''"
| "hardfork_name Rex4 = ''Rex4''"

datatype ForkCondition =
    ForkBlock u64
  | ForkTTD u64 "u64 option" u256
  | ForkTimestamp u64
  | ForkNever

definition fork_documented :: "(ForkCondition \<Rightarrow> u64 \<Rightarrow> bool) \<Rightarrow> bool" where
  "fork_documented active \<longleftrightarrow>
     (\<forall>t ts. active (ForkTimestamp t) ts = (t \<le> ts)) \<and> (\<forall>ts. \<not> active ForkNever ts)"

section \<open>The configuration\<close>

type_synonym MegaHardforkConfig = "(string \<times> ForkCondition) list"

definition hardfork_config_new :: MegaHardforkConfig where
  "hardfork_config_new =
     [(''Frontier'', ForkBlock 0), (''Homestead'', ForkBlock 0), (''Dao'', ForkBlock 0),
      (''Tangerine'', ForkBlock 0), (''SpuriousDragon'', ForkBlock 0), (''Byzantium'', ForkBlock 0),
      (''Constantinople'', ForkBlock 0), (''Petersburg'', ForkBlock 0), (''Istanbul'', ForkBlock 0),
      (''Berlin'', ForkBlock 0), (''London'', ForkBlock 0), (''Paris'', ForkTTD 0 None 0),
      (''Bedrock'', ForkBlock 0), (''Regolith'', ForkTimestamp 0), (''Shanghai'', ForkTimestamp 0),
      (''Canyon'', ForkTimestamp 0), (''Cancun'', ForkTimestamp 0), (''Ecotone'', ForkTimestamp 0),
      (''Fjord'', ForkTimestamp 0), (''Granite'', ForkTimestamp 0), (''Holocene'', ForkTimestamp 0),
      (''Prague'', ForkTimestamp 0), (''Isthmus'', ForkTimestamp 0)]"

fun config_insert :: "string \<Rightarrow> ForkCondition \<Rightarrow> MegaHardforkConfig \<Rightarrow> MegaHardforkConfig" where
  "config_insert name condition [] = [(name, condition)]"
| "config_insert name condition ((h, c) # rest) =
     (if h = name then (name, condition) # rest else (h, c) # config_insert name condition rest)"

fun config_get :: "string \<Rightarrow> MegaHardforkConfig \<Rightarrow> ForkCondition option" where
  "config_get name [] = None"
| "config_get name ((h, c) # rest) = (if h = name then Some c else config_get name rest)"

definition config_without :: "MegaHardfork \<Rightarrow> MegaHardforkConfig \<Rightarrow> MegaHardforkConfig" where
  "config_without fork cfg = filter (\<lambda>(h, _). h \<noteq> hardfork_name fork) cfg"

definition config_with :: "string \<Rightarrow> ForkCondition \<Rightarrow> MegaHardforkConfig \<Rightarrow> MegaHardforkConfig" where
  "config_with name condition cfg = config_insert name condition cfg"

definition with_all_activated :: "MegaHardforkConfig \<Rightarrow> MegaHardforkConfig" where
  "with_all_activated cfg =
     (let cfg = config_insert (hardfork_name MiniRex) (ForkTimestamp 0) cfg;
          cfg = config_insert (hardfork_name MiniRex1) (ForkTimestamp 0) cfg;
          cfg = config_insert (hardfork_name MiniRex2) (ForkTimestamp 0) cfg;
          cfg = config_insert (hardfork_name Rex) (ForkTimestamp 0) cfg;
          cfg = config_insert (hardfork_name Rex1) (ForkTimestamp 0) cfg;
          cfg = config_insert (hardfork_name Rex2) (ForkTimestamp 0) cfg;
          cfg = config_insert (hardfork_name Rex3) (ForkTimestamp 0) cfg
      in config_insert (hardfork_name Rex4) (ForkTimestamp 0) cfg)"

definition fork_activation :: "string \<Rightarrow> MegaHardforkConfig \<Rightarrow> ForkCondition" where
  "fork_activation name cfg = (case config_get name cfg of Some condition \<Rightarrow> condition | None \<Rightarrow> ForkNever)"

definition mega_fork_activation :: "MegaHardfork \<Rightarrow> MegaHardforkConfig \<Rightarrow> ForkCondition" where
  "mega_fork_activation fork cfg = fork_activation (hardfork_name fork) cfg"

section \<open>Queries\<close>

definition is_fork_active_at_timestamp ::
  "(ForkCondition \<Rightarrow> u64 \<Rightarrow> bool) \<Rightarrow> MegaHardfork \<Rightarrow> MegaHardforkConfig \<Rightarrow> u64 \<Rightarrow> bool" where
  "is_fork_active_at_timestamp active fork cfg timestamp = active (mega_fork_activation fork cfg) timestamp"

definition first_hardfork_block ::
  "(ForkCondition \<Rightarrow> u64 \<Rightarrow> bool) \<Rightarrow> MegaHardfork \<Rightarrow> u64 \<Rightarrow> u64 \<times> u64 \<Rightarrow> MegaHardforkConfig \<Rightarrow> bool" where
  "first_hardfork_block active fork parent_timestamp current_number_and_timestamp cfg =
     (case current_number_and_timestamp of (current_number, current_timestamp) \<Rightarrow>
        active (mega_fork_activation fork cfg) current_timestamp \<and>
        (current_number = 1 \<or> \<not> active (mega_fork_activation fork cfg) parent_timestamp))"

definition hardfork_at ::
  "(ForkCondition \<Rightarrow> u64 \<Rightarrow> bool) \<Rightarrow> MegaHardforkConfig \<Rightarrow> u64 \<Rightarrow> MegaHardfork option" where
  "hardfork_at active cfg timestamp =
     (if is_fork_active_at_timestamp active Rex4 cfg timestamp then Some Rex4
      else if is_fork_active_at_timestamp active Rex3 cfg timestamp then Some Rex3
      else if is_fork_active_at_timestamp active Rex2 cfg timestamp then Some Rex2
      else if is_fork_active_at_timestamp active Rex1 cfg timestamp then Some Rex1
      else if is_fork_active_at_timestamp active Rex cfg timestamp then Some Rex
      else if is_fork_active_at_timestamp active MiniRex2 cfg timestamp then Some MiniRex2
      else if is_fork_active_at_timestamp active MiniRex1 cfg timestamp then Some MiniRex1
      else if is_fork_active_at_timestamp active MiniRex cfg timestamp then Some MiniRex
      else None)"

definition spec_id_at ::
  "(ForkCondition \<Rightarrow> u64 \<Rightarrow> bool) \<Rightarrow> MegaHardforkConfig \<Rightarrow> u64 \<Rightarrow> MegaSpecId" where
  "spec_id_at active cfg timestamp =
     (if is_fork_active_at_timestamp active Rex4 cfg timestamp then REX4
      else if is_fork_active_at_timestamp active Rex3 cfg timestamp then REX3
      else if is_fork_active_at_timestamp active Rex2 cfg timestamp then REX2
      else if is_fork_active_at_timestamp active Rex1 cfg timestamp then REX1
      else if is_fork_active_at_timestamp active Rex cfg timestamp then REX
      else if is_fork_active_at_timestamp active MiniRex2 cfg timestamp then MINI_REX
      else if is_fork_active_at_timestamp active MiniRex1 cfg timestamp then EQUIVALENCE
      else if is_fork_active_at_timestamp active MiniRex cfg timestamp then MINI_REX
      else EQUIVALENCE)"

section \<open>Lemmas\<close>

lemma config_get_insert:
  "config_get n (config_insert m c cfg) = (if n = m then Some c else config_get n cfg)"
  by (induction m c cfg rule: config_insert.induct) auto

lemma config_get_without:
  "config_get n (config_without fork cfg) = (if n = hardfork_name fork then None else config_get n cfg)"
  by (induction cfg) (auto simp: config_without_def)

lemma config_insert_names:
  "map fst (config_insert n c cfg) = map fst cfg @ (if n \<in> set (map fst cfg) then [] else [n])"
  by (induction n c cfg rule: config_insert.induct) auto

lemma hardfork_name_inject [simp]: "hardfork_name f = hardfork_name g \<longleftrightarrow> f = g"
  by (cases f; cases g) simp_all

text \<open>A schedule in which every condition is a timestamp or absent.\<close>

definition timestamp_schedule :: "MegaHardforkConfig \<Rightarrow> bool" where
  "timestamp_schedule cfg \<longleftrightarrow> (\<forall>fork. mega_fork_activation fork cfg = ForkNever \<or>
     (\<exists>t. mega_fork_activation fork cfg = ForkTimestamp t))"

lemma active_monotone:
  assumes "fork_documented active" and "timestamp_schedule cfg" and "t \<le> t'"
    and "is_fork_active_at_timestamp active fork cfg t"
  shows "is_fork_active_at_timestamp active fork cfg t'"
proof -
  consider "mega_fork_activation fork cfg = ForkNever"
    | s where "mega_fork_activation fork cfg = ForkTimestamp s"
    using assms(2) unfolding timestamp_schedule_def by blast
  then show ?thesis
  proof cases
    case 1
    with assms(1,4) show ?thesis by (simp add: is_fork_active_at_timestamp_def fork_documented_def)
  next
    case (2 s)
    with assms(1,3,4) show ?thesis
      by (auto simp: is_fork_active_at_timestamp_def fork_documented_def)
  qed
qed

section \<open>Properties\<close>

text \<open>
  The two cascades of the source agree. The spec of a
  timestamp is the spec of the latest hardfork active then, and the first EVM version when none is.
\<close>

lemma spec_id_is_spec_of_hardfork:
  "spec_id_at active cfg ts =
     (case hardfork_at active cfg ts of Some fork \<Rightarrow> hardfork_spec_id fork | None \<Rightarrow> EQUIVALENCE)"
  by (simp add: spec_id_at_def hardfork_at_def)

text \<open>
  The vector of hardforks behaves like a map from names to
  conditions. Inserting overwrites or appends and leaves all other hardforks alone, removing a
  hardfork makes it never active, and no operation lists a name twice.
\<close>

lemma hardfork_config_is_a_map:
  "fork_activation n (config_insert m c cfg) = (if n = m then c else fork_activation n cfg)
   \<and> mega_fork_activation g (config_without f cfg) =
       (if g = f then ForkNever else mega_fork_activation g cfg)
   \<and> distinct (map fst (config_insert m c cfg)) = distinct (map fst cfg)
   \<and> mega_fork_activation f (with_all_activated cfg) = ForkTimestamp 0"
proof -
  have "distinct (map fst (config_insert m c cfg)) = distinct (map fst cfg)"
    by (simp only: config_insert_names) auto
  moreover have "mega_fork_activation f (with_all_activated cfg) = ForkTimestamp 0"
    by (cases f) (simp_all add: with_all_activated_def mega_fork_activation_def fork_activation_def
        config_get_insert)
  ultimately show ?thesis
    by (simp add: fork_activation_def mega_fork_activation_def config_get_insert config_get_without)
qed

text \<open>
  With timestamp conditions, a chain with
  increasing block times has at most one block after the first that initialises a given
  hardfork: once a block ran with the hardfork active, no later block is its first one.
\<close>

lemma first_block_of_hardfork_is_unique:
  assumes "fork_documented active" and "timestamp_schedule cfg"
    and "first_hardfork_block active fork p (n, t) cfg" and "t \<le> p'" and "n' \<noteq> 1"
  shows "\<not> first_hardfork_block active fork p' (n', t') cfg"
  using assms active_monotone [OF assms(1,2,4), of fork]
  by (simp add: first_hardfork_block_def is_fork_active_at_timestamp_def)

definition sample_active :: "ForkCondition \<Rightarrow> u64 \<Rightarrow> bool" where
  "sample_active c ts = (case c of ForkTimestamp t \<Rightarrow> t \<le> ts | _ \<Rightarrow> False)"

end
