(* ===== verification/Block_Limits.thy ===== *)
theory Block_Limits
  imports Hardforks System_Tx Revm_View
begin

text \<open>
  Block-level resource limits: \<^verbatim>\<open>BlockLimits\<close> and \<^verbatim>\<open>BlockLimiter\<close> of \<^verbatim>\<open>block/limit.rs\<close> and
  the errors of \<^verbatim>\<open>block/result.rs\<close>. The sums in the checks and the counters are the wrapping
  word additions of a release build. \<open>admitted\<close> is the step relation of a block: each transaction
  passes the check before it runs and its usage is added afterwards.
\<close>

section \<open>Errors\<close>

datatype MegaTxLimitExceededError =
    TransactionGasLimit u64 u64
  | TransactionEncodeSizeLimit u64 u64
  | DataAvailabilitySizeLimit u64 u64

fun tx_error_usage :: "MegaTxLimitExceededError \<Rightarrow> u64" where
  "tx_error_usage (TransactionGasLimit gas_limit limit) = gas_limit"
| "tx_error_usage (TransactionEncodeSizeLimit tx_size limit) = tx_size"
| "tx_error_usage (DataAvailabilitySizeLimit da_size limit) = da_size"

fun tx_error_limit :: "MegaTxLimitExceededError \<Rightarrow> u64" where
  "tx_error_limit (TransactionGasLimit gas_limit limit) = limit"
| "tx_error_limit (TransactionEncodeSizeLimit tx_size limit) = limit"
| "tx_error_limit (DataAvailabilitySizeLimit da_size limit) = limit"

datatype MegaBlockLimitExceededError =
    BlockTransactionDataLimit u64 u64
  | BlockKVUpdateLimit u64 u64
  | BlockComputeGasLimit u64 u64
  | BlockTransactionEncodeSizeLimit u64 u64 u64
  | BlockDataAvailabilitySizeLimit u64 u64 u64
  | BlockStateGrowthLimit u64 u64

fun block_error_block_used :: "MegaBlockLimitExceededError \<Rightarrow> u64" where
  "block_error_block_used (BlockTransactionDataLimit block_used limit) = block_used"
| "block_error_block_used (BlockKVUpdateLimit block_used limit) = block_used"
| "block_error_block_used (BlockComputeGasLimit block_used limit) = block_used"
| "block_error_block_used (BlockTransactionEncodeSizeLimit block_used tx_used limit) = block_used"
| "block_error_block_used (BlockDataAvailabilitySizeLimit block_used tx_used limit) = block_used"
| "block_error_block_used (BlockStateGrowthLimit block_used limit) = block_used"

fun block_error_limit :: "MegaBlockLimitExceededError \<Rightarrow> u64" where
  "block_error_limit (BlockTransactionDataLimit block_used limit) = limit"
| "block_error_limit (BlockKVUpdateLimit block_used limit) = limit"
| "block_error_limit (BlockComputeGasLimit block_used limit) = limit"
| "block_error_limit (BlockTransactionEncodeSizeLimit block_used tx_used limit) = limit"
| "block_error_limit (BlockDataAvailabilitySizeLimit block_used tx_used limit) = limit"
| "block_error_limit (BlockStateGrowthLimit block_used limit) = limit"

text \<open>\<^verbatim>\<open>InvalidTxError\<close> for both error types.\<close>

definition tx_error_is_nonce_too_low :: "MegaTxLimitExceededError \<Rightarrow> bool" where
  "tx_error_is_nonce_too_low e = False"

definition block_error_is_nonce_too_low :: "MegaBlockLimitExceededError \<Rightarrow> bool" where
  "block_error_is_nonce_too_low e = False"

text \<open>The upstream validation errors that the checks build.\<close>

datatype BlockValidationError =
    InvalidTxLimit b256 MegaTxLimitExceededError
  | InvalidTxBlock b256 MegaBlockLimitExceededError
  | TransactionGasLimitMoreThanAvailableBlockGas u64 u64

section \<open>Limits\<close>

record BlockLimits =
  bl_tx_gas_limit :: u64
  bl_block_gas_limit :: u64
  bl_tx_encode_size_limit :: u64
  bl_block_txs_encode_size_limit :: u64
  bl_tx_da_size_limit :: u64
  bl_block_da_size_limit :: u64
  bl_tx_data_limit :: u64
  bl_block_txs_data_limit :: u64
  bl_tx_kv_update_limit :: u64
  bl_block_kv_update_limit :: u64
  bl_tx_compute_gas_limit :: u64
  bl_block_compute_gas_limit :: u64
  bl_tx_state_growth_limit :: u64
  bl_block_state_growth_limit :: u64
  bl_block_env_access_compute_gas_limit :: u64
  bl_oracle_access_compute_gas_limit :: u64

definition bl_no_limits :: BlockLimits where
  "bl_no_limits = \<lparr>bl_tx_gas_limit = u64_max, bl_block_gas_limit = u64_max, 
     bl_tx_encode_size_limit = u64_max, bl_block_txs_encode_size_limit = u64_max, 
     bl_tx_da_size_limit = u64_max, bl_block_da_size_limit = u64_max, 
     bl_tx_data_limit = u64_max, bl_block_txs_data_limit = u64_max, 
     bl_tx_kv_update_limit = u64_max, bl_block_kv_update_limit = u64_max, 
     bl_tx_compute_gas_limit = u64_max, bl_block_compute_gas_limit = u64_max, 
     bl_tx_state_growth_limit = u64_max, bl_block_state_growth_limit = u64_max, 
     bl_block_env_access_compute_gas_limit = u64_max, bl_oracle_access_compute_gas_limit = u64_max\<rparr>"

definition bl_with_tx_runtime_limits :: "EvmTxRuntimeLimits \<Rightarrow> BlockLimits \<Rightarrow> BlockLimits" where
  "bl_with_tx_runtime_limits limits self = self\<lparr>bl_tx_data_limit := tx_data_size_limit limits,
     bl_tx_kv_update_limit := tx_kv_updates_limit limits,
     bl_tx_compute_gas_limit := tx_compute_gas_limit limits,
     bl_tx_state_growth_limit := tx_state_growth_limit limits,
     bl_block_env_access_compute_gas_limit := block_env_access_compute_gas_limit limits,
     bl_oracle_access_compute_gas_limit := oracle_access_compute_gas_limit limits\<rparr>"

definition bl_with_tx_gas_limit :: "u64 \<Rightarrow> BlockLimits \<Rightarrow> BlockLimits" where
  "bl_with_tx_gas_limit limit self = self\<lparr>bl_tx_gas_limit := limit\<rparr>"

definition bl_with_block_gas_limit :: "u64 \<Rightarrow> BlockLimits \<Rightarrow> BlockLimits" where
  "bl_with_block_gas_limit limit self = self\<lparr>bl_block_gas_limit := limit\<rparr>"

definition bl_with_tx_encode_size_limit :: "u64 \<Rightarrow> BlockLimits \<Rightarrow> BlockLimits" where
  "bl_with_tx_encode_size_limit limit self = self\<lparr>bl_tx_encode_size_limit := limit\<rparr>"

definition bl_with_block_txs_encode_size_limit :: "u64 \<Rightarrow> BlockLimits \<Rightarrow> BlockLimits" where
  "bl_with_block_txs_encode_size_limit limit self = self\<lparr>bl_block_txs_encode_size_limit := limit\<rparr>"

definition bl_with_tx_da_size_limit :: "u64 \<Rightarrow> BlockLimits \<Rightarrow> BlockLimits" where
  "bl_with_tx_da_size_limit limit self = self\<lparr>bl_tx_da_size_limit := limit\<rparr>"

definition bl_with_block_da_size_limit :: "u64 \<Rightarrow> BlockLimits \<Rightarrow> BlockLimits" where
  "bl_with_block_da_size_limit limit self = self\<lparr>bl_block_da_size_limit := limit\<rparr>"

definition bl_with_tx_data_limit :: "u64 \<Rightarrow> BlockLimits \<Rightarrow> BlockLimits" where
  "bl_with_tx_data_limit limit self = self\<lparr>bl_tx_data_limit := limit\<rparr>"

definition bl_with_block_txs_data_limit :: "u64 \<Rightarrow> BlockLimits \<Rightarrow> BlockLimits" where
  "bl_with_block_txs_data_limit limit self = self\<lparr>bl_block_txs_data_limit := limit\<rparr>"

definition bl_with_tx_kv_update_limit :: "u64 \<Rightarrow> BlockLimits \<Rightarrow> BlockLimits" where
  "bl_with_tx_kv_update_limit limit self = self\<lparr>bl_tx_kv_update_limit := limit\<rparr>"

definition bl_with_block_kv_update_limit :: "u64 \<Rightarrow> BlockLimits \<Rightarrow> BlockLimits" where
  "bl_with_block_kv_update_limit limit self = self\<lparr>bl_block_kv_update_limit := limit\<rparr>"

definition bl_with_tx_compute_gas_limit :: "u64 \<Rightarrow> BlockLimits \<Rightarrow> BlockLimits" where
  "bl_with_tx_compute_gas_limit limit self = self\<lparr>bl_tx_compute_gas_limit := limit\<rparr>"

definition bl_with_block_compute_gas_limit :: "u64 \<Rightarrow> BlockLimits \<Rightarrow> BlockLimits" where
  "bl_with_block_compute_gas_limit limit self = self\<lparr>bl_block_compute_gas_limit := limit\<rparr>"

definition bl_with_tx_state_growth_limit :: "u64 \<Rightarrow> BlockLimits \<Rightarrow> BlockLimits" where
  "bl_with_tx_state_growth_limit limit self = self\<lparr>bl_tx_state_growth_limit := limit\<rparr>"

definition bl_with_block_state_growth_limit :: "u64 \<Rightarrow> BlockLimits \<Rightarrow> BlockLimits" where
  "bl_with_block_state_growth_limit limit self = self\<lparr>bl_block_state_growth_limit := limit\<rparr>"

definition bl_with_block_env_access_compute_gas_limit :: "u64 \<Rightarrow> BlockLimits \<Rightarrow> BlockLimits" where
  "bl_with_block_env_access_compute_gas_limit limit self = self\<lparr>bl_block_env_access_compute_gas_limit := limit\<rparr>"

definition bl_with_oracle_access_compute_gas_limit :: "u64 \<Rightarrow> BlockLimits \<Rightarrow> BlockLimits" where
  "bl_with_oracle_access_compute_gas_limit limit self = self\<lparr>bl_oracle_access_compute_gas_limit := limit\<rparr>"

definition from_hardfork_and_block_gas_limit :: "MegaHardfork \<Rightarrow> u64 \<Rightarrow> BlockLimits" where
  "from_hardfork_and_block_gas_limit hardfork block_gas_limit =
     (let spec = hardfork_spec_id hardfork;
          tx_runtime_limits = limits_from_spec spec;
          limits = bl_with_block_gas_limit block_gas_limit
                     (bl_with_tx_runtime_limits tx_runtime_limits bl_no_limits);
          rex_limits = limits\<lparr>bl_block_txs_data_limit := BLOCK_DATA_LIMIT,
                              bl_block_kv_update_limit := BLOCK_KV_UPDATE_LIMIT,
                              bl_block_state_growth_limit := REX_BLOCK_STATE_GROWTH_LIMIT\<rparr>;
          mini_rex_limits = limits\<lparr>bl_block_txs_data_limit := BLOCK_DATA_LIMIT,
                                   bl_block_kv_update_limit := BLOCK_KV_UPDATE_LIMIT\<rparr>
      in case hardfork of
           Rex \<Rightarrow> rex_limits | Rex1 \<Rightarrow> rex_limits | Rex2 \<Rightarrow> rex_limits | Rex3 \<Rightarrow> rex_limits
         | Rex4 \<Rightarrow> rex_limits
         | MiniRex \<Rightarrow> mini_rex_limits | MiniRex2 \<Rightarrow> mini_rex_limits
         | MiniRex1 \<Rightarrow> limits)"

definition to_evm_tx_runtime_limits :: "BlockLimits \<Rightarrow> EvmTxRuntimeLimits" where
  "to_evm_tx_runtime_limits self = \<lparr>tx_data_size_limit = bl_tx_data_limit self,
     tx_kv_updates_limit = bl_tx_kv_update_limit self,
     tx_compute_gas_limit = bl_tx_compute_gas_limit self,
     tx_state_growth_limit = bl_tx_state_growth_limit self,
     block_env_access_compute_gas_limit = bl_block_env_access_compute_gas_limit self,
     oracle_access_compute_gas_limit = bl_oracle_access_compute_gas_limit self\<rparr>"

section \<open>The limiter\<close>

record BlockLimiter =
  lr_limits :: BlockLimits
  block_gas_used :: u64
  block_tx_size_used :: u64
  block_da_size_used :: u64
  block_data_used :: u64
  block_kv_updates_used :: u64
  block_compute_gas_used :: u64
  block_state_growth_used :: u64

definition limiter_new :: "BlockLimits \<Rightarrow> BlockLimiter" where
  "limiter_new limits = \<lparr>lr_limits = limits, block_gas_used = 0, block_tx_size_used = 0,
     block_da_size_used = 0, block_data_used = 0, block_kv_updates_used = 0,
     block_compute_gas_used = 0, block_state_growth_used = 0\<rparr>"

definition to_block_limiter :: "BlockLimits \<Rightarrow> BlockLimiter" where
  "to_block_limiter self = \<lparr>lr_limits = self, block_gas_used = 0, block_tx_size_used = 0,
     block_da_size_used = 0, block_data_used = 0, block_kv_updates_used = 0,
     block_compute_gas_used = 0, block_state_growth_used = 0\<rparr>"

definition pre_execution_check ::
  "b256 \<Rightarrow> u64 \<Rightarrow> u64 \<Rightarrow> u64 \<Rightarrow> bool \<Rightarrow> BlockLimiter \<Rightarrow> BlockValidationError + unit" where
  "pre_execution_check tx_hash gas_limit tx_size da_size is_deposit self =
     (let limits = lr_limits self in
      if gas_limit > bl_tx_gas_limit limits
      then Inl (InvalidTxLimit tx_hash (TransactionGasLimit gas_limit (bl_tx_gas_limit limits)))
      else if block_gas_used self + gas_limit > bl_block_gas_limit limits
      then Inl (TransactionGasLimitMoreThanAvailableBlockGas gas_limit
                  (bl_block_gas_limit limits - block_gas_used self))
      else if tx_size > bl_tx_encode_size_limit limits
      then Inl (InvalidTxLimit tx_hash
                  (TransactionEncodeSizeLimit tx_size (bl_tx_encode_size_limit limits)))
      else if tx_size + block_tx_size_used self > bl_block_txs_encode_size_limit limits
      then Inl (InvalidTxBlock tx_hash (BlockTransactionEncodeSizeLimit (block_tx_size_used self)
                  tx_size (bl_block_txs_encode_size_limit limits)))
      else if \<not> is_deposit \<and> da_size > bl_tx_da_size_limit limits
      then Inl (InvalidTxLimit tx_hash
                  (DataAvailabilitySizeLimit da_size (bl_tx_da_size_limit limits)))
      else if \<not> is_deposit \<and> da_size + block_da_size_used self > bl_block_da_size_limit limits
      then Inl (InvalidTxBlock tx_hash (BlockDataAvailabilitySizeLimit (block_da_size_used self)
                  da_size (bl_block_da_size_limit limits)))
      else if block_data_used self \<ge> bl_block_txs_data_limit limits
      then Inl (InvalidTxBlock tx_hash (BlockTransactionDataLimit (block_data_used self)
                  (bl_block_txs_data_limit limits)))
      else if block_kv_updates_used self \<ge> bl_block_kv_update_limit limits
      then Inl (InvalidTxBlock tx_hash (BlockKVUpdateLimit (block_kv_updates_used self)
                  (bl_block_kv_update_limit limits)))
      else if block_compute_gas_used self \<ge> bl_block_compute_gas_limit limits
      then Inl (InvalidTxBlock tx_hash (BlockComputeGasLimit (block_compute_gas_used self)
                  (bl_block_compute_gas_limit limits)))
      else if block_state_growth_used self \<ge> bl_block_state_growth_limit limits
      then Inl (InvalidTxBlock tx_hash (BlockStateGrowthLimit (block_state_growth_used self)
                  (bl_block_state_growth_limit limits)))
      else Inr ())"

definition post_execution_update_raw ::
  "u64 \<Rightarrow> u64 \<Rightarrow> u64 \<Rightarrow> u64 \<Rightarrow> u64 \<Rightarrow> u64 \<Rightarrow> u64 \<Rightarrow> bool \<Rightarrow> BlockLimiter \<Rightarrow> BlockLimiter" where
  "post_execution_update_raw gas_used tx_size da_size tx_data kv_updates compute_gas_used
     state_growth_used is_deposit self =
     self\<lparr>block_gas_used := block_gas_used self + gas_used,
          block_tx_size_used := block_tx_size_used self + tx_size,
          block_da_size_used := (if \<not> is_deposit then block_da_size_used self + da_size
                                 else block_da_size_used self),
          block_data_used := block_data_used self + tx_data,
          block_kv_updates_used := block_kv_updates_used self + kv_updates,
          block_compute_gas_used := block_compute_gas_used self + compute_gas_used,
          block_state_growth_used := block_state_growth_used self + state_growth_used\<rparr>"

definition is_block_limit_reached :: "BlockLimiter \<Rightarrow> bool" where
  "is_block_limit_reached self \<longleftrightarrow>
     block_gas_used self \<ge> bl_block_gas_limit (lr_limits self) \<or>
     block_tx_size_used self \<ge> bl_block_txs_encode_size_limit (lr_limits self) \<or>
     block_da_size_used self \<ge> bl_block_da_size_limit (lr_limits self) \<or>
     block_data_used self \<ge> bl_block_txs_data_limit (lr_limits self) \<or>
     block_kv_updates_used self \<ge> bl_block_kv_update_limit (lr_limits self) \<or>
     block_compute_gas_used self \<ge> bl_block_compute_gas_limit (lr_limits self) \<or>
     block_state_growth_used self \<ge> bl_block_state_growth_limit (lr_limits self)"

section \<open>Outcomes\<close>

text \<open>The outcome of a transaction: \<^verbatim>\<open>MegaTransactionOutcome\<close> with its execution result \<open>'r\<close> and
  the state changes \<open>'s\<close>, and the block's wrapper around it. \<^verbatim>\<open>gas_used()\<close> of the result is an
  upstream accessor.\<close>

record ('r, 's) MegaTransactionOutcome =
  mo_result :: 'r
  mo_state :: 's
  mo_data_size :: u64
  mo_kv_updates :: u64
  mo_compute_gas_used :: u64
  mo_state_growth_used :: u64

record ('t, 'r, 's) BlockMegaTransactionOutcome =
  bo_tx :: 't
  bo_tx_size :: u64
  bo_da_size :: u64
  bo_depositor :: "AccountInfo option"
  bo_inner :: "('r, 's) MegaTransactionOutcome"

definition post_execution_check ::
  "('t \<Rightarrow> bool) \<Rightarrow> ('r \<Rightarrow> u64) \<Rightarrow> ('t, 'r, 's) BlockMegaTransactionOutcome \<Rightarrow> BlockLimiter \<Rightarrow>
   (BlockValidationError + unit) \<times> BlockLimiter" where
  "post_execution_check is_deposit_type result_gas_used outcome self =
     (let is_deposit = is_deposit_type (bo_tx outcome)
      in (Inr (), post_execution_update_raw (result_gas_used (mo_result (bo_inner outcome)))
            (bo_tx_size outcome) (bo_da_size outcome) (mo_data_size (bo_inner outcome))
            (mo_kv_updates (bo_inner outcome)) (mo_compute_gas_used (bo_inner outcome))
            (mo_state_growth_used (bo_inner outcome)) is_deposit self))"

section \<open>The transactions of a block\<close>

text \<open>What one included transaction declares and uses.\<close>

record tx_use =
  tu_hash :: b256
  tu_gas_limit :: u64
  tu_size :: u64
  tu_da_size :: u64
  tu_deposit :: bool
  tu_gas_used :: u64
  tu_data :: u64
  tu_kv_updates :: u64
  tu_compute_gas :: u64
  tu_state_growth :: u64

definition check_use :: "tx_use \<Rightarrow> BlockLimiter \<Rightarrow> BlockValidationError + unit" where
  "check_use u b =
     pre_execution_check (tu_hash u) (tu_gas_limit u) (tu_size u) (tu_da_size u) (tu_deposit u) b"

definition add_use :: "tx_use \<Rightarrow> BlockLimiter \<Rightarrow> BlockLimiter" where
  "add_use u b = post_execution_update_raw (tu_gas_used u) (tu_size u) (tu_da_size u) (tu_data u)
     (tu_kv_updates u) (tu_compute_gas u) (tu_state_growth u) (tu_deposit u) b"

inductive admitted :: "BlockLimits \<Rightarrow> tx_use list \<Rightarrow> BlockLimiter \<Rightarrow> bool" for L :: BlockLimits where
  admitted_empty: "admitted L [] (to_block_limiter L)"
| admitted_tx: "admitted L us b \<Longrightarrow> check_use u b = Inr () \<Longrightarrow> admitted L (us @ [u]) (add_use u b)"

inductive_cases admitted_snocE: "admitted L (us @ [u]) b"

text \<open>The sum of one resource over a block, as a natural number.\<close>

definition block_total :: "(tx_use \<Rightarrow> u64) \<Rightarrow> tx_use list \<Rightarrow> nat" where
  "block_total f us = (\<Sum>u\<leftarrow>us. unat (f u))"

definition da_charged :: "tx_use \<Rightarrow> u64" where
  "da_charged u = (if tu_deposit u then 0 else tu_da_size u)"

lemma block_total_simps [simp]: "block_total f [] = 0" "block_total f (us @ [u]) = block_total f us + unat (f u)"
  by (simp_all add: block_total_def)

lemma check_use_Inr_iff:
  "check_use u b = Inr () \<longleftrightarrow>
     tu_gas_limit u \<le> bl_tx_gas_limit (lr_limits b) \<and>
     block_gas_used b + tu_gas_limit u \<le> bl_block_gas_limit (lr_limits b) \<and>
     tu_size u \<le> bl_tx_encode_size_limit (lr_limits b) \<and>
     tu_size u + block_tx_size_used b \<le> bl_block_txs_encode_size_limit (lr_limits b) \<and>
     (tu_deposit u \<or> tu_da_size u \<le> bl_tx_da_size_limit (lr_limits b) \<and>
        tu_da_size u + block_da_size_used b \<le> bl_block_da_size_limit (lr_limits b)) \<and>
     block_data_used b < bl_block_txs_data_limit (lr_limits b) \<and>
     block_kv_updates_used b < bl_block_kv_update_limit (lr_limits b) \<and>
     block_compute_gas_used b < bl_block_compute_gas_limit (lr_limits b) \<and>
     block_state_growth_used b < bl_block_state_growth_limit (lr_limits b)"
  by (auto simp: check_use_def pre_execution_check_def Let_def not_less not_le split: if_splits)

lemma add_use_sel [simp]:
  "lr_limits (add_use u b) = lr_limits b"
  "block_gas_used (add_use u b) = block_gas_used b + tu_gas_used u"
  "block_tx_size_used (add_use u b) = block_tx_size_used b + tu_size u"
  "block_da_size_used (add_use u b) = block_da_size_used b + da_charged u"
  "block_data_used (add_use u b) = block_data_used b + tu_data u"
  "block_kv_updates_used (add_use u b) = block_kv_updates_used b + tu_kv_updates u"
  "block_compute_gas_used (add_use u b) = block_compute_gas_used b + tu_compute_gas u"
  "block_state_growth_used (add_use u b) = block_state_growth_used b + tu_state_growth u"
  by (simp_all add: add_use_def post_execution_update_raw_def da_charged_def)

lemma to_block_limiter_sel [simp]:
  "lr_limits (to_block_limiter L) = L" "block_gas_used (to_block_limiter L) = 0"
  "block_tx_size_used (to_block_limiter L) = 0" "block_da_size_used (to_block_limiter L) = 0"
  "block_data_used (to_block_limiter L) = 0" "block_kv_updates_used (to_block_limiter L) = 0"
  "block_compute_gas_used (to_block_limiter L) = 0" "block_state_growth_used (to_block_limiter L) = 0"
  by (simp_all add: to_block_limiter_def)

text \<open>The counters are the sums of what the transactions used, modulo \<open>2^64\<close>.\<close>

lemma admitted_counters:
  assumes "admitted L us b"
  shows "lr_limits b = L \<and> block_gas_used b = word_of_nat (block_total tu_gas_used us)
    \<and> block_tx_size_used b = word_of_nat (block_total tu_size us)
    \<and> block_da_size_used b = word_of_nat (block_total da_charged us)
    \<and> block_data_used b = word_of_nat (block_total tu_data us)
    \<and> block_kv_updates_used b = word_of_nat (block_total tu_kv_updates us)
    \<and> block_compute_gas_used b = word_of_nat (block_total tu_compute_gas us)
    \<and> block_state_growth_used b = word_of_nat (block_total tu_state_growth us)"
  using assms by (induction rule: admitted.induct) simp_all

text \<open>No transaction wraps a sum around: what the block used together with what the transaction
  declares is below \<open>2^64\<close>.\<close>

fun sums_fit :: "tx_use list \<Rightarrow> bool" where
  "sums_fit us \<longleftrightarrow> block_total tu_gas_limit us < 2 ^ 64 \<and> block_total tu_size us < 2 ^ 64 \<and>
     block_total tu_da_size us < 2 ^ 64 \<and> block_total tu_data us < 2 ^ 64 \<and> block_total tu_kv_updates us < 2 ^ 64 \<and>
     block_total tu_compute_gas us < 2 ^ 64 \<and> block_total tu_state_growth us < 2 ^ 64"

lemma block_total_mono: "(\<And>u. u \<in> set us \<Longrightarrow> f u \<le> g u) \<Longrightarrow> block_total f us \<le> block_total g us"
  unfolding block_total_def by (rule sum_list_mono) (simp add: word_le_nat_alt)

lemma unat_word_sum_le:
  assumes "word_of_nat n + x \<le> (l :: u64)" and "n + unat x < 2 ^ 64"
  shows "n + unat x \<le> unat l"
proof -
  have "unat (word_of_nat n + x) = n + unat x"
    using assms(2) by (simp add: unat_add_exact)
  with assms(1) show ?thesis by (simp add: word_le_nat_alt)
qed

lemma unat_word_less: "word_of_nat n < (l :: u64) \<Longrightarrow> n < 2 ^ 64 \<Longrightarrow> n < unat l"
  by (simp add: word_less_nat_alt)

lemma admitted_within:
  assumes "admitted L us b" and "list_all (\<lambda>u. tu_gas_used u \<le> tu_gas_limit u) us" and "sums_fit us"
  shows "block_total tu_gas_used us \<le> unat (bl_block_gas_limit L)
    \<and> block_total tu_size us \<le> unat (bl_block_txs_encode_size_limit L)
    \<and> block_total da_charged us \<le> unat (bl_block_da_size_limit L)"
  using assms
proof (induction rule: admitted.induct)
  case admitted_empty
  show ?case by simp
next
  case (admitted_tx us b u)
  note counters = admitted_counters [OF admitted_tx.hyps(1)]
  note ok = admitted_tx.hyps(2) [unfolded check_use_Inr_iff]
  have "block_total tu_gas_used us \<le> block_total tu_gas_limit us"
    using admitted_tx.prems(1) by (intro block_total_mono) (simp add: list_all_iff)
  then have gas: "block_total tu_gas_used us + unat (tu_gas_limit u) < 2 ^ 64"
    using admitted_tx.prems(2) by simp
  have "block_total tu_gas_used us + unat (tu_gas_limit u) \<le> unat (bl_block_gas_limit L)"
    using ok counters gas by (intro unat_word_sum_le) simp_all
  moreover have "unat (tu_gas_used u) \<le> unat (tu_gas_limit u)"
    using admitted_tx.prems(1) by (simp add: word_le_nat_alt)
  moreover have "block_total tu_size us + unat (tu_size u) \<le> unat (bl_block_txs_encode_size_limit L)"
    using ok counters admitted_tx.prems(2) by (intro unat_word_sum_le) (simp_all add: add.commute)
  moreover have "block_total da_charged us + unat (da_charged u) \<le> unat (bl_block_da_size_limit L)"
  proof (cases "tu_deposit u")
    case True
    then show ?thesis
      using admitted_tx.IH admitted_tx.prems by (simp add: da_charged_def [of u])
  next
    case False
    have "block_total da_charged us \<le> block_total tu_da_size us"
      by (rule block_total_mono) (simp add: da_charged_def)
    then have "block_total da_charged us + unat (tu_da_size u) < 2 ^ 64"
      using admitted_tx.prems(2) by simp
    then show ?thesis
      using False ok counters unat_word_sum_le [of "block_total da_charged us" "tu_da_size u"]
      by (simp add: da_charged_def [of u] add.commute)
  qed
  ultimately show ?case by simp
qed

section \<open>Properties\<close>

text \<open>
  Property C18 (block_never_exceeds_pre_execution_limits): a block built by the limiter. If no
  transaction uses more gas than it declares and the sums stay below \<open>2^64\<close>, then the gas used, the
  encoded size and the data availability size of the non-deposit transactions of the block are
  within the limits of the block, and its data size, KV updates, compute gas and state growth are
  below theirs without the last transaction: at most one transaction goes over.
\<close>

theorem block_never_exceeds_pre_execution_limits:
  assumes "admitted L us b" and "list_all (\<lambda>u. tu_gas_used u \<le> tu_gas_limit u) us" and "sums_fit us"
  shows "block_total tu_gas_used us \<le> unat (bl_block_gas_limit L)
    \<and> block_total tu_size us \<le> unat (bl_block_txs_encode_size_limit L)
    \<and> block_total da_charged us \<le> unat (bl_block_da_size_limit L)
    \<and> (us = [] \<or> block_total tu_data (butlast us) < unat (bl_block_txs_data_limit L)
         \<and> block_total tu_kv_updates (butlast us) < unat (bl_block_kv_update_limit L)
         \<and> block_total tu_compute_gas (butlast us) < unat (bl_block_compute_gas_limit L)
         \<and> block_total tu_state_growth (butlast us) < unat (bl_block_state_growth_limit L))"
proof (cases us rule: rev_cases)
  case Nil
  then show ?thesis using admitted_within [OF assms] by simp
next
  case (snoc vs v)
  obtain b' where b': "admitted L vs b'" "check_use v b' = Inr ()"
    using assms(1) unfolding snoc by (rule admitted_snocE) auto
  note counters = admitted_counters [OF b'(1)]
  note ok = b'(2) [unfolded check_use_Inr_iff]
  have "block_total tu_data vs < unat (bl_block_txs_data_limit L)"
    "block_total tu_kv_updates vs < unat (bl_block_kv_update_limit L)"
    "block_total tu_compute_gas vs < unat (bl_block_compute_gas_limit L)"
    "block_total tu_state_growth vs < unat (bl_block_state_growth_limit L)"
    using ok counters assms(3) snoc by (auto intro!: unat_word_less)
  then show ?thesis using admitted_within [OF assms] snoc by simp
qed

definition sample_limits :: BlockLimits where
  "sample_limits = bl_with_block_txs_data_limit 5000 (bl_with_block_gas_limit 30000000 bl_no_limits)"

definition sample_use :: tx_use where
  "sample_use = \<lparr>tu_hash = 0, tu_gas_limit = 50000, tu_size = 120, tu_da_size = 60,
     tu_deposit = False, tu_gas_used = 21000, tu_data = 9000, tu_kv_updates = 2, tu_compute_gas = 21000,
     tu_state_growth = 0\<rparr>"

lemma sample_admitted: "admitted sample_limits [sample_use] (add_use sample_use (to_block_limiter sample_limits))"
proof -
  have "0 < u64_max" by (simp add: word_less_nat_alt)
  then have "check_use sample_use (to_block_limiter sample_limits) = Inr ()"
    by (simp add: check_use_Inr_iff sample_use_def sample_limits_def bl_no_limits_def
        bl_with_block_txs_data_limit_def bl_with_block_gas_limit_def)
  from admitted_tx [OF admitted_empty this] show ?thesis by simp
qed

theorem block_never_exceeds_pre_execution_limits_witness:
  "block_total tu_gas_used [sample_use] \<le> unat (bl_block_gas_limit sample_limits)"
  using block_never_exceeds_pre_execution_limits [OF sample_admitted]
  by (simp add: sample_use_def block_total_def)

text \<open>
  Once the data size, the KV updates, the compute gas
  or the state growth of a block reached its limit, every further transaction is rejected, deposits
  included, and the rejection is one of the errors of the check.
\<close>

lemma full_block_rejects_transactions:
  assumes "block_data_used b \<ge> bl_block_txs_data_limit (lr_limits b)
      \<or> block_kv_updates_used b \<ge> bl_block_kv_update_limit (lr_limits b)
      \<or> block_compute_gas_used b \<ge> bl_block_compute_gas_limit (lr_limits b)
      \<or> block_state_growth_used b \<ge> bl_block_state_growth_limit (lr_limits b)"
  shows "is_block_limit_reached b
    \<and> (\<exists>e. pre_execution_check tx_hash gas_limit tx_size da_size is_deposit b = Inl e)"
proof -
  have "pre_execution_check tx_hash gas_limit tx_size da_size is_deposit b \<noteq> Inr ()"
    using assms by (auto simp: pre_execution_check_def Let_def not_le)
  then show ?thesis
    using assms by (cases "pre_execution_check tx_hash gas_limit tx_size da_size is_deposit b")
      (auto simp: is_block_limit_reached_def)
qed


text \<open>
  The limits of a hardfork. The runtime limits that
  the executor hands to the EVM are those of the spec of the hardfork, the block gas limit is the
  given one, and the data, KV and state growth limits of a transaction are not larger than those of
  the block, so that a transaction within its own limits fits into an empty block.
\<close>

lemma hardfork_limits_are_consistent:
  "to_evm_tx_runtime_limits (from_hardfork_and_block_gas_limit fork gas) =
     limits_from_spec (hardfork_spec_id fork)
   \<and> bl_block_gas_limit (from_hardfork_and_block_gas_limit fork gas) = gas
   \<and> bl_tx_data_limit (from_hardfork_and_block_gas_limit fork gas)
       \<le> bl_block_txs_data_limit (from_hardfork_and_block_gas_limit fork gas)
   \<and> bl_tx_kv_update_limit (from_hardfork_and_block_gas_limit fork gas)
       \<le> bl_block_kv_update_limit (from_hardfork_and_block_gas_limit fork gas)
   \<and> bl_tx_state_growth_limit (from_hardfork_and_block_gas_limit fork gas)
       \<le> bl_block_state_growth_limit (from_hardfork_and_block_gas_limit fork gas)"
  by (cases fork)
    (simp_all add: from_hardfork_and_block_gas_limit_def Let_def bl_with_block_gas_limit_def
      bl_with_tx_runtime_limits_def to_evm_tx_runtime_limits_def bl_no_limits_def limits_defs u64_max_def)

end
