(* ===== verification/Evm_Interface.thy ===== *)
theory Evm_Interface
  imports Handler_Frames Instruction_Table Precompiles Block_Limits
begin

text \<open>
  The EVM as its users see it: \<^verbatim>\<open>evm/mod.rs\<close> and the upstream traits that \<^verbatim>\<open>evm/interfaces.rs\<close>
  implements. An instance is the state of the EVM and the inspector flag. The provided methods of the
  upstream traits (\<^verbatim>\<open>Handler::run\<close>, \<^verbatim>\<open>ExecuteEvm::transact\<close> and so on) are parameters that
  get the methods of this code as arguments; \<open>iface_documented\<close> says what upstream documents of them.
\<close>

section \<open>Instances\<close>

record ('e, 'c, 'm, 'se, 'st) EvmInstance =
  inst_evm :: "('e, 'c, 'm, 'se, 'st) MegaEvm"
  inst_inspect :: bool

text \<open>The parts of the upstream EVM other than the context.\<close>

record ('st, 'insp, 'pe) inner_ops =
  new_with_inspector :: "'insp \<Rightarrow> op_table \<Rightarrow> 'pe precompiles \<Rightarrow> 'st"
  inner_instruction :: "'st \<Rightarrow> op_table"
  inner_precompiles :: "'st \<Rightarrow> 'pe precompiles"
  set_inner_precompiles :: "'pe precompiles \<Rightarrow> 'st \<Rightarrow> 'st"
  inner_inspector :: "'st \<Rightarrow> 'insp"
  set_inner_inspector :: "'insp \<Rightarrow> 'st \<Rightarrow> 'st"
  NoOpInspector :: 'insp

definition evm_new ::
  "('st, 'insp, 'pe) inner_ops \<Rightarrow> 'pe precompile_env \<Rightarrow> ('e, 'c, 'm, 'se) MegaContext \<Rightarrow> ('e, 'c, 'm, 'se, 'st) EvmInstance"
  where
  "evm_new I P context =
     (let spec = mc_spec context
      in \<lparr>inst_evm = \<lparr>evm_ctx = context,
            evm_inner = new_with_inspector I (NoOpInspector I) (instruction_table spec)
              (mp_inner (precompiles_new_with_spec P spec))\<rparr>,
          inst_inspect = False\<rparr>)"

definition rebuild ::
  "('st, 'insp, 'pe) inner_ops \<Rightarrow> 'insp \<Rightarrow> ('e, 'c, 'm, 'se, 'st) MegaEvm \<Rightarrow> ('e, 'c, 'm, 'se, 'st) MegaEvm" where
  "rebuild I inspector evm =
     evm\<lparr>evm_inner := new_with_inspector I inspector (inner_instruction I (evm_inner evm))
       (inner_precompiles I (evm_inner evm))\<rparr>"

definition with_inspector ::
  "('st, 'insp, 'pe) inner_ops \<Rightarrow> 'insp \<Rightarrow> ('e, 'c, 'm, 'se, 'st) EvmInstance \<Rightarrow> ('e, 'c, 'm, 'se, 'st) EvmInstance" where
  "with_inspector I inspector self = \<lparr>inst_evm = rebuild I inspector (inst_evm self), inst_inspect = True\<rparr>"

definition without_inspector ::
  "('st, 'insp, 'pe) inner_ops \<Rightarrow> ('e, 'c, 'm, 'se, 'st) EvmInstance \<Rightarrow> ('e, 'c, 'm, 'se, 'st) EvmInstance" where
  "without_inspector I self = \<lparr>inst_evm = rebuild I (NoOpInspector I) (inst_evm self), inst_inspect = False\<rparr>"

definition evm_with_tx_runtime_limits ::
  "EvmTxRuntimeLimits \<Rightarrow> ('e, 'c, 'm, 'se, 'st) EvmInstance \<Rightarrow> ('e, 'c, 'm, 'se, 'st) EvmInstance" where
  "evm_with_tx_runtime_limits tx_limits self =
     self\<lparr>inst_evm := (inst_evm self)\<lparr>evm_ctx := ctx_with_tx_runtime_limits tx_limits (evm_ctx (inst_evm self))\<rparr>\<rparr>"

definition with_dyn_precompiles ::
  "('st, 'insp, 'pe) inner_ops \<Rightarrow> (address \<times> 'pe precompile) list \<Rightarrow> ('e, 'c, 'm, 'se, 'st) EvmInstance \<Rightarrow>
   ('e, 'c, 'm, 'se, 'st) EvmInstance" where
  "with_dyn_precompiles I dyn_precompiles self =
     (let evm = inst_evm self; st = evm_inner evm
      in self\<lparr>inst_evm := evm\<lparr>evm_inner :=
           set_inner_precompiles I (extend_precompiles dyn_precompiles (inner_precompiles I st)) st\<rparr>\<rparr>)"

definition set_inspector_enabled ::
  "bool \<Rightarrow> ('e, 'c, 'm, 'se, 'st) EvmInstance \<Rightarrow> ('e, 'c, 'm, 'se, 'st) EvmInstance" where
  "set_inspector_enabled enabled self = self\<lparr>inst_inspect := enabled\<rparr>"

definition set_inspector ::
  "('st, 'insp, 'pe) inner_ops \<Rightarrow> 'insp \<Rightarrow> ('e, 'c, 'm, 'se, 'st) EvmInstance \<Rightarrow> ('e, 'c, 'm, 'se, 'st) EvmInstance" where
  "set_inspector I inspector self =
     (let evm = inst_evm self
      in self\<lparr>inst_evm := evm\<lparr>evm_inner := set_inner_inspector I inspector (evm_inner evm)\<rparr>\<rparr>)"

definition block_env_ref :: "('e, 'c, 'm, 'se, 'st) EvmInstance \<Rightarrow> BlockEnv" where
  "block_env_ref self = op_block (inner (evm_ctx (inst_evm self)))"

definition set_block ::
  "BlockEnv \<Rightarrow> ('e, 'c, 'm, 'se, 'st) EvmInstance \<Rightarrow> ('e, 'c, 'm, 'se, 'st) EvmInstance" where
  "set_block b self =
     (let evm = inst_evm self; ctx = evm_ctx evm
      in self\<lparr>inst_evm := evm\<lparr>evm_ctx := ctx\<lparr>inner := (inner ctx)\<lparr>op_block := b\<rparr>\<rparr>\<rparr>\<rparr>)"

definition chain_id :: "('e, 'c, 'm, 'se, 'st) EvmInstance \<Rightarrow> u64" where
  "chain_id self = cfg_chain_id (op_cfg (inner (evm_ctx (inst_evm self))))"

definition evm_finish ::
  "(MegaSpecId \<Rightarrow> MegaSpecId CfgEnv) \<Rightarrow> ('e, 'c, 'm, 'se, 'st) EvmInstance \<Rightarrow> 'e Database \<times> EvmEnv" where
  "evm_finish new_with_spec self =
     (let ctx = evm_ctx (inst_evm self); spec = mc_spec ctx
      in (op_db (inner ctx), \<lparr>ee_cfg_env = into_megaeth_cfg new_with_spec spec (op_cfg (inner ctx)),
            ee_block_env = op_block (inner ctx)\<rparr>))"

section \<open>Execution\<close>

type_synonym ('e, 'c, 'm, 'se, 'st, 'err, 'op, 'log) run =
  "(('e, 'c, 'm, 'se, 'st) MegaEvm, 'err, ('op MegaHaltReason, 'log) ExecutionResult) hook"

record ('ir, 'gas, 'e, 'c, 'm, 'se, 'op, 'te, 'log, 'st, 'err) iface_env =
  if_handler :: "('ir, 'gas, 'e, 'c, 'm, 'se, 'op, 'te, 'log, 'st, 'err) handler_env"
  handler_run :: "('e, 'c, 'm, 'se, 'st, 'err, 'op, 'log) run \<Rightarrow> ('err \<Rightarrow> ('e, 'c, 'm, 'se, 'st, 'err, 'op, 'log) run) \<Rightarrow>
    ('e, 'c, 'm, 'se, 'st, 'err, 'op, 'log) run"
  handler_inspect_run :: "('e, 'c, 'm, 'se, 'st, 'err, 'op, 'log) run \<Rightarrow>
    ('err \<Rightarrow> ('e, 'c, 'm, 'se, 'st, 'err, 'op, 'log) run) \<Rightarrow> ('e, 'c, 'm, 'se, 'st, 'err, 'op, 'log) run"
  journal_finalize :: "('e, 'c, 'm, 'se, 'st) MegaEvm \<Rightarrow> (address \<rightharpoonup> Account) \<times> ('e, 'c, 'm, 'se, 'st) MegaEvm"
  then_finalize :: "('e, 'c, 'm, 'se, 'st, 'err, 'op, 'log) run \<Rightarrow>
    (('e, 'c, 'm, 'se, 'st) MegaEvm \<Rightarrow> (address \<rightharpoonup> Account) \<times> ('e, 'c, 'm, 'se, 'st) MegaEvm) \<Rightarrow>
    (('e, 'c, 'm, 'se, 'st) MegaEvm, 'err, ('op MegaHaltReason, 'log) ExecutionResult \<times> (address \<rightharpoonup> Account)) hook"
  new_system_tx_with_caller :: "address \<Rightarrow> address \<Rightarrow> bytes \<Rightarrow> MegaTransaction"

definition with_tx :: "MegaTransaction \<Rightarrow> ('e, 'c, 'm, 'se, 'st) MegaEvm \<Rightarrow> ('e, 'c, 'm, 'se, 'st) MegaEvm" where
  "with_tx tx evm = evm\<lparr>evm_ctx := set_tx tx (evm_ctx evm)\<rparr>"

definition transact_one where
  "transact_one U tx evm =
     handler_run U (run_without_catch_error (if_handler U)) (catch_error (if_handler U)) (with_tx tx evm)"

definition inspect_one_tx where
  "inspect_one_tx U tx evm =
     handler_inspect_run U (inspect_run_without_catch_error (if_handler U)) (catch_error (if_handler U)) (with_tx tx evm)"

definition replay where
  "replay U = and_then (handler_run U (run_without_catch_error (if_handler U)) (catch_error (if_handler U)))
     (\<lambda>result evm. case journal_finalize U evm of (state, evm) \<Rightarrow> Some (Inr (result, state), evm))"

definition transact_system_call_with_caller where
  "transact_system_call_with_caller U caller contract data evm =
     run_system_call (if_handler U) (with_tx (new_system_tx_with_caller U caller contract data) evm)"

text \<open>\<^verbatim>\<open>transact_raw\<close> and \<^verbatim>\<open>transact_system_call\<close>, on the instance.\<close>

definition on_inst ::
  "(('e, 'c, 'm, 'se, 'st) MegaEvm, 'err, 'a) hook \<Rightarrow> (('e, 'c, 'm, 'se, 'st) EvmInstance, 'err, 'a) hook" where
  "on_inst f self = do { (r, evm) \<leftarrow> f (inst_evm self); Some (r, self\<lparr>inst_evm := evm\<rparr>) }"

definition transact_raw where
  "transact_raw U tx self =
     on_inst (then_finalize U (if inst_inspect self then inspect_one_tx U tx else transact_one U tx) (journal_finalize U)) self"

definition transact_system_call where
  "transact_system_call U caller contract data =
     on_inst (then_finalize U (transact_system_call_with_caller U caller contract data) (journal_finalize U))"

text \<open>The outcome with the usage of the limits; computing the usage panics on an overflow.\<close>

definition outcome_of where
  "outcome_of r self = do {
     usage \<leftarrow> get_usage (evm_limit (inst_evm self));
     Some (Inr \<lparr>mo_result = fst r, mo_state = snd r, mo_data_size = lu_data_size usage,
        mo_kv_updates = lu_kv_updates usage, mo_compute_gas_used = lu_compute_gas usage,
        mo_state_growth_used = lu_state_growth usage\<rparr>, self)
   }"

definition execute_transaction where
  "execute_transaction U tx self =
     and_then (on_inst (then_finalize U (if inst_inspect self then inspect_one_tx U tx else transact_one U tx)
       (journal_finalize U))) outcome_of self"

definition inspect_transaction where
  "inspect_transaction U tx = and_then (on_inst (then_finalize U (inspect_one_tx U tx) (journal_finalize U))) outcome_of"

definition evm_accessed_bucket_ids :: "('e, 'c, 'm, 'se, 'st) EvmInstance \<Rightarrow> BucketId set" where
  "evm_accessed_bucket_ids self = get_bucket_ids (dynamic_storage_gas_cost (evm_ctx (inst_evm self)))"

section \<open>Lemmas\<close>

text \<open>The provided methods of the upstream traits.\<close>

definition iface_documented where
  "iface_documented U \<longleftrightarrow>
     (\<forall>f g evm. handler_run U f g evm = (case f evm of Some (Inl e, evm) \<Rightarrow> g e evm | r \<Rightarrow> r)) \<and>
     (\<forall>f g evm. handler_inspect_run U f g evm = (case f evm of Some (Inl e, evm) \<Rightarrow> g e evm | r \<Rightarrow> r)) \<and>
     (\<forall>f fin evm. then_finalize U f fin evm =
        (case f evm of None \<Rightarrow> None
         | Some (r, evm) \<Rightarrow> (case fin evm of (state, evm) \<Rightarrow> Some (map_sum id (\<lambda>x. (x, state)) r, evm)))) \<and>
     keeps_limits (\<lambda>evm. snd (journal_finalize U evm))"

lemma with_tx_sel [simp]: "evm_limit (with_tx tx evm) = evm_limit evm" "evm_spec (with_tx tx evm) = evm_spec evm"
  unfolding with_tx_def set_tx_def evm_limit_def evm_spec_def by simp_all

text \<open>The run of the handler behind an instance.\<close>

definition handler_body where
  "handler_body U self =
     (if inst_inspect self then inspect_run_without_catch_error (if_handler U) else run_without_catch_error (if_handler U))"

lemma iface_documentedD:
  assumes "iface_documented U"
  shows "handler_run U f g evm = (case f evm of Some (Inl e, evm) \<Rightarrow> g e evm | r \<Rightarrow> r)"
    and "handler_inspect_run U f g evm = (case f evm of Some (Inl e, evm) \<Rightarrow> g e evm | r \<Rightarrow> r)"
    and "then_finalize U f fin evm = (case f evm of None \<Rightarrow> None
         | Some (r, evm) \<Rightarrow> (case fin evm of (state, evm) \<Rightarrow> Some (map_sum id (\<lambda>x. (x, state)) r, evm)))"
    and "journal_finalize U evm = (state, evm') \<Longrightarrow> evm_limit evm' = evm_limit evm"
proof -
  note doc = assms [unfolded iface_documented_def]
  show "handler_run U f g evm = (case f evm of Some (Inl e, evm) \<Rightarrow> g e evm | r \<Rightarrow> r)"
    by (rule doc [THEN conjunct1, rule_format])
  show "handler_inspect_run U f g evm = (case f evm of Some (Inl e, evm) \<Rightarrow> g e evm | r \<Rightarrow> r)"
    by (rule doc [THEN conjunct2, THEN conjunct1, rule_format])
  show "then_finalize U f fin evm = (case f evm of None \<Rightarrow> None
         | Some (r, evm) \<Rightarrow> (case fin evm of (state, evm) \<Rightarrow> Some (map_sum id (\<lambda>x. (x, state)) r, evm)))"
    by (rule doc [THEN conjunct2, THEN conjunct2, THEN conjunct1, rule_format])
  show "journal_finalize U evm = (state, evm') \<Longrightarrow> evm_limit evm' = evm_limit evm"
    using keeps_limitsD [OF doc [THEN conjunct2, THEN conjunct2, THEN conjunct2]] by blast
qed

lemma then_finalize_Inr:
  assumes "iface_documented U" and "then_finalize U f (journal_finalize U) evm = Some (Inr r, evm')"
  obtains evm1 where "f evm = Some (Inr (fst r), evm1)" "journal_finalize U evm1 = (snd r, evm')"
    "evm_limit evm' = evm_limit evm1"
proof -
  have eq: "(case f evm of None \<Rightarrow> None
      | Some (r, evm) \<Rightarrow> (case journal_finalize U evm of (state, evm) \<Rightarrow> Some (map_sum id (\<lambda>x. (x, state)) r, evm)))
      = Some (Inr r, evm')"
    by (rule trans [OF sym [OF iface_documentedD(3) [OF assms(1)]] assms(2)])
  obtain r1 evm1 where f: "f evm = Some (r1, evm1)"
    using eq by (cases "f evm") auto
  obtain st evm2 where fin: "journal_finalize U evm1 = (st, evm2)" by fastforce
  have "evm2 = evm'" "r1 = Inr (fst r)" "st = snd r"
    using eq f fin by (auto simp: map_sum_id_iff)
  moreover have "evm_limit evm2 = evm_limit evm1"
    by (rule iface_documentedD(4) [OF assms(1) fin])
  ultimately show thesis using that f fin by simp
qed

lemma on_inst_Some: "on_inst f self = Some (r, self') \<longleftrightarrow> (\<exists>evm. f (inst_evm self) = Some (r, evm) \<and> self' = self\<lparr>inst_evm := evm\<rparr>)"
  by (auto simp: on_inst_def bind_eq_Some_conv)

text \<open>The two ways of a run: the handler succeeds, or its error is caught.\<close>

lemma run_cases:
  assumes "iface_documented U"
    and "(if inst_inspect self then inspect_one_tx U tx else transact_one U tx) (inst_evm self) = Some (Inr r, evm1)"
  shows "handler_body U self (with_tx tx (inst_evm self)) = Some (Inr r, evm1) \<or>
    (\<exists>e evm0. handler_body U self (with_tx tx (inst_evm self)) = Some (Inl e, evm0) \<and>
       catch_error (if_handler U) e evm0 = Some (Inr r, evm1))"
  using assms(2)
  by (cases "inst_inspect self")
    (auto simp: handler_body_def inspect_one_tx_def transact_one_def iface_documentedD(1,2) [OF assms(1)]
      split: option.splits sum.splits)

section \<open>Properties\<close>


text \<open>A concrete instance whose refused system transaction is recovered from.\<close>

definition sample_iface_env ::
  "(nat, u64, unit, unit, unit, unit, unit, unit, unit, unit, nat) iface_env" where
  "sample_iface_env = \<lparr>if_handler = sample_handler_env\<lparr>op_catch_error := (\<lambda>_ evm. (Inr (ExecRevert 5 []), evm))\<rparr>,
     handler_run = (\<lambda>f g evm. (case f evm of Some (Inl e, evm) \<Rightarrow> g e evm | r \<Rightarrow> r)),
     handler_inspect_run = (\<lambda>f g evm. (case f evm of Some (Inl e, evm) \<Rightarrow> g e evm | r \<Rightarrow> r)),
     journal_finalize = (\<lambda>evm. (Map.empty, evm)),
     then_finalize = (\<lambda>f fin evm. (case f evm of None \<Rightarrow> None
         | Some (r, evm) \<Rightarrow> (case fin evm of (state, evm) \<Rightarrow> Some (map_sum id (\<lambda>x. (x, state)) r, evm)))),
     new_system_tx_with_caller = (\<lambda>_ _ _. sample_tx)\<rparr>"

lemma sample_iface_documented: "iface_documented sample_iface_env" "handler_neutral (if_handler sample_iface_env)"
  using sample_handler_neutral
  by (simp_all add: iface_documented_def sample_iface_env_def keeps_limits_def handler_neutral_def)

definition sample_instance :: "(unit, unit, unit, unit, unit) EvmInstance" where
  "sample_instance = \<lparr>inst_evm = sample_system_evm, inst_inspect = False\<rparr>"

lemma sample_usage: "get_usage (al_new REX4 limits_rex4) =
    Some \<lparr>lu_data_size = 0, lu_kv_updates = 0, lu_compute_gas = 0, lu_state_growth = 0\<rparr>"
  by (simp add: get_usage_def al_new_def ds_new_def kv_new_def sg_new_def ds_tx_usage_def
      kv_tx_usage_def cg_tx_usage_def sg_tx_usage_def net_usage_def used_def checked_add_def entry_new_def)

lemma sample_execution:
  "\<exists>out self'. execute_transaction sample_iface_env (sample_tx\<lparr>tx_caller := MEGA_SYSTEM_ADDRESS, tx_type := 0\<rparr>) sample_instance
     = Some (Inr out, self')"
proof -
  let ?tx = "sample_tx\<lparr>tx_caller := MEGA_SYSTEM_ADDRESS, tx_type := 0\<rparr>"
  let ?H = "if_handler sample_iface_env"
  have tx: "with_tx ?tx sample_system_evm = sample_system_evm"
    by (simp add: with_tx_def set_tx_def sample_system_evm_def)
  have callee: "2 \<noteq> ORACLE_CONTRACT_ADDRESS" by (simp add: ORACLE_CONTRACT_ADDRESS_def)
  have "before_run ?H sample_system_evm = Some (Inl 1, sample_system_evm)"
    using callee
    by (simp add: before_run_def sample_system_evm_def sample_context_def sample_op_context_def sample_tx_def
        is_enabled_def sent_from_mega_system_address_def is_mega_system_transaction_iff sample_handler_env_def sample_iface_env_def)
  then have run: "run_without_catch_error ?H sample_system_evm = Some (Inl 1, sample_system_evm)"
    by (simp add: run_without_catch_error_def run_with_def and_then_def)
  have catch: "catch_error ?H 1 sample_system_evm = Some (Inr (ExecRevert 5 []), sample_system_evm)"
    by (simp add: catch_error_def and_then_def upstream_def sample_iface_env_def)
  have "evm_limit sample_system_evm = al_new REX4 limits_rex4"
    by (simp add: sample_system_evm_def sample_context_def limits_from_spec.simps evm_limit_def)
  moreover have "transact_one sample_iface_env ?tx sample_system_evm = Some (Inr (ExecRevert 5 []), sample_system_evm)"
    unfolding transact_one_def iface_documentedD(1) [OF sample_iface_documented(1)] tx run using catch by simp
  moreover have "journal_finalize sample_iface_env = (\<lambda>evm. (Map.empty, evm))" by (simp add: sample_iface_env_def)
  ultimately show ?thesis
    by (simp add: execute_transaction_def and_then_def on_inst_def iface_documentedD(3) [OF sample_iface_documented(1)]
        sample_instance_def outcome_of_def sample_usage)
qed


end
