(* ===== verification/System_Contracts.thy ===== *)
theory System_Contracts
  imports Hardforks Evm_State System_Tx
begin

text \<open>
  The deployment of the system contracts at the start of a block, the functions \<^verbatim>\<open>transact_deploy_*\<close>
  of \<^verbatim>\<open>system/oracle.rs\<close>, \<^verbatim>\<open>system/keyless_deploy.rs\<close>, \<^verbatim>\<open>system/control.rs\<close> and
  \<^verbatim>\<open>system/limit_control.rs\<close>. The database \<^verbatim>\<open>State<DB>\<close> with its cache is upstream, the record
  \<open>state_ops\<close>; the code of the contracts is made by the build, the record \<open>system_code\<close>.
\<close>

section \<open>The database\<close>

type_synonym EvmState = "address \<rightharpoonup> Account"

record ('db, 'e) state_ops =
  load_cache_account :: "address \<Rightarrow> 'db \<Rightarrow> ('e + AccountInfo option) \<times> 'db"
  db_commit :: "EvmState \<Rightarrow> 'db \<Rightarrow> 'db"
  set_state_clear_flag :: "bool \<Rightarrow> 'db \<Rightarrow> 'db"
  default_info :: AccountInfo
  default_account :: Account
  bytecode_new_raw :: "bytes \<Rightarrow> Bytecode"

record system_code =
  ORACLE_CONTRACT_CODE :: bytes
  ORACLE_CONTRACT_CODE_HASH :: b256
  ORACLE_CONTRACT_CODE_REX2 :: bytes
  ORACLE_CONTRACT_CODE_HASH_REX2 :: b256
  HIGH_PRECISION_TIMESTAMP_ORACLE_CODE :: bytes
  KEYLESS_DEPLOY_CODE :: bytes
  KEYLESS_DEPLOY_CODE_HASH :: b256
  ACCESS_CONTROL_CODE :: bytes
  ACCESS_CONTROL_CODE_HASH :: b256
  LIMIT_CONTROL_CODE :: bytes
  LIMIT_CONTROL_CODE_HASH :: b256

definition HIGH_PRECISION_TIMESTAMP_ORACLE_CODE_HASH :: b256 where
  "HIGH_PRECISION_TIMESTAMP_ORACLE_CODE_HASH = 0x1b2df8ca5350cd7106d67ed95532584526f97a5ca267c8eef73a1831f53720f2"

definition acc_mark_created :: "Account \<Rightarrow> Account" where
  "acc_mark_created a = a\<lparr>acc_status := (acc_status a)\<lparr>st_created := True\<rparr>\<rparr>"

section \<open>Deployment\<close>

text \<open>The body that the five functions share, from the account that was loaded.\<close>

definition deployed_account :: "('db, 'e) state_ops \<Rightarrow> bytes \<Rightarrow> b256 \<Rightarrow> AccountInfo option \<Rightarrow> Account" where
  "deployed_account S target_code target_hash acc =
     (let update = (\<lambda>acc_info.
            acc_mark_created (acc_mark_touch ((default_account S)\<lparr>acc_info :=
              acc_info\<lparr>code_hash := target_hash, code := Some (bytecode_new_raw S target_code)\<rparr>\<rparr>)))
      in case acc of
           None \<Rightarrow> update (default_info S)
         | Some account_info \<Rightarrow>
             if code_hash account_info = target_hash then (default_account S)\<lparr>acc_info := account_info\<rparr>
             else update account_info)"

definition transact_deploy ::
  "('db, 'e) state_ops \<Rightarrow> bool \<Rightarrow> address \<Rightarrow> bytes \<Rightarrow> b256 \<Rightarrow> 'db \<Rightarrow> ('e + EvmState option) \<times> 'db" where
  "transact_deploy S active address target_code target_hash db =
     (if \<not> active then (Inr None, db)
      else case load_cache_account S address db of
             (Inl e, db) \<Rightarrow> (Inl e, db)
           | (Inr acc, db) \<Rightarrow> (Inr (Some [address \<mapsto> deployed_account S target_code target_hash acc]), db))"

definition transact_deploy_oracle_contract ::
  "('db, 'e) state_ops \<Rightarrow> system_code \<Rightarrow> (MegaHardfork \<Rightarrow> u64 \<Rightarrow> bool) \<Rightarrow> u64 \<Rightarrow> 'db \<Rightarrow> ('e + EvmState option) \<times> 'db"
  where
  "transact_deploy_oracle_contract S C hardforks block_timestamp =
     (case if hardforks Rex2 block_timestamp then (ORACLE_CONTRACT_CODE_REX2 C, ORACLE_CONTRACT_CODE_HASH_REX2 C)
           else (ORACLE_CONTRACT_CODE C, ORACLE_CONTRACT_CODE_HASH C) of
        (target_code, target_code_hash) \<Rightarrow>
          transact_deploy S (hardforks MiniRex block_timestamp) ORACLE_CONTRACT_ADDRESS target_code target_code_hash)"

definition transact_deploy_high_precision_timestamp_oracle ::
  "('db, 'e) state_ops \<Rightarrow> system_code \<Rightarrow> (MegaHardfork \<Rightarrow> u64 \<Rightarrow> bool) \<Rightarrow> u64 \<Rightarrow> 'db \<Rightarrow> ('e + EvmState option) \<times> 'db"
  where
  "transact_deploy_high_precision_timestamp_oracle S C hardforks block_timestamp =
     transact_deploy S (hardforks MiniRex block_timestamp) HIGH_PRECISION_TIMESTAMP_ORACLE_ADDRESS
       (HIGH_PRECISION_TIMESTAMP_ORACLE_CODE C) HIGH_PRECISION_TIMESTAMP_ORACLE_CODE_HASH"

definition transact_deploy_keyless_deploy_contract ::
  "('db, 'e) state_ops \<Rightarrow> system_code \<Rightarrow> (MegaHardfork \<Rightarrow> u64 \<Rightarrow> bool) \<Rightarrow> u64 \<Rightarrow> 'db \<Rightarrow> ('e + EvmState option) \<times> 'db"
  where
  "transact_deploy_keyless_deploy_contract S C hardforks block_timestamp =
     transact_deploy S (hardforks Rex2 block_timestamp) KEYLESS_DEPLOY_ADDRESS
       (KEYLESS_DEPLOY_CODE C) (KEYLESS_DEPLOY_CODE_HASH C)"

definition transact_deploy_access_control_contract ::
  "('db, 'e) state_ops \<Rightarrow> system_code \<Rightarrow> (MegaHardfork \<Rightarrow> u64 \<Rightarrow> bool) \<Rightarrow> u64 \<Rightarrow> 'db \<Rightarrow> ('e + EvmState option) \<times> 'db"
  where
  "transact_deploy_access_control_contract S C hardforks block_timestamp =
     transact_deploy S (hardforks Rex4 block_timestamp) ACCESS_CONTROL_ADDRESS
       (ACCESS_CONTROL_CODE C) (ACCESS_CONTROL_CODE_HASH C)"

definition transact_deploy_limit_control_contract ::
  "('db, 'e) state_ops \<Rightarrow> system_code \<Rightarrow> (MegaHardfork \<Rightarrow> u64 \<Rightarrow> bool) \<Rightarrow> u64 \<Rightarrow> 'db \<Rightarrow> ('e + EvmState option) \<times> 'db"
  where
  "transact_deploy_limit_control_contract S C hardforks block_timestamp =
     transact_deploy S (hardforks Rex4 block_timestamp) LIMIT_CONTROL_ADDRESS
       (LIMIT_CONTROL_CODE C) (LIMIT_CONTROL_CODE_HASH C)"

section \<open>Lemmas\<close>

text \<open>What upstream documents of the database: loading an account only fills the cache, and a commit
  applies exactly the touched accounts.\<close>

definition view :: "('db, 'e) state_ops \<Rightarrow> 'db \<Rightarrow> address \<Rightarrow> 'e + AccountInfo option" where
  "view S db a = fst (load_cache_account S a db)"

definition state_documented :: "('db, 'e) state_ops \<Rightarrow> bool" where
  "state_documented S \<longleftrightarrow>
     \<not> st_touched (acc_status (default_account S)) \<and> \<not> st_self_destructed (acc_status (default_account S)) \<and>
     (\<forall>db a. view S (snd (load_cache_account S a db)) = view S db) \<and>
     (\<forall>flag db. view S (set_state_clear_flag S flag db) = view S db) \<and>
     (\<forall>changes db a. (\<forall>acc. changes a = Some acc \<longrightarrow> \<not> st_touched (acc_status acc)) \<longrightarrow>
        view S (db_commit S changes db) a = view S db a) \<and>
     (\<forall>changes db a acc. changes a = Some acc \<and> st_touched (acc_status acc) \<and> \<not> st_self_destructed (acc_status acc)
          \<and> code (acc_info acc) \<noteq> None \<longrightarrow>
        view S (db_commit S changes db) a = Inr (Some (acc_info acc)))"

lemma state_documentedD:
  assumes "state_documented S"
  shows "view S (snd (load_cache_account S a db)) = view S db" "view S (set_state_clear_flag S flag db) = view S db"
    "(\<And>acc. changes a = Some acc \<Longrightarrow> \<not> st_touched (acc_status acc)) \<Longrightarrow> view S (db_commit S changes db) a = view S db a"
    "changes a = Some acc \<Longrightarrow> st_touched (acc_status acc) \<Longrightarrow> \<not> st_self_destructed (acc_status acc) \<Longrightarrow>
       code (acc_info acc) \<noteq> None \<Longrightarrow> view S (db_commit S changes db) a = Inr (Some (acc_info acc))"
  using assms by (simp_all add: state_documented_def)

text \<open>The account that a deployment leaves behind.\<close>

definition contract_info :: "('db, 'e) state_ops \<Rightarrow> bytes \<Rightarrow> b256 \<Rightarrow> AccountInfo option \<Rightarrow> AccountInfo" where
  "contract_info S target_code target_hash acc = acc_info (deployed_account S target_code target_hash acc)"

lemma deployed_account_cases:
  assumes "state_documented S"
  shows "contract_info S c h acc = (case acc of
      Some info \<Rightarrow> if code_hash info = h then info
                    else info\<lparr>code_hash := h, code := Some (bytecode_new_raw S c)\<rparr>
    | None \<Rightarrow> (default_info S)\<lparr>code_hash := h, code := Some (bytecode_new_raw S c)\<rparr>)"
    and "st_touched (acc_status (deployed_account S c h acc)) \<longleftrightarrow> (\<forall>info. acc = Some info \<longrightarrow> code_hash info \<noteq> h)"
    and "\<not> st_self_destructed (acc_status (deployed_account S c h acc))"
    and "st_touched (acc_status (deployed_account S c h acc)) \<Longrightarrow> code (contract_info S c h acc) \<noteq> None"
    and "code_hash (contract_info S c h acc) = h"
proof -
  have new: "\<not> st_touched (acc_status (default_account S))" "\<not> st_self_destructed (acc_status (default_account S))"
    by (rule conjunct1 [OF assms [unfolded state_documented_def]],
        rule conjunct1 [OF conjunct2 [OF assms [unfolded state_documented_def]]])
  note defs = contract_info_def deployed_account_def acc_mark_created_def acc_mark_touch_def Let_def
  show "contract_info S c h acc = (case acc of
      Some info \<Rightarrow> if code_hash info = h then info
                    else info\<lparr>code_hash := h, code := Some (bytecode_new_raw S c)\<rparr>
    | None \<Rightarrow> (default_info S)\<lparr>code_hash := h, code := Some (bytecode_new_raw S c)\<rparr>)"
    by (cases acc) (simp_all add: defs)
  show "st_touched (acc_status (deployed_account S c h acc)) \<longleftrightarrow> (\<forall>info. acc = Some info \<longrightarrow> code_hash info \<noteq> h)"
    "\<not> st_self_destructed (acc_status (deployed_account S c h acc))"
    "st_touched (acc_status (deployed_account S c h acc)) \<Longrightarrow> code (contract_info S c h acc) \<noteq> None"
    "code_hash (contract_info S c h acc) = h"
    by (cases acc; simp add: defs new split: if_splits; fail)+
qed

lemma transact_deploy_view:
  assumes "state_documented S" and "transact_deploy S active a c h db = (r, db')"
  shows "view S db' = view S db"
  using assms state_documentedD(1) [OF assms(1), of a db]
  by (auto simp: transact_deploy_def split: if_splits prod.splits sum.splits)

lemma transact_deploy_result:
  assumes "transact_deploy S active a c h db = (Inr r, db')"
  shows "\<not> active \<and> r = None \<or>
    active \<and> (\<exists>acc. view S db a = Inr acc \<and> r = Some [a \<mapsto> deployed_account S c h acc])"
  using assms by (auto simp: transact_deploy_def view_def split: if_splits prod.splits sum.splits)

lemma commit_deployment:
  assumes "state_documented S" and "view S db a = Inr acc"
  shows "view S (db_commit S [a \<mapsto> deployed_account S c h acc] db) = (view S db)(a := Inr (Some (contract_info S c h acc)))"
proof
  fix b
  show "view S (db_commit S [a \<mapsto> deployed_account S c h acc] db) b = ((view S db)(a := Inr (Some (contract_info S c h acc)))) b"
  proof (cases "b = a \<and> st_touched (acc_status (deployed_account S c h acc))")
    case True
    then show ?thesis
      using state_documentedD(4) [OF assms(1), of "[a \<mapsto> deployed_account S c h acc]" a "deployed_account S c h acc"]
        deployed_account_cases(3,4) [OF assms(1), of c h acc]
      by (auto simp: contract_info_def)
  next
    case False
    then have "view S (db_commit S [a \<mapsto> deployed_account S c h acc] db) b = view S db b"
      by (intro state_documentedD(3) [OF assms(1)]) (auto split: if_splits)
    moreover have "b = a \<Longrightarrow> Some (contract_info S c h acc) = acc"
      using False deployed_account_cases(1,2) [OF assms(1), of c h acc] by (auto split: option.splits)
    ultimately show ?thesis using assms(2) by auto
  qed
qed

section \<open>Deploying twice\<close>

text \<open>
  The deployment of the oracle contract and its commit. Nothing changes before MiniRex. From MiniRex on the
  account has the code hash of the version of the fork, keeps balance and nonce, every other account is as before, and a second deployment in a later
  block at the same fork only reads: committing its state changes nothing.
\<close>

lemma system_contract_deployment_is_idempotent:
  assumes "state_documented S"
    and "transact_deploy_oracle_contract S C hardforks t db = (Inr r, db1)"
    and "db2 = (case r of None \<Rightarrow> db1 | Some st \<Rightarrow> db_commit S st db1)"
    and "transact_deploy_oracle_contract S C hardforks t' db2 = (Inr r', db3)"
    and "db4 = (case r' of None \<Rightarrow> db3 | Some st \<Rightarrow> db_commit S st db3)"
    and "hardforks MiniRex t' = hardforks MiniRex t" and "hardforks Rex2 t' = hardforks Rex2 t"
  shows "if hardforks MiniRex t
    then \<exists>acc info. view S db ORACLE_CONTRACT_ADDRESS = Inr acc
      \<and> view S db2 = (view S db)(ORACLE_CONTRACT_ADDRESS := Inr (Some info))
      \<and> code_hash info = (if hardforks Rex2 t then ORACLE_CONTRACT_CODE_HASH_REX2 C else ORACLE_CONTRACT_CODE_HASH C)
      \<and> balance info = balance (case acc of Some i \<Rightarrow> i | None \<Rightarrow> default_info S)
      \<and> nonce info = nonce (case acc of Some i \<Rightarrow> i | None \<Rightarrow> default_info S)
      \<and> view S db4 = view S db2
    else r = None \<and> view S db2 = view S db"
proof -
  define c h where "c = (if hardforks Rex2 t then ORACLE_CONTRACT_CODE_REX2 C else ORACLE_CONTRACT_CODE C)"
    and "h = (if hardforks Rex2 t then ORACLE_CONTRACT_CODE_HASH_REX2 C else ORACLE_CONTRACT_CODE_HASH C)"
  have first: "transact_deploy S (hardforks MiniRex t) ORACLE_CONTRACT_ADDRESS c h db = (Inr r, db1)"
    and second: "transact_deploy S (hardforks MiniRex t) ORACLE_CONTRACT_ADDRESS c h db2 = (Inr r', db3)"
    using assms(2,4,6,7) by (simp_all add: transact_deploy_oracle_contract_def c_def h_def split: if_splits)
  note views = transact_deploy_view [OF assms(1) first] transact_deploy_view [OF assms(1) second]
  show ?thesis
  proof (cases "hardforks MiniRex t")
    case False
    then show ?thesis using transact_deploy_result [OF first] assms(3) views by simp
  next
    case True
    obtain acc where acc: "view S db ORACLE_CONTRACT_ADDRESS = Inr acc"
      and r: "r = Some [ORACLE_CONTRACT_ADDRESS \<mapsto> deployed_account S c h acc]"
      using transact_deploy_result [OF first] True by blast
    define info where "info = contract_info S c h acc"
    have db2: "view S db2 = (view S db)(ORACLE_CONTRACT_ADDRESS := Inr (Some info))"
      using commit_deployment [OF assms(1), of db1] acc r assms(3) views(1) by (simp add: info_def)
    obtain acc' where acc': "view S db2 ORACLE_CONTRACT_ADDRESS = Inr acc'"
      and r': "r' = Some [ORACLE_CONTRACT_ADDRESS \<mapsto> deployed_account S c h acc']"
      using transact_deploy_result [OF second] True by blast
    have "acc' = Some info" using acc' db2 by simp
    then have "contract_info S c h acc' = info"
      using deployed_account_cases(1,5) [OF assms(1), of c h] by (simp add: info_def)
    then have "view S db4 = view S db2"
      using commit_deployment [OF assms(1), of db3] acc' r' assms(5) views(2) db2 by (simp add: fun_upd_idem_iff)
    moreover have "code_hash info = h"
      "balance info = balance (case acc of Some i \<Rightarrow> i | None \<Rightarrow> default_info S)"
      "nonce info = nonce (case acc of Some i \<Rightarrow> i | None \<Rightarrow> default_info S)"
      using deployed_account_cases(1,5) [OF assms(1), of c h acc] by (auto simp: info_def split: option.splits)
    ultimately show ?thesis using True acc db2 by (auto simp: h_def)
  qed
qed

text \<open>A concrete database: a map of accounts without a cache.\<close>

definition sample_state_ops :: "(address \<rightharpoonup> AccountInfo, unit) state_ops" where
  "sample_state_ops = \<lparr>load_cache_account = (\<lambda>a db. (Inr (db a), db)),
     db_commit = (\<lambda>changes db a. case changes a of
        Some acc \<Rightarrow> if st_touched (acc_status acc) then Some (acc_info acc) else db a | None \<Rightarrow> db a),
     set_state_clear_flag = (\<lambda>_ db. db), default_info = empty_account_info,
     default_account = \<lparr>acc_info = empty_account_info, acc_transaction_id = 0, acc_storage = Map.empty,
       acc_status = empty_status\<rparr>,
     bytecode_new_raw = PlainCode\<rparr>"

definition sample_system_code :: system_code where
  "sample_system_code = \<lparr>ORACLE_CONTRACT_CODE = [1], ORACLE_CONTRACT_CODE_HASH = 11, ORACLE_CONTRACT_CODE_REX2 = [2],
     ORACLE_CONTRACT_CODE_HASH_REX2 = 12, HIGH_PRECISION_TIMESTAMP_ORACLE_CODE = [3], KEYLESS_DEPLOY_CODE = [4],
     KEYLESS_DEPLOY_CODE_HASH = 14, ACCESS_CONTROL_CODE = [5], ACCESS_CONTROL_CODE_HASH = 15,
     LIMIT_CONTROL_CODE = [6], LIMIT_CONTROL_CODE_HASH = 16\<rparr>"

lemma sample_state_documented: "state_documented sample_state_ops"
  by (auto simp: state_documented_def sample_state_ops_def view_def empty_status_def split: option.splits)

end
