(* ===== verification/Block_Executor.thy ===== *)
theory Block_Executor
  imports Evm_Interface System_Contracts
begin

text \<open>
  The block executor: \<^verbatim>\<open>block/executor.rs\<close> with the helpers of \<^verbatim>\<open>block/eips.rs\<close> and the execution
  context of \<^verbatim>\<open>block/factory.rs\<close>. The executor is written over the operations of the EVM it uses, the
  record \<open>block_ops\<close> (the upstream trait \<^verbatim>\<open>alloy_evm::Evm\<close>, the database behind the EVM, the
  transaction and receipt accessors); \<open>mega_evm_ops\<close> fills in the operations of this code.
\<close>

section \<open>Operations\<close>

datatype StateChangeSource =
  SourceTransaction nat | PreBlockBlockHashesContract | PreBlockBeaconRootContract | PostBlockBalanceIncrements

datatype ('dbe, 'err) BlockExecutionError =
    ValidationError BlockValidationError
  | BlockHashContractCall string
  | MissingParentBeaconBlockRoot
  | CancunGenesisParentBeaconBlockRootNotZero b256
  | BeaconRootContractCall b256 string
  | OtherError 'dbe
  | EvmError 'err b256

record ('evm, 'dbe, 'err, 'res, 'tx, 'rc, 'hook) block_ops =
  xo_state :: "('evm, 'dbe) state_ops"
  xo_code :: system_code
  xo_hardforks :: "MegaHardfork \<Rightarrow> u64 \<Rightarrow> bool"
  xo_expected_spec :: "u64 \<Rightarrow> MegaSpecId"
  prague_active :: "u64 \<Rightarrow> bool"
  cancun_active :: "u64 \<Rightarrow> bool"
  regolith_active :: "u64 \<Rightarrow> bool"
  canyon_active :: "u64 \<Rightarrow> bool"
  isthmus_active :: "u64 \<Rightarrow> bool"
  block_number :: "'evm \<Rightarrow> u256"
  block_timestamp :: "'evm \<Rightarrow> u64"
  block_env_gas_limit :: "'evm \<Rightarrow> u64"
  xo_spec_id :: "'evm \<Rightarrow> MegaSpecId"
  xo_system_call :: "address \<Rightarrow> address \<Rightarrow> b256 \<Rightarrow> ('evm, 'err, 'res \<times> EvmState) hook"
  xo_execute :: "'tx \<Rightarrow> ('evm, 'err, ('res, EvmState) MegaTransactionOutcome) hook"
  err_to_string :: "'err \<Rightarrow> string"
  xo_on_state :: "StateChangeSource \<Rightarrow> EvmState \<Rightarrow> 'hook \<Rightarrow> 'hook"
  post_block_balance_increments :: "'evm \<Rightarrow> (address \<times> u128) list"
  xtx_ty :: "'tx \<Rightarrow> u8"
  xtx_size :: "'tx \<Rightarrow> u64"
  xtx_da_size :: "'tx \<Rightarrow> u64"
  xtx_hash :: "'tx \<Rightarrow> b256"
  xtx_trie_hash :: "'tx \<Rightarrow> b256"
  xtx_gas_limit :: "'tx \<Rightarrow> u64"
  xtx_signer :: "'tx \<Rightarrow> address"
  result_gas_used :: "'res \<Rightarrow> u64"
  build_receipt :: "'tx \<Rightarrow> 'res \<Rightarrow> u64 \<Rightarrow> 'evm \<Rightarrow> EvmState \<Rightarrow> 'rc option"
  build_deposit_receipt :: "u64 option \<Rightarrow> u64 option \<Rightarrow> 'res \<Rightarrow> u64 \<Rightarrow> 'rc"
  cumulative_gas_used :: "'rc \<Rightarrow> u64"
  DEPOSIT_TX_TYPE :: u8
  EIP4788_SYSTEM_ADDRESS :: address
  HISTORY_STORAGE_ADDRESS :: address
  BEACON_ROOTS_ADDRESS :: address

record MegaBlockExecutionCtx =
  parent_hash :: b256
  parent_beacon_block_root :: "b256 option"
  extra_data :: bytes
  ctx_block_limits :: BlockLimits

record ('evm, 'rc, 'hook) MegaBlockExecutor =
  ex_ctx :: MegaBlockExecutionCtx
  ex_evm :: 'evm
  ex_limiter :: BlockLimiter
  ex_receipts :: "'rc list"
  ex_hook :: 'hook

type_synonym ('evm, 'rc, 'hook, 'dbe, 'err, 'a) exec =
  "(('evm, 'rc, 'hook) MegaBlockExecutor, ('dbe, 'err) BlockExecutionError, 'a) hook"

text \<open>A method of the EVM or of its database, with its error mapped.\<close>

definition on_evm :: "('err \<Rightarrow> 'e2) \<Rightarrow> ('evm, 'err, 'a) hook \<Rightarrow> (('evm, 'rc, 'hook) MegaBlockExecutor, 'e2, 'a) hook" where
  "on_evm g f self = do {
     (r, evm) \<leftarrow> f (ex_evm self);
     Some (map_sum g id r, self\<lparr>ex_evm := evm\<rparr>)
   }"

text \<open>\<^verbatim>\<open>new\<close>: the assertions are panics.\<close>

definition executor_new ::
  "('evm, 'dbe, 'err, 'res, 'tx, 'rc, 'hook) block_ops \<Rightarrow> 'hook \<Rightarrow> 'evm \<Rightarrow> MegaBlockExecutionCtx \<Rightarrow>
   ('evm, 'rc, 'hook) MegaBlockExecutor option" where
  "executor_new B hook evm ctx =
     (let t = block_timestamp B evm
      in if xo_spec_id B evm = xo_expected_spec B t \<and> regolith_active B t \<and> canyon_active B t \<and> isthmus_active B t
            \<and> bl_block_gas_limit (ctx_block_limits ctx) = block_env_gas_limit B evm
         then Some \<lparr>ex_ctx = ctx, ex_evm = evm, ex_limiter = to_block_limiter (ctx_block_limits ctx),
                    ex_receipts = [], ex_hook = hook\<rparr>
         else None)"

section \<open>Changes before and after the transactions\<close>

definition transact_blockhashes_contract_call ::
  "('evm, 'dbe, 'err, 'res, 'tx, 'rc, 'hook) block_ops \<Rightarrow> b256 \<Rightarrow>
   ('evm, ('dbe, 'err) BlockExecutionError, ('res \<times> EvmState) option) hook" where
  "transact_blockhashes_contract_call B parent_block_hash evm =
     (if \<not> prague_active B (block_timestamp B evm) then Some (Inr None, evm)
      else if block_number B evm = 0 then Some (Inr None, evm)
      else do {
        (res, evm) \<leftarrow> xo_system_call B (EIP4788_SYSTEM_ADDRESS B) (HISTORY_STORAGE_ADDRESS B) parent_block_hash evm;
        Some (map_sum (\<lambda>e. BlockHashContractCall (err_to_string B e)) Some res, evm)
      })"

definition transact_beacon_root_contract_call ::
  "('evm, 'dbe, 'err, 'res, 'tx, 'rc, 'hook) block_ops \<Rightarrow> b256 option \<Rightarrow>
   ('evm, ('dbe, 'err) BlockExecutionError, ('res \<times> EvmState) option) hook" where
  "transact_beacon_root_contract_call B beacon_root evm =
     (if \<not> cancun_active B (block_timestamp B evm) then Some (Inr None, evm)
      else case beacon_root of
             None \<Rightarrow> Some (Inl MissingParentBeaconBlockRoot, evm)
           | Some root \<Rightarrow>
               if block_number B evm = 0
               then if root \<noteq> 0 then Some (Inl (CancunGenesisParentBeaconBlockRootNotZero root), evm)
                    else Some (Inr None, evm)
               else do {
                 (res, evm) \<leftarrow> xo_system_call B (EIP4788_SYSTEM_ADDRESS B) (BEACON_ROOTS_ADDRESS B) root evm;
                 Some (map_sum (\<lambda>e. BeaconRootContractCall root (err_to_string B e)) Some res, evm)
               })"

fun increment_balances ::
  "('db, 'e) state_ops \<Rightarrow> (address \<times> u128) list \<Rightarrow> EvmState \<Rightarrow> 'db \<Rightarrow> ('e + EvmState) \<times> 'db" where
  "increment_balances S [] state db = (Inr state, db)"
| "increment_balances S ((address, increment) # rest) state db =
     (if increment = 0 then increment_balances S rest state db
      else case load_cache_account S address db of
             (Inl e, db) \<Rightarrow> (Inl e, db)
           | (Inr acc, db) \<Rightarrow>
               let account_info = (case acc of Some i \<Rightarrow> i | None \<Rightarrow> default_info S);
                   account = acc_mark_touch ((default_account S)\<lparr>acc_info := account_info\<lparr>balance := balance account_info + ucast increment\<rparr>\<rparr>)
               in increment_balances S rest (state(address \<mapsto> account)) db)"

definition transact_balance_increments ::
  "('db, 'e) state_ops \<Rightarrow> (address \<times> u128) list \<Rightarrow> 'db \<Rightarrow> ('e + EvmState option) \<times> 'db" where
  "transact_balance_increments S balances db = apfst (map_sum id Some) (increment_balances S balances Map.empty db)"

text \<open>One step before the block: the state of a system call or a deployment is appended to the outcomes.\<close>

definition pre_step ::
  "StateChangeSource \<Rightarrow> ('evm, 'rc, 'hook, 'dbe, 'err, EvmState option) exec \<Rightarrow> (StateChangeSource \<times> EvmState) list \<Rightarrow>
   ('evm, 'rc, 'hook, 'dbe, 'err, (StateChangeSource \<times> EvmState) list) exec" where
  "pre_step source f outcomes =
     and_then f (\<lambda>r self. Some (Inr (case r of Some state \<Rightarrow> outcomes @ [(source, state)] | None \<Rightarrow> outcomes), self))"

definition system_call_step ::
  "StateChangeSource \<Rightarrow> ('evm, ('dbe, 'err) BlockExecutionError, ('res \<times> EvmState) option) hook \<Rightarrow>
   (StateChangeSource \<times> EvmState) list \<Rightarrow>
   ('evm, 'rc, 'hook, 'dbe, 'err, (StateChangeSource \<times> EvmState) list) exec" where
  "system_call_step source f =
     pre_step source (and_then (on_evm id f) (\<lambda>r self. Some (Inr (map_option snd r), self)))"

definition deploy_step ::
  "('evm, 'dbe, 'err, 'res, 'tx, 'rc, 'hook) block_ops \<Rightarrow>
   (('evm, 'dbe) state_ops \<Rightarrow> system_code \<Rightarrow> (MegaHardfork \<Rightarrow> u64 \<Rightarrow> bool) \<Rightarrow> u64 \<Rightarrow> 'evm \<Rightarrow> ('dbe + EvmState option) \<times> 'evm) \<Rightarrow>
   (StateChangeSource \<times> EvmState) list \<Rightarrow>
   ('evm, 'rc, 'hook, 'dbe, 'err, (StateChangeSource \<times> EvmState) list) exec" where
  "deploy_step B f =
     pre_step (SourceTransaction 0) (\<lambda>self. on_evm OtherError
       (upstream (f (xo_state B) (xo_code B) (xo_hardforks B) (block_timestamp B (ex_evm self)))) self)"

definition pre_execution_changes ::
  "('evm, 'dbe, 'err, 'res, 'tx, 'rc, 'hook) block_ops \<Rightarrow>
   ('evm, 'rc, 'hook, 'dbe, 'err, (StateChangeSource \<times> EvmState) list) exec" where
  "pre_execution_changes B self =
     (let self = self\<lparr>ex_evm := set_state_clear_flag (xo_state B) True (ex_evm self)\<rparr>; ctx = ex_ctx self
      in and_then (system_call_step PreBlockBlockHashesContract (transact_blockhashes_contract_call B (parent_hash ctx)) [])
         (\<lambda>outcomes. and_then (system_call_step PreBlockBeaconRootContract
           (transact_beacon_root_contract_call B (parent_beacon_block_root ctx)) outcomes)
         (\<lambda>outcomes. and_then (deploy_step B transact_deploy_oracle_contract outcomes)
         (\<lambda>outcomes. and_then (deploy_step B transact_deploy_high_precision_timestamp_oracle outcomes)
         (\<lambda>outcomes. and_then (deploy_step B transact_deploy_keyless_deploy_contract outcomes)
         (\<lambda>outcomes. and_then (deploy_step B transact_deploy_access_control_contract outcomes)
         (\<lambda>outcomes. deploy_step B transact_deploy_limit_control_contract outcomes)))))) self)"

definition post_execution_changes ::
  "('evm, 'dbe, 'err, 'res, 'tx, 'rc, 'hook) block_ops \<Rightarrow>
   ('evm, 'rc, 'hook, 'dbe, 'err, (StateChangeSource \<times> EvmState) list) exec" where
  "post_execution_changes B self =
     pre_step PostBlockBalanceIncrements
       (on_evm OtherError (upstream (transact_balance_increments (xo_state B)
          (post_block_balance_increments B (ex_evm self))))) [] self"

definition commit_outcome ::
  "('evm, 'dbe, 'err, 'res, 'tx, 'rc, 'hook) block_ops \<Rightarrow> StateChangeSource \<times> EvmState \<Rightarrow>
   ('evm, 'rc, 'hook) MegaBlockExecutor \<Rightarrow> ('evm, 'rc, 'hook) MegaBlockExecutor" where
  "commit_outcome B outcome self =
     self\<lparr>ex_hook := xo_on_state B (fst outcome) (snd outcome) (ex_hook self),
          ex_evm := db_commit (xo_state B) (snd outcome) (ex_evm self)\<rparr>"

definition commit_system_call_outcomes ::
  "('evm, 'dbe, 'err, 'res, 'tx, 'rc, 'hook) block_ops \<Rightarrow> (StateChangeSource \<times> EvmState) list \<Rightarrow>
   ('evm, 'rc, 'hook, 'dbe, 'err, unit) exec" where
  "commit_system_call_outcomes B outcomes self = Some (Inr (), fold (commit_outcome B) outcomes self)"

definition apply_pre_execution_changes ::
  "('evm, 'dbe, 'err, 'res, 'tx, 'rc, 'hook) block_ops \<Rightarrow> ('evm, 'rc, 'hook, 'dbe, 'err, unit) exec" where
  "apply_pre_execution_changes B = and_then (pre_execution_changes B) (commit_system_call_outcomes B)"

section \<open>Transactions\<close>

definition is_deposit_tx :: "('evm, 'dbe, 'err, 'res, 'tx, 'rc, 'hook) block_ops \<Rightarrow> 'tx \<Rightarrow> bool" where
  "is_deposit_tx B tx \<longleftrightarrow> xtx_ty B tx = DEPOSIT_TX_TYPE B"

definition load_depositor ::
  "('evm, 'dbe, 'err, 'res, 'tx, 'rc, 'hook) block_ops \<Rightarrow> 'tx \<Rightarrow>
   ('evm, 'rc, 'hook, 'dbe, 'err, AccountInfo option) exec" where
  "load_depositor B tx =
     (if is_deposit_tx B tx
      then on_evm OtherError (upstream (\<lambda>evm.
             apfst (map_sum id (\<lambda>acc. Some (case acc of Some i \<Rightarrow> i | None \<Rightarrow> default_info (xo_state B))))
               (load_cache_account (xo_state B) (xtx_signer B tx) evm)))
      else (\<lambda>self. Some (Inr None, self)))"

definition run_transaction ::
  "('evm, 'dbe, 'err, 'res, 'tx, 'rc, 'hook) block_ops \<Rightarrow> 'tx \<Rightarrow>
   ('evm, 'rc, 'hook, 'dbe, 'err, ('tx, 'res, EvmState) BlockMegaTransactionOutcome) exec" where
  "run_transaction B tx self =
     (let tx_size = xtx_size B tx; da_size = xtx_da_size B tx
      in case pre_execution_check (xtx_hash B tx) (xtx_gas_limit B tx) tx_size da_size (is_deposit_tx B tx) (ex_limiter self) of
           Inl e \<Rightarrow> Some (Inl (ValidationError e), self)
         | Inr _ \<Rightarrow>
             and_then (load_depositor B tx) (\<lambda>depositor.
             and_then (on_evm (\<lambda>e. EvmError e (xtx_trie_hash B tx)) (xo_execute B tx)) (\<lambda>outcome self.
               Some (Inr \<lparr>bo_tx = tx, bo_tx_size = tx_size, bo_da_size = da_size, bo_depositor = depositor,
                          bo_inner = outcome\<rparr>, self))) self)"

definition receipt_of ::
  "('evm, 'dbe, 'err, 'res, 'tx, 'rc, 'hook) block_ops \<Rightarrow> ('tx, 'res, EvmState) BlockMegaTransactionOutcome \<Rightarrow>
   u64 \<Rightarrow> 'evm \<Rightarrow> 'rc" where
  "receipt_of B outcome cumulative evm =
     (case build_receipt B (bo_tx outcome) (mo_result (bo_inner outcome)) cumulative evm (mo_state (bo_inner outcome)) of
        Some receipt \<Rightarrow> receipt
      | None \<Rightarrow> build_deposit_receipt B (if bo_depositor outcome \<noteq> None then Some 1 else None)
                  (map_option nonce (bo_depositor outcome)) (mo_result (bo_inner outcome)) cumulative)"

definition commit_transaction_outcome ::
  "('evm, 'dbe, 'err, 'res, 'tx, 'rc, 'hook) block_ops \<Rightarrow> ('tx, 'res, EvmState) BlockMegaTransactionOutcome \<Rightarrow>
   ('evm, 'rc, 'hook, 'dbe, 'err, u64) exec" where
  "commit_transaction_outcome B outcome self =
     (let tx = bo_tx outcome
      in case pre_execution_check (xtx_hash B tx) (xtx_gas_limit B tx) (bo_tx_size outcome) (bo_da_size outcome)
               (is_deposit_tx B tx) (ex_limiter self) of
           Inl e \<Rightarrow> Some (Inl (ValidationError e), self)
         | Inr _ \<Rightarrow>
             (case post_execution_check (is_deposit_tx B) (result_gas_used B) outcome (ex_limiter self) of
                (Inl e, limiter) \<Rightarrow> Some (Inl (ValidationError e), self\<lparr>ex_limiter := limiter\<rparr>)
              | (Inr _, limiter) \<Rightarrow>
                  let state = mo_state (bo_inner outcome);
                      hook = xo_on_state B (SourceTransaction (length (ex_receipts self))) state (ex_hook self);
                      receipt = receipt_of B outcome (block_gas_used limiter) (ex_evm self)
                  in Some (Inr (result_gas_used B (mo_result (bo_inner outcome))),
                       self\<lparr>ex_limiter := limiter, ex_hook := hook, ex_receipts := ex_receipts self @ [receipt],
                            ex_evm := db_commit (xo_state B) state (ex_evm self)\<rparr>)))"

definition execute_transaction_with_commit_condition ::
  "('evm, 'dbe, 'err, 'res, 'tx, 'rc, 'hook) block_ops \<Rightarrow> ('res \<Rightarrow> bool) \<Rightarrow> 'tx \<Rightarrow>
   ('evm, 'rc, 'hook, 'dbe, 'err, u64 option) exec" where
  "execute_transaction_with_commit_condition B f tx =
     and_then (run_transaction B tx) (\<lambda>outcome.
       if f (mo_result (bo_inner outcome))
       then and_then (commit_transaction_outcome B outcome) (\<lambda>gas_used self. Some (Inr (Some gas_used), self))
       else (\<lambda>self. Some (Inr None, self)))"

record 'rc BlockExecutionResult =
  br_receipts :: "'rc list"
  br_gas_used :: u64

definition executor_finish ::
  "('evm, 'dbe, 'err, 'res, 'tx, 'rc, 'hook) block_ops \<Rightarrow>
   ('evm, 'rc, 'hook, 'dbe, 'err, 'rc BlockExecutionResult) exec" where
  "executor_finish B =
     and_then (post_execution_changes B) (\<lambda>outcomes. and_then (commit_system_call_outcomes B outcomes) (\<lambda>_ self.
       Some (Inr \<lparr>br_receipts = ex_receipts self,
                  br_gas_used = (if ex_receipts self = [] then 0 else cumulative_gas_used B (last (ex_receipts self)))\<rparr>, self)))"

text \<open>The operations of this code as the EVM of the executor.\<close>

definition mega_evm_ops where
  "mega_evm_ops U into_tx_env system_data B = B\<lparr>
     xo_execute := (\<lambda>tx. execute_transaction U (into_tx_env tx)),
     xo_system_call := (\<lambda>caller contract data. transact_system_call U caller contract (system_data data)),
     block_number := (\<lambda>evm. block_env_number (block_env_ref evm)),
     xo_spec_id := (\<lambda>evm. evm_spec (inst_evm evm))\<rparr>"

text \<open>\<^verbatim>\<open>create_executor\<close> of the factory: the EVM runs with the limits of the block's transactions.\<close>

definition create_executor ::
  "(('e, 'c, 'm, 'se, 'st) EvmInstance, 'dbe, 'err, 'res, 'tx, 'rc, 'hook) block_ops \<Rightarrow> 'hook \<Rightarrow> MegaBlockExecutionCtx \<Rightarrow>
   ('e, 'c, 'm, 'se, 'st) EvmInstance \<Rightarrow> (('e, 'c, 'm, 'se, 'st) EvmInstance, 'rc, 'hook) MegaBlockExecutor option" where
  "create_executor B hook block_ctx evm =
     executor_new B hook (evm_with_tx_runtime_limits (to_evm_tx_runtime_limits (ctx_block_limits block_ctx)) evm) block_ctx"

end
