(* ===== verification/Block_Run.thy ===== *)
theory Block_Run
  imports Block_Executor
begin

text \<open>
  A block from its first to its last transaction: the run of an executor refines the admission of
  \<^verbatim>\<open>Block_Limits\<close>, its receipts carry the sums of the gas used, a rejected transaction leaves no
  trace, and the changes before the transactions deploy the system contracts of the active forks.
\<close>

section \<open>Runs\<close>

definition use_of ::
  "('evm, 'dbe, 'err, 'res, 'tx, 'rc, 'hook) block_ops \<Rightarrow> ('tx, 'res, EvmState) BlockMegaTransactionOutcome \<Rightarrow> tx_use" where
  "use_of B out = \<lparr>tu_hash = xtx_hash B (bo_tx out), tu_gas_limit = xtx_gas_limit B (bo_tx out), tu_size = bo_tx_size out,
     tu_da_size = bo_da_size out, tu_deposit = is_deposit_tx B (bo_tx out),
     tu_gas_used = result_gas_used B (mo_result (bo_inner out)), tu_data = mo_data_size (bo_inner out),
     tu_kv_updates = mo_kv_updates (bo_inner out), tu_compute_gas = mo_compute_gas_used (bo_inner out),
     tu_state_growth = mo_state_growth_used (bo_inner out)\<rparr>"

text \<open>Any order of runs and commits, as in parallel execution: what is committed need not come from this
  executor. The list holds the committed outcomes.\<close>

inductive block_run ::
  "('evm, 'dbe, 'err, 'res, 'tx, 'rc, 'hook) block_ops \<Rightarrow> ('evm, 'rc, 'hook) MegaBlockExecutor \<Rightarrow>
   ('tx, 'res, EvmState) BlockMegaTransactionOutcome list \<Rightarrow> ('evm, 'rc, 'hook) MegaBlockExecutor \<Rightarrow> bool"
  for B X0 where
  run_start: "block_run B X0 [] X0"
| run_tx: "block_run B X0 os X \<Longrightarrow> run_transaction B tx X = Some (r, X') \<Longrightarrow> block_run B X0 os X'"
| run_commit: "block_run B X0 os X \<Longrightarrow> commit_transaction_outcome B out X = Some (Inr g, X') \<Longrightarrow> block_run B X0 (os @ [out]) X'"
| run_reject: "block_run B X0 os X \<Longrightarrow> commit_transaction_outcome B out X = Some (Inl e, X') \<Longrightarrow> block_run B X0 os X'"
| run_system: "block_run B X0 os X \<Longrightarrow> commit_system_call_outcomes B cs X = Some (r, X') \<Longrightarrow> block_run B X0 os X'"

definition receipts_documented :: "('evm, 'dbe, 'err, 'res, 'tx, 'rc, 'hook) block_ops \<Rightarrow> bool" where
  "receipts_documented B \<longleftrightarrow>
     (\<forall>tx res c evm st rc. build_receipt B tx res c evm st = Some rc \<longrightarrow> cumulative_gas_used B rc = c) \<and>
     (\<forall>v n res c. cumulative_gas_used B (build_deposit_receipt B v n res c) = c)"

section \<open>Lemmas on transactions\<close>

lemma commit_cases:
  "commit_transaction_outcome B out X =
     (case check_use (use_of B out) (ex_limiter X) of
        Inl e \<Rightarrow> Some (Inl (ValidationError e), X)
      | Inr _ \<Rightarrow> Some (Inr (tu_gas_used (use_of B out)),
          X\<lparr>ex_limiter := add_use (use_of B out) (ex_limiter X),
            ex_hook := xo_on_state B (SourceTransaction (length (ex_receipts X))) (mo_state (bo_inner out)) (ex_hook X),
            ex_receipts := ex_receipts X @
              [receipt_of B out (block_gas_used (add_use (use_of B out) (ex_limiter X))) (ex_evm X)],
            ex_evm := db_commit (xo_state B) (mo_state (bo_inner out)) (ex_evm X)\<rparr>))"
  by (simp add: commit_transaction_outcome_def check_use_def use_of_def post_execution_check_def add_use_def Let_def
      split: sum.split)

lemma on_evm_Some:
  assumes "on_evm g f X = Some (r, X')"
  obtains evm where "X' = X\<lparr>ex_evm := evm\<rparr>" "\<exists>r'. f (ex_evm X) = Some (r', evm) \<and> r = map_sum g id r'"
  using assms by (auto simp: on_evm_def bind_eq_Some_conv)

text \<open>What only the EVM sees.\<close>

definition same_block :: "('evm, 'rc, 'hook) MegaBlockExecutor \<Rightarrow> ('evm, 'rc, 'hook) MegaBlockExecutor \<Rightarrow> bool" where
  "same_block X X' \<longleftrightarrow> ex_ctx X' = ex_ctx X \<and> ex_limiter X' = ex_limiter X \<and> ex_receipts X' = ex_receipts X \<and> ex_hook X' = ex_hook X"

lemma same_block_refl [simp]: "same_block X X"
  by (simp add: same_block_def)

lemma same_block_trans: "same_block X Y \<Longrightarrow> same_block Y Z \<Longrightarrow> same_block X Z"
  by (simp add: same_block_def)

lemma same_block_on_evm: "on_evm g f X = Some (r, X') \<Longrightarrow> same_block X X'"
  by (elim on_evm_Some) (simp add: same_block_def)

lemma same_block_and_then:
  assumes "and_then f k X = Some (r, Z)" and "\<And>a Y. f X = Some (a, Y) \<Longrightarrow> same_block X Y"
    and "\<And>a Y. k a Y = Some (r, Z) \<Longrightarrow> same_block Y Z"
  shows "same_block X Z"
  using assms by (auto simp: and_then_def split: option.splits sum.splits intro: same_block_trans)

lemma run_transaction_same_block: "run_transaction B tx X = Some (r, X') \<Longrightarrow> same_block X X'"
  by (auto simp: run_transaction_def Let_def load_depositor_def split: sum.splits if_splits
      elim!: same_block_and_then same_block_on_evm)

lemma commit_system_keeps:
  assumes "commit_system_call_outcomes B cs X = Some (r, X')"
  shows "ex_ctx X' = ex_ctx X \<and> ex_limiter X' = ex_limiter X \<and> ex_receipts X' = ex_receipts X"
proof -
  have "ex_ctx (fold (commit_outcome B) cs X) = ex_ctx X \<and> ex_limiter (fold (commit_outcome B) cs X) = ex_limiter X \<and>
      ex_receipts (fold (commit_outcome B) cs X) = ex_receipts X"
    by (induction cs arbitrary: X) (simp_all add: commit_outcome_def)
  then show ?thesis using assms by (simp add: commit_system_call_outcomes_def)
qed

lemma post_changes_keep:
  "post_execution_changes B X = Some (r, X') \<Longrightarrow> same_block X X'"
  by (auto simp: post_execution_changes_def pre_step_def elim!: same_block_and_then same_block_on_evm)

lemma receipt_of_cumulative: "receipts_documented B \<Longrightarrow> cumulative_gas_used B (receipt_of B out c evm) = c"
  by (auto simp: receipt_of_def receipts_documented_def split: option.split)

text \<open>The gas of the first \<open>k + 1\<close> transactions, as the receipts count it.\<close>

definition prefix_gas :: "tx_use list \<Rightarrow> u64 list" where
  "prefix_gas us = map (\<lambda>k. of_nat (block_total tu_gas_used (take (Suc k) us))) [0..<length us]"

lemma prefix_gas_snoc: "prefix_gas (us @ [u]) = prefix_gas us @ [of_nat (block_total tu_gas_used (us @ [u]))]"
  by (simp add: prefix_gas_def)

lemma block_run_admitted:
  assumes "block_run B X0 os X" and "receipts_documented B" and "ex_limiter X0 = to_block_limiter L" and "ex_receipts X0 = []"
  shows "admitted L (map (use_of B) os) (ex_limiter X) \<and>
    map (cumulative_gas_used B) (ex_receipts X) = prefix_gas (map (use_of B) os)"
  using assms(1)
proof (induction rule: block_run.induct)
  case run_start
  then show ?case using assms(3,4) by (simp add: admitted_empty prefix_gas_def)
next
  case (run_tx os X tx r X')
  then show ?case using run_transaction_same_block [OF run_tx.hyps(2)] by (simp add: same_block_def)
next
  case (run_commit os X out g X')
  have ok: "check_use (use_of B out) (ex_limiter X) = Inr ()"
    using run_commit.hyps(2) by (simp add: commit_cases split: sum.splits)
  have adm: "admitted L (map (use_of B) os @ [use_of B out]) (add_use (use_of B out) (ex_limiter X))"
    using admitted_tx ok run_commit.IH by blast
  have X': "ex_limiter X' = add_use (use_of B out) (ex_limiter X)"
    "ex_receipts X' = ex_receipts X @ [receipt_of B out (block_gas_used (add_use (use_of B out) (ex_limiter X))) (ex_evm X)]"
    using run_commit.hyps(2) ok by (auto simp: commit_cases)
  show ?case
    using adm run_commit.IH admitted_counters [OF adm]
    by (simp add: X' receipt_of_cumulative [OF assms(2)] prefix_gas_snoc)
next
  case (run_reject os X out e X')
  then show ?case by (auto simp: commit_cases split: sum.splits)
next
  case (run_system os X cs r X')
  then show ?case using commit_system_keeps [OF run_system.hyps(2)] by simp
qed

section \<open>Properties of transactions\<close>

text \<open>
  Property C32 (block_execution_is_admitted): any run of a newly created executor, in any order of running and
  committing transactions. The limiter is in a state that the admission of transactions one after the other
  reaches, with the committed transactions in their order; the receipts count the gas used up to each of
  them; finishing the block returns these receipts and the gas of the whole block.
\<close>

theorem block_execution_is_admitted:
  assumes "executor_new B hook evm ctx = Some X0" and "block_run B X0 os X" and "receipts_documented B"
  shows "admitted (ctx_block_limits ctx) (map (use_of B) os) (ex_limiter X)
    \<and> map (cumulative_gas_used B) (ex_receipts X) = prefix_gas (map (use_of B) os)
    \<and> (\<forall>res X'. executor_finish B X = Some (Inr res, X') \<longrightarrow>
         br_receipts res = ex_receipts X \<and> br_gas_used res = of_nat (block_total tu_gas_used (map (use_of B) os)))"
proof -
  have X0: "ex_limiter X0 = to_block_limiter (ctx_block_limits ctx)" "ex_receipts X0 = []"
    using assms(1) by (auto simp: executor_new_def Let_def split: if_splits)
  note run = block_run_admitted [OF assms(2,3) X0]
  have "br_receipts res = ex_receipts X \<and> br_gas_used res = of_nat (block_total tu_gas_used (map (use_of B) os))"
    if finish: "executor_finish B X = Some (Inr res, X')" for res X'
  proof -
    obtain cs X1 X2 where post: "post_execution_changes B X = Some (Inr cs, X1)"
      and X2: "(commit_system_call_outcomes B cs X1 :: ((('d, 'e) BlockExecutionError + unit) \<times> _) option) = Some (Inr (), X2)"
      and res: "res = \<lparr>br_receipts = ex_receipts X2,
        br_gas_used = (if ex_receipts X2 = [] then 0 else cumulative_gas_used B (last (ex_receipts X2)))\<rparr>"
      using finish unfolding executor_finish_def by (elim and_then_Inr) auto
    have "ex_receipts X2 = ex_receipts X"
      using commit_system_keeps [OF X2] post_changes_keep [OF post] by (simp add: same_block_def)
    moreover have "cumulative_gas_used B (last (ex_receipts X)) = of_nat (block_total tu_gas_used (map (use_of B) os))"
      if "ex_receipts X \<noteq> []"
    proof -
      have "cumulative_gas_used B (last (ex_receipts X)) = last (prefix_gas (map (use_of B) os))"
        using run that by (metis last_map)
      moreover have "os \<noteq> []" using run that by (auto simp: prefix_gas_def)
      ultimately show ?thesis by (simp add: prefix_gas_def last_map)
    qed
    moreover have "ex_receipts X = [] \<Longrightarrow> os = []" using run by (auto simp: prefix_gas_def)
    ultimately show ?thesis by (auto simp: res block_total_def)
  qed
  then show ?thesis using run by blast
qed

text \<open>A concrete executor: the EVM is a database of accounts, every transaction uses 21000 gas.\<close>

definition sample_block_ops ::
  "(address \<rightharpoonup> AccountInfo, unit, nat, u64, nat, u64, nat) block_ops" where
  "sample_block_ops = \<lparr>xo_state = sample_state_ops, xo_code = sample_system_code, xo_hardforks = (\<lambda>_ _. True),
     xo_expected_spec = (\<lambda>_. REX4), prague_active = (\<lambda>_. True), cancun_active = (\<lambda>_. True),
     regolith_active = (\<lambda>_. True), canyon_active = (\<lambda>_. True), isthmus_active = (\<lambda>_. True),
     block_number = (\<lambda>_. 1), block_timestamp = (\<lambda>_. 5), block_env_gas_limit = (\<lambda>_. 30000000),
     xo_spec_id = (\<lambda>_. REX4), xo_system_call = (\<lambda>_ _ _ evm. Some (Inr (0, Map.empty), evm)),
     xo_execute = (\<lambda>tx evm. Some (Inr \<lparr>mo_result = 21000, mo_state = Map.empty, mo_data_size = 9000,
       mo_kv_updates = 2, mo_compute_gas_used = 21000, mo_state_growth_used = 0\<rparr>, evm)),
     err_to_string = (\<lambda>_. []), xo_on_state = (\<lambda>_ _ n. n + 1), post_block_balance_increments = (\<lambda>_. []),
     xtx_ty = (\<lambda>_. 2), xtx_size = (\<lambda>_. 120), xtx_da_size = (\<lambda>_. 60), xtx_hash = (\<lambda>_. 0), xtx_trie_hash = (\<lambda>_. 0),
     xtx_gas_limit = (\<lambda>_. 50000), xtx_signer = (\<lambda>_. 1), result_gas_used = id,
     build_receipt = (\<lambda>_ _ c _ _. Some c), build_deposit_receipt = (\<lambda>_ _ _ c. c), cumulative_gas_used = id,
     DEPOSIT_TX_TYPE = 0x7e, EIP4788_SYSTEM_ADDRESS = 1, HISTORY_STORAGE_ADDRESS = 2, BEACON_ROOTS_ADDRESS = 3\<rparr>"

definition sample_block_ctx :: MegaBlockExecutionCtx where
  "sample_block_ctx = \<lparr>parent_hash = 7, parent_beacon_block_root = Some 8, extra_data = [], ctx_block_limits = sample_limits\<rparr>"

definition sample_executor :: "(address \<rightharpoonup> AccountInfo, u64, nat) MegaBlockExecutor" where
  "sample_executor = \<lparr>ex_ctx = sample_block_ctx, ex_evm = Map.empty, ex_limiter = to_block_limiter sample_limits,
     ex_receipts = [], ex_hook = 0\<rparr>"

definition sample_outcome :: "(nat, u64, EvmState) BlockMegaTransactionOutcome" where
  "sample_outcome = \<lparr>bo_tx = 0, bo_tx_size = 120, bo_da_size = 60, bo_depositor = None, bo_inner =
     \<lparr>mo_result = 21000, mo_state = Map.empty, mo_data_size = 9000, mo_kv_updates = 2, mo_compute_gas_used = 21000,
      mo_state_growth_used = 0\<rparr>\<rparr>"

lemma sample_block:
  "executor_new sample_block_ops 0 Map.empty sample_block_ctx = Some sample_executor"
  "receipts_documented sample_block_ops" "use_of sample_block_ops sample_outcome = sample_use"
proof -
  have "bl_block_gas_limit sample_limits = 30000000"
    by (simp add: sample_limits_def bl_with_block_txs_data_limit_def bl_with_block_gas_limit_def)
  then show "executor_new sample_block_ops 0 Map.empty sample_block_ctx = Some sample_executor"
    by (simp add: executor_new_def sample_block_ops_def sample_block_ctx_def sample_executor_def)
  show "receipts_documented sample_block_ops" by (simp add: receipts_documented_def sample_block_ops_def)
  show "use_of sample_block_ops sample_outcome = sample_use"
    by (simp add: use_of_def sample_block_ops_def sample_outcome_def sample_use_def is_deposit_tx_def)
qed

lemma sample_check: "check_use sample_use (to_block_limiter sample_limits) = Inr ()"
proof -
  have "0 < u64_max" by (simp add: word_less_nat_alt)
  then show ?thesis
    by (simp add: check_use_Inr_iff sample_use_def sample_limits_def bl_no_limits_def
        bl_with_block_txs_data_limit_def bl_with_block_gas_limit_def)
qed

lemma sample_block_run: "\<exists>X. block_run sample_block_ops sample_executor [sample_outcome] X"
proof -
  have "commit_transaction_outcome sample_block_ops sample_outcome sample_executor = Some (Inr g, X') \<Longrightarrow> ?thesis" for g X'
    using run_commit [OF run_start, of sample_block_ops sample_outcome sample_executor g X'] by auto
  then show ?thesis
    using sample_check by (simp add: commit_cases sample_block(3)) (simp add: sample_executor_def)
qed

theorem block_execution_is_admitted_witness:
  "\<exists>X. block_run sample_block_ops sample_executor [sample_outcome] X
     \<and> map (cumulative_gas_used sample_block_ops) (ex_receipts X) = [21000]"
proof -
  obtain X where X: "block_run sample_block_ops sample_executor [sample_outcome] X" using sample_block_run by blast
  then have "map (cumulative_gas_used sample_block_ops) (ex_receipts X) = prefix_gas [sample_use]"
    using block_execution_is_admitted [OF sample_block(1) X sample_block(2)] by (simp add: sample_block(3))
  then show ?thesis using X by (auto simp: prefix_gas_def block_total_def sample_use_def)
qed

text \<open>
  Property C33 (rejected_transactions_leave_no_trace): running a transaction changes neither the limiter nor the
  receipts nor the hook, and when the limits reject it, the EVM is not touched either; a commit that is
  refused, because another transaction was committed in between, changes nothing at all, and only the
  limits refuse a commit.
\<close>

theorem rejected_transactions_leave_no_trace:
  "(run_transaction B tx X = Some (r, X') \<longrightarrow> same_block X X' \<and>
      (\<forall>v. pre_execution_check (xtx_hash B tx) (xtx_gas_limit B tx) (xtx_size B tx) (xtx_da_size B tx)
         (is_deposit_tx B tx) (ex_limiter X) = Inl v \<longrightarrow> r = Inl (ValidationError v) \<and> X' = X))
   \<and> (commit_transaction_outcome B out X = Some (Inl e, Y) \<longrightarrow>
      Y = X \<and> (\<exists>v. e = ValidationError v \<and> check_use (use_of B out) (ex_limiter X) = Inl v))"
proof (intro conjI impI allI)
  assume run: "run_transaction B tx X = Some (r, X')"
  show "same_block X X'" by (rule run_transaction_same_block [OF run])
  fix v assume "pre_execution_check (xtx_hash B tx) (xtx_gas_limit B tx) (xtx_size B tx) (xtx_da_size B tx)
         (is_deposit_tx B tx) (ex_limiter X) = Inl v"
  then show "r = Inl (ValidationError v)" "X' = X" using run by (simp_all add: run_transaction_def Let_def)
next
  assume com: "commit_transaction_outcome B out X = Some (Inl e, Y)"
  then show "Y = X" "\<exists>v. e = ValidationError v \<and> check_use (use_of B out) (ex_limiter X) = Inl v"
    by (auto simp: commit_cases split: sum.splits)
qed

lemma data_full_rejects:
  assumes "bl_block_txs_data_limit (lr_limits b) \<le> block_data_used b"
  shows "\<exists>v. pre_execution_check h g s d dep b = Inl v"
proof -
  have "pre_execution_check h g s d dep b \<noteq> Inr ()" using assms by (auto simp: pre_execution_check_def Let_def not_le)
  then show ?thesis by (cases "pre_execution_check h g s d dep b") auto
qed

definition sample_full :: "(address \<rightharpoonup> AccountInfo, u64, nat) MegaBlockExecutor" where
  "sample_full = sample_executor\<lparr>ex_limiter := (to_block_limiter sample_limits)\<lparr>block_data_used := 5000\<rparr>\<rparr>"

theorem rejected_transactions_leave_no_trace_witness:
  "\<exists>v. run_transaction sample_block_ops 0 sample_full = Some (Inl (ValidationError v), sample_full) \<and>
     same_block sample_full sample_full"
proof -
  let ?B = sample_block_ops
  have "bl_block_txs_data_limit (lr_limits (ex_limiter sample_full)) \<le> block_data_used (ex_limiter sample_full)"
    by (simp add: sample_full_def sample_limits_def bl_with_block_txs_data_limit_def)
  then obtain v where v: "pre_execution_check (xtx_hash ?B 0) (xtx_gas_limit ?B 0) (xtx_size ?B 0) (xtx_da_size ?B 0)
      (is_deposit_tx ?B 0) (ex_limiter sample_full) = Inl v"
    using data_full_rejects by blast
  then obtain r X' where run: "run_transaction ?B 0 sample_full = Some (r, X')"
    by (simp add: run_transaction_def)
  note ok = mp [OF conjunct1 [OF rejected_transactions_leave_no_trace] run]
  have "r = Inl (ValidationError v) \<and> X' = sample_full" by (rule mp [OF spec [OF conjunct2 [OF ok]] v])
  then show ?thesis using run by simp
qed

lemma run_transaction_succeeds:
  assumes "pre_execution_check (xtx_hash B tx) (xtx_gas_limit B tx) (xtx_size B tx) (xtx_da_size B tx) (is_deposit_tx B tx)
      (ex_limiter X) = Inr ()"
    and "load_depositor B tx X = Some (Inr depositor, X1)" and "xo_execute B tx (ex_evm X1) = Some (Inr inn, evm)"
  shows "run_transaction B tx X = Some (Inr \<lparr>bo_tx = tx, bo_tx_size = xtx_size B tx, bo_da_size = xtx_da_size B tx,
      bo_depositor = depositor, bo_inner = inn\<rparr>, X1\<lparr>ex_evm := evm\<rparr>)"
  using assms by (simp add: run_transaction_def and_then_def on_evm_def)

text \<open>
  Property C36 (sequential_transactions_commit): progress of a block built one transaction at a time. When the limits
  admit a transaction, its depositor can be loaded and the EVM executes it, the second check at the commit cannot
  fail: the transaction is committed if the condition wants it, with its receipt at the end of the receipts and its usage
  added to the limiter, and it is dropped otherwise, with only the EVM changed.
\<close>

theorem sequential_transactions_commit:
  fixes B :: "('evm, 'dbe, 'err, 'res, 'tx, 'rc, 'hook) block_ops"
  assumes check: "pre_execution_check (xtx_hash B tx) (xtx_gas_limit B tx) (xtx_size B tx) (xtx_da_size B tx)
      (is_deposit_tx B tx) (ex_limiter X) = Inr ()"
    and load: "load_depositor B tx X = Some (Inr depositor, X1)"
    and exec: "xo_execute B tx (ex_evm X1) = Some (Inr inn, evm)"
  shows "\<exists>r X'. execute_transaction_with_commit_condition B f tx X = Some (Inr r, X') \<and>
    (if f (mo_result inn)
     then r = Some (result_gas_used B (mo_result inn)) \<and> ex_evm X' = db_commit (xo_state B) (mo_state inn) evm
       \<and> (\<exists>u rc. check_use u (ex_limiter X) = Inr () \<and> tu_gas_used u = result_gas_used B (mo_result inn)
            \<and> ex_limiter X' = add_use u (ex_limiter X) \<and> ex_receipts X' = ex_receipts X @ [rc])
     else r = None \<and> same_block X X' \<and> ex_evm X' = evm)"
proof -
  define out where "out = \<lparr>bo_tx = tx, bo_tx_size = xtx_size B tx, bo_da_size = xtx_da_size B tx,
      bo_depositor = depositor, bo_inner = inn\<rparr>"
  define X2 where "X2 = X1\<lparr>ex_evm := evm\<rparr>"
  have run: "run_transaction B tx X = Some (Inr out, X2)"
    unfolding out_def X2_def by (rule run_transaction_succeeds [OF check load exec])
  have same: "same_block X X2" by (rule run_transaction_same_block [OF run])
  have ok: "check_use (use_of B out) (ex_limiter X2) = Inr ()"
    using check same by (simp add: check_use_def use_of_def out_def same_block_def)
  show ?thesis
  proof (cases "f (mo_result inn)")
    case False
    then have "execute_transaction_with_commit_condition B f tx X = Some (Inr None, X2)"
      using run by (simp add: execute_transaction_with_commit_condition_def and_then_def out_def)
    then show ?thesis using False same by (simp add: X2_def)
  next
    case True
    define X3 where "X3 = X2\<lparr>ex_limiter := add_use (use_of B out) (ex_limiter X2),
        ex_hook := xo_on_state B (SourceTransaction (length (ex_receipts X2))) (mo_state inn) (ex_hook X2),
        ex_receipts := ex_receipts X2 @ [receipt_of B out (block_gas_used (add_use (use_of B out) (ex_limiter X2))) evm],
        ex_evm := db_commit (xo_state B) (mo_state inn) evm\<rparr>"
    have "commit_transaction_outcome B out X2 = Some (Inr (result_gas_used B (mo_result inn)), X3)"
      using ok by (simp add: commit_cases X3_def X2_def use_of_def out_def)
    then have "execute_transaction_with_commit_condition B f tx X = Some (Inr (Some (result_gas_used B (mo_result inn))), X3)"
      using run True by (simp add: execute_transaction_with_commit_condition_def and_then_def out_def)
    moreover have "ex_limiter X3 = add_use (use_of B out) (ex_limiter X)" "check_use (use_of B out) (ex_limiter X) = Inr ()"
      "tu_gas_used (use_of B out) = result_gas_used B (mo_result inn)"
      "\<exists>rc. ex_receipts X3 = ex_receipts X @ [rc]" "ex_evm X3 = db_commit (xo_state B) (mo_state inn) evm"
      using same ok by (simp_all add: X3_def same_block_def use_of_def out_def)
    ultimately show ?thesis using True by auto
  qed
qed

theorem sequential_transactions_commit_witness:
  "\<exists>r X'. execute_transaction_with_commit_condition sample_block_ops (\<lambda>_. True) 0 sample_executor = Some (Inr r, X')
     \<and> r = Some 21000 \<and> length (ex_receipts X') = 1"
proof -
  have check: "pre_execution_check (xtx_hash sample_block_ops 0) (xtx_gas_limit sample_block_ops 0) (xtx_size sample_block_ops 0)
      (xtx_da_size sample_block_ops 0) (is_deposit_tx sample_block_ops 0) (ex_limiter sample_executor) = Inr ()"
    using sample_check by (simp add: check_use_def sample_use_def is_deposit_tx_def sample_block_ops_def sample_executor_def)
  have load: "load_depositor sample_block_ops 0 sample_executor =
      (Some (Inr None, sample_executor) :: (((unit, nat) BlockExecutionError + _) \<times> _) option)"
    by (simp add: load_depositor_def is_deposit_tx_def sample_block_ops_def)
  obtain inn where exec: "xo_execute sample_block_ops 0 (ex_evm sample_executor) = Some (Inr inn, ex_evm sample_executor)"
    and gas: "result_gas_used sample_block_ops (mo_result inn) = 21000"
    by (simp add: sample_block_ops_def)
  have "ex_receipts sample_executor = []" by (simp add: sample_executor_def)
  then show ?thesis
    using sequential_transactions_commit [OF check load exec, of "\<lambda>_. True"] unfolding gas by fastforce
qed

end
