(* ===== verification/Block_Start.thy ===== *)
theory Block_Start
  imports Block_Run
begin

text \<open>
  The start of a block: \<^verbatim>\<open>apply_pre_execution_changes\<close> refines the list \<open>system_contracts\<close> of the
  contracts that the forks bring. The effect of the collected outcomes on the database is stated by
  \<open>pending\<close>, which every step of \<^verbatim>\<open>pre_execution_changes\<close> advances by its own contract.
\<close>

section \<open>Specification\<close>

text \<open>The contracts with the fork that brings them and the hash of the code they must have.\<close>

definition system_contracts :: "system_code \<Rightarrow> (MegaHardfork \<Rightarrow> u64 \<Rightarrow> bool) \<Rightarrow> u64 \<Rightarrow> (bool \<times> address \<times> b256) list" where
  "system_contracts C hf t =
     [(hf MiniRex t, ORACLE_CONTRACT_ADDRESS, if hf Rex2 t then ORACLE_CONTRACT_CODE_HASH_REX2 C else ORACLE_CONTRACT_CODE_HASH C),
      (hf MiniRex t, HIGH_PRECISION_TIMESTAMP_ORACLE_ADDRESS, HIGH_PRECISION_TIMESTAMP_ORACLE_CODE_HASH),
      (hf Rex2 t, KEYLESS_DEPLOY_ADDRESS, KEYLESS_DEPLOY_CODE_HASH C),
      (hf Rex4 t, ACCESS_CONTROL_ADDRESS, ACCESS_CONTROL_CODE_HASH C),
      (hf Rex4 t, LIMIT_CONTROL_ADDRESS, LIMIT_CONTROL_CODE_HASH C)]"

definition system_addresses :: "address list" where
  "system_addresses = [ORACLE_CONTRACT_ADDRESS, HIGH_PRECISION_TIMESTAMP_ORACLE_ADDRESS, KEYLESS_DEPLOY_ADDRESS,
     ACCESS_CONTROL_ADDRESS, LIMIT_CONTROL_ADDRESS]"

text \<open>What the account of a contract is after the start of the block.\<close>

definition deployed :: "bool \<Rightarrow> b256 \<Rightarrow> AccountInfo \<Rightarrow> 'e + AccountInfo option \<Rightarrow> 'e + AccountInfo option \<Rightarrow> bool" where
  "deployed active h new before after \<longleftrightarrow>
     (if active then \<exists>info acc. before = Inr acc \<and> after = Inr (Some info) \<and> code_hash info = h
        \<and> balance info = balance (case acc of Some i \<Rightarrow> i | None \<Rightarrow> new)
        \<and> nonce info = nonce (case acc of Some i \<Rightarrow> i | None \<Rightarrow> new)
      else after = before)"

text \<open>Documented of the EVM: a system call runs one of the two contracts of the Ethereum forks, it leaves the
  database and the block alone until its state is committed, and that state touches no system contract.\<close>

definition block_documented :: "('evm, 'dbe, 'err, 'res, 'tx, 'rc, 'hook) block_ops \<Rightarrow> bool" where
  "block_documented B \<longleftrightarrow> state_documented (xo_state B) \<and>
     (\<forall>flag evm. block_timestamp B (set_state_clear_flag (xo_state B) flag evm) = block_timestamp B evm) \<and>
     (\<forall>a evm. block_timestamp B (snd (load_cache_account (xo_state B) a evm)) = block_timestamp B evm) \<and>
     (\<forall>caller contract data evm r evm'. xo_system_call B caller contract data evm = Some (r, evm') \<longrightarrow>
        view (xo_state B) evm' = view (xo_state B) evm \<and> block_timestamp B evm' = block_timestamp B evm \<and>
        (\<forall>res st a acc. r = Inr (res, st) \<and> a \<in> set system_addresses \<and> st a = Some acc \<longrightarrow> \<not> st_touched (acc_status acc)))"

lemma block_documentedD:
  assumes "block_documented B"
  shows "state_documented (xo_state B)"
    and "block_timestamp B (set_state_clear_flag (xo_state B) flag evm) = block_timestamp B evm"
    and "block_timestamp B (snd (load_cache_account (xo_state B) a evm)) = block_timestamp B evm"
    and "xo_system_call B caller contract data evm = Some (r, evm') \<Longrightarrow>
        view (xo_state B) evm' = view (xo_state B) evm \<and> block_timestamp B evm' = block_timestamp B evm \<and>
        (\<forall>res st a acc. r = Inr (res, st) \<and> a \<in> set system_addresses \<and> st a = Some acc \<longrightarrow> \<not> st_touched (acc_status acc))"
  using assms unfolding block_documented_def by blast+

section \<open>Pending outcomes\<close>

text \<open>The EVM reads as the accounts \<open>V\<close> at time \<open>t\<close>, and committing the outcomes to any database that reads so
  makes the contracts read as \<open>W\<close>.\<close>

definition apply_outcomes :: "('evm, 'dbe) state_ops \<Rightarrow> (StateChangeSource \<times> EvmState) list \<Rightarrow> 'evm \<Rightarrow> 'evm" where
  "apply_outcomes S = fold (\<lambda>outcome. db_commit S (snd outcome))"

definition pending ::
  "('evm, 'dbe, 'err, 'res, 'tx, 'rc, 'hook) block_ops \<Rightarrow> (address \<Rightarrow> 'dbe + AccountInfo option) \<Rightarrow> u64 \<Rightarrow>
   (address \<Rightarrow> 'dbe + AccountInfo option) \<Rightarrow> (StateChangeSource \<times> EvmState) list \<Rightarrow> ('evm, 'rc, 'hook) MegaBlockExecutor \<Rightarrow> bool" where
  "pending B V t W outcomes X \<longleftrightarrow>
     view (xo_state B) (ex_evm X) = V \<and> block_timestamp B (ex_evm X) = t \<and>
     (\<forall>db. view (xo_state B) db = V \<longrightarrow>
        (\<forall>a\<in>set system_addresses. view (xo_state B) (apply_outcomes (xo_state B) outcomes db) a = W a))"

lemma map_sum_Inr_iff:
  "map_sum g id x = Inr y \<longleftrightarrow> x = Inr y" "map_sum g Some x = Inr z \<longleftrightarrow> (\<exists>v. x = Inr v \<and> z = Some v)"
  by (cases x; auto)+

lemma apply_outcomes_snoc: "apply_outcomes S (os @ [(src, st)]) db = db_commit S st (apply_outcomes S os db)"
  by (simp add: apply_outcomes_def)

lemma pre_step_Inr:
  assumes "pre_step src f outcomes X = Some (Inr outcomes', X')"
  obtains r where "f X = Some (Inr r, X')" "outcomes' = (case r of Some st \<Rightarrow> outcomes @ [(src, st)] | None \<Rightarrow> outcomes)"
  using assms unfolding pre_step_def by (elim and_then_Inr) simp

text \<open>A step whose state, if any, leaves the contracts alone.\<close>

lemma pending_neutral:
  assumes "state_documented (xo_state B)" and "pending B V t W outcomes X"
    and "view (xo_state B) (ex_evm X') = V" and "block_timestamp B (ex_evm X') = t"
    and "\<And>st a acc. r = Some st \<Longrightarrow> a \<in> set system_addresses \<Longrightarrow> st a = Some acc \<Longrightarrow> \<not> st_touched (acc_status acc)"
  shows "pending B V t W (case r of Some st \<Rightarrow> outcomes @ [(src, st)] | None \<Rightarrow> outcomes) X'"
proof (cases r)
  case None
  then show ?thesis using assms(2-4) by (simp add: pending_def)
next
  case (Some st)
  have "view (xo_state B) (db_commit (xo_state B) st db) a = view (xo_state B) db a" if "a \<in> set system_addresses" for a db
    using state_documentedD(3) [OF assms(1)] assms(5) [OF Some that] by blast
  then show ?thesis using assms(2-4) Some by (auto simp: pending_def apply_outcomes_snoc)
qed

lemma system_call_step_pending:
  assumes "block_documented B" and "pending B V t W outcomes X"
    and "system_call_step src f outcomes X = Some (Inr outcomes', X')"
    and call: "\<And>r evm'. f (ex_evm X) = Some (Inr r, evm') \<Longrightarrow>
      evm' = ex_evm X \<and> r = None \<or> (\<exists>caller contract data res. xo_system_call B caller contract data (ex_evm X) = Some (Inr res, evm') \<and> r = Some res)"
  shows "pending B V t W outcomes' X' \<and> ex_ctx X' = ex_ctx X"
proof -
  obtain r where r: "(and_then (on_evm id f) (\<lambda>r self. Some (Inr (map_option snd r), self))) X = Some (Inr r, X')"
    and out: "outcomes' = (case r of Some st \<Rightarrow> outcomes @ [(src, st)] | None \<Rightarrow> outcomes)"
    using assms(3) unfolding system_call_step_def by (elim pre_step_Inr)
  obtain r0 evm' where r0: "f (ex_evm X) = Some (Inr r0, evm')" and X': "X' = X\<lparr>ex_evm := evm'\<rparr>" and "r = map_option snd r0"
    using r by (auto simp: and_then_def on_evm_def map_sum_id_iff bind_eq_Some_conv split: option.splits sum.splits)
  from call [OF r0] have ok: "view (xo_state B) evm' = view (xo_state B) (ex_evm X)" "block_timestamp B evm' = block_timestamp B (ex_evm X)"
    "\<And>st a acc. r = Some st \<Longrightarrow> a \<in> set system_addresses \<Longrightarrow> st a = Some acc \<Longrightarrow> \<not> st_touched (acc_status acc)"
    using block_documentedD(4) [OF assms(1)] \<open>r = map_option snd r0\<close> by fastforce+
  have "pending B V t W outcomes' X'"
    unfolding out
  proof (rule pending_neutral [OF block_documentedD(1) [OF assms(1)] assms(2)])
    show "view (xo_state B) (ex_evm X') = V" "block_timestamp B (ex_evm X') = t"
      using ok(1,2) assms(2) X' by (simp_all add: pending_def)
  qed (rule ok(3))
  then show ?thesis using X' by simp
qed

lemma deploy_step_pending:
  fixes B :: "('evm, 'dbe, 'err, 'res, 'tx, 'rc, 'hook) block_ops"
  assumes "block_documented B" and "pending B V t W outcomes X"
    and "deploy_step B f outcomes X = Some (Inr outcomes', X')"
    and f: "f (xo_state B) (xo_code B) (xo_hardforks B) t = transact_deploy (xo_state B) active a c h"
    and "a \<in> set system_addresses" and "W a = V a"
  obtains w where "pending B V t (W(a := w)) outcomes' X'" "deployed active h (default_info (xo_state B)) (V a) w"
proof -
  let ?S = "xo_state B"
  note S = block_documentedD(1) [OF assms(1)]
  have V: "view ?S (ex_evm X) = V" and t: "block_timestamp B (ex_evm X) = t" using assms(2) by (simp_all add: pending_def)
  obtain r where r: "(on_evm OtherError (upstream (f ?S (xo_code B) (xo_hardforks B) (block_timestamp B (ex_evm X)))) X
      :: ((('dbe, 'err) BlockExecutionError + _) \<times> _) option) = Some (Inr r, X')"
    and out: "outcomes' = (case r of Some st \<Rightarrow> outcomes @ [(SourceTransaction 0, st)] | None \<Rightarrow> outcomes)"
    using assms(3) unfolding deploy_step_def by (elim pre_step_Inr)
  obtain evm' where tr: "transact_deploy ?S active a c h (ex_evm X) = (Inr r, evm')" and X': "X' = X\<lparr>ex_evm := evm'\<rparr>"
    using r unfolding t f by (auto simp: on_evm_def upstream_def map_sum_Inr_iff split: prod.splits)
  have V': "view ?S (ex_evm X') = V" using transact_deploy_view [OF S tr] V X' by simp
  have t': "block_timestamp B (ex_evm X') = t"
    using tr t X' block_documentedD(3) [OF assms(1), of a "ex_evm X"]
    by (auto simp: transact_deploy_def split: if_splits prod.splits sum.splits)
  show thesis
  proof (cases active)
    case False
    then have "outcomes' = outcomes" using transact_deploy_result [OF tr] out by simp
    then show thesis using that [of "W a"] assms(2,6) V' t' False by (simp add: pending_def deployed_def)
  next
    case True
    obtain acc where acc: "V a = Inr acc" and st: "r = Some [a \<mapsto> deployed_account ?S c h acc]"
      using transact_deploy_result [OF tr] True V by auto
    let ?w = "Inr (Some (contract_info ?S c h acc))"
    have "view ?S (apply_outcomes ?S outcomes' db) b = (W(a := ?w)) b" if "view ?S db = V" "b \<in> set system_addresses" for db b
    proof -
      let ?db = "apply_outcomes ?S outcomes db"
      have W: "\<forall>b\<in>set system_addresses. view ?S ?db b = W b" using assms(2) that(1) by (simp add: pending_def)
      then have "view ?S ?db a = Inr acc" using assms(5,6) acc by simp
      from commit_deployment [OF S this, of c h] show ?thesis
        using W that(2) out st by (simp add: apply_outcomes_snoc)
    qed
    moreover have "deployed active h (default_info ?S) (V a) ?w"
      using deployed_account_cases(1,5) [OF S, of c h acc] True acc by (auto simp: deployed_def split: option.splits)
    ultimately show thesis using that [of ?w] V' t' by (simp add: pending_def)
  qed
qed

text \<open>The two system calls of a block.\<close>

lemma system_calls:
  assumes "f = transact_blockhashes_contract_call B parent \<or> f = transact_beacon_root_contract_call B root"
    and "f evm = Some (Inr r, evm')"
  shows "evm' = evm \<and> r = None \<or> (\<exists>caller contract data res. xo_system_call B caller contract data evm = Some (Inr res, evm') \<and> r = Some res)"
  using assms
  by (auto simp: transact_blockhashes_contract_call_def transact_beacon_root_contract_call_def bind_eq_Some_conv
      map_sum_Inr_iff split: if_splits option.splits) blast+

lemma same_block_pre_step:
  assumes "pre_step src f outcomes X = Some (r, X')" and "\<And>r Y. f X = Some (r, Y) \<Longrightarrow> same_block X Y"
  shows "same_block X X'"
  using assms(1) unfolding pre_step_def by (rule same_block_and_then) (auto intro: assms(2))

lemma same_block_system_call_step: "system_call_step src f outcomes X = Some (r, X') \<Longrightarrow> same_block X X'"
  unfolding system_call_step_def
  by (erule same_block_pre_step) (auto elim!: same_block_and_then same_block_on_evm)

lemma same_block_deploy_step: "deploy_step B f outcomes X = Some (r, X') \<Longrightarrow> same_block X X'"
  unfolding deploy_step_def by (erule same_block_pre_step) (auto elim!: same_block_on_evm)

lemma pre_changes_keep:
  assumes "pre_execution_changes B X = Some (r, X')"
  shows "same_block X X'"
proof -
  have "same_block (X\<lparr>ex_evm := set_state_clear_flag (xo_state B) True (ex_evm X)\<rparr>) X'"
    using assms unfolding pre_execution_changes_def Let_def
    by (elim same_block_and_then same_block_system_call_step same_block_deploy_step)
  then show ?thesis by (simp add: same_block_def)
qed

lemma pre_changes_pending:
  fixes B :: "('evm, 'dbe, 'err, 'res, 'tx, 'rc, 'hook) block_ops"
  assumes "block_documented B" and "pre_execution_changes B X = Some (Inr outcomes, X1)"
    and "V = view (xo_state B) (ex_evm X)" and "t = block_timestamp B (ex_evm X)"
  obtains W where "pending B V t W outcomes X1"
    "\<forall>(active, a, h) \<in> set (system_contracts (xo_code B) (xo_hardforks B) t). deployed active h (default_info (xo_state B)) (V a) (W a)"
proof -
  define X0 where "X0 = X\<lparr>ex_evm := set_state_clear_flag (xo_state B) True (ex_evm X)\<rparr>"
  note doc = assms(1) and S = block_documentedD(1) [OF assms(1)]
  obtain o1 o2 o3 o4 o5 o6 Y1 Y2 Y3 Y4 Y5 Y6 where
    s1: "system_call_step PreBlockBlockHashesContract (transact_blockhashes_contract_call B (parent_hash (ex_ctx X0))) [] X0 = Some (Inr o1, Y1)"
    and s2: "system_call_step PreBlockBeaconRootContract
      (transact_beacon_root_contract_call B (parent_beacon_block_root (ex_ctx X0))) o1 Y1 = Some (Inr o2, Y2)"
    and s3: "deploy_step B transact_deploy_oracle_contract o2 Y2 = Some (Inr o3, Y3)"
    and s4: "deploy_step B transact_deploy_high_precision_timestamp_oracle o3 Y3 = Some (Inr o4, Y4)"
    and s5: "deploy_step B transact_deploy_keyless_deploy_contract o4 Y4 = Some (Inr o5, Y5)"
    and s6: "deploy_step B transact_deploy_access_control_contract o5 Y5 = Some (Inr o6, Y6)"
    and s7: "deploy_step B transact_deploy_limit_control_contract o6 Y6 = Some (Inr outcomes, X1)"
    using assms(2) unfolding pre_execution_changes_def Let_def X0_def [symmetric] by (elim and_then_Inr) (rule that)
  have p0: "pending B V t V [] X0"
    using block_documentedD(2) [OF doc] state_documentedD(2) [OF S] assms(3,4) by (simp add: pending_def X0_def apply_outcomes_def)
  have p1: "pending B V t V o1 Y1" by (rule conjunct1 [OF system_call_step_pending [OF doc p0 s1 system_calls [OF disjI1 [OF refl]]]])
  have p2: "pending B V t V o2 Y2" by (rule conjunct1 [OF system_call_step_pending [OF doc p1 s2 system_calls [OF disjI2 [OF refl]]]])
  note distinct = system_addresses_distinct [unfolded distinct.simps list.set, simplified]
  have sys: "ORACLE_CONTRACT_ADDRESS \<in> set system_addresses" "HIGH_PRECISION_TIMESTAMP_ORACLE_ADDRESS \<in> set system_addresses"
    "KEYLESS_DEPLOY_ADDRESS \<in> set system_addresses" "ACCESS_CONTROL_ADDRESS \<in> set system_addresses"
    "LIMIT_CONTROL_ADDRESS \<in> set system_addresses"
    by (simp_all add: system_addresses_def)
  let ?hf = "xo_hardforks B" and ?C = "xo_code B" and ?new = "default_info (xo_state B)"
  have orc: "transact_deploy_oracle_contract (xo_state B) ?C ?hf t =
      transact_deploy (xo_state B) (?hf MiniRex t) ORACLE_CONTRACT_ADDRESS
        (if ?hf Rex2 t then ORACLE_CONTRACT_CODE_REX2 ?C else ORACLE_CONTRACT_CODE ?C)
        (if ?hf Rex2 t then ORACLE_CONTRACT_CODE_HASH_REX2 ?C else ORACLE_CONTRACT_CODE_HASH ?C)"
    by (simp add: transact_deploy_oracle_contract_def)
  obtain w1 where p3: "pending B V t (V(ORACLE_CONTRACT_ADDRESS := w1)) o3 Y3"
    and d1: "deployed (?hf MiniRex t) (if ?hf Rex2 t then ORACLE_CONTRACT_CODE_HASH_REX2 ?C else ORACLE_CONTRACT_CODE_HASH ?C)
      ?new (V ORACLE_CONTRACT_ADDRESS) w1"
    by (rule deploy_step_pending [OF doc p2 s3 orc sys(1) refl])
  obtain w2 where p4: "pending B V t (V(ORACLE_CONTRACT_ADDRESS := w1, HIGH_PRECISION_TIMESTAMP_ORACLE_ADDRESS := w2)) o4 Y4"
    and d2: "deployed (?hf MiniRex t) HIGH_PRECISION_TIMESTAMP_ORACLE_CODE_HASH ?new (V HIGH_PRECISION_TIMESTAMP_ORACLE_ADDRESS) w2"
    by (rule deploy_step_pending [OF doc p3 s4 transact_deploy_high_precision_timestamp_oracle_def sys(2)]) (use distinct in auto)
  obtain w3 where p5: "pending B V t (V(ORACLE_CONTRACT_ADDRESS := w1, HIGH_PRECISION_TIMESTAMP_ORACLE_ADDRESS := w2,
      KEYLESS_DEPLOY_ADDRESS := w3)) o5 Y5"
    and d3: "deployed (?hf Rex2 t) (KEYLESS_DEPLOY_CODE_HASH ?C) ?new (V KEYLESS_DEPLOY_ADDRESS) w3"
    by (rule deploy_step_pending [OF doc p4 s5 transact_deploy_keyless_deploy_contract_def sys(3)]) (use distinct in auto)
  obtain w4 where p6: "pending B V t (V(ORACLE_CONTRACT_ADDRESS := w1, HIGH_PRECISION_TIMESTAMP_ORACLE_ADDRESS := w2,
      KEYLESS_DEPLOY_ADDRESS := w3, ACCESS_CONTROL_ADDRESS := w4)) o6 Y6"
    and d4: "deployed (?hf Rex4 t) (ACCESS_CONTROL_CODE_HASH ?C) ?new (V ACCESS_CONTROL_ADDRESS) w4"
    by (rule deploy_step_pending [OF doc p5 s6 transact_deploy_access_control_contract_def sys(4)]) (use distinct in auto)
  obtain w5 where p7: "pending B V t (V(ORACLE_CONTRACT_ADDRESS := w1, HIGH_PRECISION_TIMESTAMP_ORACLE_ADDRESS := w2,
      KEYLESS_DEPLOY_ADDRESS := w3, ACCESS_CONTROL_ADDRESS := w4, LIMIT_CONTROL_ADDRESS := w5)) outcomes X1"
    and d5: "deployed (?hf Rex4 t) (LIMIT_CONTROL_CODE_HASH ?C) ?new (V LIMIT_CONTROL_ADDRESS) w5"
    by (rule deploy_step_pending [OF doc p6 s7 transact_deploy_limit_control_contract_def sys(5)]) (use distinct in auto)
  show thesis
    using d1 d2 d3 d4 d5 distinct by (intro that [OF p7]) (simp add: system_contracts_def del: if_split)
qed

lemma fold_commit_outcome:
  "ex_evm (fold (commit_outcome B) outcomes X) = apply_outcomes (xo_state B) outcomes (ex_evm X)"
  by (induction outcomes arbitrary: X) (simp_all add: apply_outcomes_def commit_outcome_def)

section \<open>Property\<close>


lemma sample_block_documented: "block_documented sample_block_ops"
  using sample_state_documented
  by (simp add: block_documented_def sample_block_ops_def)

lemma sample_start: "\<exists>X'. apply_pre_execution_changes sample_block_ops sample_executor = Some (Inr (), X')"
  by (simp add: apply_pre_execution_changes_def pre_execution_changes_def and_then_def system_call_step_def deploy_step_def
      pre_step_def on_evm_def upstream_def transact_blockhashes_contract_call_def transact_beacon_root_contract_call_def
      commit_system_call_outcomes_def Let_def transact_deploy_oracle_contract_def transact_deploy_high_precision_timestamp_oracle_def
      transact_deploy_keyless_deploy_contract_def transact_deploy_access_control_contract_def
      transact_deploy_limit_control_contract_def transact_deploy_def sample_block_ops_def sample_executor_def
      sample_state_ops_def sample_block_ctx_def)


end
