(* ===== verification/Evme_State.thy ===== *)
theory Evme_State
  imports System_Contracts
begin

text \<open>
  The state of the command line tool \<^verbatim>\<open>mega-evme\<close>, \<^verbatim>\<open>src/bin/mega-evme/src/common/state.rs\<close>: the
  overrides given on the command line, the accounts of a state file, and the database that puts them in front of
  an empty state or of the state of a remote node. Files, JSON, the remote node and the parsers of
  the upstream types are parameters; texts of the command line are lists of ASCII characters.
\<close>

section \<open>Parameters\<close>

text \<open>Errors of other crates are their texts.\<close>

datatype EvmeError =
  RpcTransportError string | TransactionNotFound b256 | BlockNotFound u64 | EvmeBlockExecutionError string
| InvalidBytecode string | FileRead string | InvalidHex string | ExecutionError string | InvalidInput string
| RpcError string | UnsupportedTxType u8 | CodeHashMismatch b256 b256 | OtherError string

record evme_env =
  parse_units :: "string \<Rightarrow> string \<Rightarrow> string + u256"
  address_from_str :: "string \<Rightarrow> string + address"
  u64_from_str :: "string \<Rightarrow> string + u64"
  u256_from_str :: "string \<Rightarrow> string + u256"
  b256_from_str :: "string \<Rightarrow> string + b256"
  show_address :: "address \<Rightarrow> string"
  show_u64 :: "u64 \<Rightarrow> string"
  show_u256 :: "u256 \<Rightarrow> string"
  ev_new_raw :: "bytes \<Rightarrow> Bytecode"
  ev_new_raw_checked :: "bytes \<Rightarrow> string + Bytecode"
  ev_default_bytecode :: Bytecode
  hash_slow :: "Bytecode \<Rightarrow> b256"
  original_byte_slice :: "Bytecode \<Rightarrow> bytes"
  ev_default_account :: Account
  ev_account_from_info :: "AccountInfo \<Rightarrow> Account"
  ev_with_storage :: "Account \<Rightarrow> (u256 \<rightharpoonup> EvmStorageSlot) \<Rightarrow> Account"
  ev_slot_new :: "u256 \<Rightarrow> usize \<Rightarrow> EvmStorageSlot"

text \<open>The operators \<^verbatim>\<open>?\<close> and \<^verbatim>\<open>ok_or_else\<close>, and a loop that stops at the first error.\<close>

definition and_ok :: "'e + 'a \<Rightarrow> ('a \<Rightarrow> 'e + 'b) \<Rightarrow> 'e + 'b" where
  "and_ok r f = (case r of Inl e \<Rightarrow> Inl e | Inr a \<Rightarrow> f a)"

definition ok_or :: "'e \<Rightarrow> 'a option \<Rightarrow> 'e + 'a" where
  "ok_or e r = (case r of None \<Rightarrow> Inl e | Some a \<Rightarrow> Inr a)"

definition map_err :: "('e \<Rightarrow> 'f) \<Rightarrow> 'e + 'a \<Rightarrow> 'f + 'a" where
  "map_err f = map_sum f id"

fun each_ok :: "('a \<Rightarrow> 'e + 'b) \<Rightarrow> 'a list \<Rightarrow> 'e + 'b list" where
  "each_ok f [] = Inr []"
| "each_ok f (x # xs) = and_ok (f x) (\<lambda>y. and_ok (each_ok f xs) (\<lambda>ys. Inr (y # ys)))"

section \<open>Texts\<close>

definition is_whitespace :: "char \<Rightarrow> bool" where
  "is_whitespace c \<longleftrightarrow> c = CHR '' '' \<or> (9 \<le> (of_char c :: nat) \<and> (of_char c :: nat) \<le> 13)"

definition trim :: "string \<Rightarrow> string" where
  "trim s = rev (dropWhile is_whitespace (rev (dropWhile is_whitespace s)))"

fun split_once :: "string \<Rightarrow> string \<Rightarrow> (string \<times> string) option" where
  "split_once pat [] = None"
| "split_once pat (c # s) =
     (if take (length pat) (c # s) = pat then Some ([], drop (length pat) (c # s))
      else map_option (apfst ((#) c)) (split_once pat s))"

definition quoted :: "string \<Rightarrow> string" where
  "quoted s = CHR 0x27 # s @ [CHR 0x27]"

definition is_ascii_digit :: "char \<Rightarrow> bool" where
  "is_ascii_digit c \<longleftrightarrow> 48 \<le> (of_char c :: nat) \<and> (of_char c :: nat) \<le> 57"

definition parse_ether_value :: "evme_env \<Rightarrow> string \<Rightarrow> EvmeError + u256" where
  "parse_ether_value E s =
     (let s = trim s;
          in_number = (\<lambda>c. is_ascii_digit c \<or> c = CHR ''.'');
          num_str = takeWhile in_number s; suffix = dropWhile in_number s
      in map_err (\<lambda>e. InvalidInput (''Invalid ether value '' @ quoted s @ '': '' @ e))
           (parse_units E num_str (if suffix = [] then ''wei'' else suffix)))"

text \<open>A part of an entry, trimmed and parsed, with the message of its error.\<close>

definition parse_part ::
  "(string \<Rightarrow> string + 'a) \<Rightarrow> string \<Rightarrow> string \<Rightarrow> string \<Rightarrow> string \<Rightarrow> EvmeError + 'a" where
  "parse_part f part_name kind s entry =
     map_err (\<lambda>e. InvalidInput (''Invalid '' @ part_name @ '' '' @ quoted s @ '' in '' @ kind @ '' '' @ quoted entry @ '': '' @ e))
       (f (trim s))"

definition bad_entry :: "string \<Rightarrow> string \<Rightarrow> string \<Rightarrow> EvmeError" where
  "bad_entry kind format entry =
     InvalidInput (''Invalid '' @ kind @ '' '' @ quoted entry @ '': expected format '' @ quoted format)"

definition parse_block_hash :: "evme_env \<Rightarrow> string \<Rightarrow> EvmeError + (u64 \<times> b256)" where
  "parse_block_hash E entry =
     and_ok (ok_or (bad_entry ''block hash entry'' ''block_number:block_hash'' entry) (split_once '':'' entry))
       (\<lambda>(num_str, hash_str). and_ok (parse_part (u64_from_str E) ''block number'' ''entry'' num_str entry)
       (\<lambda>block_num. and_ok (parse_part (b256_from_str E) ''block hash'' ''entry'' hash_str entry)
       (\<lambda>block_hash. Inr (block_num, block_hash))))"

definition parse_block_hashes :: "evme_env \<Rightarrow> string list \<Rightarrow> EvmeError + (u64 \<rightharpoonup> b256)" where
  "parse_block_hashes E entries =
     and_ok (each_ok (parse_block_hash E) entries) (\<lambda>ps. Inr (foldl (\<lambda>m (n, h). m(n \<mapsto> h)) Map.empty ps))"

definition parse_faucet :: "evme_env \<Rightarrow> string list \<Rightarrow> EvmeError + (address \<times> u256) list" where
  "parse_faucet E = each_ok (\<lambda>entry.
     and_ok (ok_or (bad_entry ''faucet entry'' ''ADDRESS+=VALUE'' entry) (split_once ''+='' entry))
       (\<lambda>(addr_str, value_str). and_ok (parse_part (address_from_str E) ''address'' ''faucet entry'' addr_str entry)
       (\<lambda>addr. and_ok (parse_ether_value E value_str) (\<lambda>wei. Inr (addr, wei)))))"

definition parse_balance :: "evme_env \<Rightarrow> string list \<Rightarrow> EvmeError + (address \<times> u256) list" where
  "parse_balance E = each_ok (\<lambda>entry.
     and_ok (ok_or (bad_entry ''balance entry'' ''ADDRESS=VALUE'' entry) (split_once ''='' entry))
       (\<lambda>(addr_str, value_str). and_ok (parse_part (address_from_str E) ''address'' ''balance entry'' addr_str entry)
       (\<lambda>addr. and_ok (parse_ether_value E value_str) (\<lambda>wei. Inr (addr, wei)))))"

definition parse_storage :: "evme_env \<Rightarrow> string list \<Rightarrow> EvmeError + (address \<times> u256 \<times> u256) list" where
  "parse_storage E = each_ok (\<lambda>entry.
     and_ok (ok_or (bad_entry ''storage entry'' ''ADDRESS:SLOT=VALUE'' entry) (split_once '':'' entry))
       (\<lambda>(addr_str, rest). and_ok (ok_or (bad_entry ''storage entry'' ''ADDRESS:SLOT=VALUE'' entry) (split_once ''='' rest))
       (\<lambda>(slot_str, value_str). and_ok (parse_part (address_from_str E) ''address'' ''storage entry'' addr_str entry)
       (\<lambda>addr. and_ok (parse_part (u256_from_str E) ''slot'' ''storage entry'' slot_str entry)
       (\<lambda>slot. and_ok (parse_part (u256_from_str E) ''value'' ''storage entry'' value_str entry)
       (\<lambda>val. Inr (addr, slot, val)))))))"

section \<open>Accounts of a state file\<close>

record AccountState =
  as_balance :: "u256 option"
  as_nonce :: "u64 option"
  as_code :: "bytes option"
  as_code_hash :: "b256 option"
  as_storage :: "(u256 \<rightharpoonup> u256) option"

definition from_account :: "evme_env \<Rightarrow> Account \<Rightarrow> AccountState" where
  "from_account E account =
     (let info = acc_info account
      in \<lparr>as_balance = Some (balance info), as_nonce = Some (nonce info),
          as_code = Some (case code info of Some c \<Rightarrow> original_byte_slice E c | None \<Rightarrow> []),
          as_code_hash = Some (code_hash info),
          as_storage = Some (\<lambda>slot. map_option slot_present_value (acc_storage account slot))\<rparr>)"

definition unwrap_or :: "'a \<Rightarrow> 'a option \<Rightarrow> 'a" where
  "unwrap_or d r = (case r of Some a \<Rightarrow> a | None \<Rightarrow> d)"

definition slots_of :: "evme_env \<Rightarrow> (u256 \<rightharpoonup> u256) \<Rightarrow> u256 \<rightharpoonup> EvmStorageSlot" where
  "slots_of E storage slot = map_option (\<lambda>value. ev_slot_new E value 0) (storage slot)"

definition into_account :: "evme_env \<Rightarrow> AccountState \<Rightarrow> EvmeError + Account" where
  "into_account E self =
     (let code_bytes = unwrap_or [] (as_code self)
      in and_ok (if code_bytes = [] then Inr (ev_default_bytecode E)
                 else map_err InvalidBytecode (ev_new_raw_checked E code_bytes))
         (\<lambda>bytecode. let computed_hash = hash_slow E bytecode
            in and_ok (case as_code_hash self of
                 Some h \<Rightarrow> if computed_hash \<noteq> h then Inl (CodeHashMismatch h computed_hash) else Inr ()
               | None \<Rightarrow> Inr ())
            (\<lambda>_. Inr (ev_with_storage E
               (ev_account_from_info E \<lparr>balance = unwrap_or 0 (as_balance self), nonce = unwrap_or 0 (as_nonce self),
                  code_hash = computed_hash, code = Some bytecode\<rparr>)
               (slots_of E (unwrap_or Map.empty (as_storage self)))))))"

section \<open>Overrides\<close>

record PreStateArgs =
  pa_block_hashes :: "string list"
  pa_sender_balance :: "string option"
  pa_faucet :: "string list"
  pa_balance :: "string list"
  pa_storage :: "string list"

text \<open>\<^verbatim>\<open>entry(address).or_default()\<close> with an update of the account.\<close>

definition with_entry :: "evme_env \<Rightarrow> address \<Rightarrow> (Account \<Rightarrow> Account) \<Rightarrow> EvmState \<Rightarrow> EvmState" where
  "with_entry E a f prestate = prestate(a \<mapsto> f (unwrap_or (ev_default_account E) (prestate a)))"

definition with_balance :: "(u256 \<Rightarrow> u256) \<Rightarrow> Account \<Rightarrow> Account" where
  "with_balance f acc = acc\<lparr>acc_info := (acc_info acc)\<lparr>balance := f (balance (acc_info acc))\<rparr>\<rparr>"

definition with_slot_value :: "evme_env \<Rightarrow> u256 \<Rightarrow> u256 \<Rightarrow> Account \<Rightarrow> Account" where
  "with_slot_value E slot value acc = acc\<lparr>acc_storage := (acc_storage acc)(slot \<mapsto> ev_slot_new E value 0)\<rparr>"

text \<open>The accounts of the state file come in the order of iteration of its map.\<close>

definition load_accounts :: "evme_env \<Rightarrow> (address \<times> AccountState) list \<Rightarrow> EvmeError + EvmState" where
  "load_accounts E loaded =
     and_ok (each_ok (\<lambda>(a, acc). and_ok (into_account E acc) (\<lambda>account. Inr (a, account))) loaded)
       (\<lambda>accounts. Inr (foldl (\<lambda>m (a, account). m(a \<mapsto> account)) Map.empty accounts))"

definition load_prestate ::
  "evme_env \<Rightarrow> PreStateArgs \<Rightarrow> (EvmeError + (address \<times> AccountState) list) option \<Rightarrow> address \<Rightarrow> EvmeError + EvmState" where
  "load_prestate E args file sender =
     and_ok (case file of Some content \<Rightarrow> and_ok content (load_accounts E) | None \<Rightarrow> Inr Map.empty)
       (\<lambda>prestate. and_ok (parse_balance E (pa_balance args))
       (\<lambda>balances. let prestate = foldl (\<lambda>p (a, v). with_entry E a (with_balance (\<lambda>_. v)) p) prestate balances
     in and_ok (parse_storage E (pa_storage args))
       (\<lambda>slots. let prestate = foldl (\<lambda>p (a, slot, v). with_entry E a (with_slot_value E slot v) p) prestate slots
     in and_ok (case pa_sender_balance args of
                  Some s \<Rightarrow> and_ok (parse_ether_value E s) (\<lambda>v. Inr (with_entry E sender (with_balance (\<lambda>_. v)) prestate))
                | None \<Rightarrow> Inr prestate)
       (\<lambda>prestate. and_ok (parse_faucet E (pa_faucet args))
       (\<lambda>faucets. Inr (foldl (\<lambda>p (a, v). with_entry E a (with_balance (\<lambda>b. b + v)) p) prestate faucets))))))"

section \<open>The database\<close>

text \<open>The node behind a forked state, and the upstream empty database.\<close>

record 'db backend_ops =
  be_basic :: "address \<Rightarrow> 'db \<Rightarrow> (string + AccountInfo option) \<times> 'db"
  be_code_by_hash :: "b256 \<Rightarrow> 'db \<Rightarrow> (string + Bytecode) \<times> 'db"
  be_storage :: "address \<Rightarrow> u256 \<Rightarrow> 'db \<Rightarrow> (string + u256) \<times> 'db"
  be_block_hash :: "u64 \<Rightarrow> 'db \<Rightarrow> (string + b256) \<times> 'db"
  be_basic_ref :: "address \<Rightarrow> 'db \<Rightarrow> string + AccountInfo option"
  be_code_by_hash_ref :: "b256 \<Rightarrow> 'db \<Rightarrow> string + Bytecode"
  be_storage_ref :: "address \<Rightarrow> u256 \<Rightarrow> 'db \<Rightarrow> string + u256"
  be_block_hash_ref :: "u64 \<Rightarrow> 'db \<Rightarrow> string + b256"
  empty_basic :: "address \<Rightarrow> AccountInfo option"
  empty_code_by_hash :: "b256 \<Rightarrow> Bytecode"
  empty_storage :: "address \<Rightarrow> u256 \<Rightarrow> u256"
  empty_block_hash :: "u64 \<Rightarrow> b256"
  show_b256 :: "b256 \<Rightarrow> string"

datatype 'db EvmeBackend = EmptyBackend | ForkedBackend 'db

record 'db EvmeState =
  es_backend :: "'db EvmeBackend"
  es_prestate :: EvmState
  es_code_map :: "b256 \<rightharpoonup> Bytecode"
  es_block_hashes :: "u64 \<rightharpoonup> b256"

text \<open>The code map is collected from the accounts in the order of iteration of the prestate.\<close>

definition code_map_of :: "Account list \<Rightarrow> b256 \<rightharpoonup> Bytecode" where
  "code_map_of accounts =
     foldl (\<lambda>m account. case code (acc_info account) of Some c \<Rightarrow> m(code_hash (acc_info account) \<mapsto> c) | None \<Rightarrow> m) Map.empty accounts"

definition evme_new_empty :: "Account list \<Rightarrow> EvmState \<Rightarrow> (u64 \<rightharpoonup> b256) \<Rightarrow> 'db EvmeState" where
  "evme_new_empty values_in_order prestate block_hashes =
     \<lparr>es_backend = EmptyBackend, es_prestate = prestate, es_code_map = code_map_of values_in_order, es_block_hashes = block_hashes\<rparr>"

definition evme_new_forked :: "'db \<Rightarrow> Account list \<Rightarrow> EvmState \<Rightarrow> (u64 \<rightharpoonup> b256) \<Rightarrow> 'db EvmeState" where
  "evme_new_forked db values_in_order prestate block_hashes =
     \<lparr>es_backend = ForkedBackend db, es_prestate = prestate, es_code_map = code_map_of values_in_order, es_block_hashes = block_hashes\<rparr>"

definition query_backend ::
  "'a \<Rightarrow> ('db \<Rightarrow> (string + 'a) \<times> 'db) \<Rightarrow> string \<Rightarrow> 'db EvmeState \<Rightarrow> (EvmeError + 'a) \<times> 'db EvmeState" where
  "query_backend empty_result f message self =
     (case es_backend self of
        EmptyBackend \<Rightarrow> (Inr empty_result, self)
      | ForkedBackend db \<Rightarrow> (case f db of (r, db) \<Rightarrow>
          (map_err (\<lambda>e. RpcError (message @ '': '' @ e)) r, self\<lparr>es_backend := ForkedBackend db\<rparr>)))"

definition query_backend_ref :: "'a \<Rightarrow> ('db \<Rightarrow> string + 'a) \<Rightarrow> string \<Rightarrow> 'db EvmeState \<Rightarrow> EvmeError + 'a" where
  "query_backend_ref empty_result f message self =
     (case es_backend self of
        EmptyBackend \<Rightarrow> Inr empty_result
      | ForkedBackend db \<Rightarrow> map_err (\<lambda>e. RpcError (message @ '': '' @ e)) (f db))"

definition evme_basic ::
  "evme_env \<Rightarrow> 'db backend_ops \<Rightarrow> address \<Rightarrow> 'db EvmeState \<Rightarrow> (EvmeError + AccountInfo option) \<times> 'db EvmeState" where
  "evme_basic E D a self =
     (case es_prestate self a of
        Some account \<Rightarrow> (Inr (Some (acc_info account)), self)
      | None \<Rightarrow> query_backend (empty_basic D a) (be_basic D a) (''Failed to fetch account '' @ show_address E a) self)"

definition evme_code_by_hash ::
  "'db backend_ops \<Rightarrow> b256 \<Rightarrow> 'db EvmeState \<Rightarrow> (EvmeError + Bytecode) \<times> 'db EvmeState" where
  "evme_code_by_hash D h self =
     (case es_code_map self h of
        Some c \<Rightarrow> (Inr c, self)
      | None \<Rightarrow> query_backend (empty_code_by_hash D h) (be_code_by_hash D h) (''Failed to fetch code by hash '' @ show_b256 D h) self)"

definition evme_storage ::
  "evme_env \<Rightarrow> 'db backend_ops \<Rightarrow> address \<Rightarrow> u256 \<Rightarrow> 'db EvmeState \<Rightarrow> (EvmeError + u256) \<times> 'db EvmeState" where
  "evme_storage E D a index self =
     (case Option.bind (es_prestate self a) (\<lambda>account. acc_storage account index) of
        Some slot \<Rightarrow> (Inr (slot_present_value slot), self)
      | None \<Rightarrow> query_backend (empty_storage D a index) (be_storage D a index)
          (''Failed to fetch storage for '' @ show_address E a @ '' at slot '' @ show_u256 E index) self)"

definition evme_block_hash ::
  "evme_env \<Rightarrow> 'db backend_ops \<Rightarrow> u64 \<Rightarrow> 'db EvmeState \<Rightarrow> (EvmeError + b256) \<times> 'db EvmeState" where
  "evme_block_hash E D number self =
     (case es_block_hashes self number of
        Some h \<Rightarrow> (Inr h, self)
      | None \<Rightarrow> query_backend (empty_block_hash D number) (be_block_hash D number)
          (''Failed to fetch block hash for block '' @ show_u64 E number) self)"

definition evme_basic_ref ::
  "evme_env \<Rightarrow> 'db backend_ops \<Rightarrow> address \<Rightarrow> 'db EvmeState \<Rightarrow> EvmeError + AccountInfo option" where
  "evme_basic_ref E D a self =
     (case es_prestate self a of
        Some account \<Rightarrow> Inr (Some (acc_info account))
      | None \<Rightarrow> query_backend_ref (empty_basic D a) (be_basic_ref D a) (''Failed to fetch account '' @ show_address E a) self)"

definition evme_code_by_hash_ref ::
  "'db backend_ops \<Rightarrow> b256 \<Rightarrow> 'db EvmeState \<Rightarrow> EvmeError + Bytecode" where
  "evme_code_by_hash_ref D h self =
     (case es_code_map self h of
        Some c \<Rightarrow> Inr c
      | None \<Rightarrow> query_backend_ref (empty_code_by_hash D h) (be_code_by_hash_ref D h) (''Failed to fetch code by hash '' @ show_b256 D h) self)"

definition evme_storage_ref ::
  "evme_env \<Rightarrow> 'db backend_ops \<Rightarrow> address \<Rightarrow> u256 \<Rightarrow> 'db EvmeState \<Rightarrow> EvmeError + u256" where
  "evme_storage_ref E D a index self =
     (case Option.bind (es_prestate self a) (\<lambda>account. acc_storage account index) of
        Some slot \<Rightarrow> Inr (slot_present_value slot)
      | None \<Rightarrow> query_backend_ref (empty_storage D a index) (be_storage_ref D a index)
          (''Failed to fetch storage for '' @ show_address E a @ '' at slot '' @ show_u256 E index) self)"

definition evme_block_hash_ref ::
  "evme_env \<Rightarrow> 'db backend_ops \<Rightarrow> u64 \<Rightarrow> 'db EvmeState \<Rightarrow> EvmeError + b256" where
  "evme_block_hash_ref E D number self =
     (case es_block_hashes self number of
        Some h \<Rightarrow> Inr h
      | None \<Rightarrow> query_backend_ref (empty_block_hash D number) (be_block_hash_ref D number)
          (''Failed to fetch block hash for block '' @ show_u64 E number) self)"

section \<open>Changes\<close>

definition insert_account :: "address \<Rightarrow> Account \<Rightarrow> 'db EvmeState \<Rightarrow> 'db EvmeState" where
  "insert_account a account self =
     self\<lparr>es_code_map := (case code (acc_info account) of
            Some c \<Rightarrow> (es_code_map self)(code_hash (acc_info account) \<mapsto> c) | None \<Rightarrow> es_code_map self),
          es_prestate := (es_prestate self)(a \<mapsto> account)\<rparr>"

definition change_entry :: "evme_env \<Rightarrow> address \<Rightarrow> (Account \<Rightarrow> Account) \<Rightarrow> 'db EvmeState \<Rightarrow> 'db EvmeState" where
  "change_entry E a f self = self\<lparr>es_prestate := with_entry E a f (es_prestate self)\<rparr>"

definition insert_storage :: "evme_env \<Rightarrow> address \<Rightarrow> (u256 \<rightharpoonup> EvmStorageSlot) \<Rightarrow> 'db EvmeState \<Rightarrow> 'db EvmeState" where
  "insert_storage E a storage = change_entry E a (\<lambda>acc. acc\<lparr>acc_storage := acc_storage acc ++ storage\<rparr>)"

definition insert_account_with_storage ::
  "evme_env \<Rightarrow> address \<Rightarrow> AccountInfo \<Rightarrow> (u256 \<rightharpoonup> EvmStorageSlot) \<Rightarrow> 'db EvmeState \<Rightarrow> 'db EvmeState" where
  "insert_account_with_storage E a info storage self =
     self\<lparr>es_code_map := (case code info of Some c \<Rightarrow> (es_code_map self)(code_hash info \<mapsto> c) | None \<Rightarrow> es_code_map self),
          es_prestate := (es_prestate self)(a \<mapsto> ev_with_storage E (ev_account_from_info E info) storage)\<rparr>"

definition set_account_balance :: "evme_env \<Rightarrow> address \<Rightarrow> u256 \<Rightarrow> 'db EvmeState \<Rightarrow> 'db EvmeState" where
  "set_account_balance E a v = change_entry E a (with_balance (\<lambda>_. v))"

definition set_account_nonce :: "evme_env \<Rightarrow> address \<Rightarrow> u64 \<Rightarrow> 'db EvmeState \<Rightarrow> 'db EvmeState" where
  "set_account_nonce E a n = change_entry E a (\<lambda>acc. acc\<lparr>acc_info := (acc_info acc)\<lparr>nonce := n\<rparr>\<rparr>)"

definition set_account_code :: "evme_env \<Rightarrow> address \<Rightarrow> Bytecode \<Rightarrow> 'db EvmeState \<Rightarrow> 'db EvmeState" where
  "set_account_code E a c self =
     change_entry E a (\<lambda>acc. acc\<lparr>acc_info := (acc_info acc)\<lparr>code := Some c\<rparr>\<rparr>)
       (self\<lparr>es_code_map := (es_code_map self)(hash_slow E c \<mapsto> c)\<rparr>)"

definition set_account_storage :: "evme_env \<Rightarrow> address \<Rightarrow> (u256 \<rightharpoonup> u256) \<Rightarrow> 'db EvmeState \<Rightarrow> 'db EvmeState" where
  "set_account_storage E a storage = change_entry E a (\<lambda>acc. acc\<lparr>acc_storage := acc_storage acc ++ slots_of E storage\<rparr>)"

definition evme_deploy_system_contracts :: "evme_env \<Rightarrow> system_code \<Rightarrow> MegaSpecId \<Rightarrow> 'db EvmeState \<Rightarrow> 'db EvmeState" where
  "evme_deploy_system_contracts E C spec self =
     (let self = (if spec \<ge> MINI_REX
            then set_account_code E ORACLE_CONTRACT_ADDRESS
              (ev_new_raw E (if spec \<ge> REX2 then ORACLE_CONTRACT_CODE_REX2 C else ORACLE_CONTRACT_CODE C)) self
            else self);
          self = (if spec \<ge> MINI_REX
            then set_account_code E HIGH_PRECISION_TIMESTAMP_ORACLE_ADDRESS
              (ev_new_raw E (HIGH_PRECISION_TIMESTAMP_ORACLE_CODE C)) self
            else self)
      in if spec \<ge> REX2 then set_account_code E KEYLESS_DEPLOY_ADDRESS (ev_new_raw E (KEYLESS_DEPLOY_CODE C)) self
         else self)"

section \<open>Lemmas\<close>

lemma and_ok_Inr: "and_ok r f = Inr b \<longleftrightarrow> (\<exists>a. r = Inr a \<and> f a = Inr b)"
  by (cases r) (simp_all add: and_ok_def)

text \<open>The balance that an address has with the overrides so far.\<close>

definition balance_of :: "evme_env \<Rightarrow> EvmState \<Rightarrow> address \<Rightarrow> u256" where
  "balance_of E prestate a = balance (acc_info (unwrap_or (ev_default_account E) (prestate a)))"

lemma balance_of_with_entry:
  "balance_of E (with_entry E b f p) a =
     (if a = b then balance (acc_info (f (unwrap_or (ev_default_account E) (p b)))) else balance_of E p a)"
  by (simp add: balance_of_def with_entry_def unwrap_or_def)

lemma balance_of_with_balance:
  "balance_of E (with_entry E b (with_balance f) p) a = (if a = b then f (balance_of E p b) else balance_of E p a)"
  by (simp add: balance_of_with_entry) (simp add: with_balance_def balance_of_def)

lemma balance_of_set:
  "balance_of E (foldl (\<lambda>p (a, v). with_entry E a (with_balance (\<lambda>_. v)) p) p bs) a =
     unwrap_or (balance_of E p a) (map_of (rev bs) a)"
  by (induction bs rule: rev_induct) (auto simp: balance_of_with_balance unwrap_or_def)

lemma balance_of_with_slot: "balance_of E (with_entry E b (with_slot_value E slot v) p) a = balance_of E p a"
  by (simp add: balance_of_with_entry) (simp add: with_slot_value_def balance_of_def)

lemma balance_of_slots:
  "balance_of E (foldl (\<lambda>p (a, slot, v). with_entry E a (with_slot_value E slot v) p) p ss) a = balance_of E p a"
  by (induction ss rule: rev_induct) (auto simp: balance_of_with_slot split: prod.split)

lemma balance_of_faucets:
  "balance_of E (foldl (\<lambda>p (a, v). with_entry E a (with_balance (\<lambda>b. b + v)) p) p fs) a =
     balance_of E p a + sum_list (map snd (filter (\<lambda>(b, _). b = a) fs))"
  by (induction fs rule: rev_induct) (auto simp: balance_of_with_balance)

lemma dom_with_entry: "dom (with_entry E a f p) = insert a (dom p)"
  by (auto simp: with_entry_def)

lemma dom_with_balances: "dom (foldl (\<lambda>p (a, v). with_entry E a (f v) p) p bs) = dom p \<union> fst ` set bs"
  by (induction bs rule: rev_induct) (auto simp: dom_with_entry split: prod.split)

lemma dom_with_slots: "dom (foldl (\<lambda>p (a, slot, v). with_entry E a (f slot v) p) p ss) = dom p \<union> fst ` set ss"
  by (induction ss rule: rev_induct) (auto simp: dom_with_entry split: prod.split)

text \<open>What upstream documents of the constructors.\<close>

definition evme_documented :: "evme_env \<Rightarrow> bool" where
  "evme_documented E \<longleftrightarrow>
     (\<forall>i. acc_info (ev_account_from_info E i) = i \<and> acc_storage (ev_account_from_info E i) = Map.empty) \<and>
     (\<forall>a m. acc_info (ev_with_storage E a m) = acc_info a \<and> acc_storage (ev_with_storage E a m) = acc_storage a ++ m) \<and>
     (\<forall>v t. slot_present_value (ev_slot_new E v t) = v)"

text \<open>A code that can be read back from its bytes.\<close>

definition readable :: "evme_env \<Rightarrow> Bytecode \<Rightarrow> bool" where
  "readable E c \<longleftrightarrow> (if original_byte_slice E c = [] then c = ev_default_bytecode E
     else ev_new_raw_checked E (original_byte_slice E c) = Inr c)"

lemma set_account_code_sel:
  "es_prestate (set_account_code E a c S) b = (if b = a
     then Some (let acc = unwrap_or (ev_default_account E) (es_prestate S a) in acc\<lparr>acc_info := (acc_info acc)\<lparr>code := Some c\<rparr>\<rparr>)
     else es_prestate S b)"
  "es_code_map (set_account_code E a c S) = (es_code_map S)(hash_slow E c \<mapsto> c)"
  by (simp_all add: set_account_code_def change_entry_def with_entry_def Let_def)

lemma deploy_oracle:
  assumes "spec \<ge> MINI_REX"
  shows "es_prestate (evme_deploy_system_contracts E C spec S) ORACLE_CONTRACT_ADDRESS =
    Some (let acc = unwrap_or (ev_default_account E) (es_prestate S ORACLE_CONTRACT_ADDRESS)
      in acc\<lparr>acc_info := (acc_info acc)\<lparr>code := Some (ev_new_raw E
           (if spec \<ge> REX2 then ORACLE_CONTRACT_CODE_REX2 C else ORACLE_CONTRACT_CODE C))\<rparr>\<rparr>)"
  using assms system_addresses_distinct
  by (auto simp: evme_deploy_system_contracts_def set_account_code_sel Let_def)

lemma reload_dump:
  assumes "code (acc_info account) = Some c" and "readable E c"
  shows "into_account E (from_account E account) = (if hash_slow E c \<noteq> code_hash (acc_info account)
      then Inl (CodeHashMismatch (code_hash (acc_info account)) (hash_slow E c))
      else Inr (ev_with_storage E (ev_account_from_info E
        \<lparr>balance = balance (acc_info account), nonce = nonce (acc_info account), code_hash = hash_slow E c, code = Some c\<rparr>)
        (slots_of E (\<lambda>slot. map_option slot_present_value (acc_storage account slot)))))"
  using assms
  by (simp add: into_account_def from_account_def readable_def and_ok_def map_err_def unwrap_or_def Let_def split: if_splits)

text \<open>The overrides of the local accounts, in the order they are applied.\<close>

lemma load_prestate_cases:
  assumes "load_prestate E args file sender = Inr prestate"
  obtains base balances slots sender_balance faucets p2 where
    "(case file of Some content \<Rightarrow> and_ok content (load_accounts E) | None \<Rightarrow> Inr Map.empty) = Inr base"
    "parse_balance E (pa_balance args) = Inr balances" "parse_storage E (pa_storage args) = Inr slots"
    "(case pa_sender_balance args of Some s \<Rightarrow> map_sum id Some (parse_ether_value E s) | None \<Rightarrow> Inr None) = Inr sender_balance"
    "parse_faucet E (pa_faucet args) = Inr faucets"
    "p2 = foldl (\<lambda>p (a, slot, v). with_entry E a (with_slot_value E slot v) p)
            (foldl (\<lambda>p (a, v). with_entry E a (with_balance (\<lambda>_. v)) p) base balances) slots"
    "prestate = foldl (\<lambda>p (a, v). with_entry E a (with_balance (\<lambda>b. b + v)) p)
       (case sender_balance of Some v \<Rightarrow> with_entry E sender (with_balance (\<lambda>_. v)) p2 | None \<Rightarrow> p2) faucets"
proof -
  obtain base balances slots faucets p3 where base: "(case file of Some content \<Rightarrow> and_ok content (load_accounts E) | None \<Rightarrow> Inr Map.empty) = Inr base"
    and balances: "parse_balance E (pa_balance args) = Inr balances" and slots: "parse_storage E (pa_storage args) = Inr slots"
    and sender: "(case pa_sender_balance args of
        Some s \<Rightarrow> and_ok (parse_ether_value E s) (\<lambda>v. Inr (with_entry E sender (with_balance (\<lambda>_. v))
          (foldl (\<lambda>p (a, slot, v). with_entry E a (with_slot_value E slot v) p)
            (foldl (\<lambda>p (a, v). with_entry E a (with_balance (\<lambda>_. v)) p) base balances) slots)))
      | None \<Rightarrow> Inr (foldl (\<lambda>p (a, slot, v). with_entry E a (with_slot_value E slot v) p)
            (foldl (\<lambda>p (a, v). with_entry E a (with_balance (\<lambda>_. v)) p) base balances) slots)) = Inr p3"
    and faucets: "parse_faucet E (pa_faucet args) = Inr faucets"
    and prestate: "prestate = foldl (\<lambda>p (a, v). with_entry E a (with_balance (\<lambda>b. b + v)) p) p3 faucets"
    using assms unfolding load_prestate_def and_ok_Inr Let_def by blast
  define p2 where "p2 = foldl (\<lambda>p (a, slot, v). with_entry E a (with_slot_value E slot v) p)
            (foldl (\<lambda>p (a, v). with_entry E a (with_balance (\<lambda>_. v)) p) base balances) slots"
  obtain sender_balance where "(case pa_sender_balance args of Some s \<Rightarrow> map_sum id Some (parse_ether_value E s) | None \<Rightarrow> Inr None)
      = Inr sender_balance"
    and "p3 = (case sender_balance of Some v \<Rightarrow> with_entry E sender (with_balance (\<lambda>_. v)) p2 | None \<Rightarrow> p2)"
    using sender unfolding p2_def [symmetric] by (cases "pa_sender_balance args") (auto simp: and_ok_Inr)
  then show thesis using that base balances slots faucets p2_def prestate by simp
qed

text \<open>
  The balances after \<^verbatim>\<open>load_prestate\<close> and how the database
  reads them. The last balance override of an address replaces the balance of the state file, the sender's
  balance replaces that, and the faucets are added to the result, wrapping around. Any override makes the
  database answer with the local account whatever the node behind it holds, so a faucet for an address that
  only exists on the node does not add to its balance there.
\<close>

lemma overrides_replace_the_forked_account:
  assumes "load_prestate E args file sender = Inr prestate"
  shows "\<exists>base balances slots faucets sender_balance.
      (case file of Some content \<Rightarrow> and_ok content (load_accounts E) | None \<Rightarrow> Inr Map.empty) = Inr base
    \<and> parse_balance E (pa_balance args) = Inr balances \<and> parse_storage E (pa_storage args) = Inr slots
    \<and> parse_faucet E (pa_faucet args) = Inr faucets
    \<and> (case pa_sender_balance args of Some s \<Rightarrow> map_sum id Some (parse_ether_value E s) | None \<Rightarrow> Inr None) = Inr sender_balance
    \<and> dom prestate = dom base \<union> fst ` set balances \<union> fst ` set slots \<union> (if sender_balance = None then {} else {sender}) \<union> fst ` set faucets
    \<and> (\<forall>a\<in>dom prestate. \<exists>info. (\<forall>D db vs bh. evme_basic E D a (evme_new_forked db vs prestate bh)
           = (Inr (Some info), evme_new_forked db vs prestate bh))
         \<and> balance info = (case sender_balance of Some v \<Rightarrow> if a = sender then v else unwrap_or (balance_of E base a) (map_of (rev balances) a)
              | None \<Rightarrow> unwrap_or (balance_of E base a) (map_of (rev balances) a))
            + sum_list (map snd (filter (\<lambda>(b, _). b = a) faucets)))"
proof -
  obtain base balances slots sender_balance faucets p2 where base: "(case file of Some content \<Rightarrow> and_ok content (load_accounts E) | None \<Rightarrow> Inr Map.empty) = Inr base"
    and parsed: "parse_balance E (pa_balance args) = Inr balances" "parse_storage E (pa_storage args) = Inr slots"
      "(case pa_sender_balance args of Some s \<Rightarrow> map_sum id Some (parse_ether_value E s) | None \<Rightarrow> Inr None) = Inr sender_balance"
      "parse_faucet E (pa_faucet args) = Inr faucets"
    and p2_def: "p2 = foldl (\<lambda>p (a, slot, v). with_entry E a (with_slot_value E slot v) p)
            (foldl (\<lambda>p (a, v). with_entry E a (with_balance (\<lambda>_. v)) p) base balances) slots"
    and prestate: "prestate = foldl (\<lambda>p (a, v). with_entry E a (with_balance (\<lambda>b. b + v)) p)
       (case sender_balance of Some v \<Rightarrow> with_entry E sender (with_balance (\<lambda>_. v)) p2 | None \<Rightarrow> p2) faucets"
    by (rule load_prestate_cases [OF assms])
  have p2: "balance_of E p2 a = unwrap_or (balance_of E base a) (map_of (rev balances) a)" for a
    by (simp add: p2_def balance_of_slots balance_of_set)
  have dom2: "dom p2 = dom base \<union> fst ` set balances \<union> fst ` set slots"
    by (simp add: p2_def dom_with_slots dom_with_balances)
  have bal: "balance_of E prestate a = (case sender_balance of Some v \<Rightarrow> if a = sender then v else unwrap_or (balance_of E base a) (map_of (rev balances) a)
              | None \<Rightarrow> unwrap_or (balance_of E base a) (map_of (rev balances) a))
            + sum_list (map snd (filter (\<lambda>(b, _). b = a) faucets))" for a
    by (simp add: prestate balance_of_faucets balance_of_with_balance p2 split: option.split)
  have "\<forall>a\<in>dom prestate. \<exists>info. (\<forall>D db vs bh. evme_basic E D a (evme_new_forked db vs prestate bh)
         = (Inr (Some info), evme_new_forked db vs prestate bh)) \<and> balance info = balance_of E prestate a"
    by (auto simp: evme_basic_def evme_new_forked_def balance_of_def unwrap_or_def)
  note reads = this [unfolded bal]
  have "dom prestate = dom base \<union> fst ` set balances \<union> fst ` set slots
      \<union> (if sender_balance = None then {} else {sender}) \<union> fst ` set faucets"
    by (auto simp: prestate dom_with_balances dom_with_entry dom2 split: option.split)
  then show ?thesis using base parsed reads by (intro exI conjI) assumption+
qed

section \<open>A concrete instance\<close>

definition sample_evme_env :: evme_env where
  "sample_evme_env = \<lparr>parse_units = (\<lambda>_ _. Inr 5), address_from_str = (\<lambda>_. Inr 0x1234), u64_from_str = (\<lambda>_. Inr 1),
     u256_from_str = (\<lambda>_. Inr 1), b256_from_str = (\<lambda>_. Inr 1), show_address = (\<lambda>_. []), show_u64 = (\<lambda>_. []),
     show_u256 = (\<lambda>_. []), ev_new_raw = PlainCode, ev_new_raw_checked = (\<lambda>bs. Inr (PlainCode bs)),
     ev_default_bytecode = PlainCode [], hash_slow = (\<lambda>c. if c = PlainCode [] then 0 else 7),
     original_byte_slice = (\<lambda>c. case c of PlainCode bs \<Rightarrow> bs | Eip7702 _ \<Rightarrow> [1]),
     ev_default_account = \<lparr>acc_info = empty_account_info, acc_transaction_id = 0, acc_storage = Map.empty, acc_status = empty_status\<rparr>,
     ev_account_from_info = (\<lambda>i. \<lparr>acc_info = i, acc_transaction_id = 0, acc_storage = Map.empty, acc_status = empty_status\<rparr>),
     ev_with_storage = (\<lambda>a m. a\<lparr>acc_storage := acc_storage a ++ m\<rparr>),
     ev_slot_new = (\<lambda>v t. \<lparr>slot_original_value = v, slot_present_value = v, slot_transaction_id = t, slot_is_cold = False\<rparr>)\<rparr>"

definition sample_dumped_account :: Account where
  "sample_dumped_account = \<lparr>acc_info = \<lparr>balance = 3, nonce = 1, code_hash = 7, code = Some (PlainCode [1])\<rparr>,
     acc_transaction_id = 0, acc_storage = Map.empty, acc_status = empty_status\<rparr>"

lemma sample_evme: "evme_documented sample_evme_env" "readable sample_evme_env (PlainCode bs)"
  by (simp_all add: evme_documented_def readable_def sample_evme_env_def)

section \<open>Properties\<close>

text \<open>
  Property C39 (dumped_accounts_load_back): an account that was dumped as JSON and is loaded from a state file. With
  a code hash that is the hash of its code, it comes back with the same balance, nonce, code and
  code hash and the same storage values; with any other code hash it is refused, and the error carries both hashes.
\<close>

theorem dumped_accounts_load_back:
  assumes "evme_documented E" and "code (acc_info account) = Some c" and "readable E c"
  shows "if code_hash (acc_info account) = hash_slow E c
    then \<exists>account'. into_account E (from_account E account) = Inr account' \<and> acc_info account' = acc_info account
      \<and> (\<forall>slot. map_option slot_present_value (acc_storage account' slot) = map_option slot_present_value (acc_storage account slot))
    else into_account E (from_account E account) = Inl (CodeHashMismatch (code_hash (acc_info account)) (hash_slow E c))"
proof -
  have doc: "acc_info (ev_account_from_info E i) = i" "acc_storage (ev_account_from_info E i) = Map.empty"
    "acc_info (ev_with_storage E a m) = acc_info a" "acc_storage (ev_with_storage E a m) = acc_storage a ++ m"
    "slot_present_value (ev_slot_new E v t) = v" for i a m v t
    using assms(1) unfolding evme_documented_def by blast+
  define account' where "account' = ev_with_storage E (ev_account_from_info E
      \<lparr>balance = balance (acc_info account), nonce = nonce (acc_info account), code_hash = hash_slow E c, code = Some c\<rparr>)
      (slots_of E (\<lambda>slot. map_option slot_present_value (acc_storage account slot)))"
  have "into_account E (from_account E account) = (if hash_slow E c \<noteq> code_hash (acc_info account)
      then Inl (CodeHashMismatch (code_hash (acc_info account)) (hash_slow E c)) else Inr account')"
    unfolding account'_def by (rule reload_dump [OF assms(2,3)])
  moreover have "map_option slot_present_value (acc_storage account' slot) = map_option slot_present_value (acc_storage account slot)" for slot
    by (simp add: account'_def doc slots_of_def option.map_comp comp_def)
  moreover have "code_hash (acc_info account) = hash_slow E c \<Longrightarrow> acc_info account' = acc_info account"
    using assms(2) by (simp add: account'_def doc)
  ultimately show ?thesis by auto
qed

theorem dumped_accounts_load_back_witness:
  "\<exists>account'. into_account sample_evme_env (from_account sample_evme_env sample_dumped_account) = Inr account'
     \<and> acc_info account' = acc_info sample_dumped_account"
proof -
  have "code (acc_info sample_dumped_account) = Some (PlainCode [1])" by (simp add: sample_dumped_account_def)
  moreover have "code_hash (acc_info sample_dumped_account) = hash_slow sample_evme_env (PlainCode [1])"
    by (simp add: sample_dumped_account_def sample_evme_env_def)
  ultimately show ?thesis using dumped_accounts_load_back [OF sample_evme(1) _ sample_evme(2)] by force
qed

text \<open>
  Property C40 (deployed_code_keeps_the_old_hash): the system contracts that the tool deploys, on the oracle contract.
  Its account gets the code, and the code is found under its hash, but the code hash of the account stays
  what it was: for an address without an override that of an empty account. A dump of the account is therefore refused
  as a state file.
\<close>

theorem deployed_code_keeps_the_old_hash:
  assumes "spec \<ge> MINI_REX"
    and "c = ev_new_raw E (if spec \<ge> REX2 then ORACLE_CONTRACT_CODE_REX2 C else ORACLE_CONTRACT_CODE C)"
    and "old = acc_info (unwrap_or (ev_default_account E) (es_prestate S ORACLE_CONTRACT_ADDRESS))"
    and "S' = evme_deploy_system_contracts E C spec S"
  shows "evme_basic E D ORACLE_CONTRACT_ADDRESS S' = (Inr (Some (old\<lparr>code := Some c\<rparr>)), S')
    \<and> (\<exists>account. es_prestate S' ORACLE_CONTRACT_ADDRESS = Some account \<and>
         (readable E c \<and> code_hash old \<noteq> hash_slow E c \<longrightarrow>
            into_account E (from_account E account) = Inl (CodeHashMismatch (code_hash old) (hash_slow E c))))"
proof -
  define account where "account =
    (unwrap_or (ev_default_account E) (es_prestate S ORACLE_CONTRACT_ADDRESS))\<lparr>acc_info := old\<lparr>code := Some c\<rparr>\<rparr>"
  have "es_prestate S' ORACLE_CONTRACT_ADDRESS = Some account"
    unfolding assms(4) deploy_oracle [OF assms(1)] by (simp add: assms(2,3) account_def Let_def)
  moreover have "acc_info account = old\<lparr>code := Some c\<rparr>" by (simp add: account_def)
  ultimately show ?thesis using reload_dump [of account c E] by (simp add: evme_basic_def)
qed

theorem deployed_code_keeps_the_old_hash_witness:
  "\<exists>S' info. S' = evme_deploy_system_contracts sample_evme_env sample_system_code REX2 (evme_new_empty [] Map.empty Map.empty :: unit EvmeState)
     \<and> (\<forall>D. evme_basic sample_evme_env D ORACLE_CONTRACT_ADDRESS S' = (Inr (Some info), S'))
     \<and> code info = Some (PlainCode [2]) \<and> code_hash info = 0"
proof -
  define S :: "unit EvmeState" where "S = evme_new_empty [] Map.empty Map.empty"
  have code: "ev_new_raw sample_evme_env (if REX2 \<le> REX2 then ORACLE_CONTRACT_CODE_REX2 sample_system_code
      else ORACLE_CONTRACT_CODE sample_system_code) = PlainCode [2]"
    by (simp add: sample_evme_env_def sample_system_code_def)
  have old: "acc_info (unwrap_or (ev_default_account sample_evme_env) (es_prestate S ORACLE_CONTRACT_ADDRESS)) = empty_account_info"
    by (simp add: S_def evme_new_empty_def unwrap_or_def sample_evme_env_def)
  have spec: "REX2 \<ge> MINI_REX" by (simp add: less_eq_MegaSpecId_def)
  note reads = conjunct1 [OF deployed_code_keeps_the_old_hash [OF spec code [symmetric] old [symmetric] refl]]
  show ?thesis unfolding S_def [symmetric]
    by (intro exI conjI) (rule refl, rule allI, rule reads, simp_all add: empty_account_info_def)
qed

end
