(* ===== verification/Instruction_Gas.thy ===== *)
theory Instruction_Gas
  imports Instruction_Table
begin

text \<open>
  What the wrappers guarantee for every opcode of a table: compute gas is exactly what the base
  instruction used, child frames get at most 98 percent of the gas, and disabled volatile opcodes
  revert before they touch anything.
\<close>

section \<open>Instructions that go on\<close>

text \<open>An instruction goes on unless it halted with an error or a revert.\<close>

definition goes_on ::
  "('ir, 'gas, 'st, 'e, 'c, 'm, 'se) instr_env \<Rightarrow> ('ir, 'gas, 'st, 'e, 'c, 'm, 'se) InstrContext \<Rightarrow> bool" where
  "goes_on E st \<longleftrightarrow> (case instruction_result st of
     Some r \<Rightarrow> \<not> ir_is_error E r \<and> r \<noteq> IR_Revert (in_revm E) | None \<Rightarrow> True)"

abbreviation st_limit where "st_limit st \<equiv> additional_limit (is_host st)"
abbreviation st_left where "st_left E st \<equiv> gas_remaining (in_revm E) (it_gas (is_interp st))"

text \<open>The upstream instruction results and instructions: halts are errors, and a base instruction
  does not touch the additional limits, which its interface does not show.\<close>

definition instr_documented :: "('ir, 'gas, 'st, 'e, 'c, 'm, 'se) instr_env \<Rightarrow> bool" where
  "instr_documented E \<longleftrightarrow>
     ir_is_error E (IR_OutOfGas (in_revm E)) \<and> ir_is_error E (IR_StackUnderflow E) \<and>
     ir_is_error E (IR_FatalExternalError E) \<and> ir_is_error E (IR_InvalidFEOpcode E) \<and>
     ir_is_error E (IR_InvalidOperandOOG E) \<and>
     (\<forall>st st'. control_unknown E st = Some st' \<longrightarrow> aborted E st') \<and>
     (\<forall>st st'. control_invalid E st = Some st' \<longrightarrow> aborted E st') \<and>
     (\<forall>op st st'. base_op E op st = Some st' \<longrightarrow> st_limit st' = st_limit st)"

lemma interp_sel [simp]:
  "is_interp (set_host h st) = is_interp st" "is_host (set_host h st) = h"
  "is_host (set_action a st) = is_host st" "it_action (is_interp (set_action a st)) = Some a"
  "it_gas (is_interp (set_action a st)) = it_gas (is_interp st)"
  "it_stack (is_interp (set_action a st)) = it_stack (is_interp st)"
  "is_host (set_gas g st) = is_host st" "it_gas (is_interp (set_gas g st)) = g"
  "it_stack (is_interp (set_gas g st)) = it_stack (is_interp st)"
  "it_action (is_interp (set_gas g st)) = it_action (is_interp st)"
  by (simp_all add: set_host_def set_action_def set_gas_def)

lemma halted [simp]:
  "instruction_result (new_return r out st) = Some r" "instruction_result (halt r st) = Some r"
  "is_host (halt r st) = is_host st"
  by (simp_all add: halt_def new_return_def instruction_result_def)

lemma goes_on_halt: "ir_is_error E r \<Longrightarrow> \<not> goes_on E (halt r st)" "\<not> goes_on E (halt (IR_Revert (in_revm E)) st)"
  "\<not> goes_on E (new_return (IR_Revert (in_revm E)) out st)"
  by (simp_all add: goes_on_def)

lemma goes_on_not_aborted: "goes_on E st \<Longrightarrow> \<not> aborted E st"
  by (auto simp: goes_on_def aborted_def split: option.splits)

lemma goes_on_set_host [simp]: "goes_on E (set_host h st) = goes_on E st"
  by (simp add: goes_on_def instruction_result_def)

section \<open>Metering\<close>

text \<open>\<open>prepared\<close>: what the wrappers do before the base instruction.\<close>

definition prepared ::
  "('ir, 'gas, 'st, 'e, 'c, 'm, 'se) InstrContext \<Rightarrow> ('ir, 'gas, 'st, 'e, 'c, 'm, 'se) InstrContext \<Rightarrow> bool" where
  "prepared st0 st \<longleftrightarrow> st_limit st = st_limit st0 \<and> it_stack (is_interp st) = it_stack (is_interp st0)"

definition net_gas ::
  "('ir, 'gas, 'st, 'e, 'c, 'm, 'se) instr_env \<Rightarrow> ('ir, 'gas, 'st, 'e, 'c, 'm, 'se) InstrContext \<Rightarrow>
   ('ir, 'gas, 'st, 'e, 'c, 'm, 'se) InstrContext \<Rightarrow> u64" where
  "net_gas E st1 st2 =
     saturating_sub (saturating_sub (st_left E st1) (st_left E st2)) (forwarded_to_frame (it_action (is_interp st2)))"

text \<open>The result of a wrapped instruction that started in \<open>st0\<close>; \<open>R\<close> relates the interpreter after the
  base instruction with the final one.\<close>

definition meters ::
  "('ir, 'gas, 'st, 'e, 'c, 'm, 'se) instr_env \<Rightarrow> u8 \<Rightarrow> ('ir, 'gas, 'st, 'e, 'c, 'm, 'se) InstrContext \<Rightarrow>
   (('ir, 'gas, 'st) Interpreter \<Rightarrow> ('ir, 'gas, 'st) Interpreter \<Rightarrow> bool) \<Rightarrow>
   ('ir, 'gas, 'st, 'e, 'c, 'm, 'se) InstrContext option \<Rightarrow> bool" where
  "meters E op st0 R result \<longleftrightarrow> (\<forall>st'. result = Some st' \<longrightarrow> goes_on E st' \<longrightarrow>
     (\<exists>st1 st2 al. prepared st0 st1 \<and> base_op E op st1 = Some st2 \<and>
        record_compute_gas (net_gas E st1 st2) (st_limit st0) = Some (True, al) \<and>
        cg_frame_tracker (al_compute_gas (st_limit st')) = cg_frame_tracker (al_compute_gas al) \<and>
        R (is_interp st2) (is_interp st')))"

definition continues ::
  "('ir, 'gas, 'st, 'e, 'c, 'm, 'se) instr_env \<Rightarrow>
   (('ir, 'gas, 'st) Interpreter \<Rightarrow> ('ir, 'gas, 'st) Interpreter \<Rightarrow> bool) \<Rightarrow>
   ('ir, 'gas, 'st, 'e, 'c, 'm, 'se) instruction \<Rightarrow> bool" where
  "continues E R rest \<longleftrightarrow> (\<forall>st st'. rest st = Some st' \<longrightarrow> goes_on E st' \<longrightarrow>
     goes_on E st \<and> cg_frame_tracker (al_compute_gas (st_limit st')) = cg_frame_tracker (al_compute_gas (st_limit st)) \<and>
     R (is_interp st) (is_interp st'))"

named_theorems metering

lemma prepared_refl [metering]: "prepared st st"
  by (simp add: prepared_def)

lemma meters_or_halt [metering]:
  assumes "ir_is_error E r" and "\<And>y. x = Some y \<Longrightarrow> meters E op st0 R (rest y st)"
  shows "meters E op st0 R (or_halt r x rest st)"
  using assms goes_on_halt(1) [OF assms(1)] by (cases x) (auto simp: or_halt_def meters_def)

lemma meters_on_host [metering]:
  assumes "instr_documented E" and "prepared st0 st"
    and "\<And>h. additional_limit (snd (f h)) = additional_limit h"
    and "\<And>y st. prepared st0 st \<Longrightarrow> meters E op st0 R (rest y st)"
  shows "meters E op st0 R (on_host E f rest st)"
  using assms(1,2) assms(3) [of "is_host st"]
  by (auto simp: on_host_def instr_documented_def prepared_def split: prod.splits intro!: meters_or_halt assms(4))

lemma meters_charge_gas [metering]:
  assumes "instr_documented E" and "prepared st0 st"
    and "\<And>st. prepared st0 st \<Longrightarrow> meters E op st0 R (rest st)"
  shows "meters E op st0 R (charge_gas E c rest st)"
proof -
  obtain paid g where charge: "gas_record_cost (in_revm E) c (it_gas (is_interp st)) = (paid, g)" by fastforce
  have "prepared st0 (set_gas g st)" using assms(2) by (simp add: prepared_def)
  moreover have "\<not> goes_on E (halt (IR_OutOfGas (in_revm E)) (set_gas g st))"
    using assms(1) by (simp add: goes_on_halt(1) instr_documented_def)
  ultimately show ?thesis
    using assms(3) charge by (cases paid) (simp_all add: charge_gas_def meters_def)
qed

lemma exceeding_halts:
  assumes "instr_documented E"
  shows "\<not> goes_on E (halt (exceeding_instruction_result (in_revm E) al) st)"
  using assms goes_on_halt [of E] by (simp add: exceeding_instruction_result_def EXCEEDING_LIMIT_INSTRUCTION_RESULT_def
      instr_documented_def)

lemma meters_compute_gas [metering]:
  assumes "instr_documented E" and "prepared st0 st"
  shows "meters E op st0 (=) (compute_gas_ext E op st)"
  unfolding meters_def
proof (intro allI impI)
  fix st' assume run: "compute_gas_ext E op st = Some st'" and go: "goes_on E st'"
  obtain st2 where base: "base_op E op st = Some st2"
    using run by (auto simp: compute_gas_ext_def run_inner_instruction_or_abort_def Let_def bind_eq_Some_conv)
  have ok: "\<not> aborted E st2"
    using run go base goes_on_not_aborted [OF go]
    by (auto simp: compute_gas_ext_def run_inner_instruction_or_abort_def Let_def split: if_splits)
  have rec: "record_or_halt E (record_compute_gas (net_gas E st st2)) st2 = Some st'"
    using run base ok by (simp add: compute_gas_ext_def run_inner_instruction_or_abort_def Let_def compute_gas_def net_gas_def)
  have "st_limit st2 = st_limit st0"
    using assms base by (simp add: instr_documented_def prepared_def)
  then obtain k al where al: "record_compute_gas (net_gas E st st2) (st_limit st0) = Some (k, al)"
    using rec by (auto simp: record_or_halt_def bind_eq_Some_conv)
  have "k" and "st' = set_host ((is_host st2)\<lparr>additional_limit := al\<rparr>) st2"
    using rec al \<open>st_limit st2 = st_limit st0\<close> go exceeding_halts [OF assms(1), of al]
    by (auto simp: record_or_halt_def Let_def split: if_splits)
  then show "\<exists>st1 st2 al. prepared st0 st1 \<and> base_op E op st1 = Some st2 \<and>
        record_compute_gas (net_gas E st1 st2) (st_limit st0) = Some (True, al) \<and>
        cg_frame_tracker (al_compute_gas (st_limit st')) = cg_frame_tracker (al_compute_gas al) \<and>
        is_interp st2 = is_interp st'"
    using assms(2) base al by (intro exI [of _ st] exI [of _ st2] exI [of _ al]) simp
qed

lemma meters_run_inner [metering]:
  assumes "meters E op st0 (=) (f st)" and "continues E R rest"
  shows "meters E op st0 R (run_inner_instruction_or_abort E f rest st)"
  unfolding meters_def
proof (intro allI impI)
  fix st' assume run: "run_inner_instruction_or_abort E f rest st = Some st'" and go: "goes_on E st'"
  obtain st2 where inner: "f st = Some st2"
    using run by (auto simp: run_inner_instruction_or_abort_def bind_eq_Some_conv)
  have ok: "\<not> aborted E st2"
    using run inner goes_on_not_aborted [OF go]
    by (auto simp: run_inner_instruction_or_abort_def split: if_splits)
  have "rest st2 = Some st'" using run inner ok by (simp add: run_inner_instruction_or_abort_def)
  with assms(2) go have "goes_on E st2" "R (is_interp st2) (is_interp st')"
    "cg_frame_tracker (al_compute_gas (st_limit st')) = cg_frame_tracker (al_compute_gas (st_limit st2))"
    unfolding continues_def by blast+
  then show "\<exists>st1 st2 al. prepared st0 st1 \<and> base_op E op st1 = Some st2 \<and>
        record_compute_gas (net_gas E st1 st2) (st_limit st0) = Some (True, al) \<and>
        cg_frame_tracker (al_compute_gas (st_limit st')) = cg_frame_tracker (al_compute_gas al) \<and>
        R (is_interp st2) (is_interp st')"
    using assms(1) inner unfolding meters_def by metis
qed

lemma meters_weaken: "meters E op st0 (=) r \<Longrightarrow> meters E op st0 (\<lambda>_ _. True) r"
  unfolding meters_def by blast

section \<open>The wrappers\<close>

lemma continues_Some [metering]: "continues E (=) Some"
  by (simp add: continues_def)

lemma continues_record:
  assumes "instr_documented E"
    and "\<And>al ok al'. record al = Some (ok, al') \<Longrightarrow> cg_frame_tracker (al_compute_gas al') = cg_frame_tracker (al_compute_gas al)"
  shows "continues E (=) (record_or_halt E record)"
  using exceeding_halts [OF assms(1)] assms(2)
  by (auto simp: continues_def record_or_halt_def bind_eq_Some_conv Let_def split: if_splits)

lemma on_store_log_compute:
  "on_sstore v al = Some (ok, al') \<Longrightarrow> cg_frame_tracker (al_compute_gas al') = cg_frame_tracker (al_compute_gas al)"
  "on_log n d al = Some (ok, al') \<Longrightarrow> cg_frame_tracker (al_compute_gas al') = cg_frame_tracker (al_compute_gas al)"
  by (auto simp: on_sstore_def on_log_def bind_eq_Some_conv dest!: al_check_limit_SomeD(1))

lemma set_limit_compute:
  "set_compute_gas_limit l al = Some al' \<Longrightarrow> cg_frame_tracker (al_compute_gas al') = cg_frame_tracker (al_compute_gas al)"
  by (auto simp: set_compute_gas_limit_def set_detained_limit_def bind_eq_Some_conv Let_def split: if_splits)

lemma continues_wrappers [metering]:
  assumes "instr_documented E"
  shows "continues E (=) (record_or_halt E (on_sstore v))" "continues E (=) (record_or_halt E (on_log n d))"
    "continues E (=) apply_compute_gas_limit"
proof -
  show "continues E (=) (record_or_halt E (on_sstore v))" "continues E (=) (record_or_halt E (on_log n d))"
    by (auto intro!: continues_record assms dest: on_store_log_compute)
  show "continues E (=) apply_compute_gas_limit"
    by (auto simp: continues_def apply_compute_gas_limit_def bind_eq_Some_conv set_limit_compute split: option.splits)
qed

lemma continues_cap [metering]: "continues E (\<lambda>_ _. True) (cap_new_frame E b)"
  by (auto simp: continues_def cap_new_frame_def goes_on_def instruction_result_def Let_def
      split: option.splits InterpreterAction.splits FrameInput.splits prod.splits)

lemma storage_gas_queries_limit [metering]:
  "additional_limit (snd (host_inspect_account_delegated fmt spec a h)) = additional_limit h"
  "additional_limit (snd (new_account_storage_gas fmt' a h)) = additional_limit h"
  "additional_limit (snd (create_contract_storage_gas fmt' a h)) = additional_limit h"
  "additional_limit (snd (sstore_set_storage_gas fmt' a k h)) = additional_limit h"
  by (simp_all add: host_inspect_account_delegated_def stash_inspection_def new_account_storage_gas_def
      create_contract_storage_gas_def sstore_set_storage_gas_def stash_error_def case_prod_beta Let_def
      split: sum.split)

lemma host_inspect_storage_limit:
  assumes "host_inspect_storage fmt spec a k h = Some (slot, h')"
  shows "additional_limit h' = additional_limit h"
proof -
  obtain r where "stash_inspection fmt r h = (slot, h')"
    using assms by (auto simp: host_inspect_storage_def bind_eq_Some_conv)
  moreover have "additional_limit (snd (stash_inspection fmt r h)) = additional_limit h"
    by (simp add: stash_inspection_def case_prod_beta Let_def split: sum.split)
  ultimately show ?thesis by simp
qed

lemma documented_errors [metering]:
  assumes "instr_documented E"
  shows "ir_is_error E (IR_StackUnderflow E)" "ir_is_error E (IR_FatalExternalError E)"
    "ir_is_error E (IR_InvalidOperandOOG E)" "ir_is_error E (IR_OutOfGas (in_revm E))"
  using assms by (simp_all add: instr_documented_def)

lemma meters_with_slot:
  assumes "instr_documented E" and "prepared st0 st"
    and "\<And>i v st. prepared st0 st \<Longrightarrow> meters E op st0 R (rest i v st)"
  shows "meters E op st0 R (with_slot E rest st)"
proof -
  have "meters E op st0 R (do {
      (slot, host) \<leftarrow> host_inspect_storage fmt spec a index (is_host st);
      or_halt (IR_FatalExternalError E) slot (\<lambda>slot st. peek E 1 (\<lambda>new. rest index (build slot new)) st) (set_host host st)
    })" for fmt spec a index build
  proof (cases "host_inspect_storage fmt spec a index (is_host st)")
    case None
    then show ?thesis by (simp add: meters_def)
  next
    case (Some r)
    obtain slot host where r: "r = (slot, host)" by fastforce
    then have "prepared st0 (set_host host st)"
      using host_inspect_storage_limit [of fmt spec a index "is_host st" slot host] Some assms(2)
      by (simp add: prepared_def)
    then show ?thesis
      using Some r by (auto intro!: meters_or_halt documented_errors assms)
  qed
  then show ?thesis
    unfolding with_slot_def Let_def by (intro meters_or_halt documented_errors assms(1)) simp
qed

lemma meters_with_created_address:
  assumes "instr_documented E" and "\<And>a. meters E op st0 R (rest a st)"
  shows "meters E op st0 R (with_created_address E create2 creator_address creator rest st)"
proof -
  have "meters E op st0 R (do {
      c \<leftarrow> slice_len E (it_memory (is_interp st)) i l;
      let initcode_hash = keccak256 E c;
      peek E 3 (\<lambda>salt. rest (create2_address E creator_address salt initcode_hash)) st
    })" for i l
    using assms by (cases "slice_len E (it_memory (is_interp st)) i l")
      (auto simp: meters_def [of E op st0 R None] intro!: meters_or_halt documented_errors)
  then show ?thesis
    unfolding with_created_address_def using assms
    by (auto intro!: meters_or_halt documented_errors)
qed

lemma meters_storage_gas:
  assumes "instr_documented E" and "prepared st0 st"
  shows "meters E op st0 (=) (storage_gas_call E op b st)"
    and "meters E op st0 (=) (storage_gas_create E op c st)"
    and "meters E op st0 (=) (storage_gas_log E op n st)"
    and "meters E op st0 (=) (storage_gas_sstore E op st)"
proof -
  note rules = metering assms
  have run: "meters E op st0 (=) (run_inner_instruction_or_abort E (compute_gas_ext E op) Some s)" if "prepared st0 s" for s
    using that by (intro rules)
  have charged: "meters E op st0 (=) (charge_gas E g (run_inner_instruction_or_abort E (compute_gas_ext E op) Some) s)"
    if "prepared st0 s" for g s
    using that by (intro meters_charge_gas run assms(1))
  show "meters E op st0 (=) (storage_gas_call E op b st)"
    unfolding storage_gas_call_def Let_def
    by (auto intro!: meters_or_halt meters_on_host documented_errors storage_gas_queries_limit run charged assms)
  show "meters E op st0 (=) (storage_gas_create E op c st)"
    unfolding storage_gas_create_def Let_def
    by (auto intro!: meters_on_host meters_with_created_address storage_gas_queries_limit charged assms)
  show "meters E op st0 (=) (storage_gas_log E op n st)"
  proof -
    have halt: "meters E op st0 (=) (Some (halt (IR_InvalidFEOpcode E) s))" for s
      using assms(1) by (simp add: meters_def goes_on_halt(1) instr_documented_def)
    show ?thesis
      unfolding storage_gas_log_def
      by (auto intro!: meters_or_halt meters_charge_gas documented_errors run halt assms)
  qed
  show "meters E op st0 (=) (storage_gas_sstore E op st)"
    unfolding storage_gas_sstore_def Let_def
    by (intro meters_with_slot assms) (auto intro!: meters_on_host storage_gas_queries_limit run charged assms)
qed


text \<open>Every handler of a custom table wraps the base instruction of its own opcode.\<close>

fun wraps :: "u8 \<Rightarrow> Handler \<Rightarrow> bool" where
  "wraps op UnknownOp = True"
| "wraps op InvalidOp = True"
| "wraps op (BaseOp _) = False"
| "wraps op (ComputeGas op') = (op' = op)"
| "wraps op (Unconditional op' _) = (op' = op)"
| "wraps op (Conditional op') = (op' = op)"
| "wraps op (DetainedSload op') = (op' = op)"
| "wraps op (LimitedSstore op') = (op' = op)"
| "wraps op (LimitedLog op' _) = (op' = op)"
| "wraps op (ForwardCall op' _) = (op' = op)"
| "wraps op (ForwardCreate op' _) = (op' = op)"
| "wraps op (CheckedCall op' _) = (op' = op)"

lemma assign_wraps:
  assumes "\<forall>(op, handler) \<in> set entries. \<forall>op. wraps op (handler op)" and "\<forall>op. wraps op (table op)"
  shows "wraps op (assign entries table op)"
  using assms
proof (induction entries arbitrary: table)
  case Nil
  then show ?case by (simp add: assign_def)
next
  case (Cons e entries)
  then show ?case by (cases e) (simp add: assign_def)
qed

lemma table_wraps:
  assumes "spec \<noteq> EQUIVALENCE"
  shows "wraps op (instruction_table spec op)"
proof -
  have "wraps op (mini_rex_table op)" for op
    unfolding mini_rex_table_def by (rule assign_wraps) (auto simp: mini_rex_entries_def)
  then have rex: "wraps op (rex_table op)" for op
    unfolding rex_table_def by (intro assign_wraps) auto
  then have "wraps op (rex2_table op)" for op
    unfolding rex2_table_def by (intro assign_wraps) auto
  then have "wraps op (rex3_table op)" for op
    unfolding rex3_table_def by (intro assign_wraps) auto
  then have "wraps op (rex4_table op)" for op
    unfolding rex4_table_def by (intro assign_wraps) auto
  show ?thesis
    using assms \<open>\<And>op. wraps op (mini_rex_table op)\<close> rex \<open>\<And>op. wraps op (rex2_table op)\<close>
      \<open>\<And>op. wraps op (rex3_table op)\<close> \<open>\<And>op. wraps op (rex4_table op)\<close>
    by (cases spec) simp_all
qed

lemma meters_wrap_gas_cap:
  assumes "meters E op st0 (=) (f st)"
  shows "meters E op st0 (\<lambda>_ _. True) (wrap_gas_cap E f has_transfer st)"
  unfolding wrap_gas_cap_def by (intro meters_run_inner assms continues_cap)

lemma meters_handler:
  assumes "instr_documented E" and "wraps op h"
  shows "meters E op st (\<lambda>_ _. True) (execute E h st)"
proof -
  note doc = assms(1)
  have aborts: "meters E op st R r" if "\<And>st'. r = Some st' \<Longrightarrow> aborted E st'" for R r
    using that goes_on_not_aborted unfolding meters_def by blast
  have disabled: "meters E op st (\<lambda>_ _. True) (revert_disabled E t st)" for t
    by (simp add: meters_def revert_disabled_def goes_on_halt)
  have detain: "meters E op st (\<lambda>_ _. True) (detaining E op st)"
    unfolding detaining_def
    by (intro meters_weaken meters_run_inner meters_compute_gas continues_wrappers doc prepared_refl)
  have call: "meters E op st (\<lambda>_ _. True) (forward_call E op b st)" for b
    unfolding forward_call_def by (intro meters_wrap_gas_cap meters_storage_gas doc prepared_refl)
  show ?thesis
  proof (cases h)
    case (LimitedSstore op')
    have "meters E op st (=) (additional_limit_sstore E op st)"
      unfolding additional_limit_sstore_def
      by (intro meters_with_slot meters_run_inner meters_storage_gas continues_wrappers doc prepared_refl)
    then show ?thesis using LimitedSstore assms(2) by (simp add: meters_weaken)
  next
    case (LimitedLog op' n)
    have "meters E op st (=) (additional_limit_log E op n st)"
      unfolding additional_limit_log_def
      by (intro meters_or_halt meters_run_inner meters_storage_gas continues_wrappers documented_errors
          doc prepared_refl)
    then show ?thesis using LimitedLog assms(2) by (simp add: meters_weaken)
  next
    case (ForwardCreate op' c)
    have "meters E op st (\<lambda>_ _. True) (forward_create E op c st)"
      unfolding forward_create_def by (intro meters_wrap_gas_cap meters_storage_gas doc prepared_refl)
    then show ?thesis using ForwardCreate assms(2) by simp
  next
    case (ComputeGas op')
    then show ?thesis
      using meters_compute_gas [OF doc prepared_refl] assms(2) by (simp add: meters_weaken)
  qed (use assms(2) aborts disabled detain call doc in
      \<open>simp_all add: volatile_unconditional_def volatile_conditional_def volatile_sload_def
        wrap_call_volatile_check_def instr_documented_def\<close>)
qed

section \<open>Properties\<close>

text \<open>
  Property C9 (every_opcode_is_metered): an opcode of any table but the one of Equivalence that
  neither fails nor reverts. Its base instruction ran once, on the same stack and limits, and the
  compute gas was recorded as exactly what this base instruction used without the gas it gave to a
  new frame: storage gas, the gas returned by the forwarding rule and the detention of gas are not
  part of it.
\<close>

theorem every_opcode_is_metered:
  assumes "instr_documented E" and "spec \<noteq> EQUIVALENCE"
    and "execute E (instruction_table spec op) st = Some st'" and "goes_on E st'"
  shows "\<exists>st1 st2 al. base_op E op st1 = Some st2
    \<and> additional_limit (is_host st1) = additional_limit (is_host st)
    \<and> it_stack (is_interp st1) = it_stack (is_interp st)
    \<and> record_compute_gas (net_gas E st1 st2) (additional_limit (is_host st)) = Some (True, al)
    \<and> cg_frame_tracker (al_compute_gas (additional_limit (is_host st'))) = cg_frame_tracker (al_compute_gas al)"
  using meters_handler [OF assms(1) table_wraps [OF assms(2)], of op st] assms(3,4)
  unfolding meters_def prepared_def by metis

text \<open>Lookups in the tables.\<close>

lemma table_lookups:
  "mini_rex_table OP_CALL = ForwardCall OP_CALL True"
  "mini_rex_table OP_CREATE = ForwardCreate OP_CREATE False"
  "mini_rex_table OP_CREATE2 = ForwardCreate OP_CREATE2 True"
  "mini_rex_table OP_SLOAD = ComputeGas OP_SLOAD"
  "mini_rex_table OP_BALANCE = Conditional OP_BALANCE"
  "mini_rex_table OP_EXTCODESIZE = Conditional OP_EXTCODESIZE"
  "mini_rex_table OP_EXTCODECOPY = Conditional OP_EXTCODECOPY"
  "mini_rex_table OP_EXTCODEHASH = Conditional OP_EXTCODEHASH"
  "mini_rex_table OP_BLOCKHASH = Unconditional OP_BLOCKHASH BlockHash"
  "mini_rex_table OP_COINBASE = Unconditional OP_COINBASE Coinbase"
  "mini_rex_table OP_TIMESTAMP = Unconditional OP_TIMESTAMP Timestamp"
  "mini_rex_table OP_NUMBER = Unconditional OP_NUMBER BlockNumber"
  "mini_rex_table OP_DIFFICULTY = Unconditional OP_DIFFICULTY Difficulty"
  "mini_rex_table OP_GASLIMIT = Unconditional OP_GASLIMIT GasLimit"
  "mini_rex_table OP_BASEFEE = Unconditional OP_BASEFEE BaseFee"
  "mini_rex_table OP_BLOBBASEFEE = Unconditional OP_BLOBBASEFEE BlobBaseFee"
  "mini_rex_table OP_BLOBHASH = Unconditional OP_BLOBHASH BlobHash"
  "mini_rex_table OP_ADD = ComputeGas OP_ADD"
  by (code_simp)+

section \<open>Forwarding\<close>

lemma unat_ucast_128 [simp]: "unat (ucast (x :: u64) :: u128) = unat x"
  by (simp add: unsigned_ucast_eq take_bit_nat_eq_self order.strict_trans [OF unsigned_less])

lemma cap_forwarded_gas_nat:
  assumes "s \<le> unat child" and "unat gas_left + (unat child - s) < 2 ^ 64" and "s \<le> 2300"
    and "cap_forwarded_gas gas_left child (of_nat s) = (given, back)"
  defines "F \<equiv> unat child - s"
  defines "T \<equiv> unat gas_left + F"
  shows "unat given = min F (T - 2 * T div 100) + s" and "unat back = F - min F (T - 2 * T div 100)"
proof -
  have bounds: "unat child < 2 ^ 64" "T < 2 ^ 64" using assms(2) unsigned_less [of child] by (simp_all add: T_def F_def)
  have s: "unat (of_nat s :: u128) = s" using assms(3) by (simp add: unsigned_of_nat take_bit_nat_eq_self)
  define f where "f = (ucast child - of_nat s :: u128)"
  define t where "t = (ucast gas_left + f :: u128)"
  have f: "unat f = F"
    unfolding f_def F_def using assms(1) s by (subst unat_sub) (simp_all add: word_le_nat_alt)
  have t: "unat t = T"
    unfolding t_def T_def using bounds f
    by (subst unat_add_lem [THEN iffD1]) (simp_all add: T_def)
  have double: "unat (t * 2) = T * 2"
    using bounds t by (subst unat_mult_lem [THEN iffD1]) simp_all
  have share: "unat (t * 2 div 100) = 2 * T div 100"
    using double by (simp add: unat_div mult.commute)
  have cap: "unat (t - t * 2 div 100) = T - 2 * T div 100"
    using t share by (subst unat_sub) (simp_all add: word_le_nat_alt)
  define c where "c = min f (t - t * 2 div 100)"
  have c: "unat c = min F (T - 2 * T div 100)" unfolding c_def using f cap by (simp add: min_def word_le_nat_alt)
  have "unat c + s \<le> unat child" using c assms(1) by (simp add: F_def)
  then have "unat c + s < 2 ^ 64" using bounds(1) by (rule order.strict_trans1)
  then have small: "unat c + s < 2 ^ 64" .
  then have kept: "unat (c + of_nat s) = unat c + s"
    using s by (subst unat_add_lem [THEN iffD1]) simp_all
  have kept_small: "unat (c + of_nat s) < 2 ^ 64" unfolding kept by (rule small)
  have rest: "unat (f - c) = F - unat c"
    using c f by (subst unat_sub) (simp_all add: word_le_nat_alt)
  have "F - unat c < 2 ^ 64" using bounds(2) by (simp add: T_def)
  then have "unat (f - c) < 2 ^ 64" by (simp only: rest)
  have narrow: "unat (ucast x :: u64) = unat x" if "unat x < 2 ^ 64" for x :: u128
    using that by (simp add: unsigned_ucast_eq take_bit_nat_eq_self)
  have "given = ucast (c + of_nat s)" "back = ucast (f - c)"
    using assms(4) by (simp_all add: cap_forwarded_gas_def Let_def f_def t_def c_def)
  then show "unat given = min F (T - 2 * T div 100) + s" "unat back = F - min F (T - 2 * T div 100)"
    by (simp_all only: narrow [OF kept_small] narrow [OF \<open>unat (f - c) < 2 ^ 64\<close>] kept rest c)
qed

text \<open>The stipend of a call that transfers value, and what upstream documents of a base instruction that
  makes a frame: the caller pays for all the gas of the child but the stipend.\<close>

fun stipend :: "bool \<Rightarrow> ('ir, 'gas) InterpreterAction option \<Rightarrow> nat" where
  "stipend True (Some (NewFrameAction (CallInput _))) = 2300"
| "stipend _ _ = 0"

fun creates_frame :: "('ir, 'gas) InterpreterAction option \<Rightarrow> bool" where
  "creates_frame (Some (NewFrameAction (CallInput _))) = True"
| "creates_frame (Some (NewFrameAction (CreateInput _))) = True"
| "creates_frame _ = False"

definition transfers_value :: "u8 \<Rightarrow> u256 list \<Rightarrow> bool" where
  "transfers_value op stack \<longleftrightarrow>
     op \<in> {OP_CALL, OP_CALLCODE} \<and> (case inspect 2 stack of Some v \<Rightarrow> v \<noteq> 0 | None \<Rightarrow> False)"

definition frames_documented :: "('ir, 'gas, 'st, 'e, 'c, 'm, 'se) instr_env \<Rightarrow> bool" where
  "frames_documented E \<longleftrightarrow>
     (\<forall>n g. unat (gas_remaining (in_revm E) g) + unat n < 2 ^ 64 \<longrightarrow>
        gas_remaining (in_revm E) (gas_erase_cost (in_revm E) n g) = gas_remaining (in_revm E) g + n) \<and>
     (\<forall>op st st'. base_op E op st = Some st' \<and> creates_frame (it_action (is_interp st')) \<longrightarrow>
        (let child = unat (forwarded_to_frame (it_action (is_interp st')));
             s = stipend (transfers_value op (it_stack (is_interp st))) (it_action (is_interp st'))
         in s \<le> child \<and> unat (st_left E st') + (child - s) \<le> unat (st_left E st)))"

text \<open>How the 98/100 rule changes the interpreter.\<close>

definition capped ::
  "('ir, 'gas, 'st, 'e, 'c, 'm, 'se) instr_env \<Rightarrow> bool \<Rightarrow> ('ir, 'gas, 'st) Interpreter \<Rightarrow>
   ('ir, 'gas, 'st) Interpreter \<Rightarrow> bool" where
  "capped E b i i' \<longleftrightarrow>
     (let left = (\<lambda>i. unat (gas_remaining (in_revm E) (it_gas i)));
          child = (\<lambda>i. unat (forwarded_to_frame (it_action i)));
          s = stipend b (it_action i);
          T = left i + (child i - s)
      in creates_frame (it_action i') \<longrightarrow> creates_frame (it_action i) \<and> stipend b (it_action i') = s \<and>
        (s \<le> child i \<and> T < 2 ^ 64 \<longrightarrow>
           s \<le> child i' \<and> child i' - s \<le> T - 2 * T div 100 \<and> left i' + child i' = left i + child i))"

lemma capped_step:
  assumes "frames_documented E" and "s = stipend b (it_action i)"
    and "cap_forwarded_gas (gas_remaining (in_revm E) (it_gas i)) (forwarded_to_frame (it_action i)) (of_nat s) = (given, returned)"
    and "it_gas i' = gas_erase_cost (in_revm E) returned (it_gas i)" and "forwarded_to_frame (it_action i') = given"
    and "creates_frame (it_action i)" and "stipend b (it_action i') = s"
  shows "capped E b i i'"
proof -
  let ?left = "gas_remaining (in_revm E) (it_gas i)" and ?child = "unat (forwarded_to_frame (it_action i))"
  have small: "s \<le> 2300" using assms(2) by (cases "(b, it_action i)" rule: stipend.cases) simp_all
  have "s \<le> unat given \<and> unat given - s \<le> T - 2 * T div 100
      \<and> unat (gas_remaining (in_revm E) (it_gas i')) + unat given = unat ?left + ?child"
    if fits: "s \<le> ?child" "unat ?left + (?child - s) < 2 ^ 64" and T: "T = unat ?left + (?child - s)" for T
  proof -
    define m where "m = min (?child - s) (T - 2 * T div 100)"
    have m: "m \<le> ?child - s" "m \<le> T - 2 * T div 100" by (simp_all only: m_def min.cobounded1 min.cobounded2)
    have nat: "unat given = m + s" "unat returned = ?child - s - m"
      unfolding m_def T by (rule cap_forwarded_gas_nat [OF fits small assms(3)])+
    then have no_overflow: "unat ?left + unat returned < 2 ^ 64" using fits(2) by linarith
    then have "gas_remaining (in_revm E) (it_gas i') = ?left + returned"
      using assms(1,4) by (simp add: frames_documented_def)
    moreover have "unat (?left + returned) = unat ?left + unat returned"
      using no_overflow by (subst unat_add_lem [THEN iffD1]) simp_all
    ultimately have "unat (gas_remaining (in_revm E) (it_gas i')) + unat given = unat ?left + ?child"
      unfolding \<open>gas_remaining (in_revm E) (it_gas i') = ?left + returned\<close> using nat m(1) fits(1) by linarith
    then show ?thesis using nat m(2) by linarith
  qed
  note step = this [OF _ _ refl]
  show ?thesis
    unfolding capped_def Let_def assms(2) [symmetric] assms(5) using assms(6,7) step by blast
qed

lemma cap_new_frame_frame:
  assumes "cap_new_frame E b st = Some st'" and "creates_frame (it_action (is_interp st))"
  obtains given returned where
    "cap_forwarded_gas (st_left E st) (forwarded_to_frame (it_action (is_interp st)))
       (of_nat (stipend b (it_action (is_interp st)))) = (given, returned)"
    "it_gas (is_interp st') = gas_erase_cost (in_revm E) returned (it_gas (is_interp st))"
    "forwarded_to_frame (it_action (is_interp st')) = given"
    "stipend b (it_action (is_interp st')) = stipend b (it_action (is_interp st))"
    "is_host st' = is_host st" "instruction_result st = None"
proof -
  obtain given returned where cap: "cap_forwarded_gas (st_left E st) (forwarded_to_frame (it_action (is_interp st)))
       (of_nat (stipend b (it_action (is_interp st)))) = (given, returned)" by fastforce
  have call: "of_nat (stipend b (Some (NewFrameAction (CallInput ci)))) = (if b then CALL_STIPEND else 0)" for ci
    by (cases b) (simp_all add: CALL_STIPEND_def)
  have create: "stipend b (Some (NewFrameAction (CreateInput ci))) = 0" for ci by (cases b) simp_all
  consider ci where "it_action (is_interp st) = Some (NewFrameAction (CallInput ci))"
    | ci where "it_action (is_interp st) = Some (NewFrameAction (CreateInput ci))"
    using assms(2) by (cases "it_action (is_interp st)" rule: creates_frame.cases) simp_all
  then show thesis
  proof cases
    case (1 ci)
    have f: "cap_forwarded_gas (st_left E st) (ci_gas_limit ci) (if b then CALL_STIPEND else 0) = (given, returned)"
      using cap unfolding 1 call by (simp add: forwarded_to_frame_def)
    show thesis
      by (rule that [OF cap]; use assms(1) 1 f in \<open>cases b; force simp: cap_new_frame_def Let_def forwarded_to_frame_def
            instruction_result_def\<close>)
  next
    case (2 ci)
    have f: "cap_forwarded_gas (st_left E st) (cri_gas_limit ci) 0 = (given, returned)"
      using cap unfolding 2 create by (simp add: forwarded_to_frame_def)
    show thesis
      by (rule that [OF cap]; use assms(1) 2 f create in \<open>force simp: cap_new_frame_def Let_def forwarded_to_frame_def
            instruction_result_def\<close>)
  qed
qed

lemma cap_new_frame_other:
  "\<not> creates_frame (it_action (is_interp st)) \<Longrightarrow> cap_new_frame E b st = Some st"
  by (cases "it_action (is_interp st)" rule: creates_frame.cases) (simp_all add: cap_new_frame_def)

lemma continues_capped:
  assumes "frames_documented E"
  shows "continues E (capped E b) (cap_new_frame E b)"
  unfolding continues_def
proof (intro allI impI)
  fix st st' assume run: "cap_new_frame E b st = Some st'" and go: "goes_on E st'"
  show "goes_on E st \<and>
       cg_frame_tracker (al_compute_gas (st_limit st')) = cg_frame_tracker (al_compute_gas (st_limit st)) \<and>
       capped E b (is_interp st) (is_interp st')"
  proof (cases "creates_frame (it_action (is_interp st))")
    case True
    obtain given returned where c:
      "cap_forwarded_gas (st_left E st) (forwarded_to_frame (it_action (is_interp st)))
         (of_nat (stipend b (it_action (is_interp st)))) = (given, returned)"
      "it_gas (is_interp st') = gas_erase_cost (in_revm E) returned (it_gas (is_interp st))"
      "forwarded_to_frame (it_action (is_interp st')) = given"
      "stipend b (it_action (is_interp st')) = stipend b (it_action (is_interp st))"
      "is_host st' = is_host st" "instruction_result st = None"
      using cap_new_frame_frame [OF run True] by metis
    then show ?thesis
      using capped_step [OF assms refl c(1-3) True c(4)] by (simp add: goes_on_def)
  next
    case False
    then show ?thesis using run go by (simp add: cap_new_frame_other capped_def)
  qed
qed

definition caps_forwarding :: "MegaSpecId \<Rightarrow> u8 \<Rightarrow> bool" where
  "caps_forwarding spec op \<longleftrightarrow> op \<in> {OP_CALL, OP_CREATE, OP_CREATE2} \<and> spec \<noteq> EQUIVALENCE
     \<or> op \<in> {OP_CALLCODE, OP_DELEGATECALL, OP_STATICCALL} \<and> is_enabled spec REX"

lemma forwarding_lookups:
  "rex_table OP_CALL = ForwardCall OP_CALL True" "rex2_table OP_CALL = ForwardCall OP_CALL True"
  "rex3_table OP_CALL = ForwardCall OP_CALL True" "rex4_table OP_CALL = CheckedCall OP_CALL True"
  "rex_table OP_CREATE = ForwardCreate OP_CREATE False" "rex2_table OP_CREATE = ForwardCreate OP_CREATE False"
  "rex3_table OP_CREATE = ForwardCreate OP_CREATE False" "rex4_table OP_CREATE = ForwardCreate OP_CREATE False"
  "rex_table OP_CREATE2 = ForwardCreate OP_CREATE2 True" "rex2_table OP_CREATE2 = ForwardCreate OP_CREATE2 True"
  "rex3_table OP_CREATE2 = ForwardCreate OP_CREATE2 True" "rex4_table OP_CREATE2 = ForwardCreate OP_CREATE2 True"
  "rex_table OP_CALLCODE = ForwardCall OP_CALLCODE True" "rex2_table OP_CALLCODE = ForwardCall OP_CALLCODE True"
  "rex3_table OP_CALLCODE = ForwardCall OP_CALLCODE True" "rex4_table OP_CALLCODE = CheckedCall OP_CALLCODE True"
  "rex_table OP_DELEGATECALL = ForwardCall OP_DELEGATECALL False"
  "rex2_table OP_DELEGATECALL = ForwardCall OP_DELEGATECALL False"
  "rex3_table OP_DELEGATECALL = ForwardCall OP_DELEGATECALL False"
  "rex4_table OP_DELEGATECALL = CheckedCall OP_DELEGATECALL False"
  "rex_table OP_STATICCALL = ForwardCall OP_STATICCALL False"
  "rex2_table OP_STATICCALL = ForwardCall OP_STATICCALL False"
  "rex3_table OP_STATICCALL = ForwardCall OP_STATICCALL False"
  "rex4_table OP_STATICCALL = CheckedCall OP_STATICCALL False"
  by (simp_all add: rex_table_def rex2_table_def rex3_table_def rex4_table_def assign_def table_lookups)

lemma forwarding_handlers:
  "spec \<noteq> EQUIVALENCE \<Longrightarrow> instruction_table spec OP_CALL \<in> {ForwardCall OP_CALL True, CheckedCall OP_CALL True}"
  "spec \<noteq> EQUIVALENCE \<Longrightarrow> instruction_table spec OP_CREATE = ForwardCreate OP_CREATE False"
  "spec \<noteq> EQUIVALENCE \<Longrightarrow> instruction_table spec OP_CREATE2 = ForwardCreate OP_CREATE2 True"
  "is_enabled spec REX \<Longrightarrow> instruction_table spec OP_CALLCODE \<in> {ForwardCall OP_CALLCODE True, CheckedCall OP_CALLCODE True}"
  "is_enabled spec REX \<Longrightarrow>
     instruction_table spec OP_DELEGATECALL \<in> {ForwardCall OP_DELEGATECALL False, CheckedCall OP_DELEGATECALL False}"
  "is_enabled spec REX \<Longrightarrow>
     instruction_table spec OP_STATICCALL \<in> {ForwardCall OP_STATICCALL False, CheckedCall OP_STATICCALL False}"
  by (cases spec; simp add: forwarding_lookups table_lookups is_enabled_def)+

lemma forwarding_handler:
  assumes "caps_forwarding spec op"
  obtains "instruction_table spec op \<in> {ForwardCall op True, CheckedCall op True}" "op \<in> {OP_CALL, OP_CALLCODE}"
    | "instruction_table spec op \<in> {ForwardCall op False, CheckedCall op False}" "op \<notin> {OP_CALL, OP_CALLCODE}"
    | c where "instruction_table spec op = ForwardCreate op c" "op \<notin> {OP_CALL, OP_CALLCODE}"
proof -
  consider "op \<in> {OP_CALL, OP_CALLCODE}" | "op \<in> {OP_DELEGATECALL, OP_STATICCALL}" | "op \<in> {OP_CREATE, OP_CREATE2}"
    using assms by (auto simp: caps_forwarding_def)
  then show thesis
  proof cases
    case 1
    then show thesis using assms forwarding_handlers(1,4) that(1) by (auto simp: caps_forwarding_def)
  next
    case 2
    then have "instruction_table spec op \<in> {ForwardCall op False, CheckedCall op False}"
      using assms forwarding_handlers(5,6) by (auto simp: caps_forwarding_def)
    then show thesis using 2 by (intro that(2)) auto
  next
    case 3
    then have "\<exists>c. instruction_table spec op = ForwardCreate op c"
      using assms forwarding_handlers(2,3) by (auto simp: caps_forwarding_def)
    then show thesis using 3 that(3) by auto
  qed
qed

lemma meters_forwarding:
  assumes "instr_documented E" and "frames_documented E" and "caps_forwarding spec op"
  shows "meters E op st (capped E (transfers_value op (it_stack (is_interp st)))) (execute E (instruction_table spec op) st)"
proof -
  let ?b = "transfers_value op (it_stack (is_interp st))"
  have reverted: "meters E op st R (revert_disabled E Beneficiary st)" for R
    by (simp add: meters_def revert_disabled_def goes_on_halt)
  have call: "meters E op st (capped E ?b) (execute E h st)"
    if "h \<in> {ForwardCall op v, CheckedCall op v}" "?b = (if v then check_call_has_transfer else no_transfer) st" for h v
  proof -
    have "meters E op st (capped E ?b) (forward_call E op v st)"
      unfolding forward_call_def wrap_gas_cap_def that(2)
      by (intro meters_run_inner meters_storage_gas continues_capped assms prepared_refl)
    then show ?thesis using that(1) reverted by (auto simp: wrap_call_volatile_check_def)
  qed
  show ?thesis
    using assms(3)
  proof (cases rule: forwarding_handler)
    case 1
    then show ?thesis by (intro call [of _ True]) (auto simp: transfers_value_def check_call_has_transfer_def)
  next
    case 2
    then show ?thesis by (intro call [of _ False]) (auto simp: transfers_value_def no_transfer_def)
  next
    case (3 c)
    have b: "?b = no_transfer st" using 3 by (auto simp: transfers_value_def no_transfer_def)
    show ?thesis
      unfolding 3(1) execute.simps forward_create_def wrap_gas_cap_def b
      by (intro meters_run_inner meters_storage_gas continues_capped assms prepared_refl)
  qed
qed

text \<open>
  Property C10 (child_frames_get_at_most_98_percent): a call or create instruction that caps the
  forwarded gas and goes on to a new frame. Without the stipend of a value transfer, the child
  gets at most 98 percent, rounded up, of the gas \<open>T\<close> that is there after the instruction is paid; what
  the child does not get stays with the parent, to the last unit.
\<close>

theorem child_frames_get_at_most_98_percent:
  assumes "instr_documented E" and "frames_documented E" and "caps_forwarding spec op"
    and "execute E (instruction_table spec op) st = Some st'" and "goes_on E st'"
    and "creates_frame (it_action (is_interp st'))"
  shows "let child = unat (forwarded_to_frame (it_action (is_interp st')));
             s = stipend (transfers_value op (it_stack (is_interp st))) (it_action (is_interp st'));
             T = unat (st_left E st') + (child - s)
         in s \<le> child \<and> child - s \<le> T - 2 * T div 100 \<and>
            (\<exists>st1 st2. base_op E op st1 = Some st2 \<and> it_stack (is_interp st1) = it_stack (is_interp st) \<and>
               T + s = unat (st_left E st2) + unat (forwarded_to_frame (it_action (is_interp st2))) \<and>
               T \<le> unat (st_left E st1))"
proof -
  let ?b = "transfers_value op (it_stack (is_interp st))"
  obtain st1 st2 where st1: "prepared st st1" and base: "base_op E op st1 = Some st2"
    and R: "capped E ?b (is_interp st2) (is_interp st')"
    using meters_forwarding [OF assms(1-3), of st] assms(4,5) unfolding meters_def by blast
  have stack: "it_stack (is_interp st1) = it_stack (is_interp st)" using st1 by (simp add: prepared_def)
  define c where "c = unat (forwarded_to_frame (it_action (is_interp st2)))"
  define s where "s = stipend ?b (it_action (is_interp st2))"
  have frame: "creates_frame (it_action (is_interp st2))" and s': "stipend ?b (it_action (is_interp st')) = s"
    using R assms(6) by (simp_all add: capped_def Let_def s_def)
  have "let child = unat (forwarded_to_frame (it_action (is_interp st2)));
            s = stipend (transfers_value op (it_stack (is_interp st1))) (it_action (is_interp st2))
        in s \<le> child \<and> unat (st_left E st2) + (child - s) \<le> unat (st_left E st1)"
    using assms(2) base frame unfolding frames_documented_def by blast
  then have paid: "s \<le> c" "unat (st_left E st2) + (c - s) \<le> unat (st_left E st1)"
    unfolding Let_def stack c_def s_def by blast+
  have "unat (st_left E st1) < 2 ^ 64" by simp
  with paid(2) have "unat (st_left E st2) + (c - s) < 2 ^ 64" by (rule order.strict_trans1)
  define c' where "c' = unat (forwarded_to_frame (it_action (is_interp st')))"
  define T where "T = unat (st_left E st') + (c' - s)"
  have "s \<le> c' \<and> c' - s \<le> (unat (st_left E st2) + (c - s)) - 2 * (unat (st_left E st2) + (c - s)) div 100 \<and>
      unat (st_left E st') + c' = unat (st_left E st2) + c"
    using R assms(6) paid(1) \<open>unat (st_left E st2) + (c - s) < 2 ^ 64\<close>
    unfolding capped_def Let_def c'_def c_def s_def by blast
  moreover from this have T: "T = unat (st_left E st2) + (c - s)" using paid(1) unfolding T_def by linarith
  ultimately have "s \<le> c' \<and> c' - s \<le> T - 2 * T div 100 \<and> T + s = unat (st_left E st2) + c \<and> T \<le> unat (st_left E st1)"
    using paid unfolding T by linarith
  then show ?thesis
    unfolding Let_def s' c'_def [symmetric] T_def [symmetric] c_def using base stack by blast
qed

section \<open>A concrete interpreter\<close>

text \<open>A call without value hands all its gas to the child, any other instruction costs 3.\<close>

definition sample_child_call :: "u64 \<Rightarrow> CallInputs" where
  "sample_child_call gas = \<lparr>ci_target_address = 2, ci_caller = 1, ci_scheme = SchemeCall, ci_input = [], ci_gas_limit = gas,
     ci_return_memory_offset = (0, 0), ci_value = 0, ci_transfer_value = None, ci_transfers_value = False\<rparr>"

text \<open>A plain instruction costs 3; a call without value hands all its gas to the child.\<close>

definition sample_base_op :: "u8 \<Rightarrow> (nat, u64, unit, unit, unit, unit, unit) instruction" where
  "sample_base_op op st =
     (let st = st\<lparr>is_interp := (is_interp st)\<lparr>it_action := None\<rparr>\<rparr>; left = it_gas (is_interp st)
      in if op = OP_CALL
         then if transfers_value op (it_stack (is_interp st)) then None
              else Some (set_action (NewFrameAction (CallInput (sample_child_call left))) (set_gas 0 st))
         else if left < 3 then Some (halt 1 st) else Some (set_gas (left - 3) st))"

definition sample_instr_env :: "(nat, u64, unit, unit, unit, unit, unit) instr_env" where
  "sample_instr_env = \<lparr>in_revm = sample_revm, IR_StackUnderflow = 3, IR_FatalExternalError = 4,
     IR_InvalidFEOpcode = 5, IR_InvalidOperandOOG = 6, ir_is_error = (\<lambda>r. r = 1 \<or> 3 \<le> r),
     base_op = sample_base_op, control_unknown = (\<lambda>st. Some (halt 7 st)), control_invalid = (\<lambda>st. Some (halt 5 st)),
     in_fmt_salt_error = (\<lambda>_. []), in_fmt_db_error = (\<lambda>_. []), state_clear_aware_is_empty = (\<lambda>_ _. False),
     slice_len = (\<lambda>m i l. if unat i + unat l \<le> length m then Some (take (unat l) (drop (unat i) m)) else None),
     keccak256 = (\<lambda>_. 0), create_address = (\<lambda>a _. a), create2_address = (\<lambda>a _ _. a),
     volatile_data_access_disabled_revert_data = (\<lambda>_. [1])\<rparr>"

definition sample_instr_state :: "u256 list \<Rightarrow> (nat, u64, unit, unit, unit, unit, unit) InstrContext" where
  "sample_instr_state stack = \<lparr>is_interp = \<lparr>it_stack = stack, it_gas = 1000, it_action = None, it_target_address = 2,
     it_spec_id = 0, it_memory = [], it_rest = ()\<rparr>, is_host = sample_context REX3\<rparr>"

lemma sample_instr_documented: "instr_documented sample_instr_env"
  by (auto simp: instr_documented_def sample_instr_env_def aborted_def sample_base_op_def Let_def
      split: if_splits)

lemma sample_instr_sel [simp]:
  "in_revm sample_instr_env = sample_revm" "base_op sample_instr_env = sample_base_op"
  "ir_is_error sample_instr_env r \<longleftrightarrow> r = 1 \<or> 3 \<le> r" "state_clear_aware_is_empty sample_instr_env s a = False"
  by (simp_all add: sample_instr_env_def)

lemma sample_frames_documented: "frames_documented sample_instr_env"
  unfolding frames_documented_def
proof (intro conjI allI impI)
  fix op and st st' :: "(nat, u64, unit, unit, unit, unit, unit) InstrContext"
  assume "base_op sample_instr_env op st = Some st' \<and> creates_frame (it_action (is_interp st'))"
  then have "\<not> transfers_value op (it_stack (is_interp st))" "it_gas (is_interp st') = 0"
    "forwarded_to_frame (it_action (is_interp st')) = it_gas (is_interp st)"
    by (auto simp: sample_base_op_def Let_def halt_def new_return_def sample_child_call_def set_gas_def set_action_def
        forwarded_to_frame_def split: if_splits)
  then show "let child = unat (forwarded_to_frame (it_action (is_interp st')));
             s = stipend (transfers_value op (it_stack (is_interp st))) (it_action (is_interp st'))
         in s \<le> child \<and> unat (st_left sample_instr_env st') + (child - s) \<le> unat (st_left sample_instr_env st)"
    by simp
qed (simp add: sample_revm_def)

lemma sample_records:
  "\<exists>al. record_compute_gas 0 (al_new REX3 limits_rex3) = Some (True, al)"
  "\<exists>al. record_compute_gas 3 (al_new REX3 limits_rex3) = Some (True, al)"
  by (simp_all add: record_compute_gas_def al_check_limit_def al_new_def ds_new_def kv_new_def sg_new_def ds_check_limit_def
        kv_check_limit_def sg_check_limit_def cg_check_limit_def cg_check_tx_limit_def cg_tx_limit_def
        ds_tx_usage_def kv_tx_usage_def cg_tx_usage_def sg_tx_usage_def net_usage_def used_def
        checked_add_def entry_new_def Let_def tracker_tx_limit_def record_gas_used_def cg_new_def tracker_new_def
        frame_mut_def update_tx_def add_persistent_def limits_defs)

lemma sample_host_limit: "additional_limit (is_host (sample_instr_state stack)) = al_new REX3 limits_rex3"
  by (simp add: sample_instr_state_def sample_context_def limits_from_spec.simps)

lemma sample_add_goes_on:
  "\<exists>st'. execute sample_instr_env (instruction_table REX3 OP_ADD) (sample_instr_state [1, 2]) = Some st' \<and>
     goes_on sample_instr_env st'"
proof -
  have "instruction_table REX3 OP_ADD = ComputeGas OP_ADD"
    by (simp add: rex3_table_def rex2_table_def rex_table_def assign_def table_lookups)
  moreover obtain al where "record_compute_gas 3 (al_new REX3 limits_rex3) = Some (True, al)"
    using sample_records(2) by blast
  ultimately show ?thesis
    by (simp add: compute_gas_ext_def run_inner_instruction_or_abort_def sample_base_op_def Let_def
        sample_instr_state_def sample_context_def limits_from_spec.simps aborted_def instruction_result_def
        compute_gas_def record_or_halt_def saturating_sub_def forwarded_to_frame_def set_gas_def set_host_def
        goes_on_def)
qed

lemma sample_inspects:
  obtains account h where
    "host_inspect_account_delegated (in_fmt_db_error sample_instr_env) REX3 (into_address 2) (sample_context REX3) =
       (Some account, h)" "additional_limit h = al_new REX3 limits_rex3"
proof -
  have "\<exists>a. fst (host_inspect_account_delegated (in_fmt_db_error sample_instr_env) REX3 (into_address 2) (sample_context REX3)) = Some a"
    by (simp add: host_inspect_account_delegated_def stash_inspection_def sample_context_def sample_op_context_def
        inspect_account_delegated_def inspect_account_def sample_cached_journal_def into_address_def
        delegate_of_def sample_database_def Let_def case_prod_beta empty_account_info_def)
  moreover have "additional_limit (snd (host_inspect_account_delegated (in_fmt_db_error sample_instr_env) REX3
      (into_address 2) (sample_context REX3))) = al_new REX3 limits_rex3"
    by (simp add: storage_gas_queries_limit sample_context_def limits_from_spec.simps)
  ultimately show thesis using that by (metis prod.collapse)
qed

lemma sample_child_starts:
  "\<exists>st'. execute sample_instr_env (instruction_table REX3 OP_CALL) (sample_instr_state [0, 0, 0, 2, 9]) = Some st' \<and>
     goes_on sample_instr_env st' \<and> creates_frame (it_action (is_interp st'))"
proof -
  obtain al where "record_compute_gas 0 (al_new REX3 limits_rex3) = Some (True, al)"
    using sample_records(1) by blast
  moreover have "\<not> transfers_value OP_CALL [0, 0, 0, 2, 9]" by (simp add: transfers_value_def inspect_def)
  moreover have "mc_spec (sample_context REX3) = REX3" by (simp add: sample_context_def)
  moreover obtain account h where 
    "host_inspect_account_delegated (in_fmt_db_error sample_instr_env) REX3 (into_address 2) (sample_context REX3) =
       (Some account, h)" "additional_limit h = al_new REX3 limits_rex3"
    using sample_inspects by metis
  ultimately show ?thesis
    by (simp add: forwarding_lookups forward_call_def wrap_gas_cap_def run_inner_instruction_or_abort_def
        storage_gas_call_def on_host_def or_halt_def inspect_def
        compute_gas_ext_def sample_base_op_def Let_def case_prod_beta cap_new_frame_def
        sample_instr_state_def aborted_def instruction_result_def
        compute_gas_def record_or_halt_def saturating_sub_def forwarded_to_frame_def set_gas_def set_host_def
        goes_on_def set_action_def sample_child_call_def)
qed

theorem every_opcode_is_metered_witness:
  "\<exists>st st' st1 st2 al. execute sample_instr_env (instruction_table REX3 OP_ADD) st = Some st'
    \<and> base_op sample_instr_env OP_ADD st1 = Some st2
    \<and> record_compute_gas (net_gas sample_instr_env st1 st2) (st_limit st) = Some (True, al)"
proof -
  obtain st' where "execute sample_instr_env (instruction_table REX3 OP_ADD) (sample_instr_state [1, 2]) = Some st'"
    "goes_on sample_instr_env st'"
    using sample_add_goes_on by blast
  with every_opcode_is_metered [OF sample_instr_documented _ this] show ?thesis by blast
qed

theorem child_frames_get_at_most_98_percent_witness:
  "\<exists>st'. execute sample_instr_env (instruction_table REX3 OP_CALL) (sample_instr_state [0, 0, 0, 2, 9]) = Some st' \<and>
     (let child = unat (forwarded_to_frame (it_action (is_interp st')));
          s = stipend False (it_action (is_interp st'));
          T = unat (st_left sample_instr_env st') + (child - s)
      in s \<le> child \<and> child - s \<le> T - 2 * T div 100)"
proof -
  obtain st' where run: "execute sample_instr_env (instruction_table REX3 OP_CALL) (sample_instr_state [0, 0, 0, 2, 9]) = Some st'"
    "goes_on sample_instr_env st'" "creates_frame (it_action (is_interp st'))"
    using sample_child_starts by blast
  have "caps_forwarding REX3 OP_CALL" by (simp add: caps_forwarding_def)
  moreover have "transfers_value OP_CALL (it_stack (is_interp (sample_instr_state [0, 0, 0, 2, 9]))) = False"
    by (simp add: transfers_value_def inspect_def sample_instr_state_def)
  ultimately show ?thesis
    using child_frames_get_at_most_98_percent [OF sample_instr_documented sample_frames_documented _ run] run(1)
    by (auto simp only: Let_def)
qed

end
