(* ===== verification/Instruction_Guards.thy ===== *)
theory Instruction_Guards
  imports Instruction_Gas
begin

text \<open>
  What the wrappers of \<^verbatim>\<open>evm/instructions.rs\<close> do before the base instruction: the volatile opcodes
  while the access to volatile data is disabled, and \<^verbatim>\<open>CREATE2\<close>, which reads the memory of the frame.
\<close>

section \<open>Disabled volatile data\<close>

text \<open>The volatile data that an opcode is about to read, by its spec, its operands and its frame.\<close>

definition block_env_opcodes :: "(u8 \<times> VolatileDataAccessType) list" where
  "block_env_opcodes =
     [(OP_BLOCKHASH, BlockHash), (OP_COINBASE, Coinbase), (OP_TIMESTAMP, Timestamp), (OP_NUMBER, BlockNumber),
      (OP_DIFFICULTY, Difficulty), (OP_GASLIMIT, GasLimit), (OP_BASEFEE, BaseFee), (OP_BLOBBASEFEE, BlobBaseFee),
      (OP_BLOBHASH, BlobHash)]"

definition operand_is_beneficiary :: "nat \<Rightarrow> ('ir, 'gas, 'st, 'e, 'c, 'm, 'se) InstrContext \<Rightarrow> bool" where
  "operand_is_beneficiary n st \<longleftrightarrow>
     map_option into_address (inspect n (it_stack (is_interp st))) = Some (beneficiary_address (is_host st))"

definition volatile_target ::
  "MegaSpecId \<Rightarrow> u8 \<Rightarrow> ('ir, 'gas, 'st, 'e, 'c, 'm, 'se) InstrContext \<Rightarrow> VolatileDataAccessType option" where
  "volatile_target spec op st =
     (if op \<in> {OP_BALANCE, OP_EXTCODESIZE, OP_EXTCODECOPY, OP_EXTCODEHASH} \<and> operand_is_beneficiary 0 st \<or>
         op = OP_SELFDESTRUCT \<and> is_enabled spec REX4 \<and> operand_is_beneficiary 0 st \<or>
         op \<in> {OP_CALL, OP_CALLCODE, OP_DELEGATECALL, OP_STATICCALL} \<and> is_enabled spec REX4 \<and>
           operand_is_beneficiary 1 st
      then Some Beneficiary
      else if op = OP_SLOAD \<and> is_enabled spec REX3 \<and> it_target_address (is_interp st) = ORACLE_CONTRACT_ADDRESS
      then Some Oracle
      else map_of block_env_opcodes op)"

lemma targets_disabled_iff:
  "targets_disabled_beneficiary n st \<longleftrightarrow> operand_is_beneficiary n st \<and> host_volatile_access_disabled (is_host st)"
  by (auto simp: targets_disabled_beneficiary_def operand_is_beneficiary_def split: option.splits)

text \<open>No later table changes an opcode of the first one but those that it assigns.\<close>

lemma later_tables:
  assumes "op \<notin> {OP_CALL, OP_CALLCODE, OP_DELEGATECALL, OP_STATICCALL, OP_SELFDESTRUCT, OP_SLOAD}" and "spec \<noteq> EQUIVALENCE"
  shows "instruction_table spec op = mini_rex_table op"
  using assms by (cases spec) (simp_all add: rex4_table_def rex3_table_def rex2_table_def rex_table_def assign_def)

lemma guarded_handlers:
  assumes "spec \<noteq> EQUIVALENCE"
  shows "map_of block_env_opcodes op = Some t \<Longrightarrow> instruction_table spec op = Unconditional op t"
    and "op \<in> {OP_BALANCE, OP_EXTCODESIZE, OP_EXTCODECOPY, OP_EXTCODEHASH} \<Longrightarrow> instruction_table spec op = Conditional op"
    and "is_enabled spec REX3 \<Longrightarrow> instruction_table spec OP_SLOAD = DetainedSload OP_SLOAD"
    and "is_enabled spec REX4 \<Longrightarrow> instruction_table spec OP_SELFDESTRUCT = Conditional OP_SELFDESTRUCT"
    and "is_enabled spec REX4 \<Longrightarrow> op \<in> {OP_CALL, OP_CALLCODE, OP_DELEGATECALL, OP_STATICCALL} \<Longrightarrow>
      \<exists>v. instruction_table spec op = CheckedCall op v"
proof -
  show "instruction_table spec op = Unconditional op t" if "map_of block_env_opcodes op = Some t"
    using that by (subst later_tables [OF _ assms]) (auto simp: block_env_opcodes_def table_lookups split: if_splits)
  show "instruction_table spec op = Conditional op" if "op \<in> {OP_BALANCE, OP_EXTCODESIZE, OP_EXTCODECOPY, OP_EXTCODEHASH}"
    using that by (subst later_tables [OF _ assms]) (auto simp: table_lookups)
  show "instruction_table spec OP_SLOAD = DetainedSload OP_SLOAD" if "is_enabled spec REX3"
    using that by (cases spec) (simp_all add: is_enabled_def rex4_table_def rex3_table_def assign_def)
  show "instruction_table spec OP_SELFDESTRUCT = Conditional OP_SELFDESTRUCT" if "is_enabled spec REX4"
    using that by (cases spec) (simp_all add: is_enabled_def rex4_table_def assign_def)
  show "\<exists>v. instruction_table spec op = CheckedCall op v"
    if "is_enabled spec REX4" "op \<in> {OP_CALL, OP_CALLCODE, OP_DELEGATECALL, OP_STATICCALL}"
    using that by (cases spec) (auto simp: is_enabled_def forwarding_lookups)
qed

lemma guard_cases:
  assumes "(if a \<and> p \<or> b \<and> s \<and> p \<or> c \<and> s \<and> q then Some x else if d \<and> u \<and> v then Some y else m) = Some t"
  obtains "a" "p" "t = x" | "b" "s" "p" "t = x" | "c" "s" "q" "t = x" | "d" "u" "v" "t = y" | "m = Some t"
proof -
  have "a \<and> p \<and> t = x \<or> b \<and> s \<and> p \<and> t = x \<or> c \<and> s \<and> q \<and> t = x \<or> d \<and> u \<and> v \<and> t = y \<or> m = Some t"
    using assms by (simp split: if_split_asm) blast+
  then show thesis by (elim disjE conjE) (rule that; assumption)+
qed

section \<open>Properties\<close>


text \<open>
  Property C12 (create2_reads_memory_before_expanding): \<^verbatim>\<open>CREATE2\<close> with a creator that can be inspected
  and an init code range beyond the current memory of the frame. The wrapper panics: it hashes the
  init code before the base instruction, which expands the memory, has run. The read of the memory is
  upstream code, documented to panic out of bounds.
\<close>

theorem create2_reads_memory_before_expanding:
  assumes "spec \<noteq> EQUIVALENCE"
    and "host_inspect_account_delegated (in_fmt_db_error E) (mc_spec (is_host st))
           (it_target_address (is_interp st)) (is_host st) = (Some creator, h)"
    and "inspect 1 (it_stack (is_interp st)) = Some offset" and "as_usize offset = Some i"
    and "inspect 2 (it_stack (is_interp st)) = Some len" and "as_usize len = Some n"
    and "slice_len E (it_memory (is_interp st)) i n = None"
  shows "execute E (instruction_table spec OP_CREATE2) st = None"
  using assms forwarding_handlers(3) [OF assms(1)]
  by (simp add: forward_create_def wrap_gas_cap_def run_inner_instruction_or_abort_def storage_gas_create_def
      on_host_def or_halt_def with_created_address_def set_host_def)

section \<open>Witnesses\<close>


theorem create2_reads_memory_before_expanding_witness:
  "execute sample_instr_env (instruction_table REX3 OP_CREATE2) (sample_instr_state [0, 32, 0, 0]) = None"
proof -
  have "into_address 2 = 2" by (simp add: into_address_def)
  then obtain creator h where
    "host_inspect_account_delegated (in_fmt_db_error sample_instr_env) REX3 2 (sample_context REX3) = (Some creator, h)"
    using sample_inspects by metis
  then show ?thesis
    using create2_reads_memory_before_expanding [of REX3 sample_instr_env "sample_instr_state [0, 32, 0, 0]" creator h 0 0 32 32]
    by (simp add: sample_instr_state_def sample_context_def inspect_def as_usize_def sample_instr_env_def)
qed

end
