(* ===== verification/Test_Workers.thy ===== *)
theory Test_Workers
  imports Mega_Prelude
begin

text \<open>
  The worker threads of the state test runner, \<^verbatim>\<open>src/crates/state-test/src/runner.rs\<close>: the queue of
  test files, the loop of a worker and the summary of \<^verbatim>\<open>run\<close>. The threads share the queue behind a mutex
  and an atomic error counter; a step of the pool is one such access of one worker, or the run of one file.
  A file is run by the parameter \<open>exec\<close>, where \<open>None\<close> is a panic. The index and the counter are at most the
  length of the list of files, so they are natural numbers here.
\<close>

section \<open>Configuration and queue\<close>

record TestRunnerConfig =
  rc_single_thread :: bool
  rc_trace :: bool
  rc_print_outcome :: bool
  rc_keep_going :: bool

definition runner_config_new :: "bool \<Rightarrow> bool \<Rightarrow> bool \<Rightarrow> bool \<Rightarrow> TestRunnerConfig" where
  "runner_config_new single_thread trace print_outcome keep_going =
     (let print_outcome = print_outcome \<or> trace; single_thread = single_thread \<or> print_outcome
      in \<lparr>rc_single_thread = single_thread, rc_trace = trace, rc_print_outcome = print_outcome, rc_keep_going = keep_going\<rparr>)"

definition next_test :: "nat \<times> 'p list \<Rightarrow> 'p option \<times> (nat \<times> 'p list)" where
  "next_test q = (case q of (idx, files) \<Rightarrow>
     if idx < length files then (Some (files ! idx), (idx + 1, files)) else (None, (idx, files)))"

definition determine_thread_count :: "bool \<Rightarrow> nat option \<Rightarrow> nat \<Rightarrow> nat" where
  "determine_thread_count single_thread available_parallelism n_files =
     (case (single_thread, available_parallelism) of
        (True, _) \<Rightarrow> 1 | (False, None) \<Rightarrow> 1 | (False, Some n) \<Rightarrow> min n n_files)"

section \<open>Workers\<close>

text \<open>Where a worker is: before the load of the error counter, before the queue, in a file, before the
  increment of the error counter, or at its end.\<close>

datatype ('p, 'err) worker =
  AtCheck | AtTake | Running 'p | Counting 'err | Returned "'err + unit" | Panicked

record ('p, 'err) TestRunnerState =
  n_errors :: nat
  queue :: "nat \<times> 'p list"
  workers :: "('p, 'err) worker list"

definition ended :: "('p, 'err) worker \<Rightarrow> bool" where
  "ended w \<longleftrightarrow> (case w of Returned _ \<Rightarrow> True | Panicked \<Rightarrow> True | _ \<Rightarrow> False)"

fun run_test_worker ::
  "TestRunnerConfig \<Rightarrow> ('p \<Rightarrow> ('err + unit) option) \<Rightarrow> ('p, 'err) worker \<Rightarrow> nat \<Rightarrow> nat \<times> 'p list \<Rightarrow>
   ('p, 'err) worker \<times> nat \<times> (nat \<times> 'p list)" where
  "run_test_worker cfg exec AtCheck n q =
     (if \<not> rc_keep_going cfg \<and> n > 0 then (Returned (Inr ()), n, q) else (AtTake, n, q))"
| "run_test_worker cfg exec AtTake n q =
     (case next_test q of (None, q) \<Rightarrow> (Returned (Inr ()), n, q) | (Some p, q) \<Rightarrow> (Running p, n, q))"
| "run_test_worker cfg exec (Running p) n q =
     (case exec p of
        None \<Rightarrow> (Panicked, n, q)
      | Some (Inl err) \<Rightarrow> (Counting err, n, q)
      | Some (Inr _) \<Rightarrow> (AtCheck, n, q))"
| "run_test_worker cfg exec (Counting err) n q =
     (if \<not> rc_keep_going cfg then (Returned (Inl err), n + 1, q) else (AtCheck, n + 1, q))"
| "run_test_worker cfg exec (Returned r) n q = (Returned r, n, q)"
| "run_test_worker cfg exec Panicked n q = (Panicked, n, q)"

inductive pool_step ::
  "TestRunnerConfig \<Rightarrow> ('p \<Rightarrow> ('err + unit) option) \<Rightarrow> ('p, 'err) TestRunnerState \<Rightarrow> ('p, 'err) TestRunnerState \<Rightarrow> bool"
  for cfg exec where
  worker_step: "i < length (workers s) \<Longrightarrow> \<not> ended (workers s ! i) \<Longrightarrow>
     run_test_worker cfg exec (workers s ! i) (n_errors s) (queue s) = (w, n, q) \<Longrightarrow>
     pool_step cfg exec s \<lparr>n_errors = n, queue = q, workers = (workers s)[i := w]\<rparr>"

definition runner_state_new :: "'p list \<Rightarrow> nat \<Rightarrow> ('p, 'err) TestRunnerState" where
  "runner_state_new test_files num_threads =
     \<lparr>n_errors = 0, queue = (0, test_files), workers = replicate num_threads AtCheck\<rparr>"

text \<open>The summary after all threads were joined: the end of the process is one of the results.\<close>

datatype 'err run_result = RunOk | ProcessExit | RunErr 'err

definition thread_errors :: "(nat \<Rightarrow> 'err) \<Rightarrow> ('p, 'err) worker list \<Rightarrow> 'err list" where
  "thread_errors panic_error ws = concat (map (\<lambda>i. case ws ! i of
     Returned (Inl e) \<Rightarrow> [e] | Panicked \<Rightarrow> [panic_error i] | _ \<Rightarrow> []) [0..<length ws])"

definition run_summary :: "(nat \<Rightarrow> 'err) \<Rightarrow> ('p, 'err) TestRunnerState \<Rightarrow> 'err run_result" where
  "run_summary panic_error s =
     (let errors = thread_errors panic_error (workers s)
      in if n_errors s = 0 \<and> errors = [] then RunOk
         else if errors = [] then ProcessExit
         else RunErr (hd errors))"

definition run_tests ::
  "('p \<Rightarrow> ('err + unit) option) \<Rightarrow> (nat \<Rightarrow> 'err) \<Rightarrow> nat option \<Rightarrow> 'p list \<Rightarrow> bool \<Rightarrow> bool \<Rightarrow> bool \<Rightarrow> bool \<Rightarrow>
   ('p, 'err) TestRunnerState \<Rightarrow> 'err run_result \<Rightarrow> bool" where
  "run_tests exec panic_error parallelism test_files single_thread trace print_outcome keep_going s r \<longleftrightarrow>
     (let cfg = runner_config_new single_thread trace print_outcome keep_going;
          num_threads = determine_thread_count (rc_single_thread cfg) parallelism (length test_files)
      in (pool_step cfg exec)\<^sup>*\<^sup>* (runner_state_new test_files num_threads) s \<and> (\<forall>w\<in>set (workers s). ended w)
         \<and> r = run_summary panic_error s)"

section \<open>Invariant\<close>

text \<open>Every file that was taken from the queue is accounted for: it passed, it was counted, or a worker has it.\<close>

definition failing :: "('p \<Rightarrow> ('err + unit) option) \<Rightarrow> 'p \<Rightarrow> bool" where
  "failing exec p \<longleftrightarrow> (\<exists>e. exec p = Some (Inl e))"

fun holds_failure :: "('p \<Rightarrow> ('err + unit) option) \<Rightarrow> ('p, 'err) worker \<Rightarrow> bool" where
  "holds_failure exec (Running p) = failing exec p"
| "holds_failure exec (Counting e) = True"
| "holds_failure exec w = False"

fun holds_panic :: "('p \<Rightarrow> ('err + unit) option) \<Rightarrow> ('p, 'err) worker \<Rightarrow> bool" where
  "holds_panic exec (Running p) = (exec p = None)"
| "holds_panic exec Panicked = True"
| "holds_panic exec w = False"

definition count :: "('a \<Rightarrow> bool) \<Rightarrow> 'a list \<Rightarrow> nat" where
  "count P xs = length (filter P xs)"

definition pool_inv :: "TestRunnerConfig \<Rightarrow> ('p \<Rightarrow> ('err + unit) option) \<Rightarrow> 'p list \<Rightarrow> ('p, 'err) TestRunnerState \<Rightarrow> bool" where
  "pool_inv cfg exec files s \<longleftrightarrow>
     (\<exists>idx. queue s = (idx, files) \<and> idx \<le> length files \<and>
        count (failing exec) (take idx files) = n_errors s + count (holds_failure exec) (workers s) \<and>
        count (\<lambda>p. exec p = None) (take idx files) = count (holds_panic exec) (workers s) \<and>
        (Returned (Inr ()) \<in> set (workers s) \<longrightarrow> idx = length files \<or> \<not> rc_keep_going cfg \<and> n_errors s > 0)) \<and>
     (\<forall>e. Returned (Inl e) \<in> set (workers s) \<longrightarrow> \<not> rc_keep_going cfg \<and> n_errors s > 0)"

text \<open>The counter of a worker that changes.\<close>

lemma count_update:
  assumes "i < length xs"
  shows "count P (xs[i := x]) + (if P (xs ! i) then 1 else 0) = count P xs + (if P x then 1 else 0)"
proof -
  have split: "xs = take i xs @ xs ! i # drop (Suc i) xs" by (rule id_take_nth_drop [OF assms])
  have "xs[i := x] = take i xs @ x # drop (Suc i) xs" by (rule upd_conv_take_nth_drop [OF assms])
  moreover have "count P xs = count P (take i xs @ xs ! i # drop (Suc i) xs)" using split by simp
  ultimately show ?thesis by (simp add: count_def)
qed

lemma count_take_Suc:
  assumes "i < length xs"
  shows "count P (take (Suc i) xs) = count P (take i xs) + (if P (xs ! i) then 1 else 0)"
  using assms by (simp add: count_def take_Suc_conv_app_nth)

lemma count_zero: "count P xs = 0 \<longleftrightarrow> (\<forall>x\<in>set xs. \<not> P x)"
  by (simp add: count_def filter_empty_conv)

lemma in_set_update: "x \<in> set (xs[i := y]) \<Longrightarrow> x = y \<or> x \<in> set xs"
  using set_update_subset_insert by fastforce

lemma pool_inv_new: "pool_inv cfg exec files (runner_state_new files n)"
  by (auto simp: pool_inv_def runner_state_new_def count_def)

text \<open>One line per way a worker can go on.\<close>

lemma worker_cases:
  assumes "run_test_worker cfg exec w0 n (idx, files) = (w, n', q')" and "\<not> ended w0"
  obtains
    (gives_up) "w = Returned (Inr ())" "n' = n" "q' = (idx, files)" "w0 = AtCheck" "\<not> rc_keep_going cfg" "n > 0"
  | (goes_on) "w = AtTake" "n' = n" "q' = (idx, files)" "w0 = AtCheck"
  | (no_file) "w = Returned (Inr ())" "n' = n" "q' = (idx, files)" "w0 = AtTake" "length files \<le> idx"
  | (takes) "w = Running (files ! idx)" "n' = n" "q' = (Suc idx, files)" "w0 = AtTake" "idx < length files"
  | (panics) p where "w = Panicked" "n' = n" "q' = (idx, files)" "w0 = Running p" "exec p = None"
  | (fails) p e where "w = Counting e" "n' = n" "q' = (idx, files)" "w0 = Running p" "exec p = Some (Inl e)"
  | (passes) p where "w = AtCheck" "n' = n" "q' = (idx, files)" "w0 = Running p" "exec p = Some (Inr ())"
  | (stops) e where "w = Returned (Inl e)" "n' = Suc n" "q' = (idx, files)" "w0 = Counting e" "\<not> rc_keep_going cfg"
  | (counts) e where "w = AtCheck" "n' = Suc n" "q' = (idx, files)" "w0 = Counting e" "rc_keep_going cfg"
  using assms
  by (cases w0) (auto simp: next_test_def ended_def split: if_splits option.splits sum.splits)

lemma pool_inv_step:
  assumes "pool_step cfg exec s s'" and "pool_inv cfg exec files s"
  shows "pool_inv cfg exec files s'"
  using assms(1)
proof cases
  case (worker_step i w n q)
  obtain idx where q0: "queue s = (idx, files)" and idx: "idx \<le> length files"
    and fails: "count (failing exec) (take idx files) = n_errors s + count (holds_failure exec) (workers s)"
    and panics: "count (\<lambda>p. exec p = None) (take idx files) = count (holds_panic exec) (workers s)"
    and fin: "Returned (Inr ()) \<in> set (workers s) \<longrightarrow> idx = length files \<or> \<not> rc_keep_going cfg \<and> n_errors s > 0"
    and errs: "\<forall>e. Returned (Inl e) \<in> set (workers s) \<longrightarrow> \<not> rc_keep_going cfg \<and> n_errors s > 0"
    using assms(2) unfolding pool_inv_def by blast
  note upd = count_update [OF worker_step(2), of "holds_failure exec" w] count_update [OF worker_step(2), of "holds_panic exec" w]
  note mem = in_set_update [of _ "workers s" i w]
  from worker_step(4) [unfolded q0] worker_step(3) show ?thesis
  proof (cases rule: worker_cases)
    case takes
    then have "count (failing exec) (take (Suc idx) files) = count (failing exec) (take idx files) + (if failing exec (files ! idx) then 1 else 0)"
      "count (\<lambda>p. exec p = None) (take (Suc idx) files) = count (\<lambda>p. exec p = None) (take idx files) + (if exec (files ! idx) = None then 1 else 0)"
      by (simp_all add: count_take_Suc)
    then show ?thesis
      using takes upd fails panics fin errs mem by (auto simp: worker_step(1) pool_inv_def)
  qed (use upd idx fails panics fin errs mem in \<open>auto simp: worker_step(1) pool_inv_def failing_def split: if_splits\<close>)
qed

lemma pool_inv_reachable:
  assumes "(pool_step cfg exec)\<^sup>*\<^sup>* (runner_state_new files n) s"
  shows "pool_inv cfg exec files s \<and> length (workers s) = n"
  using assms
proof (induction rule: rtranclp_induct)
  case base
  show ?case using pool_inv_new by (simp add: runner_state_new_def)
next
  case (step s s')
  then show ?case using pool_inv_step by (auto elim: pool_step.cases)
qed

section \<open>Termination\<close>

text \<open>The steps a worker can take before it needs another file, and four for every file in the queue.\<close>

fun weight :: "('p, 'err) worker \<Rightarrow> nat" where
  "weight AtCheck = 2"
| "weight AtTake = 1"
| "weight (Running p) = 4"
| "weight (Counting e) = 3"
| "weight (Returned r) = 0"
| "weight Panicked = 0"

definition steps_left :: "('p, 'err) TestRunnerState \<Rightarrow> nat" where
  "steps_left s = 4 * (length (snd (queue s)) - fst (queue s)) + sum_list (map weight (workers s))"

lemma steps_left_decreases:
  assumes "pool_step cfg exec s s'"
  shows "steps_left s' < steps_left s"
  using assms
proof cases
  case (worker_step i w n q)
  obtain idx files where q0: "queue s = (idx, files)" by fastforce
  have mem: "weight (workers s ! i) \<le> sum_list (map weight (workers s))"
    using member_le_sum_list [of "weight (workers s ! i)" "map weight (workers s)"] worker_step(2) by auto
  have sum: "sum_list (map weight ((workers s)[i := w])) = sum_list (map weight (workers s)) + weight w - weight (workers s ! i)"
    using worker_step(2) by (simp add: map_update sum_list_update)
  have left: "steps_left s' = 4 * (length (snd q) - fst q) + (sum_list (map weight (workers s)) + weight w - weight (workers s ! i))"
    using sum by (simp add: worker_step(1) steps_left_def)
  have right: "steps_left s = 4 * (length files - idx) + sum_list (map weight (workers s))" by (simp add: steps_left_def q0)
  from worker_step(4) [unfolded q0] worker_step(3) show ?thesis
    unfolding left right by (cases rule: worker_cases) (use mem in auto)
qed

lemma pool_progress: "(\<forall>s'. \<not> pool_step cfg exec s s') \<longleftrightarrow> (\<forall>w\<in>set (workers s). ended w)"
proof
  assume stuck: "\<forall>s'. \<not> pool_step cfg exec s s'"
  show "\<forall>w\<in>set (workers s). ended w"
  proof (rule ccontr)
    assume "\<not> (\<forall>w\<in>set (workers s). ended w)"
    then obtain i where i: "i < length (workers s)" "\<not> ended (workers s ! i)" by (metis in_set_conv_nth)
    obtain w n q where "run_test_worker cfg exec (workers s ! i) (n_errors s) (queue s) = (w, n, q)"
      by (metis prod_cases3)
    then show False using worker_step [OF i] stuck by blast
  qed
next
  assume "\<forall>w\<in>set (workers s). ended w"
  then show "\<forall>s'. \<not> pool_step cfg exec s s'" by (auto elim!: pool_step.cases)
qed

text \<open>
  Property C38 (test_workers_terminate): however the threads are scheduled, the pool stops after at most four steps
  per file and two per thread, and it only stops when every thread has returned or panicked: no thread waits for
  another, and none is left in the loop.
\<close>

theorem test_workers_terminate:
  assumes "(pool_step cfg exec ^^ k) (runner_state_new files n) s"
  shows "k \<le> 4 * length files + 2 * n \<and> ((\<forall>s'. \<not> pool_step cfg exec s s') \<longleftrightarrow> (\<forall>w\<in>set (workers s). ended w))"
proof -
  have "steps_left s + k \<le> steps_left (runner_state_new files n :: ('a, 'b) TestRunnerState)"
    using assms
  proof (induction k arbitrary: s)
    case (Suc k)
    then obtain s1 where "(pool_step cfg exec ^^ k) (runner_state_new files n) s1" "pool_step cfg exec s1 s" by auto
    then show ?case using Suc.IH steps_left_decreases by fastforce
  qed simp
  moreover have "steps_left (runner_state_new files n :: ('a, 'b) TestRunnerState) = 4 * length files + 2 * n"
    by (simp add: steps_left_def runner_state_new_def sum_list_replicate)
  ultimately show ?thesis using pool_progress by simp
qed

text \<open>A pool with one worker and one file that fails.\<close>

lemma single_step:
  assumes "run_test_worker cfg exec w n q = (w', n', q')" and "\<not> ended w"
  shows "pool_step cfg exec \<lparr>n_errors = n, queue = q, workers = [w]\<rparr> \<lparr>n_errors = n', queue = q', workers = [w']\<rparr>"
  using worker_step [of 0 "\<lparr>n_errors = n, queue = q, workers = [w]\<rparr>" cfg exec w' n' q'] assms by simp

theorem test_workers_terminate_witness:
  "(1::nat) \<le> 4 * length [7::nat] + 2 * 1"
proof -
  define cfg where "cfg = runner_config_new True False False True"
  define exec :: "nat \<Rightarrow> (nat + unit) option" where "exec = (\<lambda>_. Some (Inl 3))"
  have "pool_step cfg exec (runner_state_new [7] 1) \<lparr>n_errors = 0, queue = (0, [7]), workers = [AtTake]\<rparr>"
    using single_step [of cfg exec AtCheck 0 "(0, [7])" AtTake] by (simp add: runner_state_new_def ended_def)
  then have "(pool_step cfg exec ^^ 1) (runner_state_new [7] 1) \<lparr>n_errors = 0, queue = (0, [7]), workers = [AtTake]\<rparr>"
    by (simp only: relpowp_1)
  from conjunct1 [OF test_workers_terminate [OF this]] show ?thesis .
qed

lemma thread_errors_Nil:
  "thread_errors panic_error ws = [] \<longleftrightarrow> (\<forall>w\<in>set ws. w \<noteq> Panicked \<and> (\<forall>e. w \<noteq> Returned (Inl e)))"
  unfolding thread_errors_def concat_eq_Nil_conv all_set_conv_all_nth [of ws]
  by (auto split: worker.splits sum.splits)

text \<open>
  Property C37 (test_run_reports_every_failure): the result of a run, for every schedule of the threads. The run is
  successful exactly when every file passes, so a failure or a panic in any thread is never lost. When the run
  keeps going and nothing panics, the reported number of errors is the number of failing files.
\<close>

theorem test_run_reports_every_failure:
  assumes "run_tests exec panic_error parallelism files single_thread trace print_outcome keep_going s r"
    and "parallelism \<noteq> Some 0"
  shows "(r = RunOk \<longleftrightarrow> (\<forall>p\<in>set files. exec p = Some (Inr ())))
    \<and> (keep_going \<and> (\<forall>p\<in>set files. exec p \<noteq> None) \<longrightarrow> n_errors s = count (failing exec) files)"
proof -
  define cfg where "cfg = runner_config_new single_thread trace print_outcome keep_going"
  define num where "num = determine_thread_count (rc_single_thread cfg) parallelism (length files)"
  have run: "(pool_step cfg exec)\<^sup>*\<^sup>* (runner_state_new files num) s"
    and stop: "\<forall>w\<in>set (workers s). ended w" and r: "r = run_summary panic_error s"
    using assms(1) by (simp_all add: run_tests_def cfg_def num_def Let_def)
  have keep: "rc_keep_going cfg = keep_going" by (simp add: cfg_def runner_config_new_def Let_def)
  have inv: "pool_inv cfg exec files s" and len: "length (workers s) = num" using pool_inv_reachable [OF run] by simp_all
  obtain idx where idx: "idx \<le> length files"
    and fails: "count (failing exec) (take idx files) = n_errors s + count (holds_failure exec) (workers s)"
    and panics: "count (\<lambda>p. exec p = None) (take idx files) = count (holds_panic exec) (workers s)"
    and fin: "Returned (Inr ()) \<in> set (workers s) \<longrightarrow> idx = length files \<or> \<not> keep_going \<and> n_errors s > 0"
    and errs: "\<forall>e. Returned (Inl e) \<in> set (workers s) \<longrightarrow> \<not> keep_going \<and> n_errors s > 0"
    using inv unfolding pool_inv_def keep by blast
  have ends: "w = Panicked \<or> w = Returned (Inr ()) \<or> (\<exists>e. w = Returned (Inl e))" if "w \<in> set (workers s)" for w
  proof -
    from stop that have "ended w" by blast
    then show ?thesis
    proof (cases w)
      case (Returned x)
      then show ?thesis by (cases x) auto
    qed (auto simp: ended_def)
  qed
  then have none: "count (holds_failure exec) (workers s) = 0" by (force simp: count_zero)
  have threads: "files = [] \<or> workers s \<noteq> []"
    using len assms(2) by (auto simp: num_def determine_thread_count_def min_def split: option.splits bool.splits if_splits)
  have all_taken: "idx = length files" if "Panicked \<notin> set (workers s)" "keep_going \<or> n_errors s = 0"
  proof (cases "workers s")
    case Nil
    then show ?thesis using threads idx by simp
  next
    case (Cons w ws)
    then show ?thesis using ends [of w] fin errs that by auto
  qed
  have panicked: "count (\<lambda>p. exec p = None) (take idx files) = 0 \<longleftrightarrow> Panicked \<notin> set (workers s)"
    unfolding panics count_zero using ends by force
  have ok: "r = RunOk \<longleftrightarrow> n_errors s = 0 \<and> Panicked \<notin> set (workers s) \<and> (\<forall>e. Returned (Inl e) \<notin> set (workers s))"
    unfolding r run_summary_def Let_def using thread_errors_Nil [of panic_error "workers s"] by auto
  have passes: "exec p = Some (Inr ()) \<longleftrightarrow> \<not> failing exec p \<and> exec p \<noteq> None" for p
  proof (cases "exec p")
    case (Some x)
    then show ?thesis by (cases x) (auto simp: failing_def)
  qed simp
  show ?thesis
  proof (intro conjI iffI impI)
    assume "r = RunOk"
    then have "idx = length files" using ok all_taken by blast
    then show "\<forall>p\<in>set files. exec p = Some (Inr ())"
      using \<open>r = RunOk\<close> ok fails none panicked by (simp add: count_zero passes)
  next
    assume all: "\<forall>p\<in>set files. exec p = Some (Inr ())"
    then have taken: "\<forall>p\<in>set (take idx files). exec p = Some (Inr ())" by (meson in_set_takeD)
    then have "count (failing exec) (take idx files) = 0" "count (\<lambda>p. exec p = None) (take idx files) = 0"
      by (auto simp: count_zero failing_def)
    then show "r = RunOk" using fails panicked ok errs by auto
  next
    assume goes: "keep_going \<and> (\<forall>p\<in>set files. exec p \<noteq> None)"
    then have "count (\<lambda>p. exec p = None) (take idx files) = 0" by (meson count_zero in_set_takeD)
    then have "idx = length files" using panicked all_taken goes by blast
    then show "n_errors s = count (failing exec) files" using fails none by simp
  qed
qed

theorem test_run_reports_every_failure_witness:
  "\<exists>s r. run_tests (\<lambda>_. Some (Inl (3::nat))) id None [7::nat] False False False True s r \<and> r \<noteq> RunOk \<and> n_errors s = 1"
proof -
  define cfg where "cfg = runner_config_new False False False True"
  define exec :: "nat \<Rightarrow> (nat + unit) option" where "exec = (\<lambda>_. Some (Inl 3))"
  let ?s = "\<lambda>n idx (w :: (nat, nat) worker). \<lparr>n_errors = n, queue = (idx, [7 :: nat]), workers = [w]\<rparr>"
  have keep: "rc_keep_going cfg" by (simp add: cfg_def runner_config_new_def Let_def)
  note step = single_step [of cfg exec]
  have "pool_step cfg exec (?s 0 0 AtCheck) (?s 0 0 AtTake)" "pool_step cfg exec (?s 0 0 AtTake) (?s 0 1 (Running 7))"
    "pool_step cfg exec (?s 0 1 (Running 7)) (?s 0 1 (Counting 3))" "pool_step cfg exec (?s 0 1 (Counting 3)) (?s 1 1 AtCheck)"
    "pool_step cfg exec (?s 1 1 AtCheck) (?s 1 1 AtTake)" "pool_step cfg exec (?s 1 1 AtTake) (?s 1 1 (Returned (Inr ())))"
    by (rule step; simp add: keep exec_def next_test_def ended_def; fail)+
  then have "(pool_step cfg exec)\<^sup>*\<^sup>* (?s 0 0 AtCheck) (?s 1 1 (Returned (Inr ())))"
    by (meson rtranclp.rtrancl_into_rtrancl rtranclp.rtrancl_refl)
  then have run: "run_tests exec id None [7] False False False True (?s 1 1 (Returned (Inr ())))
      (run_summary id (?s 1 1 (Returned (Inr ()))))"
    unfolding run_tests_def cfg_def
    by (simp add: Let_def runner_state_new_def determine_thread_count_def ended_def runner_config_new_def)
  have "run_summary id (?s 1 1 (Returned (Inr ()) :: (nat, nat) worker)) \<noteq> RunOk"
    using conjunct1 [OF test_run_reports_every_failure [OF run option.distinct(1)]] by (simp add: exec_def)
  then show ?thesis using run unfolding exec_def by (intro exI conjI) (assumption, assumption, simp)
qed

end
