(* ===== verification/Spec2Isabelle.thy ===== *)
theory Spec2Isabelle
  imports Block_Start Evme_State Instruction_Guards Test_Workers
begin

text \<open>
  Verification of mega-evm, the EVM of MegaETH: a Rust library that wraps op-revm and adds four resource limits
  on transactions and frames, a gas detention after reads of volatile data, storage gas that grows with the
  state, system contracts that are intercepted instead of run, a sandbox for keyless deployments, and a block
  executor with block limits. The paths below are under \<^verbatim>\<open>src/crates/mega-evm/src\<close>, unless they start with
  \<^verbatim>\<open>src\<close>.

  \<^bold>\<open>How the program works.\<close> A block executor (\<^verbatim>\<open>block/executor.rs\<close>) deploys the system contracts
  of the active hardforks, checks every transaction against the limits of the block, runs it on an EVM
  (\<^verbatim>\<open>evm/mod.rs\<close>), checks it again and commits it. The EVM runs the upstream transaction handler with
  overridden steps (\<^verbatim>\<open>MegaHandler\<close> in \<^verbatim>\<open>evm/execution.rs\<close>). The handler calls the frame hooks of
  \<^verbatim>\<open>MegaEvm\<close>, which call the hooks of \<^verbatim>\<open>AdditionalLimit\<close> (\<^verbatim>\<open>limit/limit.rs\<close>), the owner of
  the four trackers, and dispatch calls of system contracts to interceptors (\<^verbatim>\<open>system/intercept.rs\<close>).
  Frames run the instruction tables of \<^verbatim>\<open>evm/instructions.rs\<close>, whose wrappers meter compute gas, cap
  the gas of child frames, charge storage gas (\<^verbatim>\<open>external/gas.rs\<close>) and guard volatile data
  (\<^verbatim>\<open>access/\<close>) around the instructions of revm, which see the chain through the host of
  \<^verbatim>\<open>evm/host.rs\<close>. All of them share the context of \<^verbatim>\<open>evm/context.rs\<close>.

  \<^bold>\<open>Conventions.\<close> A machine integer is a word of its width, and arithmetic wraps, saturates or panics as
  the source does. A function that may panic returns an option, and \<^verbatim>\<open>None\<close> is the panic; an error is the
  left of a sum. A method on \<^verbatim>\<open>&mut self\<close> returns the updated record. A method that can panic, fail and change
  its receiver has the type \<open>hook\<close> of \<open>Mega_Evm\<close>, composed by \<open>and_then\<close>. Names are those of
  the source, with a prefix or suffix where they clash.

  \<^bold>\<open>Theories.\<close>
  \<^item> \<open>Mega_Prelude\<close>: word types, saturating and checked arithmetic, lemma collections.
  \<^item> \<open>Spec_Id\<close> (\<^verbatim>\<open>evm/spec.rs\<close>), \<open>Runtime_Limit\<close> (\<^verbatim>\<open>evm/limit.rs\<close>, the limits per spec,
    and the trait \<^verbatim>\<open>TxRuntimeLimit\<close> as the locales \<open>tx_runtime_limit\<close>, \<open>frame_budgeted\<close> and
    \<open>slot_meter\<close>), \<open>Hardforks\<close> (\<^verbatim>\<open>block/hardfork.rs\<close>), \<open>Revm_View\<close> (the upstream data).
  \<^item> \<open>Frame_Limit\<close> and \<open>Frame_Budget\<close> (\<^verbatim>\<open>limit/frame_limit.rs\<close>): the tracker of budgets per frame, its
    reachable states \<open>metered\<close> and their refinement of a ledger in natural numbers.
  \<^item> \<open>Compute_Gas\<close>, \<open>Data_Size\<close>, \<open>Kv_Update\<close>, \<open>State_Growth\<close> (\<^verbatim>\<open>limit/*.rs\<close>): the four
    trackers, each with an interpretation of the locales. \<open>Additional_Limit\<close> (\<^verbatim>\<open>limit/limit.rs\<close>),
    \<open>Limit_Hooks\<close> (its invariant \<open>aligned\<close>), \<open>Limit_Config\<close> (what a reset restores).
  \<^item> \<open>Volatile_Access\<close> (\<^verbatim>\<open>access/\<close>), \<open>Dynamic_Gas\<close> (\<^verbatim>\<open>external/\<close>),
    \<open>System_Tx\<close> (\<^verbatim>\<open>system/tx.rs\<close>), \<open>Journal_Inspect\<close> and \<open>Mega_Host\<close> (\<^verbatim>\<open>evm/host.rs\<close>),
    \<open>Mega_Context\<close> (\<^verbatim>\<open>evm/context.rs\<close>, \<^verbatim>\<open>evm/factory.rs\<close>), \<open>Evm_State\<close> (\<^verbatim>\<open>evm/state.rs\<close>).
  \<^item> \<open>Instructions\<close> and \<open>Instruction_Table\<close> (\<^verbatim>\<open>evm/instructions.rs\<close>): the wrappers, and the tables of
    all specs as data. \<open>Instruction_Gas\<close> and \<open>Instruction_Guards\<close>: what they guarantee for every opcode.
  \<^item> \<open>Interceptors\<close> (\<^verbatim>\<open>system/intercept.rs\<close>, the locale \<open>system_contract_interceptor\<close>),
    \<open>Sandbox_Error\<close>, \<open>Sandbox_Db\<close>, \<open>Keyless_Deploy\<close> (\<^verbatim>\<open>sandbox/\<close>).
  \<^item> \<open>Mega_Evm\<close>, \<open>Frame_Level\<close>, \<open>Frame_Calls\<close>: the frame hooks of \<^verbatim>\<open>evm/execution.rs\<close> and the
    balance of frames under any order of calls (\<open>evm_calls\<close>). \<open>Mega_Handler\<close>,
    \<open>Handler_Frames\<close>: the steps of the handler and a whole transaction through them.
  \<^item> \<open>Precompiles\<close> (\<^verbatim>\<open>evm/precompiles.rs\<close>), \<open>Evm_Interface\<close> (\<^verbatim>\<open>evm/mod.rs\<close>,
    \<^verbatim>\<open>evm/interfaces.rs\<close>).
  \<^item> \<open>Block_Limits\<close> (\<^verbatim>\<open>block/limit.rs\<close>, \<^verbatim>\<open>block/result.rs\<close>), \<open>System_Contracts\<close>
    (\<^verbatim>\<open>system/*.rs\<close>), \<open>Block_Executor\<close> (\<^verbatim>\<open>block/executor.rs\<close>, \<^verbatim>\<open>block/eips.rs\<close>,
    \<^verbatim>\<open>block/factory.rs\<close>), \<open>Block_Run\<close>, \<open>Block_Start\<close>: admission of transactions, runs of an executor as a
    refinement of admission, and the start of a block as a refinement of the list of its contracts.
  \<^item> \<open>Test_Workers\<close> (\<^verbatim>\<open>src/crates/state-test/src/runner.rs\<close>): the worker threads of the state test
    runner as interleaved steps on a shared queue. \<open>Evme_State\<close>
    (\<^verbatim>\<open>src/bin/mega-evme/src/common/state.rs\<close>): the state of the command line tool, its overrides and dumps.

  \<^bold>\<open>Upstream code.\<close> The code of revm, op-revm, alloy-evm and the generated contract bindings is a
  parameter: a record of its functions per theory (\<open>revm\<close>, \<open>instr_env\<close>, \<open>evm_env\<close>, \<open>handler_env\<close>,
  \<open>intercept_env\<close>, \<open>keyless_env\<close>, \<open>iface_env\<close>, \<open>state_ops\<close>, \<open>block_ops\<close> and others). What a
  theorem needs of them is a named hypothesis, \<open>revm_documented\<close>, \<open>instr_documented\<close>, \<open>handler_neutral\<close>,
  \<open>state_documented\<close> and so on, and a concrete instance satisfies each in the witness of the theorem.

  \<^bold>\<open>Loops.\<close> No fuel is used. The chain of delegations in \<open>Journal_Inspect\<close> is a terminating
  recursion on the addresses not yet seen; the loops of the upstream handler and interpreter are
  parameters of which only the order of the hook calls matters, and the theorems hold for every order.
  Runs of an executor are the inductive relation \<open>block_run\<close>. The loops of the worker threads are the inductive
  relation \<open>pool_step\<close>, which ends for every schedule because the measure \<open>steps_left\<close> decreases.

  \<^bold>\<open>Not modelled.\<close> The bodies of opcodes and precompiles, RLP, ABI and signature code are third-party or
  generated. \<^verbatim>\<open>block/helpers.rs\<close> only delegates to the transaction it wraps. \<^verbatim>\<open>test_utils\<close>, \<^verbatim>\<open>lib.rs\<close>
  and \<^verbatim>\<open>types.rs\<close> are test doubles, re-exports and aliases. The rest of the command line tool
  \<^verbatim>\<open>src/bin/mega-evme\<close> and of the state test runner \<^verbatim>\<open>src/crates/state-test\<close> is a front end: arguments,
  files, JSON, a remote node and printing.
\<close>

end
